(* ===== verification/Prelude.thy ===== *)
theory Prelude
  imports Complex_Main "HOL-Library.Word" "HOL-Library.AList"
begin

text \<open>
  The Python the other theories translate, as far as the sources use it: byte strings, text
  strings, exceptions as the left side of a sum, indexing and slicing, the big-endian
  \<open>struct\<close> formats \<^verbatim>\<open>>H\<close> and \<^verbatim>\<open>>Q\<close>, \<open>bytes.hex\<close> and \<open>bytes.fromhex\<close>, and
  insertion-ordered dictionaries. The lemmas are the generic facts the components share;
  \<open>res_simps\<close> collects the rewrite rules for results that carry exceptions, and
  \<open>wire_simps\<close> those for encoders and decoders of wire formats.
\<close>

unbundle bit_operations_syntax

named_theorems res_simps \<open>rewriting of results that may be exceptions\<close>
named_theorems wire_simps \<open>rewriting of encoders, decoders and slices\<close>

subsection \<open>Bytes, text and exceptions\<close>

text \<open>
  A byte is an 8-bit word. A Python \<open>str\<close> is a sequence of Unicode code points, so text is a
  list of natural numbers; \<open>lit\<close> turns an ASCII literal into such a list.
\<close>

type_synonym byte = "8 word"
type_synonym bytes = "byte list"
type_synonym pystr = "nat list"

text \<open>\<open>time.time()\<close>: seconds, exact here and a double in the code.\<close>

type_synonym time = rat

definition lit :: "string \<Rightarrow> pystr" where
  "lit s = map of_char s"

text \<open>
  The exception classes that the sources raise, let escape or catch. The terminal client tells the
  exceptions of a Bluetooth write apart by their text: \<open>BleakNotConnected\<close> contains ``not
  connected'', \<open>BleakBlocked\<close> ``could not complete without blocking'', \<open>BleakError\<close> neither.
\<close>

datatype py_error =
    ValueError
  | UnicodeDecodeError
  | UnicodeEncodeError
  | JSONDecodeError
  | IndexError
  | KeyError
  | TypeError
  | AttributeError
  | NameError
  | OverflowError
  | StructError
  | NoiseError
  | InvalidTag
  | OSError
  | ConnectionError
  | TimeoutError
  | ImportError
  | RecursionError
  | RuntimeError
  | BleakError
  | BleakNotConnected
  | BleakBlocked

text \<open>\<open>except OSError\<close> also catches the two subclasses the transport can meet.\<close>

fun is_OSError :: "py_error \<Rightarrow> bool" where
  "is_OSError OSError = True"
| "is_OSError ConnectionError = True"
| "is_OSError TimeoutError = True"
| "is_OSError _ = False"

type_synonym 'a res = "py_error + 'a"

text \<open>Sequencing: an exception skips the rest of the function body.\<close>

definition bindE :: "'a res \<Rightarrow> ('a \<Rightarrow> 'b res) \<Rightarrow> 'b res" where
  "bindE m f = (case m of Inl e \<Rightarrow> Inl e | Inr x \<Rightarrow> f x)"

lemma bindE_simps [simp, res_simps]:
  "bindE (Inl e) f = Inl e"
  "bindE (Inr x) f = f x"
  by (simp_all add: bindE_def)

lemma bindE_eq_Inr [res_simps]:
  "bindE m f = Inr y \<longleftrightarrow> (\<exists>x. m = Inr x \<and> f x = Inr y)"
  by (cases m) simp_all

lemma bindE_eq_Inl:
  "bindE m f = Inl e \<longleftrightarrow> m = Inl e \<or> (\<exists>x. m = Inr x \<and> f x = Inl e)"
  by (cases m) simp_all

lemma ex_bindE: "(\<exists>y. bindE m f = Inr y) \<longleftrightarrow> (\<exists>x. m = Inr x \<and> (\<exists>y. f x = Inr y))"
  by (cases m) simp_all

lemma bindE_assoc: "bindE (bindE m f) g = bindE m (\<lambda>x. bindE (f x) g)"
  by (cases m) simp_all

lemma bindE_cong [fundef_cong]:
  assumes "m = m'" and "\<And>x. m' = Inr x \<Longrightarrow> f x = f' x"
  shows "bindE m f = bindE m' f'"
  using assms by (cases m') simp_all

subsection \<open>Indexing, slicing and stripping\<close>

text \<open>
  Only non-negative indices occur. \<open>xs[i]\<close> raises outside the list; \<open>xs[a:b]\<close> never
  does and is cut at the end of the list.
\<close>

definition py_nth :: "'a list \<Rightarrow> nat \<Rightarrow> 'a res" where
  "py_nth xs i = (if i < length xs then Inr (xs ! i) else Inl IndexError)"

definition slice :: "nat \<Rightarrow> nat \<Rightarrow> 'a list \<Rightarrow> 'a list" where
  "slice a b xs = take (b - a) (drop a xs)"

definition rstrip :: "('a \<Rightarrow> bool) \<Rightarrow> 'a list \<Rightarrow> 'a list" where
  "rstrip P xs = rev (dropWhile P (rev xs))"

definition strip :: "('a \<Rightarrow> bool) \<Rightarrow> 'a list \<Rightarrow> 'a list" where
  "strip P xs = rstrip P (dropWhile P xs)"

text \<open>\<open>s.split(sep)\<close> for a one-character separator; it never returns an empty list.\<close>

fun split_on :: "'a \<Rightarrow> 'a list \<Rightarrow> 'a list list" where
  "split_on sep [] = [[]]"
| "split_on sep (x # xs) =
     (if x = sep then [] # split_on sep xs
      else case split_on sep xs of [] \<Rightarrow> [[x]] | p # ps \<Rightarrow> (x # p) # ps)"

text \<open>The code points Python's \<open>str.strip()\<close> removes (\<open>str.isspace\<close>).\<close>

definition is_space :: "nat \<Rightarrow> bool" where
  "is_space c \<longleftrightarrow> (9 \<le> c \<and> c \<le> 13) \<or> (28 \<le> c \<and> c \<le> 32) \<or> c = 133 \<or> c = 160 \<or> c = 5760 \<or>
     (8192 \<le> c \<and> c \<le> 8202) \<or> c = 8232 \<or> c = 8233 \<or> c = 8239 \<or> c = 8287 \<or> c = 12288"

lemma py_nth_append [wire_simps]:
  "py_nth (xs @ ys) i = (if i < length xs then Inr (xs ! i) else py_nth ys (i - length xs))"
  by (auto simp: py_nth_def nth_append)

lemma py_nth_Cons [wire_simps]:
  "py_nth (x # xs) i = (case i of 0 \<Rightarrow> Inr x | Suc j \<Rightarrow> py_nth xs j)"
  by (auto simp: py_nth_def split: nat.split)

lemma py_nth_in [simp, wire_simps]: "i < length xs \<Longrightarrow> py_nth xs i = Inr (xs ! i)"
  by (simp add: py_nth_def)

lemma py_nth_out: "length xs \<le> i \<Longrightarrow> py_nth xs i = Inl IndexError"
  by (simp add: py_nth_def)

lemma length_slice [simp]: "length (slice a b xs) = min (b - a) (length xs - a)"
  by (simp add: slice_def min.commute)

lemma slice_append_skip:
  "length xs \<le> a \<Longrightarrow> slice a b (xs @ ys) = slice (a - length xs) (b - length xs) ys"
  by (simp add: slice_def)

lemma slice_append_take:
  "b \<le> length xs \<Longrightarrow> slice a b (xs @ ys) = slice a b xs"
  by (cases "a \<le> length xs") (auto simp: slice_def)

lemma slice_prefix: "n = length xs \<Longrightarrow> slice 0 n (xs @ ys) = xs"
  by (simp add: slice_def)

lemma slice_all [simp]: "length xs \<le> b \<Longrightarrow> slice 0 b xs = xs"
  by (simp add: slice_def)

text \<open>The field a decoder reads at its current offset is the next block of the encoding.\<close>

lemma slice_at [wire_simps]:
  "a = length pre \<Longrightarrow> b = a + length xs \<Longrightarrow> slice a b (pre @ xs @ post) = xs"
  by (simp add: slice_def)

lemma py_nth_at [wire_simps]: "a = length pre \<Longrightarrow> py_nth (pre @ x # post) a = Inr x"
  by (simp add: py_nth_def)

lemma rstrip_Nil [simp]: "rstrip P [] = []"
  by (simp add: rstrip_def)

lemma rstrip_snoc [simp]:
  "rstrip P (xs @ [x]) = (if P x then rstrip P xs else xs @ [x])"
  by (simp add: rstrip_def)

lemma rstrip_id: "xs = [] \<or> \<not> P (last xs) \<Longrightarrow> rstrip P xs = xs"
  by (cases xs rule: rev_cases) auto

lemma rstrip_replicate: "P x \<Longrightarrow> rstrip P (xs @ replicate n x) = rstrip P xs"
proof (induction n)
  case (Suc n)
  then show ?case
    by (simp add: replicate_append_same [symmetric] append_assoc [symmetric] del: append_assoc)
qed simp

lemma length_rstrip_le: "length (rstrip P xs) \<le> length xs"
  unfolding rstrip_def by (metis length_dropWhile_le length_rev)

lemma split_on_neq_Nil [simp]: "split_on sep xs \<noteq> []"
  by (induction xs) (auto split: list.split)

lemma split_on_none: "sep \<notin> set xs \<Longrightarrow> split_on sep xs = [xs]"
  by (induction xs) auto

lemma split_on_append:
  "sep \<notin> set xs \<Longrightarrow> split_on sep (xs @ sep # ys) = xs # split_on sep ys"
  by (induction xs) auto

subsection \<open>Big-endian integers and the struct formats\<close>

fun be_bytes :: "nat \<Rightarrow> nat \<Rightarrow> bytes" where
  "be_bytes 0 n = []"
| "be_bytes (Suc k) n = be_bytes k (n div 256) @ [word_of_nat n]"

definition be_nat :: "bytes \<Rightarrow> nat" where
  "be_nat bs = foldl (\<lambda>a b. a * 256 + unat b) 0 bs"

definition le_bytes :: "nat \<Rightarrow> nat \<Rightarrow> bytes" where
  "le_bytes k n = rev (be_bytes k n)"

definition pack_H :: "nat \<Rightarrow> bytes res" where
  "pack_H n = (if n < 2 ^ 16 then Inr (be_bytes 2 n) else Inl StructError)"

definition pack_Q :: "nat \<Rightarrow> bytes res" where
  "pack_Q n = (if n < 2 ^ 64 then Inr (be_bytes 8 n) else Inl StructError)"

definition unpack_H :: "bytes \<Rightarrow> nat res" where
  "unpack_H bs = (if length bs = 2 then Inr (be_nat bs) else Inl StructError)"

text \<open>\<open>bytearray.append(n)\<close> takes 0 to 255 only.\<close>

definition byte_of :: "nat \<Rightarrow> byte res" where
  "byte_of n = (if n < 256 then Inr (word_of_nat n) else Inl ValueError)"

lemma length_be_bytes [simp]: "length (be_bytes k n) = k"
  by (induction k arbitrary: n) auto

lemma be_nat_Nil [simp]: "be_nat [] = 0"
  by (simp add: be_nat_def)

lemma be_nat_snoc [simp]: "be_nat (bs @ [b]) = be_nat bs * 256 + unat b"
  by (simp add: be_nat_def)

lemma unat_byte [simp]: "unat (word_of_nat n :: byte) = n mod 256"
  by (simp add: unat_of_nat)

lemma unat_byte_less [simp]: "unat (b :: byte) < 256"
  using unsigned_less [of b] by simp

lemma be_nat_bytes [wire_simps]: "be_nat (be_bytes k n) = n mod 256 ^ k"
proof (induction k arbitrary: n)
  case (Suc k)
  then show ?case
    by (simp add: mod_mult2_eq mult.commute)
qed simp

lemma be_nat_less: "be_nat bs < 256 ^ length bs"
proof (induction bs rule: rev_induct)
  case (snoc b bs)
  have "unat b < 256" by simp
  with snoc have "be_nat bs * 256 + unat b < (be_nat bs + 1) * 256" by simp
  also have "\<dots> \<le> 256 ^ length bs * 256" using snoc by (intro mult_right_mono) auto
  finally show ?case by (simp add: mult.commute)
qed simp

lemma be_bytes_nat: "be_bytes (length bs) (be_nat bs) = bs"
proof (induction bs rule: rev_induct)
  case (snoc b bs)
  have "unat (word_of_nat (be_nat bs * 256 + unat b) :: byte) = unat b"
    by (simp only: unat_byte) simp
  then have "(word_of_nat (be_nat bs * 256 + unat b) :: byte) = b"
    by (simp only: word_unat_eq_iff)
  with snoc show ?case by (simp del: of_nat_add of_nat_mult)
qed simp

lemma unpack_pack_H [wire_simps]: "pack_H n = Inr bs \<Longrightarrow> unpack_H bs = Inr n"
  by (auto simp: pack_H_def unpack_H_def be_nat_bytes split: if_splits)

lemma length_pack_H: "pack_H n = Inr bs \<Longrightarrow> length bs = 2"
  by (auto simp: pack_H_def split: if_splits)

lemma length_pack_Q: "pack_Q n = Inr bs \<Longrightarrow> length bs = 8"
  by (auto simp: pack_Q_def split: if_splits)

lemma byte_of_unat: "byte_of n = Inr b \<Longrightarrow> unat b = n"
  by (auto simp: byte_of_def split: if_splits)

lemma unpack_H_less: "unpack_H bs = Inr n \<Longrightarrow> n < 2 ^ 16"
  using be_nat_less [of bs] by (auto simp: unpack_H_def split: if_splits)

subsection \<open>Hexadecimal text\<close>

definition hexdigit :: "nat \<Rightarrow> nat" where
  "hexdigit d = (if d < 10 then 48 + d else 87 + d)"

definition hexval :: "nat \<Rightarrow> nat option" where
  "hexval c =
     (if 48 \<le> c \<and> c \<le> 57 then Some (c - 48)
      else if 97 \<le> c \<and> c \<le> 102 then Some (c - 87)
      else if 65 \<le> c \<and> c \<le> 70 then Some (c - 55)
      else None)"

definition hex :: "bytes \<Rightarrow> pystr" where
  "hex bs = concat (map (\<lambda>b. [hexdigit (unat b div 16), hexdigit (unat b mod 16)]) bs)"

text \<open>\<open>bytes.fromhex\<close> skips ASCII white space between the bytes.\<close>

definition is_ascii_space :: "nat \<Rightarrow> bool" where
  "is_ascii_space c \<longleftrightarrow> c = 32 \<or> (9 \<le> c \<and> c \<le> 13)"

fun fromhex :: "pystr \<Rightarrow> bytes res" where
  "fromhex [] = Inr []"
| "fromhex (c # cs) =
     (if is_ascii_space c then fromhex cs
      else case cs of
        [] \<Rightarrow> Inl ValueError
      | d # ds \<Rightarrow>
          (case (hexval c, hexval d) of
             (Some h, Some l) \<Rightarrow> bindE (fromhex ds) (\<lambda>bs. Inr (word_of_nat (16 * h + l) # bs))
           | _ \<Rightarrow> Inl ValueError))"

lemma hex_Nil [simp]: "hex [] = []"
  by (simp add: hex_def)

lemma hex_Cons: "hex (b # bs) = hexdigit (unat b div 16) # hexdigit (unat b mod 16) # hex bs"
  by (simp add: hex_def)

lemma length_hex [simp]: "length (hex bs) = 2 * length bs"
  by (induction bs) (auto simp: hex_Cons)

lemma hexval_hexdigit [simp]: "d < 16 \<Longrightarrow> hexval (hexdigit d) = Some d"
  by (auto simp: hexval_def hexdigit_def)

lemma hexdigit_no_space [simp]: "d < 16 \<Longrightarrow> \<not> is_ascii_space (hexdigit d)"
  by (auto simp: is_ascii_space_def hexdigit_def)

lemma byte_nibbles: "(word_of_nat (16 * (unat b div 16) + unat b mod 16) :: byte) = b"
  by simp

lemma fromhex_hex [simp, wire_simps]: "fromhex (hex bs) = Inr bs"
proof (induction bs)
  case (Cons b bs)
  have "unat b div 16 < 16" using unat_byte_less [of b] by linarith
  with Cons show ?case by (simp add: hex_Cons)
qed simp

lemma hex_inject [simp]: "hex xs = hex ys \<longleftrightarrow> xs = ys"
  by (metis fromhex_hex sum.inject(2))

lemma hex_eq_Nil [simp]: "hex bs = [] \<longleftrightarrow> bs = []"
  by (cases bs) (auto simp: hex_Cons)

subsection \<open>Dictionaries\<close>

text \<open>
  A Python dictionary keeps its keys in insertion order, and overwriting a key keeps its place:
  the association lists of the library, with \<open>AList.update\<close> and \<open>AList.delete\<close>, behave
  so. \<open>wf_dict\<close> is the invariant that a key occurs once.
\<close>

type_synonym ('k, 'v) dict = "('k \<times> 'v) list"

abbreviation dict_get :: "('k, 'v) dict \<Rightarrow> 'k \<Rightarrow> 'v option" where
  "dict_get d k \<equiv> map_of d k"

abbreviation dict_set :: "('k, 'v) dict \<Rightarrow> 'k \<Rightarrow> 'v \<Rightarrow> ('k, 'v) dict" where
  "dict_set d k v \<equiv> AList.update k v d"

abbreviation dict_del :: "('k, 'v) dict \<Rightarrow> 'k \<Rightarrow> ('k, 'v) dict" where
  "dict_del d k \<equiv> AList.delete k d"

definition has_key :: "('k, 'v) dict \<Rightarrow> 'k \<Rightarrow> bool" where
  "has_key d k \<longleftrightarrow> dict_get d k \<noteq> None"

definition wf_dict :: "('k, 'v) dict \<Rightarrow> bool" where
  "wf_dict d \<longleftrightarrow> distinct (map fst d)"

lemma has_key_iff: "has_key d k \<longleftrightarrow> k \<in> fst ` set d"
  by (simp add: has_key_def map_of_eq_None_iff)

lemma dict_get_set [simp]:
  "dict_get (dict_set d k v) k' = (if k' = k then Some v else dict_get d k')"
  by (simp add: update_conv)

lemma dict_get_del [simp]:
  "dict_get (dict_del d k) k' = (if k' = k then None else dict_get d k')"
  by (simp add: delete_conv)

lemma has_key_set [simp]: "has_key (dict_set d k v) k' \<longleftrightarrow> k' = k \<or> has_key d k'"
  by (auto simp: has_key_def)

lemma has_key_del [simp]: "has_key (dict_del d k) k' \<longleftrightarrow> k' \<noteq> k \<and> has_key d k'"
  by (auto simp: has_key_def)

lemma has_key_Nil [simp]: "\<not> has_key [] k"
  by (simp add: has_key_def)

lemma wf_dict_Nil [simp]: "wf_dict []"
  by (simp add: wf_dict_def)

lemma wf_dict_single [simp]: "wf_dict [p]"
  by (simp add: wf_dict_def)

lemma wf_dict_set [simp]: "wf_dict d \<Longrightarrow> wf_dict (dict_set d k v)"
  by (simp add: wf_dict_def distinct_update)

lemma wf_dict_del [simp]: "wf_dict d \<Longrightarrow> wf_dict (dict_del d k)"
  by (simp add: wf_dict_def distinct_delete)

lemma length_dict_set:
  "length (dict_set d k v) = (if has_key d k then length d else Suc (length d))"
  by (induction d) (auto simp: has_key_def)

lemma dict_del_absent: "\<not> has_key d k \<Longrightarrow> dict_del d k = d"
  by (simp add: delete_id has_key_iff image_iff)

lemma dict_del_set_absent: "\<not> has_key d k \<Longrightarrow> dict_del (dict_set d k v) k = d"
  by (induction d) (auto simp: has_key_def dest: delete_id split: if_splits)

end
