(* ===== verification/Actions.thy ===== *)
theory Actions
  imports Prelude
begin

text \<open>
  Handlers as actions on a state: an action returns a result or an exception, the state it leaves,
  also when it raises, and the outputs it made. The node of the daemon and the terminal client are
  both written in it. \<open>obeys\<close> says that a relation between the state before, the outputs and the
  state after holds of every run of an action; the locale \<open>composing\<close> derives it for composed
  actions from their parts. \<open>runs\<close> are the runs of a step relation; the locales \<open>monitored\<close>,
  \<open>preserved\<close> and \<open>simulates\<close> lift what holds of its steps to them.
\<close>

subsection \<open>Actions\<close>

type_synonym ('s, 'o, 'a) action = "'s \<Rightarrow> 'a res \<times> 's \<times> 'o list"

definition ret :: "'a \<Rightarrow> ('s, 'o, 'a) action" where
  "ret x s = (Inr x, s, [])"

definition bindA :: "('s, 'o, 'a) action \<Rightarrow> ('a \<Rightarrow> ('s, 'o, 'b) action) \<Rightarrow> ('s, 'o, 'b) action" where
  "bindA m f s =
     (case m s of
        (Inl e, s', os) \<Rightarrow> (Inl e, s', os)
      | (Inr x, s', os) \<Rightarrow> (case f x s' of (r, s'', os') \<Rightarrow> (r, s'', os @ os')))"

definition seqA :: "('s, 'o, unit) action \<Rightarrow> ('s, 'o, 'b) action \<Rightarrow> ('s, 'o, 'b) action" where
  "seqA m n = bindA m (\<lambda>_. n)"

text \<open>\<open>try: m except E: h\<close> for the exceptions that satisfy \<open>P\<close>.\<close>

definition tryA :: "('s, 'o, 'a) action \<Rightarrow> (py_error \<Rightarrow> bool) \<Rightarrow> ('s, 'o, 'a) action \<Rightarrow> ('s, 'o, 'a) action" where
  "tryA m P h s =
     (case m s of
        (Inl e, s', os) \<Rightarrow>
          if P e then (case h s' of (r, s'', os') \<Rightarrow> (r, s'', os @ os')) else (Inl e, s', os)
      | (Inr x, s', os) \<Rightarrow> (Inr x, s', os))"

definition any_error :: "py_error \<Rightarrow> bool" where
  "any_error e = True"

text \<open>\<open>try: m\<close> with an \<open>except Exception as e\<close> that looks at the exception.\<close>

definition catchA :: "('s, 'o, 'a) action \<Rightarrow> ('s, 'o, 'a res) action" where
  "catchA m s = (case m s of (r, s', os) \<Rightarrow> (Inr r, s', os))"

definition liftA :: "'a res \<Rightarrow> ('s, 'o, 'a) action" where
  "liftA r s = (r, s, [])"

definition getA :: "('s \<Rightarrow> ('s, 'o, 'a) action) \<Rightarrow> ('s, 'o, 'a) action" where
  "getA f s = f s s"

definition modA :: "('s \<Rightarrow> 's) \<Rightarrow> ('s, 'o, unit) action" where
  "modA f s = (Inr (), f s, [])"

definition outA :: "'o \<Rightarrow> ('s, 'o, unit) action" where
  "outA e s = (Inr (), s, [e])"

lemmas action_defs = ret_def bindA_def seqA_def tryA_def catchA_def liftA_def getA_def
  modA_def outA_def any_error_def

text \<open>An action at a state is determined by what its first part gives there.\<close>

lemma bindA_liftA: "bindA (liftA (Inr x)) f = f x"
  by (rule ext) (simp add: bindA_def liftA_def split: prod.split)

lemma seqA_modA: "seqA (modA f) n s = n (f s)"
  by (simp add: seqA_def bindA_def modA_def split: prod.split)

lemma seqA_ret: "seqA (ret ()) n = n"
  by (rule ext) (simp add: seqA_def bindA_def ret_def split: prod.split)

lemma seqA_silent: "m s = (Inr (), s1, []) \<Longrightarrow> seqA m n s = n s1"
  by (simp add: seqA_def bindA_def split: prod.split)

lemma bindA_silent: "m s = (Inr x, s1, []) \<Longrightarrow> bindA m f s = f x s1"
  by (simp add: bindA_def split: prod.split)

lemma seqA_from: "m s = m' s' \<Longrightarrow> seqA m n s = seqA m' n s'"
  by (simp add: seqA_def bindA_def)

lemma tryA_from: "m s = m' s' \<Longrightarrow> tryA m P h s = tryA m' P h s'"
  by (simp add: tryA_def)

subsection \<open>Relations that actions respect\<close>

text \<open>
  A relation between a state, the outputs of an action and the state after it, that holds for doing
  nothing and composes, is respected by an action built from actions that respect it.
\<close>

definition obeys :: "('s \<Rightarrow> 'o list \<Rightarrow> 's \<Rightarrow> bool) \<Rightarrow> ('s, 'o, 'a) action \<Rightarrow> bool" where
  "obeys Q m \<longleftrightarrow> (\<forall>s. case m s of (r, s', os) \<Rightarrow> Q s os s')"

lemma obeysD: "obeys Q m \<Longrightarrow> m s = (r, s', os) \<Longrightarrow> Q s os s'"
  unfolding obeys_def by (metis (mono_tags, lifting) case_prod_conv)

lemma obeys_run: "obeys Q m \<Longrightarrow> Q s (snd (snd (m s))) (fst (snd (m s)))"
  by (simp add: obeys_def case_prod_unfold)

lemma getA_obeysD: "getA f s = (r, s', os) \<Longrightarrow> obeys Q (f s) \<Longrightarrow> Q s os s'"
  by (simp add: getA_def obeysD)

lemma obeysI: "(\<And>s r s' os. m s = (r, s', os) \<Longrightarrow> Q s os s') \<Longrightarrow> obeys Q m"
  by (simp add: obeys_def split: prod.split)

named_theorems obeys_intros \<open>actions that respect a composing relation\<close>

locale composing =
  fixes Q :: "'s \<Rightarrow> 'o list \<Rightarrow> 's \<Rightarrow> bool"
  assumes Q_refl: "Q s [] s"
    and Q_trans: "Q s os s' \<Longrightarrow> Q s' os' s'' \<Longrightarrow> Q s (os @ os') s''"
begin

lemma obeys_ret: "obeys Q (ret x)"
  by (simp add: obeys_def ret_def Q_refl)

lemma obeys_liftA: "obeys Q (liftA r)"
  by (simp add: obeys_def liftA_def Q_refl)

lemma obeys_bindA:
  assumes "obeys Q m" and "\<And>x. obeys Q (f x)"
  shows "obeys Q (bindA m f)"
proof (rule obeysI)
  fix s r s' os
  assume b: "bindA m f s = (r, s', os)"
  obtain r1 s1 os1 where m: "m s = (r1, s1, os1)" by (rule prod_cases3)
  note q = obeysD [OF assms(1) m]
  show "Q s os s'"
  proof (cases r1)
    case (Inl e)
    with b m q show ?thesis by (simp add: bindA_def)
  next
    case (Inr x)
    obtain r2 s2 os2 where f: "f x s1 = (r2, s2, os2)" by (rule prod_cases3)
    with Q_trans [OF q obeysD [OF assms(2) f]] b m Inr show ?thesis by (simp add: bindA_def)
  qed
qed

lemma obeys_seqA: "obeys Q m \<Longrightarrow> obeys Q n \<Longrightarrow> obeys Q (seqA m n)"
  unfolding seqA_def by (rule obeys_bindA)

lemma obeys_tryA:
  assumes "obeys Q m" and "obeys Q h"
  shows "obeys Q (tryA m P h)"
proof (rule obeysI)
  fix s r s' os
  assume b: "tryA m P h s = (r, s', os)"
  obtain r1 s1 os1 where m: "m s = (r1, s1, os1)" by (rule prod_cases3)
  obtain r2 s2 os2 where h: "h s1 = (r2, s2, os2)" by (rule prod_cases3)
  from obeysD [OF assms(1) m] Q_trans [OF obeysD [OF assms(1) m] obeysD [OF assms(2) h]] b m h
  show "Q s os s'" by (auto simp: tryA_def split: sum.splits if_splits)
qed

lemma obeys_catchA: "obeys Q m \<Longrightarrow> obeys Q (catchA m)"
  by (auto simp: obeys_def catchA_def split: prod.splits)

lemma obeys_getA: "(\<And>s. obeys Q (f s)) \<Longrightarrow> obeys Q (getA f)"
  by (auto simp: obeys_def getA_def)

lemma obeys_getA_at:
  "(\<And>s. case f s s of (r, s', os) \<Rightarrow> Q s os s') \<Longrightarrow> obeys Q (getA f)"
  by (auto simp: obeys_def getA_def)

lemma obeys_modA: "(\<And>s. Q s [] (f s)) \<Longrightarrow> obeys Q (modA f)"
  by (simp add: obeys_def modA_def)

lemma obeys_outA: "(\<And>s. Q s [e] s) \<Longrightarrow> obeys Q (outA e)"
  by (simp add: obeys_def outA_def)

end

subsection \<open>Runs of a step relation\<close>

text \<open>The runs of a relation between a state, the outputs of a step and the state after it.\<close>

inductive runs :: "('s \<Rightarrow> 'o list \<Rightarrow> 's \<Rightarrow> bool) \<Rightarrow> 's \<Rightarrow> 'o list \<Rightarrow> 's \<Rightarrow> bool" for R where
  rest: "runs R s [] s"
| and_then: "R s os s' \<Longrightarrow> runs R s' os' s'' \<Longrightarrow> runs R s (os @ os') s''"

lemma runs_one: "R s os s' \<Longrightarrow> runs R s os s'"
  using and_then [OF _ rest] by fastforce

lemma runs_trans: "runs R s os s' \<Longrightarrow> runs R s' os' s'' \<Longrightarrow> runs R s (os @ os') s''"
  by (induction rule: runs.induct) (auto intro: and_then)

lemma runs_then: "runs R s [] s' \<Longrightarrow> runs R s' os s'' \<Longrightarrow> runs R s os s''"
  using runs_trans by fastforce

interpretation chained: composing "runs R" for R
  by unfold_locales (rule rest, rule runs_trans)

text \<open>
  A property of the outputs so far and the state that every step keeps holds at the end of a run; an
  invariant of the state is the case that ignores the outputs.
\<close>

locale monitored =
  fixes R :: "'s \<Rightarrow> 'o list \<Rightarrow> 's \<Rightarrow> bool"
    and J :: "'o list \<Rightarrow> 's \<Rightarrow> bool"
  assumes step_kept: "J past s \<Longrightarrow> R s os s' \<Longrightarrow> J (past @ os) s'"
begin

lemma run_kept: "runs R s os s' \<Longrightarrow> J past s \<Longrightarrow> J (past @ os) s'"
proof (induction arbitrary: past rule: runs.induct)
  case (and_then s os s' os' s'')
  from and_then.IH [OF step_kept [OF and_then.prems and_then.hyps(1)]] show ?case by simp
qed simp

lemma run_from_start: "runs R s os s' \<Longrightarrow> J [] s \<Longrightarrow> J os s'"
  using run_kept [where past = "[]"] by simp

end

locale preserved =
  fixes R :: "'s \<Rightarrow> 'o list \<Rightarrow> 's \<Rightarrow> bool"
    and inv :: "'s \<Rightarrow> bool"
  assumes inv_kept: "inv s \<Longrightarrow> R s os s' \<Longrightarrow> inv s'"

sublocale preserved \<subseteq> monitored R "\<lambda>past. inv"
  by unfold_locales (rule inv_kept)

text \<open>
  A relation whose steps are runs of another one under an abstraction of the states and a view of the
  outputs: its runs are runs of the other.
\<close>

locale simulates =
  fixes R :: "'s \<Rightarrow> 'o list \<Rightarrow> 's \<Rightarrow> bool"
    and A :: "'t \<Rightarrow> 'p list \<Rightarrow> 't \<Rightarrow> bool"
    and abs :: "'s \<Rightarrow> 't"
    and view :: "'o list \<Rightarrow> 'p list"
  assumes view_nil: "view [] = []"
    and view_append: "view (os @ os') = view os @ view os'"
    and step_simulated: "R s os s' \<Longrightarrow> runs A (abs s) (view os) (abs s')"
begin

lemma run_simulated: "runs R s os s' \<Longrightarrow> runs A (abs s) (view os) (abs s')"
  by (induction rule: runs.induct) (auto simp: view_nil view_append intro: rest runs_trans step_simulated)

end

end
