(* ===== verification/Compression.thy ===== *)
theory Compression
  imports Prelude
begin

text \<open>
  \<^verbatim>\<open>bitchat/compression.py\<close>. The \<open>lz4.frame\<close> package is a parameter: a record of its two
  functions, \<open>None\<close> where \<open>lz4.frame.decompress\<close> raises. Its documented round trip is the
  hypothesis \<open>lz4_ok\<close>.
\<close>

record lz4 =
  lz4_compress :: "bytes \<Rightarrow> bytes"
  lz4_decompress :: "bytes \<Rightarrow> bytes option"

definition lz4_ok :: "lz4 \<Rightarrow> bool" where
  "lz4_ok z \<longleftrightarrow> (\<forall>d. lz4_decompress z (lz4_compress z d) = Some d)"

definition COMPRESSION_THRESHOLD :: nat where
  "COMPRESSION_THRESHOLD = 100"

definition compress_if_beneficial :: "lz4 \<Rightarrow> bytes \<Rightarrow> bytes \<times> bool" where
  "compress_if_beneficial z data =
     (if length data < COMPRESSION_THRESHOLD then (data, False)
      else
        let compressed = lz4_compress z data in
        if length compressed < length data then (compressed, True) else (data, False))"

definition decompress :: "lz4 \<Rightarrow> bytes \<Rightarrow> bytes res" where
  "decompress z data =
     (case lz4_decompress z data of Some d \<Rightarrow> Inr d | None \<Rightarrow> Inl ValueError)"

text \<open>What a receiver does with the pair: decompress when the flag says so.\<close>

definition restore :: "lz4 \<Rightarrow> bytes \<times> bool \<Rightarrow> bytes res" where
  "restore z p = (if snd p then decompress z (fst p) else Inr (fst p))"

text \<open>An instance of the parameter for the witnesses: a codec that leaves its input as it is.\<close>

definition lz4_stored :: lz4 where
  "lz4_stored = \<lparr>lz4_compress = (\<lambda>d. d), lz4_decompress = Some\<rparr>"

lemma compress_never_longer: "length (fst (compress_if_beneficial z data)) \<le> length data"
  by (simp add: compress_if_beneficial_def Let_def)

lemma compress_flag_shorter:
  "snd (compress_if_beneficial z data) \<longleftrightarrow>
     COMPRESSION_THRESHOLD \<le> length data \<and> length (lz4_compress z data) < length data"
  by (auto simp: compress_if_beneficial_def Let_def)

lemma restore_compress: "lz4_ok z \<Longrightarrow> restore z (compress_if_beneficial z data) = Inr data"
  by (simp add: restore_def compress_if_beneficial_def decompress_def lz4_ok_def Let_def)

end
