(* ===== verification/Utf8.thy ===== *)
theory Utf8
  imports Prelude
begin

text \<open>
  UTF-8 as the Python codec does it: \<open>s.encode('utf-8')\<close>, \<open>b.decode('utf-8')\<close>, which
  raises, and \<open>b.decode('utf-8', errors='ignore')\<close>, which drops the ill-formed parts. The
  decoders accept the shortest forms only, no surrogates and nothing above 10FFFF, and an
  ill-formed sequence loses its longest well-formed prefix, as in the codec of CPython.
  The two round trips are what the payload formats of the other theories rest on.
\<close>

subsection \<open>Encoding\<close>

definition utf8_enc1 :: "nat \<Rightarrow> bytes res" where
  "utf8_enc1 c =
     (if c < 0x80 then Inr [word_of_nat c]
      else if c < 0x800 then
        Inr [word_of_nat (0xC0 + c div 64), word_of_nat (0x80 + c mod 64)]
      else if 0xD800 \<le> c \<and> c < 0xE000 then Inl UnicodeEncodeError
      else if c < 0x10000 then
        Inr [word_of_nat (0xE0 + c div 4096), word_of_nat (0x80 + c div 64 mod 64),
             word_of_nat (0x80 + c mod 64)]
      else if c < 0x110000 then
        Inr [word_of_nat (0xF0 + c div 262144), word_of_nat (0x80 + c div 4096 mod 64),
             word_of_nat (0x80 + c div 64 mod 64), word_of_nat (0x80 + c mod 64)]
      else Inl UnicodeEncodeError)"

fun utf8_encode :: "pystr \<Rightarrow> bytes res" where
  "utf8_encode [] = Inr []"
| "utf8_encode (c # cs) =
     bindE (utf8_enc1 c) (\<lambda>b. bindE (utf8_encode cs) (\<lambda>bs. Inr (b @ bs)))"

subsection \<open>Decoding\<close>

text \<open>
  One step at a non-empty input: a code point and the number of bytes it takes, or the number
  of bytes of the ill-formed sequence.
\<close>

datatype utf8_item = Good nat nat | Bad nat

definition is_cont :: "byte \<Rightarrow> bool" where
  "is_cont b \<longleftrightarrow> 0x80 \<le> unat b \<and> unat b < 0xC0"

definition utf8_step2 :: "nat \<Rightarrow> bytes \<Rightarrow> utf8_item" where
  "utf8_step2 b0 r =
     (case r of
        [] \<Rightarrow> Bad 1
      | b1 # _ \<Rightarrow>
          if is_cont b1 then Good ((b0 - 0xC0) * 64 + (unat b1 - 0x80)) 2 else Bad 1)"

definition utf8_step3 :: "nat \<Rightarrow> bytes \<Rightarrow> utf8_item" where
  "utf8_step3 b0 r =
     (case r of
        [] \<Rightarrow> Bad 1
      | b1 # r1 \<Rightarrow>
          if \<not> is_cont b1 \<or> (b0 = 0xE0 \<and> unat b1 < 0xA0) \<or> (b0 = 0xED \<and> 0xA0 \<le> unat b1)
          then Bad 1
          else (case r1 of
             [] \<Rightarrow> Bad 2
           | b2 # _ \<Rightarrow>
               if is_cont b2
               then Good ((b0 - 0xE0) * 4096 + (unat b1 - 0x80) * 64 + (unat b2 - 0x80)) 3
               else Bad 2))"

definition utf8_step4 :: "nat \<Rightarrow> bytes \<Rightarrow> utf8_item" where
  "utf8_step4 b0 r =
     (case r of
        [] \<Rightarrow> Bad 1
      | b1 # r1 \<Rightarrow>
          if \<not> is_cont b1 \<or> (b0 = 0xF0 \<and> unat b1 < 0x90) \<or> (b0 = 0xF4 \<and> 0x90 \<le> unat b1)
          then Bad 1
          else (case r1 of
             [] \<Rightarrow> Bad 2
           | b2 # r2 \<Rightarrow>
               if \<not> is_cont b2 then Bad 2
               else (case r2 of
                  [] \<Rightarrow> Bad 3
                | b3 # _ \<Rightarrow>
                    if is_cont b3
                    then Good ((b0 - 0xF0) * 262144 + (unat b1 - 0x80) * 4096 +
                               (unat b2 - 0x80) * 64 + (unat b3 - 0x80)) 4
                    else Bad 3)))"

definition utf8_step :: "byte \<Rightarrow> bytes \<Rightarrow> utf8_item" where
  "utf8_step b r =
     (let b0 = unat b in
      if b0 < 0x80 then Good b0 1
      else if b0 < 0xC2 then Bad 1
      else if b0 < 0xE0 then utf8_step2 b0 r
      else if b0 < 0xF0 then utf8_step3 b0 r
      else if b0 < 0xF5 then utf8_step4 b0 r
      else Bad 1)"

text \<open>A step at \<open>b # r\<close> takes \<open>b\<close> and \<open>n - 1\<close> bytes of the rest.\<close>

fun utf8_decode :: "bytes \<Rightarrow> pystr res" where
  "utf8_decode [] = Inr []"
| "utf8_decode (b # r) =
     (case utf8_step b r of
        Bad _ \<Rightarrow> Inl UnicodeDecodeError
      | Good c n \<Rightarrow> bindE (utf8_decode (drop (n - 1) r)) (\<lambda>cs. Inr (c # cs)))"

fun utf8_decode_ignore :: "bytes \<Rightarrow> pystr" where
  "utf8_decode_ignore [] = []"
| "utf8_decode_ignore (b # r) =
     (case utf8_step b r of
        Bad n \<Rightarrow> utf8_decode_ignore (drop (n - 1) r)
      | Good c n \<Rightarrow> c # utf8_decode_ignore (drop (n - 1) r))"

subsection \<open>Round trips\<close>

text \<open>One lemma per length of the sequence, over the digits of the code point in base 64.\<close>

lemma is_cont_digit [simp]: "y < 64 \<Longrightarrow> is_cont (word_of_nat (0x80 + y))"
  unfolding is_cont_def unat_byte by simp

lemma unat_small_byte: "n < 256 \<Longrightarrow> unat (word_of_nat n :: byte) = n"
  unfolding unat_byte by simp

lemma utf8_step_two:
  assumes "2 \<le> x" "x < 32" "y < 64"
  shows "utf8_step (word_of_nat (0xC0 + x)) (word_of_nat (0x80 + y) # r) = Good (x * 64 + y) 2"
  using assms unat_small_byte [of "0xC0 + x"] unat_small_byte [of "0x80 + y"] is_cont_digit [of y]
  by (simp add: utf8_step_def utf8_step2_def Let_def del: of_nat_add unat_byte is_cont_digit)

lemma utf8_step_three:
  assumes "x < 16" "y < 64" "z < 64" "x = 0 \<longrightarrow> 32 \<le> y" "x = 13 \<longrightarrow> y < 32"
  shows "utf8_step (word_of_nat (0xE0 + x)) (word_of_nat (0x80 + y) # word_of_nat (0x80 + z) # r) =
    Good (x * 4096 + y * 64 + z) 3"
  using assms unat_small_byte [of "0xE0 + x"] unat_small_byte [of "0x80 + y"]
    unat_small_byte [of "0x80 + z"] is_cont_digit [of y] is_cont_digit [of z]
  by (auto simp add: utf8_step_def utf8_step3_def Let_def simp del: of_nat_add unat_byte is_cont_digit)

lemma utf8_step_four:
  assumes "x < 5" "y < 64" "z < 64" "w < 64" "x = 0 \<longrightarrow> 16 \<le> y" "x = 4 \<longrightarrow> y < 16"
  shows "utf8_step (word_of_nat (0xF0 + x))
      (word_of_nat (0x80 + y) # word_of_nat (0x80 + z) # word_of_nat (0x80 + w) # r) =
    Good (x * 262144 + y * 4096 + z * 64 + w) 4"
  using assms unat_small_byte [of "0xF0 + x"] unat_small_byte [of "0x80 + y"]
    unat_small_byte [of "0x80 + z"] unat_small_byte [of "0x80 + w"]
    is_cont_digit [of y] is_cont_digit [of z] is_cont_digit [of w]
  by (auto simp add: utf8_step_def utf8_step4_def Let_def simp del: of_nat_add unat_byte is_cont_digit)

lemma base64_digits:
  fixes c :: nat
  shows "c div 64 * 64 + c mod 64 = c"
    and "c div 4096 * 4096 + c div 64 mod 64 * 64 + c mod 64 = c"
    and "c div 262144 * 262144 + c div 4096 mod 64 * 4096 + c div 64 mod 64 * 64 + c mod 64 = c"
proof -
  have d: "c div 64 * 64 + c mod 64 = c" "c div 64 div 64 * 64 + c div 64 mod 64 = c div 64"
    "c div 4096 div 64 * 64 + c div 4096 mod 64 = c div 4096"
    by (rule div_mult_mod_eq)+
  have e: "c div 64 div 64 = c div 4096" "c div 4096 div 64 = c div 262144"
    by (simp_all flip: div_mult2_eq)
  show "c div 64 * 64 + c mod 64 = c" by (rule d(1))
  show "c div 4096 * 4096 + c div 64 mod 64 * 64 + c mod 64 = c"
    using d(1,2) unfolding e by linarith
  show "c div 262144 * 262144 + c div 4096 mod 64 * 4096 + c div 64 mod 64 * 64 + c mod 64 = c"
    using d unfolding e by linarith
qed

lemma utf8_step_enc1:
  assumes "utf8_enc1 c = Inr (b # bs)"
  shows "utf8_step b (bs @ r) = Good c (Suc (length bs))"
proof -
  consider (1) "c < 0x80" | (2) "0x80 \<le> c" "c < 0x800"
    | (3) "0x800 \<le> c" "c < 0x10000" "\<not> (0xD800 \<le> c \<and> c < 0xE000)"
    | (4) "0x10000 \<le> c" "c < 0x110000"
    using assms by (fastforce simp: utf8_enc1_def split: if_splits)
  then show ?thesis
  proof cases
    case 1
    with assms show ?thesis by (auto simp: utf8_enc1_def utf8_step_def Let_def)
  next
    case 2
    then have "2 \<le> c div 64" "c div 64 < 32" "c mod 64 < 64" by auto
    note utf8_step_two [OF this, of r, unfolded base64_digits(1)]
    with 2 assms show ?thesis by (auto simp: utf8_enc1_def simp del: of_nat_add)
  next
    case 3
    have m: "c div 64 mod 64 < 64" "c mod 64 < 64" by simp_all
    with 3 base64_digits(2) [of c] have "c div 4096 < 16" by linarith
    moreover have "c div 4096 = 0 \<longrightarrow> 32 \<le> c div 64 mod 64"
      using 3 base64_digits(2) [of c] m by linarith
    moreover have "c div 4096 = 13 \<longrightarrow> c div 64 mod 64 < 32"
      using 3 base64_digits(2) [of c] m by linarith
    ultimately have "c div 4096 < 16" "c div 64 mod 64 < 64" "c mod 64 < 64"
      "c div 4096 = 0 \<longrightarrow> 32 \<le> c div 64 mod 64" "c div 4096 = 13 \<longrightarrow> c div 64 mod 64 < 32"
      using m by blast+
    note utf8_step_three [OF this, of r, unfolded base64_digits(2)]
    with 3 assms show ?thesis by (auto simp: utf8_enc1_def simp del: of_nat_add)
  next
    case 4
    have m: "c div 4096 mod 64 < 64" "c div 64 mod 64 < 64" "c mod 64 < 64" by simp_all
    with 4 base64_digits(3) [of c] have "c div 262144 < 5" by linarith
    moreover have "c div 262144 = 0 \<longrightarrow> 16 \<le> c div 4096 mod 64"
      using 4 base64_digits(3) [of c] m by linarith
    moreover have "c div 262144 = 4 \<longrightarrow> c div 4096 mod 64 < 16"
      using 4 base64_digits(3) [of c] m by linarith
    ultimately have "c div 262144 < 5" "c div 4096 mod 64 < 64" "c div 64 mod 64 < 64" "c mod 64 < 64"
      "c div 262144 = 0 \<longrightarrow> 16 \<le> c div 4096 mod 64"
      "c div 262144 = 4 \<longrightarrow> c div 4096 mod 64 < 16"
      using m by blast+
    note utf8_step_four [OF this, of r, unfolded base64_digits(3)]
    with 4 assms show ?thesis by (auto simp: utf8_enc1_def simp del: of_nat_add)
  qed
qed

lemma utf8_enc1_neq_Nil: "utf8_enc1 c = Inr bs \<Longrightarrow> bs \<noteq> []"
  by (auto simp: utf8_enc1_def split: if_splits)

lemma utf8_enc1_Cons:
  assumes "utf8_enc1 c = Inr bs"
  obtains b bs' where "bs = b # bs'" "\<And>r. utf8_step b (bs' @ r) = Good c (Suc (length bs'))"
  using assms utf8_enc1_neq_Nil utf8_step_enc1 by (cases bs) fastforce+

lemma utf8_decode_encode [wire_simps]:
  "utf8_encode s = Inr bs \<Longrightarrow> utf8_decode bs = Inr s"
proof (induction s arbitrary: bs)
  case (Cons c cs)
  then obtain b1 b2 where b: "utf8_enc1 c = Inr b1" "utf8_encode cs = Inr b2" "bs = b1 @ b2"
    by (auto simp: bindE_eq_Inr)
  from b(1) obtain b b' where "b1 = b # b'" "utf8_step b (b' @ b2) = Good c (Suc (length b'))"
    by (rule utf8_enc1_Cons) blast
  with b Cons.IH show ?case by simp
qed simp

lemma utf8_decode_ignore_encode [wire_simps]:
  "utf8_encode s = Inr bs \<Longrightarrow> utf8_decode_ignore bs = s"
proof (induction s arbitrary: bs)
  case (Cons c cs)
  then obtain b1 b2 where b: "utf8_enc1 c = Inr b1" "utf8_encode cs = Inr b2" "bs = b1 @ b2"
    by (auto simp: bindE_eq_Inr)
  from b(1) obtain b b' where "b1 = b # b'" "utf8_step b (b' @ b2) = Good c (Suc (length b'))"
    by (rule utf8_enc1_Cons) blast
  with b Cons.IH show ?case by simp
qed simp

end
