(* ===== verification/Packet.thy ===== *)
theory Packet
  imports Compression Utf8
begin

text \<open>
  The packet half of \<^verbatim>\<open>bitchat/protocol.py\<close>: the constants, \<open>MessageType\<close>,
  \<open>BitchatPacket\<close>, the padding helpers, \<open>parse_bitchat_packet\<close> and
  \<open>create_bitchat_packet_with_recipient\<close> with its three wrappers. Time and randomness are
  arguments: \<open>ts\<close> is \<open>int(time.time() * 1000)\<close> and \<open>rnd n\<close> is \<open>os.urandom(n)\<close>.
\<close>

subsection \<open>Constants and types\<close>

definition FLAG_HAS_RECIPIENT :: byte where "FLAG_HAS_RECIPIENT = 0x01"
definition FLAG_HAS_SIGNATURE :: byte where "FLAG_HAS_SIGNATURE = 0x02"
definition FLAG_IS_COMPRESSED :: byte where "FLAG_IS_COMPRESSED = 0x04"

definition SIGNATURE_SIZE :: nat where "SIGNATURE_SIZE = 64"

definition BROADCAST_RECIPIENT :: bytes where
  "BROADCAST_RECIPIENT = replicate 8 0xFF"

datatype MessageType =
    ANNOUNCE | KEY_EXCHANGE | LEAVE | MESSAGE
  | FRAGMENT_START | FRAGMENT_CONTINUE | FRAGMENT_END
  | CHANNEL_ANNOUNCE | CHANNEL_RETENTION
  | DELIVERY_ACK | DELIVERY_STATUS_REQUEST | READ_RECEIPT
  | NOISE_HANDSHAKE_INIT | NOISE_HANDSHAKE_RESP | NOISE_ENCRYPTED | NOISE_IDENTITY_ANNOUNCE
  | CHANNEL_KEY_VERIFY_REQUEST | CHANNEL_KEY_VERIFY_RESPONSE
  | CHANNEL_PASSWORD_UPDATE | CHANNEL_METADATA
  | VERSION_HELLO | VERSION_ACK

fun mt_value :: "MessageType \<Rightarrow> byte" where
  "mt_value ANNOUNCE = 0x01"
| "mt_value KEY_EXCHANGE = 0x02"
| "mt_value LEAVE = 0x03"
| "mt_value MESSAGE = 0x04"
| "mt_value FRAGMENT_START = 0x05"
| "mt_value FRAGMENT_CONTINUE = 0x06"
| "mt_value FRAGMENT_END = 0x07"
| "mt_value CHANNEL_ANNOUNCE = 0x08"
| "mt_value CHANNEL_RETENTION = 0x09"
| "mt_value DELIVERY_ACK = 0x0A"
| "mt_value DELIVERY_STATUS_REQUEST = 0x0B"
| "mt_value READ_RECEIPT = 0x0C"
| "mt_value NOISE_HANDSHAKE_INIT = 0x10"
| "mt_value NOISE_HANDSHAKE_RESP = 0x11"
| "mt_value NOISE_ENCRYPTED = 0x12"
| "mt_value NOISE_IDENTITY_ANNOUNCE = 0x13"
| "mt_value CHANNEL_KEY_VERIFY_REQUEST = 0x14"
| "mt_value CHANNEL_KEY_VERIFY_RESPONSE = 0x15"
| "mt_value CHANNEL_PASSWORD_UPDATE = 0x16"
| "mt_value CHANNEL_METADATA = 0x17"
| "mt_value VERSION_HELLO = 0x20"
| "mt_value VERSION_ACK = 0x21"

definition all_message_types :: "MessageType list" where
  "all_message_types =
     [ANNOUNCE, KEY_EXCHANGE, LEAVE, MESSAGE, FRAGMENT_START, FRAGMENT_CONTINUE, FRAGMENT_END,
      CHANNEL_ANNOUNCE, CHANNEL_RETENTION, DELIVERY_ACK, DELIVERY_STATUS_REQUEST, READ_RECEIPT,
      NOISE_HANDSHAKE_INIT, NOISE_HANDSHAKE_RESP, NOISE_ENCRYPTED, NOISE_IDENTITY_ANNOUNCE,
      CHANNEL_KEY_VERIFY_REQUEST, CHANNEL_KEY_VERIFY_RESPONSE, CHANNEL_PASSWORD_UPDATE,
      CHANNEL_METADATA, VERSION_HELLO, VERSION_ACK]"

text \<open>\<open>MessageType(n)\<close>: the member with that value, or \<open>ValueError\<close>.\<close>

definition MessageType_of :: "byte \<Rightarrow> MessageType res" where
  "MessageType_of b =
     (case find (\<lambda>t. mt_value t = b) all_message_types of
        Some t \<Rightarrow> Inr t
      | None \<Rightarrow> Inl ValueError)"

record packet =
  pkt_type :: MessageType
  pkt_sender_id :: bytes
  pkt_sender_id_str :: pystr
  pkt_recipient_id :: "bytes option"
  pkt_recipient_id_str :: "pystr option"
  pkt_payload :: bytes
  pkt_ttl :: nat

subsection \<open>Padding helpers\<close>

definition unpad_packet :: "bytes \<Rightarrow> bytes" where
  "unpad_packet data =
     (if length data = 0 then data
      else
        let padding_length = unat (last data) in
        if padding_length = 0 \<or> length data < padding_length then data
        else take (length data - padding_length) data)"

definition unpad_message :: "bytes \<Rightarrow> bytes" where
  "unpad_message data =
     (if data = [] then data
      else
        let padding_length = unat (last data) in
        if padding_length = 0 \<or> length data < padding_length \<or> 255 < padding_length then data
        else take (length data - padding_length) data)"

definition should_fragment :: "bytes \<Rightarrow> bool" where
  "should_fragment pk \<longleftrightarrow> 500 < length pk"

subsection \<open>Parsing\<close>

definition rstrip0 :: "bytes \<Rightarrow> bytes" where
  "rstrip0 = rstrip (\<lambda>b. b = 0)"

text \<open>
  \<open>parse_bitchat_packet\<close>: version at 0, type at 1, TTL at 2, time stamp at 3 to 10 (skipped),
  flags at 11, payload length at 12 and 13, sender at 14 to 21, then the recipient if flagged,
  the payload, and a signature that is read and dropped.
\<close>

definition parse_bitchat_packet :: "lz4 \<Rightarrow> bytes \<Rightarrow> packet res" where
  "parse_bitchat_packet z data =
     (if length data < 13 + 8 then Inl ValueError
      else
        bindE (py_nth data 0) (\<lambda>version.
        if version \<noteq> 1 then Inl ValueError
        else
        bindE (py_nth data 1) (\<lambda>t.
        bindE (MessageType_of t) (\<lambda>msg_type.
        bindE (py_nth data 2) (\<lambda>ttl.
        bindE (py_nth data 11) (\<lambda>flags.
        let has_recipient = flags AND FLAG_HAS_RECIPIENT \<noteq> 0;
            is_compressed = flags AND FLAG_IS_COMPRESSED \<noteq> 0
        in
        bindE (unpack_H (slice 12 14 data)) (\<lambda>payload_len.
        let sender_id = rstrip0 (slice 14 22 data);
            recipient_id = (if has_recipient then Some (rstrip0 (slice 22 30 data)) else None);
            offset = (if has_recipient then 30 else 22);
            payload = slice offset (offset + payload_len) data
        in
        bindE (if is_compressed then decompress z payload else Inr payload) (\<lambda>payload.
        Inr \<lparr>pkt_type = msg_type, pkt_sender_id = sender_id, pkt_sender_id_str = hex sender_id,
             pkt_recipient_id = recipient_id,
             pkt_recipient_id_str = map_option hex recipient_id,
             pkt_payload = payload, pkt_ttl = unat ttl\<rparr>))))))))"

subsection \<open>Creation\<close>

definition pad8 :: "bytes \<Rightarrow> bytes" where
  "pad8 bs = take 8 bs @ replicate (8 - length bs) 0"

definition exclude_recipient_types :: "MessageType list" where
  "exclude_recipient_types = [FRAGMENT_START, FRAGMENT_CONTINUE, FRAGMENT_END]"

definition packet_flags :: "pystr option \<Rightarrow> MessageType \<Rightarrow> bytes option \<Rightarrow> byte" where
  "packet_flags recipient msg_type signature =
     (if recipient \<noteq> None \<or> msg_type \<notin> set exclude_recipient_types
      then FLAG_HAS_RECIPIENT else 0) OR
     (if signature \<noteq> None \<and> signature \<noteq> Some [] then FLAG_HAS_SIGNATURE else 0)"

definition recipient_field :: "pystr option \<Rightarrow> bytes res" where
  "recipient_field recipient =
     (case recipient of
        Some (c # cs) \<Rightarrow> bindE (fromhex (c # cs)) (\<lambda>bs. Inr (pad8 bs))
      | _ \<Rightarrow> Inr BROADCAST_RECIPIENT)"

definition block_sizes :: "nat list" where
  "block_sizes = [256, 512, 1024, 2048]"

text \<open>The first block size that holds the packet and 16 more bytes, else the packet's own size.\<close>

definition target_size :: "nat \<Rightarrow> nat" where
  "target_size len =
     (case find (\<lambda>b. len + 16 \<le> b) block_sizes of Some b \<Rightarrow> b | None \<Rightarrow> len)"

definition padding :: "(nat \<Rightarrow> bytes) \<Rightarrow> nat \<Rightarrow> bytes" where
  "padding rnd len =
     (let padding_needed = target_size len - len in
      if 0 < padding_needed \<and> padding_needed \<le> 255
      then rnd (padding_needed - 1) @ [word_of_nat padding_needed]
      else [])"

definition create_bitchat_packet_with_recipient ::
  "nat \<Rightarrow> (nat \<Rightarrow> bytes) \<Rightarrow> pystr \<Rightarrow> pystr option \<Rightarrow> MessageType \<Rightarrow> bytes \<Rightarrow> bytes option
     \<Rightarrow> bytes res" where
  "create_bitchat_packet_with_recipient ts rnd sender recipient msg_type payload signature =
     bindE (pack_Q ts) (\<lambda>timestamp.
     let flags = packet_flags recipient msg_type signature in
     bindE (pack_H (length payload)) (\<lambda>payload_len.
     bindE (fromhex sender) (\<lambda>sender_bytes.
     bindE (if flags AND FLAG_HAS_RECIPIENT \<noteq> 0 then recipient_field recipient else Inr [])
       (\<lambda>recipient_bytes.
     let pk = [1, mt_value msg_type, 7] @ timestamp @ [flags] @ payload_len @
              pad8 sender_bytes @ recipient_bytes @ payload @
              (case signature of Some s \<Rightarrow> s | None \<Rightarrow> [])
     in Inr (pk @ padding rnd (length pk))))))"

definition create_bitchat_packet ::
  "nat \<Rightarrow> (nat \<Rightarrow> bytes) \<Rightarrow> pystr \<Rightarrow> MessageType \<Rightarrow> bytes \<Rightarrow> bytes res" where
  "create_bitchat_packet ts rnd sender msg_type payload =
     create_bitchat_packet_with_recipient ts rnd sender None msg_type payload None"

definition create_bitchat_packet_with_signature ::
  "nat \<Rightarrow> (nat \<Rightarrow> bytes) \<Rightarrow> pystr \<Rightarrow> MessageType \<Rightarrow> bytes \<Rightarrow> bytes option \<Rightarrow> bytes res" where
  "create_bitchat_packet_with_signature ts rnd sender msg_type payload signature =
     create_bitchat_packet_with_recipient ts rnd sender None msg_type payload signature"

definition create_bitchat_packet_with_recipient_and_signature ::
  "nat \<Rightarrow> (nat \<Rightarrow> bytes) \<Rightarrow> pystr \<Rightarrow> pystr \<Rightarrow> MessageType \<Rightarrow> bytes \<Rightarrow> bytes option \<Rightarrow> bytes res" where
  "create_bitchat_packet_with_recipient_and_signature ts rnd sender recipient msg_type payload
     signature =
     create_bitchat_packet_with_recipient ts rnd sender (Some recipient) msg_type payload signature"

text \<open>
  \<open>data = bytearray(packet); data[2] = n\<close>: how the mesh layer sets a packet's TTL. Its callers
  pass packets of at least 21 bytes and values up to 255, so the assignment does not raise.
\<close>

definition set_ttl :: "bytes \<Rightarrow> nat \<Rightarrow> bytes" where
  "set_ttl pk n = pk[2 := word_of_nat n]"

subsection \<open>Message types\<close>

lemma MessageType_of_value [simp, wire_simps]: "MessageType_of (mt_value t) = Inr t"
  by (cases t) (simp_all add: MessageType_of_def all_message_types_def)


lemma MessageType_of_Inl: "MessageType_of b = Inl e \<Longrightarrow> e = ValueError"
  by (auto simp: MessageType_of_def split: option.splits)

subsection \<open>The layout of a packet\<close>

lemma flag_values:
  "packet_flags r t s AND FLAG_IS_COMPRESSED = 0"
  "packet_flags r t s AND FLAG_HAS_RECIPIENT \<noteq> 0 \<longleftrightarrow>
     r \<noteq> None \<or> t \<notin> set exclude_recipient_types"
  "packet_flags r t s AND FLAG_HAS_SIGNATURE \<noteq> 0 \<longleftrightarrow> s \<noteq> None \<and> s \<noteq> Some []"
  by (simp_all add: packet_flags_def FLAG_HAS_RECIPIENT_def FLAG_HAS_SIGNATURE_def
      FLAG_IS_COMPRESSED_def)

lemma length_pad8 [simp]: "length (pad8 bs) = 8"
  by (simp add: pad8_def)

lemma rstrip0_pad8: "rstrip0 (pad8 bs) = rstrip0 (take 8 bs)"
  by (simp add: rstrip0_def pad8_def rstrip_replicate)

lemma length_recipient_field: "recipient_field r = Inr bs \<Longrightarrow> length bs = 8"
  by (auto simp: recipient_field_def BROADCAST_RECIPIENT_def bindE_eq_Inr
      split: option.splits list.splits)

text \<open>Every field of a laid-out packet is read back from its place.\<close>

lemma parse_layout:
  assumes "length ts = 8" "length lb = 2" "length s = 8"
    and "length rcp = (if flags AND FLAG_HAS_RECIPIENT \<noteq> 0 then 8 else 0)"
    and "unpack_H lb = Inr (length payload)"
  shows "parse_bitchat_packet z
      ([1, t, ttl] @ ts @ [flags] @ lb @ s @ rcp @ payload @ rest) =
    bindE (MessageType_of t) (\<lambda>msg_type.
    bindE (if flags AND FLAG_IS_COMPRESSED \<noteq> 0 then decompress z payload else Inr payload) (\<lambda>p.
    Inr \<lparr>pkt_type = msg_type, pkt_sender_id = rstrip0 s, pkt_sender_id_str = hex (rstrip0 s),
         pkt_recipient_id = (if flags AND FLAG_HAS_RECIPIENT \<noteq> 0 then Some (rstrip0 rcp) else None),
         pkt_recipient_id_str =
           (if flags AND FLAG_HAS_RECIPIENT \<noteq> 0 then Some (hex (rstrip0 rcp)) else None),
         pkt_payload = p, pkt_ttl = unat ttl\<rparr>))"
    (is "parse_bitchat_packet z ?data = _")
proof -
  obtain data where data: "data = ?data" by simp
  have len: "\<not> length data < 13 + 8" unfolding data using assms(1-3) by simp
  have hd: "py_nth data 0 = Inr 1" "py_nth data 1 = Inr t" "py_nth data 2 = Inr ttl"
    unfolding data by (simp_all add: py_nth_def)
  have f: "py_nth data 11 = Inr flags"
    unfolding data using assms(1) by (simp add: py_nth_def nth_append)
  have l: "slice 12 14 data = lb" and s: "slice 14 22 data = s"
    unfolding data using assms(1-3) by (simp_all add: slice_def)
  have "?thesis" if "flags AND FLAG_HAS_RECIPIENT = 0"
  proof -
    have "slice 22 (22 + length payload) data = payload"
      unfolding data using that assms(1-4) by (simp add: slice_def)
    with that len hd f l s assms(5) show ?thesis
      unfolding data [symmetric] parse_bitchat_packet_def
      by (simp only: Let_def bindE_simps if_True if_False simp_thms option.map)
  qed
  moreover have "?thesis" if "flags AND FLAG_HAS_RECIPIENT \<noteq> 0"
  proof -
    have "slice 22 30 data = rcp" "slice 30 (30 + length payload) data = payload"
      unfolding data using that assms(1-4) by (simp_all add: slice_def)
    with that len hd f l s assms(5) show ?thesis
      unfolding data [symmetric] parse_bitchat_packet_def
      by (simp only: Let_def bindE_simps if_True if_False simp_thms option.map)
  qed
  ultimately show ?thesis by blast
qed

subsection \<open>Creating and parsing\<close>

lemma create_layout:
  assumes "fromhex sender = Inr sb" and "ts < 2 ^ 64" and "length payload < 2 ^ 16"
    and "recipient_field recipient = Inr rb"
  obtains pk where
    "create_bitchat_packet_with_recipient ts rnd sender recipient t payload signature =
       Inr (pk @ padding rnd (length pk))"
    and "pk = [1, mt_value t, 7] @ be_bytes 8 ts @ [packet_flags recipient t signature] @
       be_bytes 2 (length payload) @ pad8 sb @
       (if packet_flags recipient t signature AND FLAG_HAS_RECIPIENT \<noteq> 0 then rb else []) @
       payload @ (case signature of Some s \<Rightarrow> s | None \<Rightarrow> [])"
  using assms
  by (simp add: create_bitchat_packet_with_recipient_def pack_Q_def pack_H_def Let_def)

lemma parse_created:
  assumes "fromhex sender = Inr sb" and "ts < 2 ^ 64" and "length payload < 2 ^ 16"
    and "recipient_field recipient = Inr rb"
  shows "\<exists>data.
    create_bitchat_packet_with_recipient ts rnd sender recipient t payload signature = Inr data \<and>
    parse_bitchat_packet z data =
      Inr \<lparr>pkt_type = t, pkt_sender_id = rstrip0 (take 8 sb),
           pkt_sender_id_str = hex (rstrip0 (take 8 sb)),
           pkt_recipient_id =
             (if recipient = None \<and> t \<in> set exclude_recipient_types then None
              else Some (rstrip0 rb)),
           pkt_recipient_id_str =
             (if recipient = None \<and> t \<in> set exclude_recipient_types then None
              else Some (hex (rstrip0 rb))),
           pkt_payload = payload, pkt_ttl = 7\<rparr>"
proof -
  let ?f = "packet_flags recipient t signature"
  obtain pk where c: "create_bitchat_packet_with_recipient ts rnd sender recipient t payload
      signature = Inr (pk @ padding rnd (length pk))"
    and pk: "pk = [1, mt_value t, 7] @ be_bytes 8 ts @ [?f] @ be_bytes 2 (length payload) @
      pad8 sb @ (if ?f AND FLAG_HAS_RECIPIENT \<noteq> 0 then rb else []) @
      payload @ (case signature of Some s \<Rightarrow> s | None \<Rightarrow> [])"
    by (rule create_layout [OF assms])
  have u: "unpack_H (be_bytes 2 (length payload)) = Inr (length payload)"
    using assms(3) by (simp add: unpack_H_def be_nat_bytes)
  have l: "length (if ?f AND FLAG_HAS_RECIPIENT \<noteq> 0 then rb else []) =
      (if ?f AND FLAG_HAS_RECIPIENT \<noteq> 0 then 8 else 0)"
    using length_recipient_field [OF assms(4)] by simp
  note * = parse_layout [OF _ _ _ l u, where ts = "be_bytes 8 ts" and s = "pad8 sb" and
      t = "mt_value t" and ttl = 7 and z = z and
      rest = "(case signature of Some s \<Rightarrow> s | None \<Rightarrow> []) @ padding rnd (length pk)"]
  have "parse_bitchat_packet z (pk @ padding rnd (length pk)) =
    Inr \<lparr>pkt_type = t, pkt_sender_id = rstrip0 (take 8 sb),
         pkt_sender_id_str = hex (rstrip0 (take 8 sb)),
         pkt_recipient_id = (if ?f AND FLAG_HAS_RECIPIENT \<noteq> 0 then Some (rstrip0 rb) else None),
         pkt_recipient_id_str =
           (if ?f AND FLAG_HAS_RECIPIENT \<noteq> 0 then Some (hex (rstrip0 rb)) else None),
         pkt_payload = payload, pkt_ttl = 7\<rparr>"
    using * by (subst pk) (simp add: flag_values(1) rstrip0_pad8 cong: if_cong)
  with c show ?thesis
    by (auto simp: flag_values(2))
qed

text \<open>
  C13: whatever \<open>create_bitchat_packet_with_recipient\<close> builds from a hexadecimal sender, a
  payload of at most 65535 bytes and any recipient, signature and padding is accepted by
  \<open>parse_bitchat_packet\<close>, which returns the message type, the payload and TTL 7, the sender cut
  to eight bytes and stripped of trailing zeros, and a recipient unless the packet is a fragment
  without one.
\<close>

theorem parse_create_roundtrip:
  assumes "fromhex sender = Inr sb" and "ts < 2 ^ 64" and "length payload < 2 ^ 16"
    and "recipient_field recipient = Inr rb"
  shows "\<exists>data.
    create_bitchat_packet_with_recipient ts rnd sender recipient t payload signature = Inr data \<and>
    parse_bitchat_packet z data =
      Inr \<lparr>pkt_type = t, pkt_sender_id = rstrip0 (take 8 sb),
           pkt_sender_id_str = hex (rstrip0 (take 8 sb)),
           pkt_recipient_id =
             (if recipient = None \<and> t \<in> set exclude_recipient_types then None
              else Some (rstrip0 rb)),
           pkt_recipient_id_str =
             (if recipient = None \<and> t \<in> set exclude_recipient_types then None
              else Some (hex (rstrip0 rb))),
           pkt_payload = payload, pkt_ttl = 7\<rparr>"
  using assms by (rule parse_created)

theorem parse_create_roundtrip_witness:
  "\<exists>data.
    create_bitchat_packet_with_recipient 5 (\<lambda>n. replicate n 0) (lit ''0102030405060708'')
      (Some (lit ''0a0b'')) MESSAGE [1, 2, 3] None = Inr data \<and>
    parse_bitchat_packet lz4_stored data =
      Inr \<lparr>pkt_type = MESSAGE, pkt_sender_id = [1, 2, 3, 4, 5, 6, 7, 8],
           pkt_sender_id_str = lit ''0102030405060708'',
           pkt_recipient_id = Some [10, 11], pkt_recipient_id_str = Some (lit ''0a0b''),
           pkt_payload = [1, 2, 3], pkt_ttl = 7\<rparr>"
proof -
  have h: "fromhex (lit ''0102030405060708'') = Inr [1, 2, 3, 4, 5, 6, 7, 8]"
    "recipient_field (Some (lit ''0a0b'')) = Inr [10, 11, 0, 0, 0, 0, 0, 0]"
    "rstrip0 [1, 2, 3, 4, 5, 6, 7, 8] = [1, 2, 3, 4, 5, 6, 7, 8]"
    "rstrip0 [10, 11, 0, 0, 0, 0, 0, 0] = [10, 11]"
    "hex [1, 2, 3, 4, 5, 6, 7, 8] = lit ''0102030405060708''" "hex [10, 11] = lit ''0a0b''"
    by code_simp+
  show ?thesis
    using parse_create_roundtrip [OF h(1) _ _ h(2), of 5 "[1, 2, 3]" "\<lambda>n. replicate n 0" MESSAGE
        None lz4_stored]
    by (simp add: h(3-6))
qed






text \<open>
  The only exception \<open>parse_bitchat_packet\<close> raises is \<open>ValueError\<close>, on any input: the
  length check makes every later read of the header succeed, and slices never raise.
\<close>

theorem parse_only_ValueError: "parse_bitchat_packet z data = Inl e \<Longrightarrow> e = ValueError"
  by (auto simp: parse_bitchat_packet_def Let_def bindE_eq_Inl decompress_def unpack_H_def py_nth_def
      dest: MessageType_of_Inl split: if_splits option.splits)

theorem parse_only_ValueError_witness:
  "\<exists>e. parse_bitchat_packet lz4_stored (replicate 30 2) = Inl e \<and> e = ValueError"
proof -
  have "\<exists>e. parse_bitchat_packet lz4_stored (replicate 30 2) = Inl e"
    by (simp add: parse_bitchat_packet_def)
  then show ?thesis using parse_only_ValueError by blast
qed

text \<open>
  A created packet carries the identity of its sender, as the mesh layer compares it (a
  16-digit string), exactly when the last of the eight identity bytes is not zero, since the parser
  strips trailing zero bytes.
\<close>

theorem sender_identity_kept_iff:
  assumes "length sb = 8" and "ts < 2 ^ 64" and "length payload < 2 ^ 16"
    and "recipient_field recipient = Inr rb"
  shows "\<exists>data p.
    create_bitchat_packet_with_recipient ts rnd (hex sb) recipient t payload signature = Inr data \<and>
    parse_bitchat_packet z data = Inr p \<and>
    (pkt_sender_id_str p = hex sb \<longleftrightarrow> last sb \<noteq> 0)"
proof -
  have "rstrip0 sb = sb \<longleftrightarrow> last sb \<noteq> 0"
  proof (cases sb rule: rev_cases)
    case (snoc ys y)
    then show ?thesis
      using length_rstrip_le [of "\<lambda>b. b = 0" ys] by (auto simp: rstrip0_def)
  qed (use assms(1) in simp)
  then show ?thesis
    using parse_created [OF fromhex_hex [of sb] assms(2-4), of rnd t signature z] assms(1)
    by auto
qed

theorem sender_identity_kept_iff_witness:
  "\<exists>data p.
    create_bitchat_packet_with_recipient 5 (\<lambda>n. replicate n 0) (hex [1, 2, 3, 4, 5, 6, 7, 0])
      None ANNOUNCE [97] None = Inr data \<and>
    parse_bitchat_packet lz4_stored data = Inr p \<and>
    pkt_sender_id_str p \<noteq> hex [1, 2, 3, 4, 5, 6, 7, 0]"
  using sender_identity_kept_iff [of "[1, 2, 3, 4, 5, 6, 7, 0]" 5 "[97]" None BROADCAST_RECIPIENT
      "\<lambda>n. replicate n 0" ANNOUNCE None lz4_stored]
  by (auto simp: recipient_field_def)

lemma parse_after_set_ttl:
  assumes "parse_bitchat_packet z raw = Inr p" and "n < 256"
  shows "parse_bitchat_packet z (set_ttl raw n) = Inr (p\<lparr>pkt_ttl := n\<rparr>)"
proof -
  have s: "slice a b (set_ttl raw n) = slice a b raw" if "2 < a" for a b
    using that by (simp add: slice_def set_ttl_def)
  have l: "length (set_ttl raw n) = length raw" by (simp add: set_ttl_def)
  have v: "\<not> length raw < 13 + 8" using assms(1) by (auto simp: parse_bitchat_packet_def)
  then have i: "py_nth (set_ttl raw n) k = (if k = 2 then Inr (word_of_nat n) else py_nth raw k)"
    for k by (auto simp: py_nth_def set_ttl_def)
  from v assms show ?thesis
    by (simp add: parse_bitchat_packet_def l i s Let_def bindE_eq_Inr split: if_splits)
      (auto simp: bindE_eq_Inr)
qed

text \<open>
  Setting the TTL byte, as a relay does, changes the TTL of the packet that a receiver parses
  and nothing else.
\<close>

theorem parse_set_ttl:
  assumes "parse_bitchat_packet z raw = Inr p" and "n < 256"
  shows "parse_bitchat_packet z (set_ttl raw n) = Inr (p\<lparr>pkt_ttl := n\<rparr>)"
  using assms by (rule parse_after_set_ttl)

theorem parse_set_ttl_witness:
  "parse_bitchat_packet lz4_stored (set_ttl ([1, 4, 7] @ replicate 19 0) 6) =
     Inr \<lparr>pkt_type = MESSAGE, pkt_sender_id = [], pkt_sender_id_str = [],
          pkt_recipient_id = None, pkt_recipient_id_str = None, pkt_payload = [], pkt_ttl = 6\<rparr>"
proof -
  have h: "parse_bitchat_packet lz4_stored ([1, 4, 7] @ replicate 19 0) =
     Inr \<lparr>pkt_type = MESSAGE, pkt_sender_id = [], pkt_sender_id_str = [],
          pkt_recipient_id = None, pkt_recipient_id_str = None, pkt_payload = [], pkt_ttl = 7\<rparr>"
    by code_simp
  show ?thesis using parse_set_ttl [OF h, of 6] by simp
qed

subsection \<open>Padding\<close>

text \<open>
  The size of a created packet before padding, and the size on the wire: the padding reaches the
  next block only when at most 255 bytes are missing, because their number is one byte.
\<close>

definition base_size :: "pystr option \<Rightarrow> MessageType \<Rightarrow> bytes \<Rightarrow> bytes option \<Rightarrow> nat" where
  "base_size recipient t payload signature =
     22 + (if recipient = None \<and> t \<in> set exclude_recipient_types then 0 else 8) +
     length payload + (case signature of Some s \<Rightarrow> length s | None \<Rightarrow> 0)"

definition wire_size :: "nat \<Rightarrow> nat" where
  "wire_size n =
     (if n \<le> 240 then 256
      else if 257 \<le> n \<and> n \<le> 496 then 512
      else if 769 \<le> n \<and> n \<le> 1008 then 1024
      else if 1793 \<le> n \<and> n \<le> 2032 then 2048
      else n)"

lemma target_size_cases:
  "target_size n =
     (if n \<le> 240 then 256 else if n \<le> 496 then 512 else if n \<le> 1008 then 1024
      else if n \<le> 2032 then 2048 else n)"
  by (simp add: target_size_def block_sizes_def)

lemma length_padding:
  assumes "\<And>k. length (rnd k) = k" and "1 \<le> n"
  shows "n + length (padding rnd n) = wire_size n"
  using assms by (auto simp: padding_def target_size_cases wire_size_def Let_def)

text \<open>
  C34: a created packet of \<open>n\<close> bytes before padding has exactly \<open>wire_size n\<close> bytes on the wire:
  256, 512, 1024 or 2048 for the sizes up to 240, 257 to 496, 769 to 1008 and 1793 to 2032, and
  \<open>n\<close> itself, so no padding at all, for every other size.
\<close>

theorem created_packet_size:
  assumes "fromhex sender = Inr sb" and "ts < 2 ^ 64" and "length payload < 2 ^ 16"
    and "recipient_field recipient = Inr rb" and "\<forall>k. length (rnd k) = k"
  shows "\<exists>data.
    create_bitchat_packet_with_recipient ts rnd sender recipient t payload signature = Inr data \<and>
    length data = wire_size (base_size recipient t payload signature)"
proof -
  obtain pk where c: "create_bitchat_packet_with_recipient ts rnd sender recipient t payload
      signature = Inr (pk @ padding rnd (length pk))"
    and pk: "pk = [1, mt_value t, 7] @ be_bytes 8 ts @ [packet_flags recipient t signature] @
      be_bytes 2 (length payload) @ pad8 sb @
      (if packet_flags recipient t signature AND FLAG_HAS_RECIPIENT \<noteq> 0 then rb else []) @
      payload @ (case signature of Some s \<Rightarrow> s | None \<Rightarrow> [])"
    by (rule create_layout [OF assms(1-4)])
  have "length pk = base_size recipient t payload signature"
    using length_recipient_field [OF assms(4)] unfolding pk flag_values(2)
    by (auto simp: base_size_def split: option.split)
  moreover have "1 \<le> base_size recipient t payload signature" by (simp add: base_size_def)
  ultimately show ?thesis
    using c length_padding [of rnd "length pk"] assms(5) by auto
qed

theorem created_packet_size_witness:
  "\<exists>data.
    create_bitchat_packet_with_recipient 5 (\<lambda>n. replicate n 0) (hex [1, 2]) None MESSAGE
      (replicate 213 65) None = Inr data \<and> length data = 243"
  using created_packet_size [of "hex [1, 2]" "[1, 2]" 5 "replicate 213 65" None BROADCAST_RECIPIENT
      "\<lambda>n. replicate n 0" MESSAGE None]
  by (simp add: recipient_field_def base_size_def wire_size_def exclude_recipient_types_def)

lemma unpad_packet_padding:
  assumes "\<And>k. length (rnd k) = k" and "padding rnd n \<noteq> []"
  shows "unpad_packet (pk @ padding rnd n) = pk"
proof -
  let ?k = "target_size n - n"
  have k: "0 < ?k" "?k \<le> 255" and p: "padding rnd n = rnd (?k - 1) @ [word_of_nat ?k]"
    using assms(2) by (auto simp: padding_def Let_def split: if_splits)
  have "unat (word_of_nat ?k :: byte) = ?k" using k by (simp only: unat_byte) simp
  then show ?thesis using k assms(1) unfolding p by (simp add: unpad_packet_def Let_def)
qed

text \<open>
  The header check is one byte short. A packet of 21 bytes passes it although the header and
  a full sender field take 22: it is accepted with the seven sender bytes that are there.
\<close>

theorem short_packet_accepted:
  assumes "length s = 7" and "length ts = 8"
  shows "parse_bitchat_packet z ([1, mt_value t, ttl] @ ts @ [0, 0, 0] @ s) =
    Inr \<lparr>pkt_type = t, pkt_sender_id = rstrip0 s, pkt_sender_id_str = hex (rstrip0 s),
         pkt_recipient_id = None, pkt_recipient_id_str = None, pkt_payload = [],
         pkt_ttl = unat ttl\<rparr>"
  using assms
  by (simp add: parse_bitchat_packet_def Let_def py_nth_def nth_append slice_def unpack_H_def
      be_nat_def)

theorem short_packet_accepted_witness:
  "parse_bitchat_packet lz4_stored ([1, mt_value LEAVE, 3] @ replicate 8 0 @ [0, 0, 0] @ replicate 7 9) =
    Inr \<lparr>pkt_type = LEAVE, pkt_sender_id = replicate 7 9, pkt_sender_id_str = hex (replicate 7 9),
         pkt_recipient_id = None, pkt_recipient_id_str = None, pkt_payload = [], pkt_ttl = 3\<rparr>"
proof -
  have "rstrip0 (replicate 7 9) = replicate 7 9" by code_simp
  then show ?thesis
    using short_packet_accepted [of "replicate 7 9" "replicate 8 0" lz4_stored LEAVE 3] by simp
qed

end
