(* ===== verification/Interfaces.thy ===== *)
theory Interfaces
  imports Prelude
begin

text \<open>
  The contracts that several components offer, each as a locale with the facts that follow from it:
  a filter that lets a key through once (acknowledgments, message identifiers, discovered
  addresses), a table from which a key can be removed (sessions, handshakes, peers), operations that
  keep an invariant, and operations that touch the entry of one key only. The theories of the
  components interpret them on their own operations.
\<close>

subsection \<open>Letting each key through once\<close>

text \<open>The requests that \<open>admit\<close> grants, in order, over a sequence of requests.\<close>

fun grants :: "('k \<Rightarrow> 's \<Rightarrow> bool \<times> 's) \<Rightarrow> 's \<Rightarrow> 'k list \<Rightarrow> 'k list" where
  "grants admit s [] = []"
| "grants admit s (k # ks) =
     (let (ok, s') = admit k s in if ok then k # grants admit s' ks else grants admit s' ks)"

locale once_filter =
  fixes seen :: "'s \<Rightarrow> 'k \<Rightarrow> bool"
    and admit :: "'k \<Rightarrow> 's \<Rightarrow> bool \<times> 's"
  assumes admit_new: "fst (admit k s) \<longleftrightarrow> \<not> seen s k"
    and admit_seen: "seen (snd (admit k s)) j \<longleftrightarrow> seen s j \<or> j = k"
begin

lemma set_grants: "set (grants admit s ks) = {k \<in> set ks. \<not> seen s k}"
proof (induction ks arbitrary: s)
  case (Cons k ks)
  then show ?case
    using admit_new [of k s] admit_seen [of k s] by (cases "admit k s") auto
qed simp

lemma distinct_grants: "distinct (grants admit s ks)"
proof (induction ks arbitrary: s)
  case (Cons k ks)
  then show ?case
    using admit_seen [of k s k] set_grants by (cases "admit k s") auto
qed simp

lemma seen_after: "seen (fold (\<lambda>k s. snd (admit k s)) ks s) j \<longleftrightarrow> seen s j \<or> j \<in> set ks"
  by (induction ks arbitrary: s) (auto simp: admit_seen)

end

subsection \<open>Removing keys from a table\<close>

locale removal =
  fixes lookup :: "'s \<Rightarrow> 'k \<Rightarrow> 'v option"
    and remove :: "'k \<Rightarrow> 's \<Rightarrow> 's"
  assumes lookup_remove: "lookup (remove k s) j = (if j = k then None else lookup s j)"
begin

lemma lookup_remove_all:
  "lookup (fold remove ks s) j = (if j \<in> set ks then None else lookup s j)"
  by (induction ks arbitrary: s) (auto simp: lookup_remove)

lemma lookup_remove_twice: "lookup (remove k (remove k s)) = lookup (remove k s)"
  by (auto simp: lookup_remove)

end

subsection \<open>Keeping an invariant over a sequence of operations\<close>

locale keeps =
  fixes inv :: "'s \<Rightarrow> bool"
    and step :: "'e \<Rightarrow> 's \<Rightarrow> 's"
  assumes step_keeps: "inv s \<Longrightarrow> inv (step e s)"
begin

lemma run_keeps: "inv s \<Longrightarrow> inv (fold step es s)"
  by (induction es arbitrary: s) (auto simp: step_keeps)

end

subsection \<open>Touching the entry of one key only\<close>

locale keyed =
  fixes view :: "'s \<Rightarrow> 'k \<Rightarrow> 'v"
    and key :: "'e \<Rightarrow> 'k"
    and step :: "'e \<Rightarrow> 's \<Rightarrow> 's"
  assumes frame: "k \<noteq> key e \<Longrightarrow> view (step e s) k = view s k"
begin

lemma run_frame: "\<forall>e\<in>set es. key e \<noteq> k \<Longrightarrow> view (fold step es s) k = view s k"
  by (induction es arbitrary: s) (auto simp: frame)

end

end
