(* ===== verification/Message.thy ===== *)
theory Message
  imports Packet Interfaces
begin

text \<open>
  The message half of \<^verbatim>\<open>bitchat/protocol.py\<close>: \<open>BitchatMessage\<close>, the payload flags,
  \<open>parse_bitchat_message_payload\<close>, \<open>create_bitchat_message_payload_full\<close>,
  \<open>should_send_ack\<close>, and the \<open>DeliveryTracker\<close> with its acknowledgments. The time stamp and
  the fresh UUID are arguments.
\<close>

subsection \<open>Payload format\<close>

definition MSG_FLAG_IS_PRIVATE :: byte where "MSG_FLAG_IS_PRIVATE = 0x02"
definition MSG_FLAG_HAS_SENDER_PEER_ID :: byte where "MSG_FLAG_HAS_SENDER_PEER_ID = 0x10"
definition MSG_FLAG_HAS_CHANNEL :: byte where "MSG_FLAG_HAS_CHANNEL = 0x40"
definition MSG_FLAG_IS_ENCRYPTED :: byte where "MSG_FLAG_IS_ENCRYPTED = 0x80"

record message =
  msg_id :: pystr
  msg_content :: pystr
  msg_channel :: "pystr option"
  msg_is_encrypted :: bool
  msg_encrypted_content :: "bytes option"

text \<open>A field behind a one-byte length, read at an offset, with the offset after it.\<close>

definition read_len8 :: "bytes \<Rightarrow> nat \<Rightarrow> (bytes \<times> nat) res" where
  "read_len8 data offset =
     bindE (py_nth data offset) (\<lambda>n.
     Inr (slice (offset + 1) (offset + 1 + unat n) data, offset + 1 + unat n))"

definition parse_bitchat_message_payload :: "bytes \<Rightarrow> message res" where
  "parse_bitchat_message_payload data =
     bindE (py_nth data 0) (\<lambda>flags.
     let has_sender_peer_id = flags AND MSG_FLAG_HAS_SENDER_PEER_ID \<noteq> 0;
         has_channel = flags AND MSG_FLAG_HAS_CHANNEL \<noteq> 0;
         is_encrypted = flags AND MSG_FLAG_IS_ENCRYPTED \<noteq> 0
     in
     bindE (read_len8 data 9) (\<lambda>(id_bytes, offset).
     bindE (utf8_decode id_bytes) (\<lambda>id_str.
     bindE (read_len8 data offset) (\<lambda>(sender_bytes, offset).
     bindE (utf8_decode sender_bytes) (\<lambda>sender.
     bindE (unpack_H (slice offset (offset + 2) data)) (\<lambda>content_len.
     let content_bytes = slice (offset + 2) (offset + 2 + content_len) data;
         offset = offset + 2 + content_len
     in
     bindE (if has_sender_peer_id
            then bindE (py_nth data offset) (\<lambda>n. Inr (offset + 1 + unat n))
            else Inr offset) (\<lambda>offset.
     bindE (if has_channel
            then bindE (read_len8 data offset) (\<lambda>(channel_bytes, _).
                 bindE (utf8_decode channel_bytes) (\<lambda>c. Inr (Some c)))
            else Inr None) (\<lambda>channel.
     Inr \<lparr>msg_id = id_str,
          msg_content = (if is_encrypted then [] else utf8_decode_ignore content_bytes),
          msg_channel = channel, msg_is_encrypted = is_encrypted,
          msg_encrypted_content = (if is_encrypted then Some content_bytes else None)\<rparr>))))))))"

definition message_flags :: "bool \<Rightarrow> pystr \<Rightarrow> pystr option \<Rightarrow> bool \<Rightarrow> byte" where
  "message_flags is_private sender_peer_id channel is_encrypted =
     (if is_private then MSG_FLAG_IS_PRIVATE else 0) OR
     (if sender_peer_id \<noteq> [] then MSG_FLAG_HAS_SENDER_PEER_ID else 0) OR
     (if channel \<noteq> None \<and> channel \<noteq> Some [] then MSG_FLAG_HAS_CHANNEL else 0) OR
     (if is_encrypted then MSG_FLAG_IS_ENCRYPTED else 0)"

definition write_len8 :: "bytes \<Rightarrow> bytes res" where
  "write_len8 bs = bindE (byte_of (length bs)) (\<lambda>n. Inr (n # bs))"

definition write_text8 :: "pystr \<Rightarrow> bytes res" where
  "write_text8 s = bindE (utf8_encode s) write_len8"

text \<open>The body of the content field: the ciphertext if there is one, else the UTF-8 text.\<close>

definition content_field :: "pystr \<Rightarrow> bool \<Rightarrow> bytes option \<Rightarrow> bytes res" where
  "content_field content is_encrypted encrypted_content =
     (case encrypted_content of
        Some (b # bs) \<Rightarrow> if is_encrypted then Inr (b # bs) else utf8_encode content
      | _ \<Rightarrow> utf8_encode content)"

definition create_bitchat_message_payload_full ::
  "nat \<Rightarrow> pystr \<Rightarrow> pystr \<Rightarrow> pystr \<Rightarrow> pystr option \<Rightarrow> bool \<Rightarrow> pystr \<Rightarrow> bool \<Rightarrow> bytes option
     \<Rightarrow> (bytes \<times> pystr) res" where
  "create_bitchat_message_payload_full ts message_id sender content channel is_private
     sender_peer_id is_encrypted encrypted_content =
     bindE (pack_Q ts) (\<lambda>timestamp.
     bindE (write_text8 message_id) (\<lambda>id_field.
     bindE (write_text8 sender) (\<lambda>sender_field.
     bindE (content_field content is_encrypted encrypted_content) (\<lambda>payload_bytes.
     bindE (pack_H (length payload_bytes)) (\<lambda>payload_len.
     bindE (if sender_peer_id \<noteq> [] then write_text8 sender_peer_id else Inr []) (\<lambda>peer_field.
     bindE (case channel of Some (c # cs) \<Rightarrow> write_text8 (c # cs) | _ \<Rightarrow> Inr [])
       (\<lambda>channel_field.
     Inr ([message_flags is_private sender_peer_id channel is_encrypted] @ timestamp @ id_field @
          sender_field @ payload_len @ payload_bytes @ peer_field @ channel_field,
          message_id))))))))"

subsection \<open>Acknowledgments\<close>

definition should_send_ack ::
  "bool \<Rightarrow> pystr option \<Rightarrow> pystr list option \<Rightarrow> pystr \<Rightarrow> nat \<Rightarrow> bool" where
  "should_send_ack is_private channel mentions my_nickname active_peer_count =
     (if is_private then True
      else if channel \<noteq> None \<and> channel \<noteq> Some [] then
        if active_peer_count < 10 then True
        else (case mentions of Some ms \<Rightarrow> ms \<noteq> [] \<and> my_nickname \<in> set ms | None \<Rightarrow> False)
      else False)"

record delivery_ack =
  ack_original_message_id :: pystr
  ack_id :: pystr
  ack_recipient_id :: pystr
  ack_recipient_nickname :: pystr
  ack_timestamp :: int
  ack_hop_count :: int

text \<open>\<open>DeliveryTracker\<close>: messages waiting for an acknowledgment, and acknowledgments sent.\<close>

record delivery_tracker =
  pending_messages :: "(pystr, pystr \<times> time \<times> bool) dict"
  sent_acks :: "pystr set"

definition tracker_init :: delivery_tracker where
  "tracker_init = \<lparr>pending_messages = [], sent_acks = {}\<rparr>"

definition track_message ::
  "time \<Rightarrow> pystr \<Rightarrow> pystr \<Rightarrow> bool \<Rightarrow> delivery_tracker \<Rightarrow> delivery_tracker" where
  "track_message now message_id content is_private t =
     t\<lparr>pending_messages := dict_set (pending_messages t) message_id (content, now, is_private)\<rparr>"

definition mark_delivered :: "pystr \<Rightarrow> delivery_tracker \<Rightarrow> bool \<times> delivery_tracker" where
  "mark_delivered message_id t =
     (has_key (pending_messages t) message_id,
      t\<lparr>pending_messages := dict_del (pending_messages t) message_id\<rparr>)"

definition tracker_should_send_ack ::
  "pystr \<Rightarrow> delivery_tracker \<Rightarrow> bool \<times> delivery_tracker" where
  "tracker_should_send_ack a t =
     (if a \<in> sent_acks t then (False, t)
      else (True, t\<lparr>sent_acks := insert a (sent_acks t)\<rparr>))"

subsection \<open>Reading back what was written\<close>

lemma message_flag_values:
  "message_flags pr sp ch en AND MSG_FLAG_HAS_SENDER_PEER_ID \<noteq> 0 \<longleftrightarrow> sp \<noteq> []"
  "message_flags pr sp ch en AND MSG_FLAG_HAS_CHANNEL \<noteq> 0 \<longleftrightarrow> ch \<noteq> None \<and> ch \<noteq> Some []"
  "message_flags pr sp ch en AND MSG_FLAG_IS_ENCRYPTED \<noteq> 0 \<longleftrightarrow> en"
  by (simp_all add: message_flags_def MSG_FLAG_IS_PRIVATE_def MSG_FLAG_HAS_SENDER_PEER_ID_def
      MSG_FLAG_HAS_CHANNEL_def MSG_FLAG_IS_ENCRYPTED_def)

lemma write_text8_Inr:
  "write_text8 s = Inr f \<longleftrightarrow>
     (\<exists>bs. utf8_encode s = Inr bs \<and> length bs < 256 \<and> f = word_of_nat (length bs) # bs)"
  by (auto simp: write_text8_def write_len8_def byte_of_def bindE_eq_Inr)

lemma read_len8_at [wire_simps]:
  assumes "length bs < 256" and "a = length pre"
  shows "read_len8 (pre @ word_of_nat (length bs) # bs @ post) a = Inr (bs, a + 1 + length bs)"
  using assms by (simp add: read_len8_def py_nth_at slice_def)

text \<open>A text field is read back, whatever stands before and after it.\<close>

lemma read_write_text8:
  assumes "write_text8 s = Inr f"
  shows "\<exists>bs. utf8_decode bs = Inr s \<and>
    (\<forall>pre post. read_len8 (pre @ f @ post) (length pre) = Inr (bs, length pre + length f))"
proof -
  from assms obtain bs where bs: "utf8_encode s = Inr bs" "length bs < 256"
    "f = word_of_nat (length bs) # bs" by (auto simp: write_text8_Inr)
  have "read_len8 (pre @ f @ post) (length pre) = Inr (bs, length pre + length f)" for pre post
    using bs read_len8_at [of bs "length pre" pre post] by simp
  moreover have "utf8_decode bs = Inr s" using bs(1) by (rule utf8_decode_encode)
  ultimately show ?thesis by blast
qed

lemma content_field_plain:
  "content_field c en ec = Inr bs \<Longrightarrow> \<not> en \<Longrightarrow> utf8_decode_ignore bs = c"
  by (auto simp: content_field_def split: option.splits list.splits intro: utf8_decode_ignore_encode)

text \<open>The peer field is skipped and the channel field decoded, when the flags announce them.\<close>

lemma skip_peer_field:
  assumes "(if sp \<noteq> [] then write_text8 sp else Inr []) = Inr f"
    and "data = pre @ f @ post" and "a = length pre"
  shows "(if sp \<noteq> [] then bindE (py_nth data a) (\<lambda>n. Inr (a + 1 + unat n)) else Inr a) =
    Inr (a + length f)"
  using assms by (auto simp: write_text8_Inr py_nth_at)

lemma read_channel_field:
  assumes "(case ch of Some (c # cs) \<Rightarrow> write_text8 (c # cs) | _ \<Rightarrow> Inr []) = Inr f"
    and "data = pre @ f" and "a = length pre"
  shows "(if ch \<noteq> None \<and> ch \<noteq> Some []
      then bindE (read_len8 data a) (\<lambda>(bs, _). bindE (utf8_decode bs) (\<lambda>c. Inr (Some c)))
      else Inr None) = Inr (if ch = Some [] then None else ch)"
proof (cases "ch = None \<or> ch = Some []")
  case False
  then obtain c where c: "ch = Some c" "c \<noteq> []" by auto
  with assms have "write_text8 c = Inr f" by (cases c) auto
  then obtain bs where bs: "utf8_decode bs = Inr c"
    "\<And>pre post. read_len8 (pre @ f @ post) (length pre) = Inr (bs, length pre + length f)"
    using read_write_text8 by blast
  from bs(1) bs(2) [of pre "[]"] c assms(2,3) show ?thesis by simp
qed auto

lemma payload_read_back:
  assumes "create_bitchat_message_payload_full ts mid sender content channel is_private
      sender_peer_id is_encrypted encrypted_content = Inr (data, mid')"
  shows "mid' = mid \<and>
    (\<exists>body. content_field content is_encrypted encrypted_content = Inr body \<and>
      parse_bitchat_message_payload data =
        Inr \<lparr>msg_id = mid, msg_content = (if is_encrypted then [] else content),
             msg_channel = (if channel = Some [] then None else channel),
             msg_is_encrypted = is_encrypted,
             msg_encrypted_content = (if is_encrypted then Some body else None)\<rparr>)"
proof -
  let ?flags = "message_flags is_private sender_peer_id channel is_encrypted"
  obtain t f1 f2 body lb f3 f4 where
    f: "pack_Q ts = Inr t" "write_text8 mid = Inr f1" "write_text8 sender = Inr f2"
      "content_field content is_encrypted encrypted_content = Inr body"
      "pack_H (length body) = Inr lb"
      "(if sender_peer_id \<noteq> [] then write_text8 sender_peer_id else Inr []) = Inr f3"
      "(case channel of Some (c # cs) \<Rightarrow> write_text8 (c # cs) | _ \<Rightarrow> Inr []) = Inr f4"
    and m: "mid' = mid"
    and data: "data = [?flags] @ t @ f1 @ f2 @ lb @ body @ f3 @ f4"
    using assms unfolding create_bitchat_message_payload_full_def bindE_eq_Inr by blast
  obtain b1 where b1: "utf8_decode b1 = Inr mid"
    "\<And>pre post. read_len8 (pre @ f1 @ post) (length pre) = Inr (b1, length pre + length f1)"
    using read_write_text8 [OF f(2)] by blast
  obtain b2 where b2: "utf8_decode b2 = Inr sender"
    "\<And>pre post. read_len8 (pre @ f2 @ post) (length pre) = Inr (b2, length pre + length f2)"
    using read_write_text8 [OF f(3)] by blast
  have t8: "length t = 8" and lb2: "length lb = 2" and lb: "unpack_H lb = Inr (length body)"
    using f(1,5) by (auto intro: length_pack_Q length_pack_H unpack_pack_H)
  define o2 where "o2 = 9 + length f1"
  define o3 where "o3 = o2 + length f2"
  define o4 where "o4 = o3 + 2 + length body"
  have 0: "py_nth data 0 = Inr ?flags" by (simp add: data py_nth_def)
  have 1: "read_len8 data 9 = Inr (b1, o2)"
    using b1(2) [of "[?flags] @ t" "f2 @ lb @ body @ f3 @ f4"] by (simp add: data t8 o2_def)
  have 2: "read_len8 data o2 = Inr (b2, o3)"
    using b2(2) [of "[?flags] @ t @ f1" "lb @ body @ f3 @ f4"]
    by (simp add: data t8 o2_def o3_def)
  have 3: "slice o3 (o3 + 2) data = lb" "slice (o3 + 2) o4 data = body"
    using slice_at [of o3 "[?flags] @ t @ f1 @ f2" "o3 + 2" lb "body @ f3 @ f4"]
      slice_at [of "o3 + 2" "[?flags] @ t @ f1 @ f2 @ lb" "o3 + 2 + length body" body "f3 @ f4"]
    by (simp_all add: data t8 lb2 o2_def o3_def o4_def)
  have 4: "(if sender_peer_id \<noteq> [] then bindE (py_nth data o4) (\<lambda>n. Inr (o4 + 1 + unat n))
      else Inr o4) = Inr (o4 + length f3)"
    by (rule skip_peer_field [OF f(6), of _ "[?flags] @ t @ f1 @ f2 @ lb @ body" f4])
      (simp_all add: data t8 lb2 o2_def o3_def o4_def)
  have 5: "(if channel \<noteq> None \<and> channel \<noteq> Some []
      then bindE (read_len8 data (o4 + length f3))
        (\<lambda>(bs, _). bindE (utf8_decode bs) (\<lambda>c. Inr (Some c)))
      else Inr None) = Inr (if channel = Some [] then None else channel)"
    by (rule read_channel_field [OF f(7), of _ "[?flags] @ t @ f1 @ f2 @ lb @ body @ f3"])
      (simp_all add: data t8 lb2 o2_def o3_def o4_def)
  have "parse_bitchat_message_payload data =
    Inr \<lparr>msg_id = mid, msg_content = (if is_encrypted then [] else content),
      msg_channel = (if channel = Some [] then None else channel), msg_is_encrypted = is_encrypted,
      msg_encrypted_content = (if is_encrypted then Some body else None)\<rparr>"
    unfolding parse_bitchat_message_payload_def Let_def 0 bindE_simps message_flag_values
      1 case_prod_conv b1(1) 2 b2(1) 3(1) lb o4_def [symmetric] 3(2) 4 5
    using content_field_plain [OF f(4)] by simp
  with m f(4) show ?thesis by blast
qed

text \<open>
  C32: \<open>parse_bitchat_message_payload\<close> reads back every payload that
  \<open>create_bitchat_message_payload_full\<close> writes: the fresh identifier, the channel (an empty
  channel name counts as none), and either the text itself or, for an encrypted message, the bytes
  of the content field.
\<close>

theorem message_payload_roundtrip:
  assumes "create_bitchat_message_payload_full ts mid sender content channel is_private
      sender_peer_id is_encrypted encrypted_content = Inr (data, mid')"
  shows "mid' = mid \<and>
    (\<exists>body. content_field content is_encrypted encrypted_content = Inr body \<and>
      parse_bitchat_message_payload data =
        Inr \<lparr>msg_id = mid, msg_content = (if is_encrypted then [] else content),
             msg_channel = (if channel = Some [] then None else channel),
             msg_is_encrypted = is_encrypted,
             msg_encrypted_content = (if is_encrypted then Some body else None)\<rparr>)"
  using assms by (rule payload_read_back)

theorem message_payload_roundtrip_witness:
  "\<exists>data. create_bitchat_message_payload_full 5 (lit ''id-1'') (lit ''bob'') (lit ''hi'')
      (Some (lit ''#room'')) False (lit ''0102'') False None = Inr (data, lit ''id-1'') \<and>
    parse_bitchat_message_payload data =
      Inr \<lparr>msg_id = lit ''id-1'', msg_content = lit ''hi'', msg_channel = Some (lit ''#room''),
           msg_is_encrypted = False, msg_encrypted_content = None\<rparr>"
proof -
  let ?c = "create_bitchat_message_payload_full 5 (lit ''id-1'') (lit ''bob'') (lit ''hi'')
      (Some (lit ''#room'')) False (lit ''0102'') False None"
  have c: "?c = Inr (fst (projr ?c), lit ''id-1'')"
    by (simp add: create_bitchat_message_payload_full_def pack_Q_def pack_H_def write_text8_def
        write_len8_def byte_of_def content_field_def lit_def utf8_enc1_def)
  have "lit ''#room'' \<noteq> []" by (simp add: lit_def)
  with c message_payload_roundtrip [OF c] show ?thesis by auto
qed

text \<open>
  \<open>create_bitchat_message_payload_full\<close> fails exactly when a text is not encodable or a
  length does not fit its field: identifier, sender, peer identifier and channel have one length
  byte, the content two.
\<close>

theorem message_payload_created_iff:
  "(\<exists>p. create_bitchat_message_payload_full ts mid sender content channel is_private sender_peer_id
      is_encrypted encrypted_content = Inr p) \<longleftrightarrow>
    ts < 2 ^ 64 \<and>
    (\<exists>f. write_text8 mid = Inr f) \<and> (\<exists>f. write_text8 sender = Inr f) \<and>
    (\<exists>body. content_field content is_encrypted encrypted_content = Inr body \<and> length body < 2 ^ 16) \<and>
    (sender_peer_id = [] \<or> (\<exists>f. write_text8 sender_peer_id = Inr f)) \<and>
    (channel = None \<or> channel = Some [] \<or> (\<exists>f. write_text8 (the channel) = Inr f))"
proof -
  have H: "(\<exists>x. pack_H n = Inr x) \<longleftrightarrow> n < 2 ^ 16" "(\<exists>x. pack_Q n = Inr x) \<longleftrightarrow> n < 2 ^ 64" for n
    by (simp_all add: pack_H_def pack_Q_def)
  have ch: "(\<exists>x. (case channel of Some (c # cs) \<Rightarrow> write_text8 (c # cs) | _ \<Rightarrow> Inr []) = Inr x) \<longleftrightarrow>
      channel = None \<or> channel = Some [] \<or> (\<exists>f. write_text8 (the channel) = Inr f)"
    by (auto split: option.split list.split)
  have sp: "(\<exists>x. (if sender_peer_id \<noteq> [] then write_text8 sender_peer_id else Inr []) = Inr x) \<longleftrightarrow>
      sender_peer_id = [] \<or> (\<exists>f. write_text8 sender_peer_id = Inr f)"
    by auto
  show ?thesis
    unfolding create_bitchat_message_payload_full_def ex_bindE H [symmetric] ch [symmetric]
      sp [symmetric]
    by blast
qed

subsection \<open>The delivery tracker\<close>

interpretation acks: once_filter "\<lambda>t a. a \<in> sent_acks t" tracker_should_send_ack
  by unfold_locales (auto simp: tracker_should_send_ack_def)

text \<open>
  Over any sequence of requests, the tracker grants an acknowledgment exactly for the
  identifiers it has not granted before, and for each of them once.
\<close>

theorem acks_granted_once:
  "distinct (grants tracker_should_send_ack t ids) \<and>
   set (grants tracker_should_send_ack t ids) = {a \<in> set ids. a \<notin> sent_acks t}"
  using acks.distinct_grants acks.set_grants by blast

interpretation pending: removal "\<lambda>t. dict_get (pending_messages t)" "\<lambda>m t. snd (mark_delivered m t)"
  by unfold_locales (simp add: mark_delivered_def)

lemma mark_delivered_tracked:
  "fst (mark_delivered m (track_message now m c pr t))"
  "\<not> fst (mark_delivered m (snd (mark_delivered m t)))"
  by (simp_all add: mark_delivered_def track_message_def)

lemma mark_delivered_other:
  "m' \<noteq> m \<Longrightarrow> fst (mark_delivered m' (snd (mark_delivered m t))) = fst (mark_delivered m' t)"
  by (simp add: mark_delivered_def)

end
