(* ===== verification/Identity.thy ===== *)
theory Identity
  imports Message "HOL-Library.Log_Nat"
begin

text \<open>
  The identity announcements of \<^verbatim>\<open>bitchat/protocol.py\<close>:
  \<open>parse_noise_identity_announcement_binary\<close> and
  \<open>encode_noise_identity_announcement_binary\<close>. The parser returns \<open>None\<close> where a length
  check fails and also where its body raises, because it catches every exception; the only
  call in it that can raise is the decoding of the nickname. The time stamp it returns is a quotient
  of doubles.
\<close>

subsection \<open>Doubles\<close>

text \<open>
  The double nearest to a number, ties to even: the multiple of \<open>2 powi e\<close>, where the number has 53
  binary digits before the point when divided by \<open>2 powi e\<close>. Neither overflow nor subnormal numbers
  are considered: milliseconds in eight bytes and their thousandths are far from both.
\<close>

definition round_even :: "rat \<Rightarrow> int" where
  "round_even x =
     (let f = \<lfloor>x\<rfloor>; r = x - of_int f in if r < 1 / 2 \<or> (r = 1 / 2 \<and> even f) then f else f + 1)"

definition double_exponent :: "rat \<Rightarrow> int" where
  "double_exponent x =
     (case quotient_of x of (p, q) \<Rightarrow>
        let e = bitlen \<bar>p\<bar> - bitlen q - 53 in if \<bar>x\<bar> < 2 powi (e + 53) then e else e + 1)"

definition double :: "rat \<Rightarrow> rat" where
  "double x =
     (if x = 0 then 0 else of_int (round_even (x / 2 powi double_exponent x)) * 2 powi double_exponent x)"

subsection \<open>Parsing\<close>

record announcement =
  ann_peerID :: pystr
  ann_publicKey :: pystr
  ann_signingPublicKey :: pystr
  ann_nickname :: pystr
  ann_timestamp :: rat
  ann_signature :: pystr
  ann_previousPeerID :: "pystr option"
  ann_truncated :: bool

text \<open>The two guarded reads: a byte, and a run of \<open>n\<close> bytes, each with the offset after it.\<close>

definition rd_byte :: "bytes \<Rightarrow> nat \<Rightarrow> (nat \<times> nat) option" where
  "rd_byte data offset =
     (if length data \<le> offset then None else Some (unat (data ! offset), offset + 1))"

definition rd_bytes :: "nat \<Rightarrow> bytes \<Rightarrow> nat \<Rightarrow> (bytes \<times> nat) option" where
  "rd_bytes n data offset =
     (if length data < offset + n then None else Some (slice offset (offset + n) data, offset + n))"

definition rd_len8 :: "bytes \<Rightarrow> nat \<Rightarrow> (bytes \<times> nat) option" where
  "rd_len8 data offset = Option.bind (rd_byte data offset) (\<lambda>(n, offset). rd_bytes n data offset)"

definition rd_nickname :: "bytes \<Rightarrow> nat \<Rightarrow> (pystr \<times> nat) option" where
  "rd_nickname data offset =
     Option.bind (rd_byte data offset) (\<lambda>(n, offset).
     if 0 < n
     then Option.bind (rd_bytes n data offset) (\<lambda>(bs, offset).
            (case utf8_decode bs of Inr s \<Rightarrow> Some (s, offset) | Inl _ \<Rightarrow> None))
     else Some ([], offset))"

definition parse_identity_fields :: "bytes \<Rightarrow> (announcement \<times> nat) option" where
  "parse_identity_fields data =
     Option.bind (rd_byte data 0) (\<lambda>(flags, offset).
     let has_previous_peer_id = odd flags in
     Option.bind (rd_bytes 8 data offset) (\<lambda>(peer_id, offset).
     Option.bind (rd_len8 data offset) (\<lambda>(public_key, offset).
     Option.bind (rd_len8 data offset) (\<lambda>(signing_public_key, offset).
     Option.bind (rd_nickname data offset) (\<lambda>(nickname, offset).
     Option.bind (rd_bytes 8 data offset) (\<lambda>(timestamp_ms, offset).
     Option.bind (if has_previous_peer_id
                  then map_option (\<lambda>(bs, offset). (Some (hex bs), offset)) (rd_bytes 8 data offset)
                  else Some (None, offset)) (\<lambda>(previous_peer_id, offset).
     Option.bind (rd_len8 data offset) (\<lambda>(signature, offset).
     Some (\<lparr>ann_peerID = hex peer_id, ann_publicKey = hex public_key,
            ann_signingPublicKey = hex signing_public_key, ann_nickname = nickname,
            ann_timestamp = double (double (of_nat (be_nat timestamp_ms)) / 1000), ann_signature = hex signature,
            ann_previousPeerID = previous_peer_id, ann_truncated = False\<rparr>, offset)))))))))"

definition parse_noise_identity_announcement_binary :: "bytes \<Rightarrow> announcement option" where
  "parse_noise_identity_announcement_binary data = map_option fst (parse_identity_fields data)"

subsection \<open>Encoding\<close>

text \<open>\<open>s.ljust(16, '0')[:16]\<close>\<close>

definition ljust16 :: "pystr \<Rightarrow> pystr" where
  "ljust16 s = take 16 (s @ replicate (16 - length s) 48)"

definition encode_noise_identity_announcement_binary ::
  "pystr \<Rightarrow> bytes \<Rightarrow> bytes \<Rightarrow> pystr \<Rightarrow> int \<Rightarrow> bytes \<Rightarrow> pystr option \<Rightarrow> bytes res" where
  "encode_noise_identity_announcement_binary peer_id public_key signing_public_key nickname
     timestamp signature previous_peer_id =
     (let previous = (case previous_peer_id of Some [] \<Rightarrow> None | p \<Rightarrow> p);
          timestamp_ms = timestamp * 1000
      in
      bindE (fromhex (ljust16 peer_id)) (\<lambda>peer_data.
      bindE (write_len8 public_key) (\<lambda>public_field.
      bindE (write_len8 signing_public_key) (\<lambda>signing_field.
      bindE (write_text8 nickname) (\<lambda>nickname_field.
      bindE (case previous of Some p \<Rightarrow> fromhex (ljust16 p) | None \<Rightarrow> Inr []) (\<lambda>prev_data.
      bindE (write_len8 signature) (\<lambda>signature_field.
      Inr ([if previous \<noteq> None then 1 else 0] @ peer_data @ public_field @ signing_field @
           nickname_field @
           map (\<lambda>i. word_of_int (timestamp_ms div 2 ^ ((7 - i) * 8) mod 256)) [0..<8] @
           prev_data @ signature_field))))))))"

subsection \<open>What the guarded reads depend on\<close>

text \<open>
  A read that succeeds ends inside the data and is not changed by bytes that follow; the laws
  are closed under sequencing, so the whole parser inherits them.
\<close>

definition local_read :: "(bytes \<Rightarrow> nat \<Rightarrow> ('a \<times> nat) option) \<Rightarrow> bool" where
  "local_read r \<longleftrightarrow>
     (\<forall>data a x b. r data a = Some (x, b) \<longrightarrow> a \<le> length data \<longrightarrow>
        b \<le> length data \<and> (\<forall>ext. r (data @ ext) a = Some (x, b)))"

lemma local_readD:
  assumes "local_read r" and "r data a = Some (x, b)" and "a \<le> length data"
  shows "b \<le> length data" and "r (data @ ext) a = Some (x, b)"
  using assms by (auto simp: local_read_def)

named_theorems local_read_intros \<open>readers that look at no byte beyond their end\<close>

lemma local_read_byte [local_read_intros]: "local_read rd_byte"
  by (auto simp: local_read_def rd_byte_def nth_append split: if_splits)

lemma local_read_bytes [local_read_intros]: "local_read (rd_bytes n)"
  by (auto simp: local_read_def rd_bytes_def slice_append_take split: if_splits)

lemma local_read_return [local_read_intros]: "local_read (\<lambda>data a. Some (x, a))"
  by (auto simp: local_read_def)

lemma local_read_bind [local_read_intros]:
  assumes "local_read r" and "\<And>x. local_read (f x)"
  shows "local_read (\<lambda>data a. Option.bind (r data a) (\<lambda>(x, b). f x data b))"
  unfolding local_read_def
proof (intro allI impI)
  fix data a y c
  assume "Option.bind (r data a) (\<lambda>(x, b). f x data b) = Some (y, c)" and a: "a \<le> length data"
  then obtain x b where r: "r data a = Some (x, b)" and f: "f x data b = Some (y, c)"
    by (auto simp: Option.bind_eq_Some_conv)
  note b = local_readD [OF assms(1) r a]
  from b local_readD [OF assms(2) f b(1)]
  show "c \<le> length data \<and>
    (\<forall>ext. Option.bind (r (data @ ext) a) (\<lambda>(x, b). f x (data @ ext) b) = Some (y, c))"
    by simp
qed

lemma local_read_if [local_read_intros]:
  "local_read r \<Longrightarrow> local_read r' \<Longrightarrow> local_read (\<lambda>data a. if c then r data a else r' data a)"
  by (cases c) auto

lemma local_read_case [local_read_intros]:
  "local_read (\<lambda>data a. case m of Inr s \<Rightarrow> Some (s, a) | Inl _ \<Rightarrow> None)"
  by (auto simp: local_read_def split: sum.split)

lemma local_read_map [local_read_intros]:
  "local_read r \<Longrightarrow> local_read (\<lambda>data a. map_option (\<lambda>(x, b). (h x, b)) (r data a))"
  by (fastforce simp: local_read_def)

lemma local_read_len8 [local_read_intros]: "local_read rd_len8"
  unfolding rd_len8_def by (rule local_read_bind; rule local_read_intros)

lemma local_read_nickname [local_read_intros]: "local_read rd_nickname"
  unfolding rd_nickname_def by (intro local_read_intros)

lemma local_parse_identity:
  assumes "parse_identity_fields data = Some (an, b)"
  shows "b \<le> length data" and "parse_identity_fields (data @ ext) = Some (an, b)"
proof -
  have "local_read (\<lambda>data a. Option.bind (rd_byte data a) (\<lambda>(flags, offset).
     Option.bind (rd_bytes 8 data offset) (\<lambda>(peer_id, offset).
     Option.bind (rd_len8 data offset) (\<lambda>(public_key, offset).
     Option.bind (rd_len8 data offset) (\<lambda>(signing_public_key, offset).
     Option.bind (rd_nickname data offset) (\<lambda>(nickname, offset).
     Option.bind (rd_bytes 8 data offset) (\<lambda>(timestamp_ms, offset).
     Option.bind (if odd flags
                  then map_option (\<lambda>(bs, offset). (Some (hex bs), offset)) (rd_bytes 8 data offset)
                  else Some (None, offset)) (\<lambda>(previous_peer_id, offset).
     Option.bind (rd_len8 data offset) (\<lambda>(signature, offset).
     Some (\<lparr>ann_peerID = hex peer_id, ann_publicKey = hex public_key,
            ann_signingPublicKey = hex signing_public_key, ann_nickname = nickname,
            ann_timestamp = double (double (of_nat (be_nat timestamp_ms)) / 1000), ann_signature = hex signature,
            ann_previousPeerID = previous_peer_id, ann_truncated = False\<rparr>, offset))))))))))"
    by (intro local_read_intros)
  from local_readD(1) [OF this, of data 0 an b] local_readD(2) [OF this, of data 0 an b ext] assms
  show "b \<le> length data" and "parse_identity_fields (data @ ext) = Some (an, b)"
    unfolding parse_identity_fields_def Let_def by simp_all
qed

subsection \<open>Round trip\<close>

lemma be_bytes_shifts: "be_bytes k n = map (\<lambda>i. word_of_nat (n div 256 ^ (k - 1 - i))) [0..<k]"
proof (induction k arbitrary: n)
  case (Suc k)
  have "n div 256 div 256 ^ (k - 1 - i) = n div 256 ^ (k - i)" if "i < k" for i
  proof -
    from that have "k - i = Suc (k - 1 - i)" by simp
    then show ?thesis by (simp add: div_mult2_eq)
  qed
  with Suc show ?case by simp
qed simp

lemma byte_of_shift:
  assumes "0 \<le> t"
  shows "(word_of_int (t div 2 ^ k mod 256) :: byte) = word_of_nat (nat t div 2 ^ k)"
proof -
  have "(word_of_int (t div 2 ^ k mod 256) :: byte) = word_of_int (t div 2 ^ k)"
    by (rule word_uint_eqI) (simp add: uint_word_of_int)
  moreover have "t div 2 ^ k = int (nat t div 2 ^ k)"
    using assms by (simp add: zdiv_int)
  ultimately show ?thesis by (simp only: of_int_of_nat_eq)
qed

lemma timestamp_bytes:
  assumes "0 \<le> t"
  shows "map (\<lambda>i. word_of_int (t div 2 ^ ((7 - i) * 8) mod 256)) [0..<8] = be_bytes 8 (nat t)"
proof -
  have "(2 :: nat) ^ ((7 - i) * 8) = 256 ^ (8 - 1 - i)" for i
    using power_mult [of "2 :: nat" 8 "7 - i"] by (simp add: mult.commute)
  then show ?thesis
    unfolding be_bytes_shifts byte_of_shift [OF assms] by simp
qed

lemma rd_bytes_at:
  assumes "length bs = n" and "data = pre @ bs @ post" and "a = length pre" and "b = a + n"
  shows "rd_bytes n data a = Some (bs, b)"
  using assms by (auto simp: rd_bytes_def slice_at)

lemma rd_byte_at: "a = length pre \<Longrightarrow> rd_byte (pre @ b # post) a = Some (unat b, a + 1)"
  by (simp add: rd_byte_def)

lemma rd_len8_at:
  assumes "write_len8 bs = Inr f" and "data = pre @ f @ post" and "a = length pre"
  shows "rd_len8 data a = Some (bs, a + length f)"
proof -
  from assms(1) have f: "f = word_of_nat (length bs) # bs" and l: "length bs < 256"
    by (auto simp: write_len8_def byte_of_def split: if_splits)
  have "rd_byte data a = Some (length bs, a + 1)"
    using rd_byte_at [OF assms(3), of "word_of_nat (length bs)" "bs @ post"] l
    by (simp add: assms(2) f)
  moreover have "rd_bytes (length bs) data (a + 1) = Some (bs, a + 1 + length bs)"
    by (rule rd_bytes_at [OF refl, of _ "pre @ [word_of_nat (length bs)]"])
      (simp_all add: assms(2,3) f)
  ultimately show ?thesis by (simp add: rd_len8_def f)
qed

lemma rd_nickname_at:
  assumes "write_text8 s = Inr f" and "data = pre @ f @ post" and "a = length pre"
  shows "rd_nickname data a = Some (s, a + length f)"
proof -
  from assms(1) obtain bs where bs: "utf8_encode s = Inr bs" "length bs < 256"
    and f: "f = word_of_nat (length bs) # bs" by (auto simp: write_text8_Inr)
  have d: "utf8_decode bs = Inr s" using bs(1) by (rule utf8_decode_encode)
  have "rd_byte data a = Some (length bs, a + 1)"
    using rd_byte_at [OF assms(3), of "word_of_nat (length bs)" "bs @ post"] bs(2)
    by (simp add: assms(2) f)
  moreover have "rd_bytes (length bs) data (a + 1) = Some (bs, a + 1 + length bs)"
    by (rule rd_bytes_at [OF refl, of _ "pre @ [word_of_nat (length bs)]"])
      (simp_all add: assms(2,3) f)
  ultimately show ?thesis using d by (cases bs) (auto simp: rd_nickname_def f)
qed

lemma ljust16_hex: "length bs = 8 \<Longrightarrow> ljust16 (hex bs) = hex bs"
  by (simp add: ljust16_def)

text \<open>The optional field for the previous identifier, as it is written and read.\<close>

lemma rd_previous_at:
  assumes "\<forall>p. pv = Some p \<longrightarrow> length p = 8"
    and "data = pre @ (case pv of Some p \<Rightarrow> p | None \<Rightarrow> []) @ post" and "a = length pre"
  shows "(if pv \<noteq> None
      then map_option (\<lambda>(bs, offset). (Some (hex bs), offset)) (rd_bytes 8 data a)
      else Some (None, a)) =
    Some (map_option hex pv, a + length (case pv of Some p \<Rightarrow> p | None \<Rightarrow> []))"
  using assms(1,2) rd_bytes_at [of "the pv" 8 data pre post a "a + 8", OF _ _ assms(3)]
  by (cases pv) auto

lemma encode_identity_layout:
  assumes "length pid = 8" and "\<forall>p. previous = Some p \<longrightarrow> length p = 8"
    and "write_len8 pk = Inr f1" and "write_len8 spk = Inr f2" and "write_text8 nick = Inr f3"
    and "write_len8 sig = Inr f4" and "0 \<le> ts"
  shows "encode_noise_identity_announcement_binary (hex pid) pk spk nick ts sig
      (map_option hex previous) =
    Inr ([if previous \<noteq> None then 1 else 0] @ pid @ f1 @ f2 @ f3 @ be_bytes 8 (nat (ts * 1000)) @
         (case previous of Some p \<Rightarrow> p | None \<Rightarrow> []) @ f4)"
proof -
  have "(case map_option hex previous of Some [] \<Rightarrow> None | p \<Rightarrow> p) = map_option hex previous"
    using assms(2) by (cases previous) (auto split: list.split)
  moreover have "(case map_option hex previous of Some p \<Rightarrow> fromhex (ljust16 p) | None \<Rightarrow> Inr []) =
      Inr (case previous of Some p \<Rightarrow> p | None \<Rightarrow> [])"
    using assms(2) by (cases previous) (auto simp: ljust16_hex)
  ultimately show ?thesis
    using assms timestamp_bytes [of "ts * 1000"]
    by (simp add: encode_noise_identity_announcement_binary_def Let_def ljust16_hex
        del: upt_rec_numeral)
qed

lemma parse_identity_layout:
  assumes "length pid = 8" and "\<forall>p. previous = Some p \<longrightarrow> length p = 8"
    and "write_len8 pk = Inr f1" and "write_len8 spk = Inr f2" and "write_text8 nick = Inr f3"
    and "write_len8 sig = Inr f4" and "length tb = 8"
    and "data = [if previous \<noteq> None then 1 else 0] @ pid @ f1 @ f2 @ f3 @ tb @
         (case previous of Some p \<Rightarrow> p | None \<Rightarrow> []) @ f4"
  shows "parse_identity_fields data =
    Some (\<lparr>ann_peerID = hex pid, ann_publicKey = hex pk, ann_signingPublicKey = hex spk,
           ann_nickname = nick, ann_timestamp = double (double (of_nat (be_nat tb)) / 1000),
           ann_signature = hex sig, ann_previousPeerID = map_option hex previous,
           ann_truncated = False\<rparr>, length data)"
proof -
  let ?fl = "if previous \<noteq> None then 1 else 0 :: byte"
  let ?pv = "case previous of Some p \<Rightarrow> p | None \<Rightarrow> []"
  note d = assms(8)
  have 0: "rd_byte data 0 = Some (unat ?fl, 1)" by (simp add: d rd_byte_def)
  have 1: "rd_bytes 8 data 1 = Some (pid, 9)"
    by (rule rd_bytes_at [OF assms(1), of _ "[?fl]"]) (simp_all add: d)
  have 2: "rd_len8 data 9 = Some (pk, 9 + length f1)"
    by (rule rd_len8_at [OF assms(3), of _ "[?fl] @ pid"]) (simp_all add: d assms(1))
  have 3: "rd_len8 data (9 + length f1) = Some (spk, 9 + length f1 + length f2)"
    by (rule rd_len8_at [OF assms(4), of _ "[?fl] @ pid @ f1"]) (simp_all add: d assms(1))
  have 4: "rd_nickname data (9 + length f1 + length f2) =
      Some (nick, 9 + length f1 + length f2 + length f3)"
    by (rule rd_nickname_at [OF assms(5), of _ "[?fl] @ pid @ f1 @ f2"]) (simp_all add: d assms(1))
  define o5 where "o5 = 9 + length f1 + length f2 + length f3"
  have 5: "rd_bytes 8 data o5 = Some (tb, o5 + 8)"
    by (rule rd_bytes_at [OF assms(7), of _ "[?fl] @ pid @ f1 @ f2 @ f3"])
      (simp_all add: d o5_def assms(1))
  have 6: "(if previous \<noteq> None
      then map_option (\<lambda>(bs, offset). (Some (hex bs), offset)) (rd_bytes 8 data (o5 + 8))
      else Some (None, o5 + 8)) = Some (map_option hex previous, o5 + 8 + length ?pv)"
    by (rule rd_previous_at [OF assms(2), of _ "[?fl] @ pid @ f1 @ f2 @ f3 @ tb"])
      (simp_all add: d o5_def assms(1,7))
  have 7: "rd_len8 data (o5 + 8 + length ?pv) = Some (sig, o5 + 8 + length ?pv + length f4)"
    by (rule rd_len8_at [OF assms(6), of _ "[?fl] @ pid @ f1 @ f2 @ f3 @ tb @ ?pv" "[]"])
      (simp_all add: d o5_def assms(1,7))
  have l: "o5 + 8 + length ?pv + length f4 = length data"
    by (simp add: d o5_def assms(1,7))
  have fl: "odd (unat ?fl) = (previous \<noteq> None)" by simp
  show ?thesis
    unfolding parse_identity_fields_def Let_def 0 Option.bind.bind_lunit case_prod_conv 1 2 3 4
      o5_def [symmetric] 5 fl 6 7 l ..
qed

text \<open>Integers below \<open>2 ^ 53\<close> are doubles.\<close>

lemma round_even_int [simp]: "round_even (of_int k) = k"
  by (simp add: round_even_def)

lemma double_exact:
  assumes "0 \<le> k" and "k < 2 ^ 53"
  shows "double (of_int k) = of_int k"
proof (cases "k = 0")
  case False
  with assms have k: "0 < k" by simp
  let ?b = "bitlen k"
  have b: "2 ^ nat (?b - 1) \<le> k" "?b \<le> 53" "1 \<le> ?b"
    using bitlen_bounds [OF k] assms(2) k by (auto simp: bitlen_le_iff_power bitlen_ge_iff_power)
  have "(2 :: rat) powi (?b - 54 + 53) = of_int (2 ^ nat (?b - 1))"
    using b(3) by (simp add: power_int_def)
  also have "\<dots> \<le> of_int k" using b(1) by (simp only: of_int_le_iff)
  finally have "double_exponent (of_int k) = ?b - 53"
    using k bitlen_pow2 [of 1 0] by (simp add: double_exponent_def quotient_of_int Let_def bitlen_alt_def [of 1])
  moreover have "(of_int k :: rat) / 2 powi (?b - 53) = of_int (k * 2 ^ nat (53 - ?b))"
    using b(2) by (simp add: power_int_def field_simps split: if_splits)
  ultimately have e: "(of_int k :: rat) / 2 powi double_exponent (of_int k) = of_int (k * 2 ^ nat (53 - ?b))" by simp
  have "double (of_int k) = of_int k / 2 powi double_exponent (of_int k) * 2 powi double_exponent (of_int k)"
    using False by (simp only: double_def e round_even_int of_int_eq_0_iff if_False)
  then show ?thesis by simp
qed (simp add: double_def)

text \<open>
  C33: an announcement encoded for an eight-byte identity, keys and signature shorter than 256
  bytes, a nickname of fewer than 256 UTF-8 bytes and a time stamp whose thousandfold is below
  \<open>2 ^ 53\<close> parses back to the same fields; the time stamp is then exact although it is computed with
  doubles.
\<close>

theorem identity_roundtrip:
  assumes "length pid = 8" and "\<forall>p. previous = Some p \<longrightarrow> length p = 8"
    and "length pk < 256" and "length spk < 256" and "length sig < 256"
    and "utf8_encode nick = Inr nb" and "length nb < 256"
    and "0 \<le> ts" and "ts * 1000 < 2 ^ 53"
  shows "\<exists>data.
    encode_noise_identity_announcement_binary (hex pid) pk spk nick ts sig (map_option hex previous) =
      Inr data \<and>
    parse_noise_identity_announcement_binary data =
      Some \<lparr>ann_peerID = hex pid, ann_publicKey = hex pk, ann_signingPublicKey = hex spk,
            ann_nickname = nick, ann_timestamp = of_int ts, ann_signature = hex sig,
            ann_previousPeerID = map_option hex previous, ann_truncated = False\<rparr>"
proof -
  have w: "write_len8 pk = Inr (word_of_nat (length pk) # pk)"
    "write_len8 spk = Inr (word_of_nat (length spk) # spk)"
    "write_text8 nick = Inr (word_of_nat (length nb) # nb)"
    "write_len8 sig = Inr (word_of_nat (length sig) # sig)"
    using assms(3-7) by (simp_all add: write_len8_def byte_of_def write_text8_Inr)
  have "nat (ts * 1000) mod 256 ^ 8 = nat (ts * 1000)" using assms(9) by simp
  moreover have "double (double (of_nat (nat (ts * 1000))) / 1000) = of_int ts"
    using double_exact [of "ts * 1000"] double_exact [of ts] assms(8,9) by (simp add: of_nat_nat)
  ultimately have "double (double (of_nat (be_nat (be_bytes 8 (nat (ts * 1000))))) / 1000) = of_int ts"
    by (simp add: be_nat_bytes)
  then show ?thesis
    using encode_identity_layout [OF assms(1,2) w assms(8)]
      parse_identity_layout [OF assms(1,2) w length_be_bytes refl, of "nat (ts * 1000)"]
    by (simp add: parse_noise_identity_announcement_binary_def)
qed

theorem identity_roundtrip_witness:
  "\<exists>data.
    encode_noise_identity_announcement_binary (hex [1, 2, 3, 4, 5, 6, 7, 8]) [9] [10] (lit ''bob'') 77
      [11] (map_option hex (Some [8, 7, 6, 5, 4, 3, 2, 1])) = Inr data \<and>
    parse_noise_identity_announcement_binary data =
      Some \<lparr>ann_peerID = hex [1, 2, 3, 4, 5, 6, 7, 8], ann_publicKey = hex [9],
            ann_signingPublicKey = hex [10], ann_nickname = lit ''bob'',
            ann_timestamp = of_int 77, ann_signature = hex [11],
            ann_previousPeerID = map_option hex (Some [8, 7, 6, 5, 4, 3, 2, 1]),
            ann_truncated = False\<rparr>"
proof -
  have n: "utf8_encode (lit ''bob'') = Inr [98, 111, 98]"
    by (simp add: lit_def utf8_enc1_def)
  show ?thesis
    by (rule identity_roundtrip [OF _ _ _ _ _ n]) simp_all
qed

text \<open>
  No truncated announcement is misread: every proper prefix of an encoded announcement is
  rejected.
\<close>

theorem identity_truncated_rejected:
  assumes "length pid = 8" and "\<forall>p. previous = Some p \<longrightarrow> length p = 8" and "0 \<le> ts"
    and "encode_noise_identity_announcement_binary (hex pid) pk spk nick ts sig
      (map_option hex previous) = Inr data"
    and "k < length data"
  shows "parse_noise_identity_announcement_binary (take k data) = None"
proof (rule ccontr)
  assume "\<not> ?thesis"
  then obtain an b where p: "parse_identity_fields (take k data) = Some (an, b)"
    by (auto simp: parse_noise_identity_announcement_binary_def)
  have "b \<le> k" using local_parse_identity(1) [OF p] assms(5) by simp
  obtain f1 f2 f3 f4 where w: "write_len8 pk = Inr f1" "write_len8 spk = Inr f2"
    "write_text8 nick = Inr f3" "write_len8 sig = Inr f4"
    using assms(4) unfolding encode_noise_identity_announcement_binary_def Let_def bindE_eq_Inr
    by blast
  have "data = [if previous \<noteq> None then 1 else 0] @ pid @ f1 @ f2 @ f3 @ be_bytes 8 (nat (ts * 1000)) @
      (case previous of Some p \<Rightarrow> p | None \<Rightarrow> []) @ f4"
    using encode_identity_layout [OF assms(1,2) w assms(3)] assms(4) by simp
  then obtain an' where "parse_identity_fields data = Some (an', length data)"
    using parse_identity_layout [OF assms(1,2) w length_be_bytes] by blast
  with local_parse_identity(2) [OF p, of "drop k data"] have "b = length data" by simp
  with \<open>b \<le> k\<close> assms(5) show False by simp
qed

theorem identity_truncated_rejected_witness:
  "\<exists>data.
    encode_noise_identity_announcement_binary (hex [1, 2, 3, 4, 5, 6, 7, 8]) [9] [10] (lit ''bob'') 77
      [11] (map_option hex None) = Inr data \<and>
    parse_noise_identity_announcement_binary (take 20 data) = None"
proof -
  let ?e = "encode_noise_identity_announcement_binary (hex [1, 2, 3, 4, 5, 6, 7, 8]) [9] [10]
    (lit ''bob'') 77 [11] (map_option hex None)"
  have w: "write_len8 [9] = Inr [1, 9]" "write_len8 [10] = Inr [1, 10]"
    "write_text8 (lit ''bob'') = Inr [3, 98, 111, 98]" "write_len8 [11] = Inr [1, 11]"
    by (simp_all add: write_len8_def byte_of_def write_text8_def lit_def utf8_enc1_def)
  have e: "?e = Inr ([0] @ [1, 2, 3, 4, 5, 6, 7, 8] @ [1, 9] @ [1, 10] @ [3, 98, 111, 98] @
      be_bytes 8 77000 @ [1, 11])"
    using encode_identity_layout [OF _ _ w, of "[1, 2, 3, 4, 5, 6, 7, 8]" None 77] by simp
  show ?thesis
    using identity_truncated_rejected [OF _ _ _ e, of 20] e by simp
qed

end
