(* ===== verification/Fragmentation.thy ===== *)
theory Fragmentation
  imports Interfaces "HOL-Library.Multiset"
begin

text \<open>
  \<^verbatim>\<open>bitchat/fragmentation.py\<close> and the \<open>FragmentCollector\<close> of \<^verbatim>\<open>bitchat/protocol.py\<close>:
  cutting a payload into chunks of 500 bytes, and putting the chunks together again in whatever
  order they arrive. The random fragment identifier is an argument.
\<close>

subsection \<open>Fragments\<close>

definition MAX_FRAGMENT_SIZE :: nat where
  "MAX_FRAGMENT_SIZE = 500"

datatype FragmentType = START | CONTINUE | END

fun ft_value :: "FragmentType \<Rightarrow> byte" where
  "ft_value START = 0x05"
| "ft_value CONTINUE = 0x06"
| "ft_value END = 0x07"

record fragment =
  fr_id :: bytes
  fr_type :: FragmentType
  fr_index :: nat
  fr_total :: nat
  fr_original_type :: nat
  fr_data :: bytes

text \<open>\<open>[payload[i:i+500] for i in range(0, len(payload), 500)]\<close>\<close>

definition chunks :: "bytes \<Rightarrow> bytes list" where
  "chunks payload =
     map (\<lambda>j. slice (j * MAX_FRAGMENT_SIZE) (j * MAX_FRAGMENT_SIZE + MAX_FRAGMENT_SIZE) payload)
       [0..<(length payload + MAX_FRAGMENT_SIZE - 1) div MAX_FRAGMENT_SIZE]"

definition fragment_type :: "nat \<Rightarrow> nat \<Rightarrow> FragmentType" where
  "fragment_type i ntotal = (if i = 0 then START else if i = ntotal - 1 then END else CONTINUE)"

definition fragment_payload :: "bytes \<Rightarrow> bytes \<Rightarrow> nat \<Rightarrow> fragment list" where
  "fragment_payload fid payload original_msg_type =
     (if length payload \<le> MAX_FRAGMENT_SIZE then []
      else
        let cs = chunks payload; ntotal = length cs in
        map (\<lambda>i. \<lparr>fr_id = fid, fr_type = fragment_type i ntotal, fr_index = i, fr_total = ntotal,
                 fr_original_type = original_msg_type, fr_data = cs ! i\<rparr>) [0..<ntotal])"

subsection \<open>The collector\<close>

record collector =
  fc_fragments :: "(pystr, (nat, bytes) dict) dict"
  fc_metadata :: "(pystr, nat \<times> nat \<times> pystr) dict"

definition collector_init :: collector where
  "collector_init = \<lparr>fc_fragments = [], fc_metadata = []\<rparr>"

text \<open>The loop that appends the parts in order and gives up at a missing one.\<close>

fun reassemble :: "(nat, bytes) dict \<Rightarrow> nat list \<Rightarrow> bytes option" where
  "reassemble m [] = Some []"
| "reassemble m (i # is) =
     (case dict_get m i of
        Some d \<Rightarrow> map_option ((@) d) (reassemble m is)
      | None \<Rightarrow> None)"

definition add_fragment ::
  "collector \<Rightarrow> bytes \<Rightarrow> nat \<Rightarrow> nat \<Rightarrow> nat \<Rightarrow> bytes \<Rightarrow> pystr \<Rightarrow> (bytes \<times> pystr) option \<times> collector"
where
  "add_fragment c fid index ntotal original_type data sender =
     (let h = hex fid;
          c1 = (if has_key (fc_fragments c) h then c
                else c\<lparr>fc_fragments := dict_set (fc_fragments c) h [],
                       fc_metadata := dict_set (fc_metadata c) h (ntotal, original_type, sender)\<rparr>);
          fragment_map = dict_set (the (dict_get (fc_fragments c1) h)) index data;
          c2 = c1\<lparr>fc_fragments := dict_set (fc_fragments c1) h fragment_map\<rparr>
      in
      if length fragment_map = ntotal then
        (case reassemble fragment_map [0..<ntotal] of
           None \<Rightarrow> (None, c2)
         | Some complete_data \<Rightarrow>
             let who = (case dict_get (fc_metadata c2) h of
                          Some (_, _, s) \<Rightarrow> s | None \<Rightarrow> lit ''Unknown'')
             in (Some (complete_data, who),
                 c2\<lparr>fc_fragments := dict_del (fc_fragments c2) h,
                    fc_metadata := dict_del (fc_metadata c2) h\<rparr>))
      else (None, c2))"

text \<open>
  Feeding a list of fragments, all from one sender, keeping the results. A collector is well formed
  when its two dictionaries hold the same identifiers and no fragment map repeats an index; then the
  \<open>the\<close> in \<open>add_fragment\<close> and its two deletions meet keys that are there.
\<close>

fun feed :: "collector \<Rightarrow> pystr \<Rightarrow> fragment list \<Rightarrow> (bytes \<times> pystr) option list \<times> collector" where
  "feed c s [] = ([], c)"
| "feed c s (f # fs) =
     (let (r, c') = add_fragment c (fr_id f) (fr_index f) (fr_total f) (fr_original_type f)
                      (fr_data f) s;
          (rs, c'') = feed c' s fs
      in (r # rs, c''))"

definition wf_collector :: "collector \<Rightarrow> bool" where
  "wf_collector c \<longleftrightarrow>
     wf_dict (fc_fragments c) \<and> wf_dict (fc_metadata c) \<and>
     (\<forall>h. has_key (fc_fragments c) h \<longleftrightarrow> has_key (fc_metadata c) h) \<and>
     (\<forall>h m. dict_get (fc_fragments c) h = Some m \<longrightarrow> wf_dict m)"

subsection \<open>Well-formedness\<close>

lemma wf_collector_init: "wf_collector collector_init"
  by (simp add: wf_collector_def collector_init_def)

lemma add_fragment_wf:
  assumes "wf_collector c"
  shows "wf_collector (snd (add_fragment c fid i n ot d s))"
  using assms
  by (auto simp: wf_collector_def add_fragment_def Let_def has_key_def split: option.split)

interpretation collector: keeps wf_collector
  "\<lambda>(fid, i, n, ot, d, s) c. snd (add_fragment c fid i n ot d s)"
  by unfold_locales (auto simp: add_fragment_wf)

subsection \<open>Chunks\<close>

lemma length_chunks: "length (chunks p) = (length p + 499) div 500"
  by (simp add: chunks_def MAX_FRAGMENT_SIZE_def)

lemma concat_slices:
  "concat (map (\<lambda>j. slice (j * k) (j * k + k) p) [0..<n]) = take (n * k) p"
proof (induction n)
  case (Suc n)
  then show ?case by (simp add: slice_def flip: take_add) (simp add: add.commute)
qed simp

lemma concat_chunks: "concat (chunks p) = p"
proof -
  have "length p \<le> (length p + 499) div 500 * 500" by linarith
  then show ?thesis by (simp add: chunks_def MAX_FRAGMENT_SIZE_def concat_slices)
qed

lemma chunk_size: "c \<in> set (chunks p) \<Longrightarrow> length c \<le> MAX_FRAGMENT_SIZE"
  by (auto simp: chunks_def)

subsection \<open>Reassembly\<close>

lemma reassemble_all:
  "\<forall>i\<in>set is. dict_get m i = Some (cs ! i) \<Longrightarrow> reassemble m is = Some (concat (map ((!) cs) is))"
  by (induction "is") auto

text \<open>
  \<open>c'\<close> is \<open>c\<close> with a collection open under \<open>h\<close>: the parts \<open>m\<close> have arrived, \<open>meta\<close>
  is recorded, and closing the collection gives \<open>c\<close> back.
\<close>

definition collecting ::
  "collector \<Rightarrow> pystr \<Rightarrow> (nat, bytes) dict \<Rightarrow> nat \<times> nat \<times> pystr \<Rightarrow> collector \<Rightarrow> bool" where
  "collecting c h m meta c' \<longleftrightarrow>
     dict_get (fc_fragments c') h = Some m \<and> dict_get (fc_metadata c') h = Some meta \<and>
     dict_del (fc_fragments c') h = fc_fragments c \<and> dict_del (fc_metadata c') h = fc_metadata c"

definition opened :: "collector \<Rightarrow> pystr \<Rightarrow> nat \<times> nat \<times> pystr \<Rightarrow> collector" where
  "opened c h meta =
     c\<lparr>fc_fragments := dict_set (fc_fragments c) h [], fc_metadata := dict_set (fc_metadata c) h meta\<rparr>"

lemma collecting_opened:
  "\<not> has_key (fc_fragments c) h \<Longrightarrow> \<not> has_key (fc_metadata c) h \<Longrightarrow>
     collecting c h [] meta (opened c h meta)"
  by (simp add: collecting_def opened_def dict_del_set_absent)

lemma add_fragment_opened:
  "\<not> has_key (fc_fragments c) (hex fid) \<Longrightarrow>
     add_fragment c fid i n ot d s = add_fragment (opened c (hex fid) (n, ot, s)) fid i n ot d s"
  by (simp add: add_fragment_def opened_def Let_def)

lemma add_fragment_more:
  assumes "collecting c (hex fid) m meta c'" and "\<not> has_key m i" and "Suc (length m) \<noteq> n"
  shows "\<exists>c''. add_fragment c' fid i n ot d s = (None, c'') \<and>
    collecting c (hex fid) (dict_set m i d) meta c''"
  using assms
  by (simp add: add_fragment_def collecting_def Let_def has_key_def length_dict_set delete_update_same)

lemma add_fragment_last:
  assumes "collecting c (hex fid) m (t, ot', s') c'" and "\<not> has_key m i" and "Suc (length m) = n"
    and "reassemble (dict_set m i d) [0..<n] = Some p"
  shows "add_fragment c' fid i n ot d s = (Some (p, s'), c)"
  using assms
  by (cases c) (auto simp: add_fragment_def collecting_def Let_def has_key_def length_dict_set
      delete_update_same)

lemma feed_collecting:
  assumes "collecting c (hex fid) m (n, ot, s) c'"
    and "\<forall>f\<in>set fs. fr_id f = fid \<and> fr_total f = n \<and> fr_data f = cs ! fr_index f"
    and "distinct (map fr_index fs)" and "\<forall>f\<in>set fs. \<not> has_key m (fr_index f)"
    and "\<forall>i d. dict_get m i = Some d \<longrightarrow> d = cs ! i"
    and "\<forall>i < n. has_key m i \<or> i \<in> fr_index ` set fs"
    and "length m + length fs = n" and "length cs = n" and "fs \<noteq> []"
  shows "feed c' s fs = (replicate (length fs - 1) None @ [Some (concat cs, s)], c)"
  using assms
proof (induction fs arbitrary: m c')
  case (Cons f fs)
  let ?m = "dict_set m (fr_index f) (fr_data f)"
  show ?case
  proof (cases "fs = []")
    case True
    have "dict_get ?m i = Some (cs ! i)" if "i < n" for i
      using Cons.prems(2,5,6) that True by (auto simp: has_key_def)
    then have "reassemble ?m [0..<n] = Some (concat (map ((!) cs) [0..<n]))"
      by (intro reassemble_all) simp
    also have "map ((!) cs) [0..<n] = cs" using Cons.prems(8) by (simp add: map_nth flip: Cons.prems(8))
    finally have "reassemble ?m [0..<n] = Some (concat cs)" .
    then show ?thesis
      using add_fragment_last [OF Cons.prems(1), of "fr_index f" n "fr_data f" "concat cs"] Cons.prems(2,4,7) True
      by simp
  next
    case False
    then have "Suc (length m) \<noteq> n" using Cons.prems(7) by (cases fs) auto
    with add_fragment_more [OF Cons.prems(1)] Cons.prems(4) obtain c'' where
      c'': "add_fragment c' fid (fr_index f) n (fr_original_type f) (fr_data f) s = (None, c'')"
        "collecting c (hex fid) ?m (n, ot, s) c''" by force
    have "feed c'' s fs = (replicate (length fs - 1) None @ [Some (concat cs, s)], c)"
    proof (rule Cons.IH [OF c''(2)])
      show "\<forall>f'\<in>set fs. \<not> has_key ?m (fr_index f')"
        using Cons.prems(3,4) by (auto simp: image_iff)
      show "\<forall>i d. dict_get ?m i = Some d \<longrightarrow> d = cs ! i"
        using Cons.prems(2,5) by auto
      show "\<forall>i<n. has_key ?m i \<or> i \<in> fr_index ` set fs"
        using Cons.prems(6) by auto
      show "length ?m + length fs = n"
        using Cons.prems(4,7) by (simp add: length_dict_set)
    qed (use Cons.prems False in auto)
    moreover have "replicate (length fs) None = None # replicate (length fs - 1) (None :: (bytes \<times> pystr) option)"
      using False by (cases fs) auto
    ultimately show ?thesis using c''(1) Cons.prems(2) by simp
  qed
qed simp

lemma feed_opened:
  assumes "\<not> has_key (fc_fragments c) (hex fid)" and "fs \<noteq> []"
    and "\<forall>f\<in>set fs. fr_id f = fid \<and> fr_total f = n \<and> fr_original_type f = ot"
  shows "feed c s fs = feed (opened c (hex fid) (n, ot, s)) s fs"
  using assms(2,3) add_fragment_opened [OF assms(1)] by (cases fs) auto

text \<open>
  C27: the fragments of a payload of more than 500 bytes, fed to the collector in any order, give
  nothing until the last one arrives; that one returns the original payload and the sender, and
  leaves the collector as it was before the first. The random identifier of the fragments is fresh: the
  collector holds nothing under it.
\<close>

theorem fragments_reassemble:
  assumes "MAX_FRAGMENT_SIZE < length payload" and "mset fs = mset (fragment_payload fid payload ot)"
    and "\<not> has_key (fc_fragments c) (hex fid)" and "\<not> has_key (fc_metadata c) (hex fid)"
  shows "feed c s fs = (replicate (length fs - 1) None @ [Some (payload, s)], c)"
proof -
  let ?cs = "chunks payload" and ?n = "length (chunks payload)"
  have p: "fragment_payload fid payload ot =
      map (\<lambda>i. \<lparr>fr_id = fid, fr_type = fragment_type i ?n, fr_index = i, fr_total = ?n,
        fr_original_type = ot, fr_data = ?cs ! i\<rparr>) [0..<?n]"
    using assms(1) by (simp add: fragment_payload_def Let_def)
  have set: "set fs = set (fragment_payload fid payload ot)"
    using assms(2) by (rule mset_eq_setD)
  have len: "length fs = ?n" using mset_eq_length [OF assms(2)] by (simp add: p)
  have "map fr_index (fragment_payload fid payload ot) = [0..<?n]" by (simp add: p comp_def)
  then have idx: "mset (map fr_index fs) = mset [0..<?n]"
    using assms(2) by (metis mset_map)
  then have d: "distinct (map fr_index fs)"
    by (simp add: mset_eq_imp_distinct_iff [OF idx])
  have i: "fr_index ` set fs = {..<?n}"
    using mset_eq_setD [OF idx] by (auto simp: lessThan_def)
  have "fs \<noteq> []" using assms(1) len by (auto simp: length_chunks MAX_FRAGMENT_SIZE_def)
  moreover have f: "\<forall>f\<in>set fs. fr_id f = fid \<and> fr_total f = ?n \<and> fr_original_type f = ot \<and>
      fr_data f = ?cs ! fr_index f"
    unfolding set p by auto
  ultimately show ?thesis
    using feed_opened [OF assms(3), of fs ?n ot s] d i len
      feed_collecting [OF collecting_opened [OF assms(3,4), of "(?n, ot, s)"], of fs ?cs]
    by (simp add: concat_chunks)
qed

theorem fragments_reassemble_witness:
  "feed collector_init (lit ''0102'') (rev (fragment_payload [7] (replicate 501 65) 4)) =
     ([None, Some (replicate 501 65, lit ''0102'')], collector_init)"
proof -
  have "length (fragment_payload [7] (replicate 501 65) 4) = 2"
    by (simp add: fragment_payload_def MAX_FRAGMENT_SIZE_def Let_def length_chunks)
  then show ?thesis
    using fragments_reassemble [of "replicate 501 65" "rev (fragment_payload [7] (replicate 501 65) 4)"
        "[7]" 4 collector_init "lit ''0102''"]
    by (simp add: MAX_FRAGMENT_SIZE_def collector_init_def)
qed

text \<open>
  The shape of a fragmentation: the chunks concatenate to the payload, none is longer than 500
  bytes, the first fragment is \<open>START\<close>, the last \<open>END\<close> and the others \<open>CONTINUE\<close>, and every
  fragment carries its index and the number of fragments, which is at least two.
\<close>

theorem fragment_payload_shape:
  assumes "MAX_FRAGMENT_SIZE < length payload"
  shows "let fs = fragment_payload fid payload ot in
    2 \<le> length fs \<and> concat (map fr_data fs) = payload \<and>
    (\<forall>i < length fs. length (fr_data (fs ! i)) \<le> MAX_FRAGMENT_SIZE \<and>
      fr_index (fs ! i) = i \<and> fr_total (fs ! i) = length fs \<and> fr_id (fs ! i) = fid \<and>
      fr_original_type (fs ! i) = ot \<and>
      fr_type (fs ! i) = (if i = 0 then START else if i = length fs - 1 then END else CONTINUE))"
proof -
  let ?fs = "fragment_payload fid payload ot" and ?n = "length (chunks payload)"
  have p: "?fs = map (\<lambda>i. \<lparr>fr_id = fid, fr_type = fragment_type i ?n, fr_index = i, fr_total = ?n,
        fr_original_type = ot, fr_data = chunks payload ! i\<rparr>) [0..<?n]"
    using assms by (simp add: fragment_payload_def Let_def)
  have "2 \<le> ?n" using assms by (simp add: length_chunks MAX_FRAGMENT_SIZE_def)
  moreover have "map fr_data ?fs = chunks payload"
    by (simp add: p comp_def map_nth)
  ultimately show ?thesis
    by (auto simp: p concat_chunks chunk_size [OF nth_mem] fragment_type_def)
qed

theorem fragment_payload_shape_witness:
  "concat (map fr_data (fragment_payload [7] (replicate 501 65) 4)) = replicate 501 65 \<and>
   2 \<le> length (fragment_payload [7] (replicate 501 65) 4)"
  using fragment_payload_shape [of "replicate 501 65" "[7]" 4]
  by (simp add: MAX_FRAGMENT_SIZE_def Let_def)

subsection \<open>Out-of-range indices\<close>

lemma reassemble_keys: "reassemble m is = Some d \<Longrightarrow> i \<in> set is \<Longrightarrow> has_key m i"
  by (induction "is" arbitrary: d) (auto simp: has_key_def split: option.splits)

lemma reassemble_poisoned:
  assumes "wf_dict m" and "has_key m j" and "n \<le> j" and "length m = n"
  shows "reassemble m [0..<n] = None"
proof (rule ccontr)
  assume "\<not> ?thesis"
  then obtain d where d: "reassemble m [0..<n] = Some d" by auto
  have "insert j {0..<n} \<subseteq> fst ` set m"
    using reassemble_keys [OF d] assms(2) by (auto simp: has_key_iff)
  then have "card (insert j {0..<n}) \<le> card (fst ` set m)" by (intro card_mono) auto
  also have "\<dots> = n" using assms(1,4) distinct_card [of "map fst m"] by (simp add: wf_dict_def)
  finally show False using assms(3) by simp
qed

lemma add_fragment_poisoned:
  assumes "wf_collector c" and "dict_get (fc_fragments c) (hex fid) = Some m"
    and "has_key m j" and "n \<le> j"
  shows "fst (add_fragment c fid i n ot d s) = None \<and>
    dict_get (fc_fragments (snd (add_fragment c fid i n ot d s))) (hex fid) = Some (dict_set m i d)"
proof -
  have w: "wf_dict m" using assms(1,2) by (auto simp: wf_collector_def)
  show ?thesis
    using reassemble_poisoned [of "dict_set m i d" j n] assms w
    by (simp add: add_fragment_def Let_def has_key_def)
qed

text \<open>
  The collector does not check an index against the number of fragments. Once a fragment with an
  index beyond the announced number has been stored, no later fragments of that identifier and that
  number complete the message, whatever they are.
\<close>

theorem out_of_range_index_blocks:
  assumes "wf_collector c" and "dict_get (fc_fragments c) (hex fid) = Some m" and "has_key m j"
    and "n \<le> j" and "\<forall>f\<in>set fs. fr_id f = fid \<and> fr_total f = n"
  shows "\<forall>r\<in>set (fst (feed c s fs)). r = None"
  using assms
proof (induction fs arbitrary: c m)
  case (Cons f fs)
  obtain r c' where a: "add_fragment c fid (fr_index f) n (fr_original_type f) (fr_data f) s = (r, c')"
    by fastforce
  note p = add_fragment_poisoned [OF Cons.prems(1-4), of "fr_index f" "fr_original_type f" "fr_data f" s]
  have "\<forall>r\<in>set (fst (feed c' s fs)). r = None"
    by (rule Cons.IH [of c' "dict_set m (fr_index f) (fr_data f)"])
      (use p a Cons.prems add_fragment_wf [OF Cons.prems(1), of fid "fr_index f" n "fr_original_type f" "fr_data f" s] in auto)
  with p a Cons.prems(5) show ?case by (auto split: prod.splits)
qed simp

theorem out_of_range_index_blocks_witness:
  "\<forall>r\<in>set (fst (feed (snd (add_fragment collector_init [7] 2 2 4 [1] [9])) [9]
     (fragment_payload [7] (replicate 501 65) 4))). r = None"
proof (rule out_of_range_index_blocks [where m = "[(2, [1])]" and j = 2 and n = 2 and fid = "[7]"])
  show "wf_collector (snd (add_fragment collector_init [7] 2 2 4 [1] [9]))"
    by (intro add_fragment_wf wf_collector_init)
  show "dict_get (fc_fragments (snd (add_fragment collector_init [7] 2 2 4 [1] [9]))) (hex [7]) =
      Some [(2, [1])]"
    by (simp add: add_fragment_def collector_init_def Let_def)
qed (simp_all add: has_key_def fragment_payload_def MAX_FRAGMENT_SIZE_def Let_def length_chunks)

end
