(* ===== verification/Noise.thy ===== *)
theory Noise
  imports Prelude
begin

text \<open>
  The first half of \<^verbatim>\<open>bitchat/encryption.py\<close>: \<open>NoiseCipherState\<close>,
  \<open>NoiseHandshakeState\<close> (the XX pattern) and the split into transport ciphers. The
  \<open>cryptography\<close> package is a parameter, a record of the primitives the code calls: HMAC and
  SHA-256, ChaCha20-Poly1305 (\<open>None\<close> where decryption raises \<open>InvalidTag\<close>), and X25519
  (\<open>None\<close> where \<open>exchange\<close> refuses an all-zero secret), and PBKDF2 on a password and a salt with
  the parameters the code fixes. Keys are their raw bytes, and a public
  half that the code stores beside a private key is computed from it. An ephemeral key that the code
  generates is an argument.

  A handshake object that raises is thrown away by its only caller, so the handshake operations
  return either an exception or the new state; cipher states survive an exception and are returned
  in every case.
\<close>

subsection \<open>The cryptographic primitives\<close>

record crypto =
  hmac :: "bytes \<Rightarrow> bytes \<Rightarrow> bytes"
  sha256 :: "bytes \<Rightarrow> bytes"
  aead_enc :: "bytes \<Rightarrow> bytes \<Rightarrow> bytes \<Rightarrow> bytes \<Rightarrow> bytes"
  aead_dec :: "bytes \<Rightarrow> bytes \<Rightarrow> bytes \<Rightarrow> bytes \<Rightarrow> bytes option"
  x_pub :: "bytes \<Rightarrow> bytes"
  x_dh :: "bytes \<Rightarrow> bytes \<Rightarrow> bytes option"
  pbkdf2 :: "bytes \<Rightarrow> bytes \<Rightarrow> bytes"

text \<open>What their documentation promises: sizes, decryption, and the agreement of X25519.\<close>

definition crypto_ok :: "crypto \<Rightarrow> bool" where
  "crypto_ok cr \<longleftrightarrow>
     (\<forall>k d. length (hmac cr k d) = 32) \<and>
     (\<forall>s. length (x_pub cr s) = 32) \<and>
     (\<forall>k n p a. length (aead_enc cr k n p a) = length p + 16) \<and>
     (\<forall>k n p a. aead_dec cr k n (aead_enc cr k n p a) a = Some p) \<and>
     (\<forall>a b. x_dh cr a (x_pub cr b) = x_dh cr b (x_pub cr a))"

subsection \<open>Cipher states\<close>

record cipher_state =
  cs_key :: "bytes option"
  cs_nonce :: nat

definition cipher_new :: cipher_state where
  "cipher_new = \<lparr>cs_key = None, cs_nonce = 0\<rparr>"

definition initialize_key :: "bytes \<Rightarrow> cipher_state \<Rightarrow> cipher_state" where
  "initialize_key key cs = cs\<lparr>cs_key := Some key, cs_nonce := 0\<rparr>"

definition cs_has_key :: "cipher_state \<Rightarrow> bool" where
  "cs_has_key cs \<longleftrightarrow> cs_key cs \<noteq> None"

text \<open>Four zero bytes and the counter in eight little-endian bytes; \<open>to_bytes\<close> can overflow.\<close>

definition nonce_bytes :: "nat \<Rightarrow> bytes res" where
  "nonce_bytes n = (if n < 2 ^ 64 then Inr (replicate 4 0 @ le_bytes 8 n) else Inl OverflowError)"

definition check_key :: "bytes \<Rightarrow> unit res" where
  "check_key key = (if length key = 32 then Inr () else Inl ValueError)"

definition cipher_encrypt ::
  "crypto \<Rightarrow> cipher_state \<Rightarrow> bytes \<Rightarrow> bytes \<Rightarrow> bytes res \<times> cipher_state" where
  "cipher_encrypt cr cs plaintext ad =
     (case cs_key cs of
        None \<Rightarrow> (Inl NoiseError, cs)
      | Some key \<Rightarrow>
          (case bindE (nonce_bytes (cs_nonce cs)) (\<lambda>nonce. bindE (check_key key) (\<lambda>_. Inr nonce)) of
             Inl e \<Rightarrow> (Inl e, cs)
           | Inr nonce \<Rightarrow>
               (Inr (aead_enc cr key nonce plaintext ad), cs\<lparr>cs_nonce := cs_nonce cs + 1\<rparr>)))"

text \<open>Decryption counts the nonce up even when the tag is wrong.\<close>

definition cipher_decrypt ::
  "crypto \<Rightarrow> cipher_state \<Rightarrow> bytes \<Rightarrow> bytes \<Rightarrow> bytes res \<times> cipher_state" where
  "cipher_decrypt cr cs ciphertext ad =
     (case cs_key cs of
        None \<Rightarrow> (Inl NoiseError, cs)
      | Some key \<Rightarrow>
          (case bindE (nonce_bytes (cs_nonce cs)) (\<lambda>nonce. bindE (check_key key) (\<lambda>_. Inr nonce)) of
             Inl e \<Rightarrow> (Inl e, cs)
           | Inr nonce \<Rightarrow>
               ((case aead_dec cr key nonce ciphertext ad of
                   Some plaintext \<Rightarrow> Inr plaintext
                 | None \<Rightarrow> Inl InvalidTag), cs\<lparr>cs_nonce := cs_nonce cs + 1\<rparr>)))"

subsection \<open>Handshake states\<close>

datatype NoiseRole = INITIATOR | RESPONDER

datatype token = Tok_e | Tok_s | Tok_ee | Tok_es | Tok_se

definition xx_patterns :: "token list list" where
  "xx_patterns = [[Tok_e], [Tok_e, Tok_ee, Tok_s, Tok_es], [Tok_s, Tok_se]]"

record handshake =
  hs_role :: NoiseRole
  hs_local_static :: bytes
  hs_remote_static :: "bytes option"
  hs_local_ephemeral :: "bytes option"
  hs_remote_ephemeral :: "bytes option"
  hs_ck :: bytes
  hs_hash :: bytes
  hs_cipher :: cipher_state
  hs_pattern :: nat

definition NOISE_PROTOCOL_NAME :: bytes where
  "NOISE_PROTOCOL_NAME = map word_of_nat (lit ''Noise_XX_25519_ChaChaPoly_SHA256'')"

definition initial_hash :: "crypto \<Rightarrow> bytes" where
  "initial_hash cr =
     (if length NOISE_PROTOCOL_NAME \<le> 32
      then NOISE_PROTOCOL_NAME @ replicate (32 - length NOISE_PROTOCOL_NAME) 0
      else sha256 cr NOISE_PROTOCOL_NAME)"

definition handshake_init :: "crypto \<Rightarrow> NoiseRole \<Rightarrow> bytes \<Rightarrow> bytes option \<Rightarrow> handshake" where
  "handshake_init cr role static remote =
     \<lparr>hs_role = role, hs_local_static = static, hs_remote_static = remote,
      hs_local_ephemeral = None, hs_remote_ephemeral = None,
      hs_ck = initial_hash cr, hs_hash = initial_hash cr, hs_cipher = cipher_new, hs_pattern = 0\<rparr>"

definition mix_key :: "crypto \<Rightarrow> bytes \<Rightarrow> handshake \<Rightarrow> handshake" where
  "mix_key cr ikm hs =
     (let temp_key = hmac cr (hs_ck hs) ikm;
          output1 = hmac cr temp_key [1];
          output2 = hmac cr temp_key (output1 @ [2])
      in hs\<lparr>hs_ck := output1, hs_cipher := initialize_key output2 (hs_cipher hs)\<rparr>)"

definition mix_hash :: "crypto \<Rightarrow> bytes \<Rightarrow> handshake \<Rightarrow> handshake" where
  "mix_hash cr data hs = hs\<lparr>hs_hash := sha256 cr (hs_hash hs @ data)\<rparr>"

definition mix_key_and_hash :: "crypto \<Rightarrow> bytes \<Rightarrow> handshake \<Rightarrow> handshake" where
  "mix_key_and_hash cr ikm hs =
     (let temp_key = hmac cr (hs_ck hs) ikm;
          output1 = hmac cr temp_key [1];
          output2 = hmac cr temp_key (output1 @ [2]);
          output3 = hmac cr temp_key (output2 @ [3]);
          hs1 = mix_hash cr output2 (hs\<lparr>hs_ck := output1\<rparr>)
      in hs1\<lparr>hs_cipher := initialize_key output3 (hs_cipher hs1)\<rparr>)"

definition encrypt_and_hash :: "crypto \<Rightarrow> bytes \<Rightarrow> handshake \<Rightarrow> (bytes \<times> handshake) res" where
  "encrypt_and_hash cr plaintext hs =
     (if cs_has_key (hs_cipher hs) then
        let (r, cs) = cipher_encrypt cr (hs_cipher hs) plaintext (hs_hash hs) in
        bindE r (\<lambda>ciphertext. Inr (ciphertext, mix_hash cr ciphertext (hs\<lparr>hs_cipher := cs\<rparr>)))
      else Inr (plaintext, mix_hash cr plaintext hs))"

definition decrypt_and_hash :: "crypto \<Rightarrow> bytes \<Rightarrow> handshake \<Rightarrow> (bytes \<times> handshake) res" where
  "decrypt_and_hash cr ciphertext hs =
     (if cs_has_key (hs_cipher hs) then
        let (r, cs) = cipher_decrypt cr (hs_cipher hs) ciphertext (hs_hash hs) in
        bindE r (\<lambda>plaintext. Inr (plaintext, mix_hash cr ciphertext (hs\<lparr>hs_cipher := cs\<rparr>)))
      else Inr (ciphertext, mix_hash cr ciphertext hs))"

text \<open>The key pair a Diffie-Hellman token uses, by role; \<open>None\<close> where one is missing.\<close>

definition dh_keys :: "token \<Rightarrow> handshake \<Rightarrow> (bytes \<times> bytes) option" where
  "dh_keys tok hs =
     (let es = (case (hs_local_ephemeral hs, hs_remote_static hs) of
                  (Some k, Some p) \<Rightarrow> Some (k, p) | _ \<Rightarrow> None);
          se = map_option (\<lambda>p. (hs_local_static hs, p)) (hs_remote_ephemeral hs)
      in
      (case tok of
         Tok_ee \<Rightarrow> (case (hs_local_ephemeral hs, hs_remote_ephemeral hs) of
                     (Some k, Some p) \<Rightarrow> Some (k, p) | _ \<Rightarrow> None)
       | Tok_es \<Rightarrow> (case hs_role hs of INITIATOR \<Rightarrow> es | RESPONDER \<Rightarrow> se)
       | Tok_se \<Rightarrow> (case hs_role hs of INITIATOR \<Rightarrow> se | RESPONDER \<Rightarrow> es)
       | _ \<Rightarrow> None))"

definition dh_token :: "crypto \<Rightarrow> token \<Rightarrow> handshake \<Rightarrow> handshake res" where
  "dh_token cr tok hs =
     (case dh_keys tok hs of
        None \<Rightarrow> Inl NoiseError
      | Some (private_key, public_key) \<Rightarrow>
          (case x_dh cr private_key public_key of
             None \<Rightarrow> Inl ValueError
           | Some shared \<Rightarrow> Inr (mix_key cr shared hs)))"

definition from_public_bytes :: "bytes \<Rightarrow> bytes res" where
  "from_public_bytes bs = (if length bs = 32 then Inr bs else Inl ValueError)"

fun write_token :: "crypto \<Rightarrow> bytes \<Rightarrow> token \<Rightarrow> bytes \<times> handshake \<Rightarrow> (bytes \<times> handshake) res" where
  "write_token cr eph Tok_e (buf, hs) =
     Inr (buf @ x_pub cr eph, mix_hash cr (x_pub cr eph) (hs\<lparr>hs_local_ephemeral := Some eph\<rparr>))"
| "write_token cr eph Tok_s (buf, hs) =
     bindE (encrypt_and_hash cr (x_pub cr (hs_local_static hs)) hs) (\<lambda>(encrypted, hs).
     Inr (buf @ encrypted, hs))"
| "write_token cr eph tok (buf, hs) = bindE (dh_token cr tok hs) (\<lambda>hs. Inr (buf, hs))"

fun read_token :: "crypto \<Rightarrow> token \<Rightarrow> bytes \<times> handshake \<Rightarrow> (bytes \<times> handshake) res" where
  "read_token cr Tok_e (buf, hs) =
     (if length buf < 32 then Inl NoiseError
      else
        bindE (from_public_bytes (take 32 buf)) (\<lambda>p.
        Inr (drop 32 buf, mix_hash cr (take 32 buf) (hs\<lparr>hs_remote_ephemeral := Some p\<rparr>))))"
| "read_token cr Tok_s (buf, hs) =
     (let key_length = (if cs_has_key (hs_cipher hs) then 48 else 32) in
      if length buf < key_length then Inl NoiseError
      else
        bindE (decrypt_and_hash cr (take key_length buf) hs) (\<lambda>(decrypted, hs).
        bindE (from_public_bytes decrypted) (\<lambda>p.
        Inr (drop key_length buf, hs\<lparr>hs_remote_static := Some p\<rparr>))))"
| "read_token cr tok (buf, hs) = bindE (dh_token cr tok hs) (\<lambda>hs. Inr (buf, hs))"

fun run_tokens :: "(token \<Rightarrow> 'a \<Rightarrow> 'a res) \<Rightarrow> token list \<Rightarrow> 'a \<Rightarrow> 'a res" where
  "run_tokens f [] x = Inr x"
| "run_tokens f (t # ts) x = bindE (f t x) (run_tokens f ts)"

definition is_handshake_complete :: "handshake \<Rightarrow> bool" where
  "is_handshake_complete hs \<longleftrightarrow> length xx_patterns \<le> hs_pattern hs"

definition write_message :: "crypto \<Rightarrow> bytes \<Rightarrow> bytes \<Rightarrow> handshake \<Rightarrow> (bytes \<times> handshake) res" where
  "write_message cr eph payload hs =
     (if is_handshake_complete hs then Inl NoiseError
      else
        bindE (run_tokens (write_token cr eph) (xx_patterns ! hs_pattern hs) ([], hs)) (\<lambda>(buf, hs).
        bindE (encrypt_and_hash cr payload hs) (\<lambda>(encrypted_payload, hs).
        Inr (buf @ encrypted_payload, hs\<lparr>hs_pattern := hs_pattern hs + 1\<rparr>))))"

definition read_message :: "crypto \<Rightarrow> bytes \<Rightarrow> handshake \<Rightarrow> (bytes \<times> handshake) res" where
  "read_message cr message hs =
     (if is_handshake_complete hs then Inl NoiseError
      else
        bindE (run_tokens (read_token cr) (xx_patterns ! hs_pattern hs) (message, hs)) (\<lambda>(buf, hs).
        bindE (decrypt_and_hash cr buf hs) (\<lambda>(payload, hs).
        Inr (payload, hs\<lparr>hs_pattern := hs_pattern hs + 1\<rparr>))))"

text \<open>Split: the sending and the receiving cipher, swapped between the roles.\<close>

definition get_transport_ciphers :: "crypto \<Rightarrow> handshake \<Rightarrow> (cipher_state \<times> cipher_state) res" where
  "get_transport_ciphers cr hs =
     (if \<not> is_handshake_complete hs then Inl NoiseError
      else
        let temp_key = hmac cr (hs_ck hs) [];
            key1 = hmac cr temp_key [1];
            key2 = hmac cr temp_key (key1 @ [2]);
            c1 = initialize_key key1 cipher_new;
            c2 = initialize_key key2 cipher_new
        in Inr (case hs_role hs of INITIATOR \<Rightarrow> (c1, c2) | RESPONDER \<Rightarrow> (c2, c1)))"

subsection \<open>Laws of the primitives and of the cipher states\<close>

lemma crypto_okD:
  assumes "crypto_ok cr"
  shows "length (hmac cr k d) = 32" and "length (x_pub cr s) = 32"
    and "length (aead_enc cr k n p a) = length p + 16"
    and "aead_dec cr k n (aead_enc cr k n p a) a = Some p"
    and "x_dh cr a' (x_pub cr b) = x_dh cr b (x_pub cr a')"
  using assms by (auto simp: crypto_ok_def)

text \<open>A cipher state that is ready: a key of the right size and a counter that still fits.\<close>

definition ready :: "cipher_state \<Rightarrow> bool" where
  "ready cs \<longleftrightarrow> (\<exists>k. cs_key cs = Some k \<and> length k = 32) \<and> cs_nonce cs < 2 ^ 64"

lemma ready_initialize [simp]:
  "length k = 32 \<Longrightarrow> ready (initialize_key k cs)"
  by (simp add: ready_def initialize_key_def)

lemma ready_has_key [simp]: "ready cs \<Longrightarrow> cs_has_key cs"
  by (auto simp: ready_def cs_has_key_def)

definition next_nonce :: "cipher_state \<Rightarrow> cipher_state" where
  "next_nonce cs = cs\<lparr>cs_nonce := cs_nonce cs + 1\<rparr>"

definition seal :: "crypto \<Rightarrow> cipher_state \<Rightarrow> bytes \<Rightarrow> bytes \<Rightarrow> bytes" where
  "seal cr cs p ad =
     aead_enc cr (the (cs_key cs)) (replicate 4 0 @ le_bytes 8 (cs_nonce cs)) p ad"

lemma cipher_encrypt_ready:
  "ready cs \<Longrightarrow> cipher_encrypt cr cs p ad = (Inr (seal cr cs p ad), next_nonce cs)"
  by (auto simp: ready_def cipher_encrypt_def nonce_bytes_def check_key_def next_nonce_def seal_def)

lemma cipher_decrypt_seal:
  assumes "crypto_ok cr" and "ready cs"
  shows "cipher_decrypt cr cs (seal cr cs p ad) ad = (Inr p, next_nonce cs)"
  using assms
  by (auto simp: ready_def cipher_decrypt_def nonce_bytes_def check_key_def next_nonce_def seal_def
      crypto_okD)

lemma length_seal: "crypto_ok cr \<Longrightarrow> length (seal cr cs p ad) = length p + 16"
  by (simp add: seal_def crypto_okD)

lemma encrypt_and_hash_ready:
  "ready (hs_cipher hs) \<Longrightarrow>
   encrypt_and_hash cr p hs =
     Inr (seal cr (hs_cipher hs) p (hs_hash hs),
          mix_hash cr (seal cr (hs_cipher hs) p (hs_hash hs))
            (hs\<lparr>hs_cipher := next_nonce (hs_cipher hs)\<rparr>))"
  by (simp add: encrypt_and_hash_def cipher_encrypt_ready)

lemma decrypt_and_hash_ready:
  assumes "crypto_ok cr" and "ready (hs_cipher hs)"
    and "c = seal cr (hs_cipher hs) p (hs_hash hs)"
  shows "decrypt_and_hash cr c hs =
     Inr (p, mix_hash cr c (hs\<lparr>hs_cipher := next_nonce (hs_cipher hs)\<rparr>))"
  using assms by (simp add: decrypt_and_hash_def cipher_decrypt_seal)

lemma and_hash_plain:
  assumes "hs_cipher hs = cipher_new"
  shows "encrypt_and_hash cr p hs = Inr (p, mix_hash cr p hs)"
    and "decrypt_and_hash cr p hs = Inr (p, mix_hash cr p hs)"
  using assms by (simp_all add: encrypt_and_hash_def decrypt_and_hash_def cs_has_key_def cipher_new_def)

lemma mix_key_fields [simp]:
  "hs_role (mix_key cr ikm hs) = hs_role hs"
  "hs_local_static (mix_key cr ikm hs) = hs_local_static hs"
  "hs_remote_static (mix_key cr ikm hs) = hs_remote_static hs"
  "hs_local_ephemeral (mix_key cr ikm hs) = hs_local_ephemeral hs"
  "hs_remote_ephemeral (mix_key cr ikm hs) = hs_remote_ephemeral hs"
  "hs_hash (mix_key cr ikm hs) = hs_hash hs"
  "hs_pattern (mix_key cr ikm hs) = hs_pattern hs"
  by (simp_all add: mix_key_def Let_def)

lemma mix_hash_fields [simp]:
  "hs_role (mix_hash cr d hs) = hs_role hs"
  "hs_local_static (mix_hash cr d hs) = hs_local_static hs"
  "hs_remote_static (mix_hash cr d hs) = hs_remote_static hs"
  "hs_local_ephemeral (mix_hash cr d hs) = hs_local_ephemeral hs"
  "hs_remote_ephemeral (mix_hash cr d hs) = hs_remote_ephemeral hs"
  "hs_ck (mix_hash cr d hs) = hs_ck hs"
  "hs_cipher (mix_hash cr d hs) = hs_cipher hs"
  "hs_pattern (mix_hash cr d hs) = hs_pattern hs"
  by (simp_all add: mix_hash_def)

subsection \<open>The symmetric state of both sides stays equal\<close>

text \<open>
  The chaining key, the hash and the cipher are the symmetric state. The operations on it depend on
  nothing else, so equal inputs keep it equal.
\<close>

definition sym_eq :: "handshake \<Rightarrow> handshake \<Rightarrow> bool" where
  "sym_eq a b \<longleftrightarrow> hs_ck a = hs_ck b \<and> hs_hash a = hs_hash b \<and> hs_cipher a = hs_cipher b"

lemma sym_eq_mix_key: "sym_eq a b \<Longrightarrow> sym_eq (mix_key cr k a) (mix_key cr k b)"
  by (simp add: sym_eq_def mix_key_def Let_def)

lemma sym_eq_mix_hash: "sym_eq a b \<Longrightarrow> sym_eq (mix_hash cr d a) (mix_hash cr d b)"
  by (simp add: sym_eq_def mix_hash_def)

lemma ready_mix_key: "crypto_ok cr \<Longrightarrow> ready (hs_cipher (mix_key cr k hs))"
  by (simp add: mix_key_def Let_def crypto_okD)

lemma ready_next_mix_key: "crypto_ok cr \<Longrightarrow> ready (next_nonce (hs_cipher (mix_key cr k hs)))"
  by (simp add: mix_key_def Let_def crypto_okD ready_def initialize_key_def next_nonce_def)

lemma sym_eq_upd [simp]:
  "sym_eq (a\<lparr>hs_local_ephemeral := x\<rparr>) b = sym_eq a b"
  "sym_eq a (b\<lparr>hs_remote_ephemeral := x\<rparr>) = sym_eq a b"
  "sym_eq a (b\<lparr>hs_remote_static := x\<rparr>) = sym_eq a b"
  "sym_eq (a\<lparr>hs_pattern := n\<rparr>) (b\<lparr>hs_pattern := m\<rparr>) = sym_eq a b"
  by (simp_all add: sym_eq_def)

text \<open>What one side knows, besides the symmetric state.\<close>

definition side ::
  "NoiseRole \<Rightarrow> bytes \<Rightarrow> bytes option \<Rightarrow> bytes option \<Rightarrow> bytes option \<Rightarrow> nat \<Rightarrow> handshake \<Rightarrow> bool" where
  "side role static rstatic leph reph n hs \<longleftrightarrow>
     hs_role hs = role \<and> hs_local_static hs = static \<and> hs_remote_static hs = rstatic \<and>
     hs_local_ephemeral hs = leph \<and> hs_remote_ephemeral hs = reph \<and> hs_pattern hs = n"

lemma pair_e:
  assumes "crypto_ok cr" and "sym_eq w r"
    and "w' = mix_hash cr (x_pub cr eph) (w\<lparr>hs_local_ephemeral := Some eph\<rparr>)"
    and "r' = mix_hash cr (x_pub cr eph) (r\<lparr>hs_remote_ephemeral := Some (x_pub cr eph)\<rparr>)"
  shows "write_token cr eph Tok_e (buf, w) = Inr (buf @ x_pub cr eph, w')"
    and "read_token cr Tok_e (x_pub cr eph @ rest, r) = Inr (rest, r')"
    and "sym_eq w' r'"
  using assms by (simp_all add: from_public_bytes_def crypto_okD sym_eq_mix_hash)

lemma pair_s:
  assumes "crypto_ok cr" and "sym_eq w r" and "ready (hs_cipher w)"
    and "c = seal cr (hs_cipher w) (x_pub cr (hs_local_static w)) (hs_hash w)"
    and "w' = mix_hash cr c (w\<lparr>hs_cipher := next_nonce (hs_cipher w)\<rparr>)"
    and "r' = (mix_hash cr c (r\<lparr>hs_cipher := next_nonce (hs_cipher r)\<rparr>))
      \<lparr>hs_remote_static := Some (x_pub cr (hs_local_static w))\<rparr>"
  shows "write_token cr eph Tok_s (buf, w) = Inr (buf @ c, w')"
    and "read_token cr Tok_s (c @ rest, r) = Inr (rest, r')"
    and "sym_eq w' r'" and "length c = 48"
proof -
  have r: "ready (hs_cipher r)" "c = seal cr (hs_cipher r) (x_pub cr (hs_local_static w)) (hs_hash r)"
    using assms(2-4) by (simp_all add: sym_eq_def)
  show l: "length c = 48" using assms(1,4) by (simp add: length_seal crypto_okD)
  show "write_token cr eph Tok_s (buf, w) = Inr (buf @ c, w')"
    using assms(3-5) by (simp add: encrypt_and_hash_ready)
  show "read_token cr Tok_s (c @ rest, r) = Inr (rest, r')"
    using r(1) l assms(1,6) decrypt_and_hash_ready [OF assms(1) r]
    by (simp add: from_public_bytes_def crypto_okD)
  show "sym_eq w' r'"
    using assms(2,5,6) by (simp add: sym_eq_def mix_hash_def)
qed

lemma pair_dh:
  assumes "sym_eq w r" and "dh_keys tok w = Some (a, p)" and "dh_keys tok r = Some (b, q)"
    and "x_dh cr a p = Some k" and "x_dh cr b q = Some k"
  shows "dh_token cr tok w = Inr (mix_key cr k w)" and "dh_token cr tok r = Inr (mix_key cr k r)"
    and "sym_eq (mix_key cr k w) (mix_key cr k r)"
  using assms by (simp_all add: dh_token_def sym_eq_mix_key)

lemma pair_payload:
  assumes "crypto_ok cr" and "sym_eq w r" and "ready (hs_cipher w)"
    and "c = seal cr (hs_cipher w) p (hs_hash w)"
  shows "encrypt_and_hash cr p w = Inr (c, mix_hash cr c (w\<lparr>hs_cipher := next_nonce (hs_cipher w)\<rparr>))"
    and "decrypt_and_hash cr c r = Inr (p, mix_hash cr c (r\<lparr>hs_cipher := next_nonce (hs_cipher r)\<rparr>))"
    and "sym_eq (mix_hash cr c (w\<lparr>hs_cipher := next_nonce (hs_cipher w)\<rparr>))
      (mix_hash cr c (r\<lparr>hs_cipher := next_nonce (hs_cipher r)\<rparr>))"
proof -
  have r: "ready (hs_cipher r)" "c = seal cr (hs_cipher r) p (hs_hash r)"
    using assms(2-4) by (simp_all add: sym_eq_def)
  show "encrypt_and_hash cr p w = Inr (c, mix_hash cr c (w\<lparr>hs_cipher := next_nonce (hs_cipher w)\<rparr>))"
    unfolding assms(4) by (rule encrypt_and_hash_ready [OF assms(3)])
  show "decrypt_and_hash cr c r = Inr (p, mix_hash cr c (r\<lparr>hs_cipher := next_nonce (hs_cipher r)\<rparr>))"
    by (rule decrypt_and_hash_ready [OF assms(1) r])
  show "sym_eq (mix_hash cr c (w\<lparr>hs_cipher := next_nonce (hs_cipher w)\<rparr>))
      (mix_hash cr c (r\<lparr>hs_cipher := next_nonce (hs_cipher r)\<rparr>))"
    using assms(2) by (simp add: sym_eq_def mix_hash_def)
qed

subsection \<open>The three messages of XX\<close>

lemma xx_message1:
  assumes "crypto_ok cr"
  shows "\<exists>w r. write_message cr ei [] (handshake_init cr INITIATOR si None) = Inr (x_pub cr ei, w) \<and>
    read_message cr (x_pub cr ei) (handshake_init cr RESPONDER sr None) = Inr ([], r) \<and>
    sym_eq w r \<and> hs_cipher w = cipher_new \<and>
    side INITIATOR si None (Some ei) None 1 w \<and> side RESPONDER sr None None (Some (x_pub cr ei)) 1 r"
  using assms
  by (simp add: write_message_def read_message_def is_handshake_complete_def xx_patterns_def
      handshake_init_def and_hash_plain from_public_bytes_def crypto_okD sym_eq_def side_def
      mix_hash_def)

lemma xx_message2:
  assumes "crypto_ok cr" and "sym_eq w r" and "hs_cipher w = cipher_new"
    and "side RESPONDER sr None None (Some (x_pub cr ei)) 1 w"
    and "side INITIATOR si None (Some ei) None 1 r"
    and "x_dh cr ei (x_pub cr er) = Some ee" and "x_dh cr ei (x_pub cr sr) = Some es"
  shows "\<exists>m w' r'. write_message cr er [] w = Inr (m, w') \<and> read_message cr m r = Inr ([], r') \<and>
    length m = 96 \<and> sym_eq w' r' \<and> ready (hs_cipher w') \<and>
    side RESPONDER sr None (Some er) (Some (x_pub cr ei)) 2 w' \<and>
    side INITIATOR si (Some (x_pub cr sr)) (Some ei) (Some (x_pub cr er)) 2 r'"
proof -
  let ?e = "x_pub cr er"
  define w1 where "w1 = mix_hash cr ?e (w\<lparr>hs_local_ephemeral := Some er\<rparr>)"
  define r1 where "r1 = mix_hash cr ?e (r\<lparr>hs_remote_ephemeral := Some ?e\<rparr>)"
  note e = pair_e [OF assms(1,2) w1_def r1_def]
  define w2 where "w2 = mix_key cr ee w1"
  define r2 where "r2 = mix_key cr ee r1"
  have k2: "dh_keys Tok_ee w1 = Some (er, x_pub cr ei)" "dh_keys Tok_ee r1 = Some (ei, ?e)"
    using assms(4,5) by (simp_all add: dh_keys_def w1_def r1_def side_def)
  note ee = pair_dh [OF e(3) k2, where k = ee and cr = cr, folded w2_def r2_def,
      OF crypto_okD(5) [OF assms(1), of er ei, unfolded assms(6)] assms(6)]
  have rd: "ready (hs_cipher w2)" using assms(1) by (simp add: w2_def ready_mix_key)
  define c where "c = seal cr (hs_cipher w2) (x_pub cr (hs_local_static w2)) (hs_hash w2)"
  define w3 where "w3 = mix_hash cr c (w2\<lparr>hs_cipher := next_nonce (hs_cipher w2)\<rparr>)"
  define r3 where "r3 = (mix_hash cr c (r2\<lparr>hs_cipher := next_nonce (hs_cipher r2)\<rparr>))
      \<lparr>hs_remote_static := Some (x_pub cr (hs_local_static w2))\<rparr>"
  note s = pair_s [OF assms(1) ee(3) rd c_def w3_def r3_def]
  have k3: "dh_keys Tok_es w3 = Some (sr, x_pub cr ei)" "dh_keys Tok_es r3 = Some (ei, x_pub cr sr)"
    using assms(4,5) by (simp_all add: dh_keys_def w3_def r3_def w2_def r2_def w1_def r1_def side_def)
  define w4 where "w4 = mix_key cr es w3"
  define r4 where "r4 = mix_key cr es r3"
  note es = pair_dh [OF s(3) k3, where k = es and cr = cr, folded w4_def r4_def,
      OF crypto_okD(5) [OF assms(1), of sr ei, unfolded assms(7)] assms(7)]
  have rd4: "ready (hs_cipher w4)" using assms(1) by (simp add: w4_def ready_mix_key)
  define d where "d = seal cr (hs_cipher w4) [] (hs_hash w4)"
  define w5 where "w5 = mix_hash cr d (w4\<lparr>hs_cipher := next_nonce (hs_cipher w4)\<rparr>)"
  define r5 where "r5 = mix_hash cr d (r4\<lparr>hs_cipher := next_nonce (hs_cipher r4)\<rparr>)"
  note p = pair_payload [OF assms(1) es(3) rd4 d_def, folded w5_def r5_def]
  have n: "hs_pattern w = 1" "hs_pattern r = 1" using assms(4,5) by (simp_all add: side_def)
  have "write_message cr er [] w = Inr (?e @ c @ d, w5\<lparr>hs_pattern := hs_pattern w5 + 1\<rparr>)"
    using n by (simp add: write_message_def is_handshake_complete_def xx_patterns_def e(1) ee(1) s(1)
        es(1) p(1) del: write_token.simps(1,2))
  moreover have "read_message cr (?e @ c @ d) r = Inr ([], r5\<lparr>hs_pattern := hs_pattern r5 + 1\<rparr>)"
    using n by (simp add: read_message_def is_handshake_complete_def xx_patterns_def e(2) ee(2) s(2)
        es(2) p(2) del: read_token.simps(1,2))
  moreover have "length (?e @ c @ d) = 96"
    using assms(1) s(4) by (simp add: crypto_okD d_def length_seal)
  moreover have "ready (hs_cipher w5)"
    using assms(1) by (simp add: w5_def w4_def ready_next_mix_key)
  moreover have "side RESPONDER sr None (Some er) (Some (x_pub cr ei)) 2 (w5\<lparr>hs_pattern := hs_pattern w5 + 1\<rparr>)"
    "side INITIATOR si (Some (x_pub cr sr)) (Some ei) (Some ?e) 2 (r5\<lparr>hs_pattern := hs_pattern r5 + 1\<rparr>)"
    using assms(4,5)
    by (simp_all add: side_def w5_def r5_def w4_def r4_def w3_def r3_def w2_def r2_def w1_def r1_def)
  ultimately show ?thesis using p(3)
    by (intro exI [of _ "?e @ c @ d"] exI [of _ "w5\<lparr>hs_pattern := hs_pattern w5 + 1\<rparr>"]
        exI [of _ "r5\<lparr>hs_pattern := hs_pattern r5 + 1\<rparr>"]) simp
qed

lemma xx_message3:
  assumes "crypto_ok cr" and "sym_eq w r" and "ready (hs_cipher w)"
    and "side INITIATOR si (Some (x_pub cr sr)) (Some ei) (Some (x_pub cr er)) 2 w"
    and "side RESPONDER sr None (Some er) (Some (x_pub cr ei)) 2 r"
    and "x_dh cr si (x_pub cr er) = Some se"
  shows "\<exists>m w' r'. write_message cr eph [] w = Inr (m, w') \<and> read_message cr m r = Inr ([], r') \<and>
    length m = 64 \<and> sym_eq w' r' \<and>
    side INITIATOR si (Some (x_pub cr sr)) (Some ei) (Some (x_pub cr er)) 3 w' \<and>
    side RESPONDER sr (Some (x_pub cr si)) (Some er) (Some (x_pub cr ei)) 3 r'"
proof -
  define c where "c = seal cr (hs_cipher w) (x_pub cr (hs_local_static w)) (hs_hash w)"
  define w1 where "w1 = mix_hash cr c (w\<lparr>hs_cipher := next_nonce (hs_cipher w)\<rparr>)"
  define r1 where "r1 = (mix_hash cr c (r\<lparr>hs_cipher := next_nonce (hs_cipher r)\<rparr>))
      \<lparr>hs_remote_static := Some (x_pub cr (hs_local_static w))\<rparr>"
  note s = pair_s [OF assms(1-3) c_def w1_def r1_def]
  define w2 where "w2 = mix_key cr se w1"
  define r2 where "r2 = mix_key cr se r1"
  have k2: "dh_keys Tok_se w1 = Some (si, x_pub cr er)" "dh_keys Tok_se r1 = Some (er, x_pub cr si)"
    using assms(4,5) by (simp_all add: dh_keys_def w1_def r1_def side_def)
  note se = pair_dh [OF s(3) k2, where k = se and cr = cr, folded w2_def r2_def,
      OF assms(6) crypto_okD(5) [OF assms(1), of er si, unfolded assms(6)]]
  have rd: "ready (hs_cipher w2)" using assms(1) by (simp add: w2_def ready_mix_key)
  define d where "d = seal cr (hs_cipher w2) [] (hs_hash w2)"
  define w3 where "w3 = mix_hash cr d (w2\<lparr>hs_cipher := next_nonce (hs_cipher w2)\<rparr>)"
  define r3 where "r3 = mix_hash cr d (r2\<lparr>hs_cipher := next_nonce (hs_cipher r2)\<rparr>)"
  note p = pair_payload [OF assms(1) se(3) rd d_def, folded w3_def r3_def]
  have n: "hs_pattern w = 2" "hs_pattern r = 2" using assms(4,5) by (simp_all add: side_def)
  have "write_message cr eph [] w = Inr (c @ d, w3\<lparr>hs_pattern := hs_pattern w3 + 1\<rparr>)"
    using n by (simp add: write_message_def is_handshake_complete_def xx_patterns_def s(1) se(1) p(1)
        del: write_token.simps(1,2))
  moreover have "read_message cr (c @ d) r = Inr ([], r3\<lparr>hs_pattern := hs_pattern r3 + 1\<rparr>)"
    using n by (simp add: read_message_def is_handshake_complete_def xx_patterns_def s(2) se(2) p(2)
        del: read_token.simps(1,2))
  moreover have "length (c @ d) = 64"
    using assms(1) s(4) by (simp add: d_def length_seal)
  moreover have "side INITIATOR si (Some (x_pub cr sr)) (Some ei) (Some (x_pub cr er)) 3
      (w3\<lparr>hs_pattern := hs_pattern w3 + 1\<rparr>)"
    "side RESPONDER sr (Some (x_pub cr si)) (Some er) (Some (x_pub cr ei)) 3
      (r3\<lparr>hs_pattern := hs_pattern r3 + 1\<rparr>)"
    using assms(4,5) by (simp_all add: side_def w3_def r3_def w2_def r2_def w1_def r1_def)
  ultimately show ?thesis using p(3)
    by (intro exI [of _ "c @ d"] exI [of _ "w3\<lparr>hs_pattern := hs_pattern w3 + 1\<rparr>"]
        exI [of _ "r3\<lparr>hs_pattern := hs_pattern r3 + 1\<rparr>"]) simp
qed

text \<open>The whole run: what each side holds after each message.\<close>

lemma xx_run:
  assumes "crypto_ok cr" and "x_dh cr ei (x_pub cr er) = Some ee"
    and "x_dh cr ei (x_pub cr sr) = Some es" and "x_dh cr si (x_pub cr er) = Some se"
  obtains w1 r1 m2 r2 w2 m3 w3 r3 where
    "write_message cr ei [] (handshake_init cr INITIATOR si None) = Inr (x_pub cr ei, w1)"
    "read_message cr (x_pub cr ei) (handshake_init cr RESPONDER sr None) = Inr ([], r1)"
    "side INITIATOR si None (Some ei) None 1 w1"
    "side RESPONDER sr None None (Some (x_pub cr ei)) 1 r1"
    "write_message cr er [] r1 = Inr (m2, r2)" "read_message cr m2 w1 = Inr ([], w2)" "length m2 = 96"
    "side RESPONDER sr None (Some er) (Some (x_pub cr ei)) 2 r2"
    "side INITIATOR si (Some (x_pub cr sr)) (Some ei) (Some (x_pub cr er)) 2 w2"
    "write_message cr eph [] w2 = Inr (m3, w3)" "read_message cr m3 r2 = Inr ([], r3)" "length m3 = 64"
    "side INITIATOR si (Some (x_pub cr sr)) (Some ei) (Some (x_pub cr er)) 3 w3"
    "side RESPONDER sr (Some (x_pub cr si)) (Some er) (Some (x_pub cr ei)) 3 r3"
    "sym_eq w3 r3"
proof -
  obtain w1 r1 where 1:
    "write_message cr ei [] (handshake_init cr INITIATOR si None) = Inr (x_pub cr ei, w1)"
    "read_message cr (x_pub cr ei) (handshake_init cr RESPONDER sr None) = Inr ([], r1)"
    "sym_eq w1 r1" "hs_cipher w1 = cipher_new" "side INITIATOR si None (Some ei) None 1 w1"
    "side RESPONDER sr None None (Some (x_pub cr ei)) 1 r1"
    using xx_message1 [OF assms(1), of ei si sr] by blast
  then have "sym_eq r1 w1" "hs_cipher r1 = cipher_new" by (auto simp: sym_eq_def)
  from xx_message2 [OF assms(1) this 1(6,5) assms(2,3)]
  obtain m2 r2 w2 where 2: "write_message cr er [] r1 = Inr (m2, r2)"
    "read_message cr m2 w1 = Inr ([], w2)" "length m2 = 96" "sym_eq r2 w2" "ready (hs_cipher r2)"
    "side RESPONDER sr None (Some er) (Some (x_pub cr ei)) 2 r2"
    "side INITIATOR si (Some (x_pub cr sr)) (Some ei) (Some (x_pub cr er)) 2 w2" by blast
  then have "sym_eq w2 r2" "ready (hs_cipher w2)" by (auto simp: sym_eq_def)
  from xx_message3 [OF assms(1) this 2(7,6) assms(4), of eph]
  obtain m3 w3 r3 where 3: "write_message cr eph [] w2 = Inr (m3, w3)"
    "read_message cr m3 r2 = Inr ([], r3)" "length m3 = 64" "sym_eq w3 r3"
    "side INITIATOR si (Some (x_pub cr sr)) (Some ei) (Some (x_pub cr er)) 3 w3"
    "side RESPONDER sr (Some (x_pub cr si)) (Some er) (Some (x_pub cr ei)) 3 r3" by blast
  from that [OF 1(1,2,5,6) 2(1-3,6,7) 3(1-3,5,6,4)] show thesis .
qed

subsection \<open>An instance of the primitives\<close>

text \<open>
  A concrete instance that obeys \<open>crypto_ok\<close>, for the witnesses. It has the sizes and the algebra
  of the real primitives and none of their secrecy: the tag of a ciphertext is its nonce.
\<close>

definition fit :: "nat \<Rightarrow> bytes \<Rightarrow> bytes" where
  "fit n bs = take n (bs @ replicate n 0)"

definition plain_crypto :: crypto where
  "plain_crypto =
     \<lparr>hmac = (\<lambda>k d. fit 32 (d @ k)), sha256 = fit 32,
      aead_enc = (\<lambda>k n p a. p @ fit 16 n),
      aead_dec = (\<lambda>k n c a.
        if 16 \<le> length c \<and> drop (length c - 16) c = fit 16 n
        then Some (take (length c - 16) c) else None),
      x_pub = fit 32, x_dh = (\<lambda>a p. Some (map2 (+) (fit 32 a) p)), pbkdf2 = (\<lambda>p s. fit 32 (p @ s))\<rparr>"

lemma length_fit [simp]: "length (fit n bs) = n"
  by (simp add: fit_def)

lemma crypto_ok_plain: "crypto_ok plain_crypto"
proof -
  have "map2 (+) (fit 32 a) (fit 32 b) = map2 (+) (fit 32 b) (fit 32 a)" for a b
    by (rule nth_equalityI) (simp_all add: add.commute)
  then show ?thesis by (simp add: crypto_ok_def plain_crypto_def)
qed

end
