(* ===== verification/Encryption.thy ===== *)
theory Encryption
  imports Noise Utf8 Interfaces
begin

text \<open>
  The second half of \<^verbatim>\<open>bitchat/encryption.py\<close>: \<open>NoiseSession\<close> and
  \<open>EncryptionService\<close>, that is the table of handshakes in progress, the table of sessions, and
  channel encryption. Each operation takes the service and returns it updated beside its result.
  The two callbacks are outputs: \<open>process_handshake_message\<close> returns the calls of
  \<open>on_peer_authenticated\<close> it makes; \<open>on_handshake_required\<close> only logs in its one
  implementation.
\<close>

subsection \<open>Sessions\<close>

record session =
  ses_peer_id :: pystr
  ses_send :: cipher_state
  ses_receive :: cipher_state
  ses_remote_static :: bytes
  ses_established :: time

definition session_encrypt :: "crypto \<Rightarrow> bytes \<Rightarrow> session \<Rightarrow> bytes res \<times> session" where
  "session_encrypt cr plaintext ses =
     (let (r, cs) = cipher_encrypt cr (ses_send ses) plaintext [] in (r, ses\<lparr>ses_send := cs\<rparr>))"

definition session_decrypt :: "crypto \<Rightarrow> bytes \<Rightarrow> session \<Rightarrow> bytes res \<times> session" where
  "session_decrypt cr ciphertext ses =
     (let (r, cs) = cipher_decrypt cr (ses_receive ses) ciphertext [] in (r, ses\<lparr>ses_receive := cs\<rparr>))"

definition get_fingerprint :: "crypto \<Rightarrow> session \<Rightarrow> pystr" where
  "get_fingerprint cr ses = hex (sha256 cr (ses_remote_static ses))"

subsection \<open>The service\<close>

record service =
  sv_static :: bytes
  sv_sessions :: "(pystr, session) dict"
  sv_handshakes :: "(pystr, handshake) dict"

text \<open>
  \<open>_load_or_create_identity\<close>: the key file's content if there is one, whether a write succeeds,
  and a fresh key give the key and the file's content afterwards.
\<close>

definition load_or_create_identity ::
  "pystr option \<Rightarrow> bytes option \<Rightarrow> bool \<Rightarrow> bytes \<Rightarrow> bytes \<times> bytes option" where
  "load_or_create_identity identity_path file write_ok fresh =
     (let given = (identity_path \<noteq> None \<and> identity_path \<noteq> Some []) in
      (case file of
         Some key_data \<Rightarrow>
           if given \<and> length key_data = 32 then (key_data, file)
           else (fresh, if given \<and> write_ok then Some fresh else file)
       | None \<Rightarrow> (fresh, if given \<and> write_ok then Some fresh else file)))"

definition service_init :: "bytes \<Rightarrow> service" where
  "service_init key = \<lparr>sv_static = key, sv_sessions = [], sv_handshakes = []\<rparr>"

definition get_identity_fingerprint :: "crypto \<Rightarrow> service \<Rightarrow> pystr" where
  "get_identity_fingerprint cr s = hex (sha256 cr (x_pub cr (sv_static s)))"

definition get_public_key_bytes :: "crypto \<Rightarrow> service \<Rightarrow> bytes" where
  "get_public_key_bytes cr s = x_pub cr (sv_static s)"

definition get_signing_public_key_bytes :: "crypto \<Rightarrow> service \<Rightarrow> bytes" where
  "get_signing_public_key_bytes cr s = get_public_key_bytes cr s"

definition initiate_handshake ::
  "crypto \<Rightarrow> bytes \<Rightarrow> pystr \<Rightarrow> service \<Rightarrow> bytes res \<times> service" where
  "initiate_handshake cr eph peer s =
     (let s1 = s\<lparr>sv_handshakes := dict_del (sv_handshakes s) peer,
                 sv_sessions := dict_del (sv_sessions s) peer\<rparr>;
          hs = handshake_init cr INITIATOR (sv_static s) None
      in
      (case write_message cr eph [] hs of
         Inl e \<Rightarrow> (Inl e, s1\<lparr>sv_handshakes := dict_set (sv_handshakes s1) peer hs\<rparr>)
       | Inr (m, hs') \<Rightarrow> (Inr m, s1\<lparr>sv_handshakes := dict_set (sv_handshakes s1) peer hs'\<rparr>)))"

text \<open>The guarded part of \<open>process_handshake_message\<close>: read, answer unless complete, and split.\<close>

definition handshake_step ::
  "crypto \<Rightarrow> bytes \<Rightarrow> time \<Rightarrow> pystr \<Rightarrow> bytes \<Rightarrow> handshake
     \<Rightarrow> (bytes option \<times> handshake \<times> session option) res" where
  "handshake_step cr eph now peer message hs =
     bindE (read_message cr message hs) (\<lambda>(payload, hs).
     bindE (if is_handshake_complete hs then Inr (None, hs)
            else bindE (write_message cr eph [] hs) (\<lambda>(m, hs). Inr (Some m, hs))) (\<lambda>(response, hs).
     if is_handshake_complete hs then
       bindE (get_transport_ciphers cr hs) (\<lambda>(send_cipher, receive_cipher).
       Inr (response, hs,
            map_option (\<lambda>remote_key.
              \<lparr>ses_peer_id = peer, ses_send = send_cipher, ses_receive = receive_cipher,
               ses_remote_static = remote_key, ses_established = now\<rparr>) (hs_remote_static hs)))
     else Inr (response, hs, None)))"

definition process_handshake_message ::
  "crypto \<Rightarrow> bytes \<Rightarrow> time \<Rightarrow> pystr \<Rightarrow> bytes \<Rightarrow> service
     \<Rightarrow> bytes option res \<times> service \<times> (pystr \<times> pystr) list" where
  "process_handshake_message cr eph now peer message s =
     (if message = [] then (Inl NoiseError, s, [])
      else if length message < 32 then (Inl NoiseError, s, [])
      else
        let hs = (case dict_get (sv_handshakes s) peer of
                    Some hs \<Rightarrow> hs
                  | None \<Rightarrow> handshake_init cr RESPONDER (sv_static s) None);
            s1 = s\<lparr>sv_handshakes := dict_set (sv_handshakes s) peer hs\<rparr>
        in
        if is_handshake_complete hs then (Inr None, s1, [])
        else
          (case handshake_step cr eph now peer message hs of
             Inl e \<Rightarrow> (Inl NoiseError, s1\<lparr>sv_handshakes := dict_del (sv_handshakes s1) peer\<rparr>, [])
           | Inr (response, hs', None) \<Rightarrow>
               (Inr response, s1\<lparr>sv_handshakes := dict_set (sv_handshakes s1) peer hs'\<rparr>, [])
           | Inr (response, hs', Some ses) \<Rightarrow>
               (Inr response,
                s1\<lparr>sv_sessions := dict_set (sv_sessions s1) peer ses,
                   sv_handshakes := dict_del (sv_handshakes s1) peer\<rparr>,
                [(peer, get_fingerprint cr ses)])))"

definition is_session_established :: "pystr \<Rightarrow> service \<Rightarrow> bool" where
  "is_session_established peer s \<longleftrightarrow> has_key (sv_sessions s) peer"

definition encrypt_for_peer :: "crypto \<Rightarrow> pystr \<Rightarrow> bytes \<Rightarrow> service \<Rightarrow> bytes res \<times> service" where
  "encrypt_for_peer cr peer data s =
     (case dict_get (sv_sessions s) peer of
        None \<Rightarrow> (Inl NoiseError, s)
      | Some ses \<Rightarrow>
          let (r, ses') = session_encrypt cr data ses in
          (r, s\<lparr>sv_sessions := dict_set (sv_sessions s) peer ses'\<rparr>))"

definition decrypt_from_peer :: "crypto \<Rightarrow> pystr \<Rightarrow> bytes \<Rightarrow> service \<Rightarrow> bytes res \<times> service" where
  "decrypt_from_peer cr peer data s =
     (case dict_get (sv_sessions s) peer of
        None \<Rightarrow> (Inl NoiseError, s)
      | Some ses \<Rightarrow>
          let (r, ses') = session_decrypt cr data ses in
          (r, s\<lparr>sv_sessions := dict_set (sv_sessions s) peer ses'\<rparr>))"

definition get_peer_fingerprint :: "crypto \<Rightarrow> pystr \<Rightarrow> service \<Rightarrow> pystr option" where
  "get_peer_fingerprint cr peer s = map_option (get_fingerprint cr) (dict_get (sv_sessions s) peer)"

definition sign_data :: "crypto \<Rightarrow> bytes \<Rightarrow> service \<Rightarrow> bytes" where
  "sign_data cr data s = sha256 cr (data @ get_public_key_bytes cr s)"

definition remove_session :: "pystr \<Rightarrow> service \<Rightarrow> service" where
  "remove_session peer s =
     s\<lparr>sv_sessions := dict_del (sv_sessions s) peer, sv_handshakes := dict_del (sv_handshakes s) peer\<rparr>"

definition clear_handshake_state :: "pystr \<Rightarrow> service \<Rightarrow> service" where
  "clear_handshake_state peer s = s\<lparr>sv_handshakes := dict_del (sv_handshakes s) peer\<rparr>"

definition cleanup_old_sessions :: "time \<Rightarrow> time \<Rightarrow> service \<Rightarrow> service" where
  "cleanup_old_sessions now max_age s =
     (let expired = map fst (filter (\<lambda>(p, ses). max_age < now - ses_established ses) (sv_sessions s))
      in s\<lparr>sv_sessions := fold (\<lambda>p d. dict_del d p) expired (sv_sessions s)\<rparr>)"

definition get_session_count :: "service \<Rightarrow> nat" where
  "get_session_count s = length (sv_sessions s)"

definition get_active_peers :: "service \<Rightarrow> pystr list" where
  "get_active_peers s = map fst (sv_sessions s)"

subsection \<open>Channel encryption\<close>

text \<open>\<open>rnd\<close> is the \<open>os.urandom(12)\<close> of the call.\<close>

definition encrypt_with_key :: "crypto \<Rightarrow> bytes \<Rightarrow> bytes \<Rightarrow> bytes \<Rightarrow> bytes res" where
  "encrypt_with_key cr rnd data key =
     bindE (check_key key) (\<lambda>_. Inr (rnd @ aead_enc cr key rnd data []))"

definition encrypt_for_channel ::
  "crypto \<Rightarrow> bytes \<Rightarrow> pystr \<Rightarrow> pystr \<Rightarrow> bytes \<Rightarrow> pystr \<Rightarrow> bytes res" where
  "encrypt_for_channel cr rnd message channel key creator_fingerprint =
     bindE (check_key key) (\<lambda>_.
     bindE (utf8_encode message) (\<lambda>plaintext.
     Inr (rnd @ aead_enc cr key rnd plaintext [])))"

definition decrypt_from_channel ::
  "crypto \<Rightarrow> bytes \<Rightarrow> pystr \<Rightarrow> bytes \<Rightarrow> pystr \<Rightarrow> pystr res" where
  "decrypt_from_channel cr data channel key creator_fingerprint =
     (if length data < 12 then Inl ValueError
      else
        let nonce = take 12 data; ciphertext = drop 12 data in
        bindE (check_key key) (\<lambda>_.
        (case aead_dec cr key nonce ciphertext [] of
           None \<Rightarrow> Inl InvalidTag
         | Some plaintext \<Rightarrow> utf8_decode plaintext)))"

definition derive_channel_key :: "crypto \<Rightarrow> pystr \<Rightarrow> pystr \<Rightarrow> bytes res" where
  "derive_channel_key cr password channel =
     bindE (utf8_encode channel) (\<lambda>salt.
     bindE (utf8_encode password) (\<lambda>p. Inr (pbkdf2 cr p salt)))"

subsection \<open>A completed handshake\<close>

text \<open>Two sessions that can talk to each other: each sends with the cipher the other receives with.\<close>

definition linked :: "session \<Rightarrow> session \<Rightarrow> bool" where
  "linked a b \<longleftrightarrow>
     ses_send a = ses_receive b \<and> ses_receive a = ses_send b \<and>
     ready (ses_send a) \<and> ready (ses_receive a)"

lemma linked_sym: "linked a b \<Longrightarrow> linked b a"
  by (auto simp: linked_def)

definition transport_of :: "crypto \<Rightarrow> bytes \<Rightarrow> NoiseRole \<Rightarrow> cipher_state \<times> cipher_state" where
  "transport_of cr ck role =
     (let temp_key = hmac cr ck []; key1 = hmac cr temp_key [1];
          c1 = initialize_key key1 cipher_new;
          c2 = initialize_key (hmac cr temp_key (key1 @ [2])) cipher_new
      in (case role of INITIATOR \<Rightarrow> (c1, c2) | RESPONDER \<Rightarrow> (c2, c1)))"

lemma get_transport_ciphers_complete:
  "is_handshake_complete hs \<Longrightarrow>
     get_transport_ciphers cr hs = Inr (transport_of cr (hs_ck hs) (hs_role hs))"
  by (simp add: get_transport_ciphers_def transport_of_def Let_def split: NoiseRole.split)

lemma transport_of_swapped:
  "transport_of cr ck RESPONDER = prod.swap (transport_of cr ck INITIATOR)"
  by (simp add: transport_of_def Let_def)

lemma ready_transport_of:
  "crypto_ok cr \<Longrightarrow>
     ready (fst (transport_of cr ck role)) \<and> ready (snd (transport_of cr ck role))"
  by (simp add: transport_of_def Let_def crypto_okD split: NoiseRole.split)

definition session_of :: "crypto \<Rightarrow> time \<Rightarrow> pystr \<Rightarrow> bytes \<Rightarrow> NoiseRole \<Rightarrow> bytes \<Rightarrow> session" where
  "session_of cr now peer ck role remote =
     \<lparr>ses_peer_id = peer, ses_send = fst (transport_of cr ck role),
      ses_receive = snd (transport_of cr ck role), ses_remote_static = remote, ses_established = now\<rparr>"

lemma linked_session_of:
  "crypto_ok cr \<Longrightarrow>
     linked (session_of cr t p ck INITIATOR rs) (session_of cr t' p' ck RESPONDER rs')"
  using ready_transport_of [of cr ck INITIATOR]
  by (simp add: linked_def session_of_def transport_of_swapped)

text \<open>The step of each side, in terms of what its read and its write return.\<close>

lemma handshake_step_respond:
  assumes "read_message cr message hs = Inr (p, hs1)" and "side role st rs le re n hs1" and "n < 3"
    and "write_message cr eph [] hs1 = Inr (m, hs2)" and "side role' st' rs' le' re' n' hs2"
  shows "handshake_step cr eph now peer message hs =
    (if n' < 3 then Inr (Some m, hs2, None)
     else Inr (Some m, hs2, map_option (session_of cr now peer (hs_ck hs2) role') rs'))"
  using assms
  by (auto simp: handshake_step_def side_def is_handshake_complete_def xx_patterns_def
      get_transport_ciphers_complete session_of_def split: prod.splits cong: option.map_cong)

lemma handshake_step_finish:
  assumes "read_message cr message hs = Inr (p, hs1)" and "side role st rs le re n hs1" and "3 \<le> n"
  shows "handshake_step cr eph now peer message hs =
    Inr (None, hs1, map_option (session_of cr now peer (hs_ck hs1) role) rs)"
  using assms
  by (auto simp: handshake_step_def side_def is_handshake_complete_def xx_patterns_def
      get_transport_ciphers_complete session_of_def split: prod.splits cong: option.map_cong)

lemma process_first_message:
  assumes "32 \<le> length m" and "\<not> has_key (sv_handshakes s) p"
    and "handshake_step cr eph now p m (handshake_init cr RESPONDER (sv_static s) None) = Inr (r, hs, None)"
  shows "process_handshake_message cr eph now p m s = (Inr r,
    s\<lparr>sv_handshakes := dict_set (dict_set (sv_handshakes s) p
      (handshake_init cr RESPONDER (sv_static s) None)) p hs\<rparr>, [])"
  using assms
  by (auto simp: process_handshake_message_def Let_def has_key_def is_handshake_complete_def
      xx_patterns_def handshake_init_def)

lemma process_last_message:
  assumes "32 \<le> length m" and "dict_get (sv_handshakes s) p = Some hs"
    and "\<not> is_handshake_complete hs" and "handshake_step cr eph now p m hs = Inr (r, hs', Some ses)"
  shows "process_handshake_message cr eph now p m s = (Inr r,
    s\<lparr>sv_sessions := dict_set (sv_sessions s) p ses,
      sv_handshakes := dict_del (dict_set (sv_handshakes s) p hs) p\<rparr>, [(p, get_fingerprint cr ses)])"
  using assms by (auto simp: process_handshake_message_def Let_def)

lemma fingerprint_session_of [simp]:
  "get_fingerprint cr (session_of cr now p ck role remote) = hex (sha256 cr remote)"
  by (simp add: get_fingerprint_def session_of_def)

text \<open>The three messages of a handshake, from A's initiation on.\<close>

lemma handshake_run:
  assumes "crypto_ok cr"
    and "x_dh cr ea (x_pub cr eb) = Some ee" and "x_dh cr ea (x_pub cr (sv_static B)) = Some es"
    and "x_dh cr (sv_static A) (x_pub cr eb) = Some se"
    and "\<not> has_key (sv_handshakes B) a"
  shows "\<exists>m1 m2 m3 A1 A2 B1 B2 sa sb.
    initiate_handshake cr ea b A = (Inr m1, A1) \<and>
    process_handshake_message cr eb t1 a m1 B = (Inr (Some m2), B1, []) \<and>
    process_handshake_message cr ec t2 b m2 A1 =
      (Inr (Some m3), A2, [(b, hex (sha256 cr (x_pub cr (sv_static B))))]) \<and>
    process_handshake_message cr ed t3 a m3 B1 =
      (Inr None, B2, [(a, hex (sha256 cr (x_pub cr (sv_static A))))]) \<and>
    dict_get (sv_sessions A2) b = Some sa \<and> dict_get (sv_sessions B2) a = Some sb \<and>
    linked sa sb \<and>
    ses_remote_static sa = x_pub cr (sv_static B) \<and>
    ses_remote_static sb = x_pub cr (sv_static A) \<and>
    \<not> has_key (sv_handshakes A2) b \<and> \<not> has_key (sv_handshakes B2) a \<and>
    length m1 = 32 \<and> length m2 = 96 \<and> length m3 = 64"
proof -
  let ?si = "sv_static A" and ?sr = "sv_static B"
  obtain w1 r1 m2 r2 w2 m3 w3 r3 where
    1: "write_message cr ea [] (handshake_init cr INITIATOR ?si None) = Inr (x_pub cr ea, w1)"
      "read_message cr (x_pub cr ea) (handshake_init cr RESPONDER ?sr None) = Inr ([], r1)"
      "side INITIATOR ?si None (Some ea) None 1 w1"
      "side RESPONDER ?sr None None (Some (x_pub cr ea)) 1 r1"
    and 2: "write_message cr eb [] r1 = Inr (m2, r2)" "read_message cr m2 w1 = Inr ([], w2)"
      "length m2 = 96" "side RESPONDER ?sr None (Some eb) (Some (x_pub cr ea)) 2 r2"
      "side INITIATOR ?si (Some (x_pub cr ?sr)) (Some ea) (Some (x_pub cr eb)) 2 w2"
    and 3: "write_message cr ec [] w2 = Inr (m3, w3)" "read_message cr m3 r2 = Inr ([], r3)"
      "length m3 = 64" "side INITIATOR ?si (Some (x_pub cr ?sr)) (Some ea) (Some (x_pub cr eb)) 3 w3"
      "side RESPONDER ?sr (Some (x_pub cr ?si)) (Some eb) (Some (x_pub cr ea)) 3 r3" "sym_eq w3 r3"
    by (rule xx_run [OF assms(1-4), of ec])
  define A1 where "A1 = A\<lparr>sv_handshakes := dict_set (dict_del (sv_handshakes A) b) b w1,
      sv_sessions := dict_del (sv_sessions A) b\<rparr>"
  have i: "initiate_handshake cr ea b A = (Inr (x_pub cr ea), A1)"
    using 1(1) by (simp add: initiate_handshake_def A1_def Let_def)
  have inc: "\<not> is_handshake_complete w1" "\<not> is_handshake_complete r2"
    using 1(3) 2(4) by (simp_all add: is_handshake_complete_def xx_patterns_def side_def)
  have l: "length (x_pub cr ea) = 32" using assms(1) by (rule crypto_okD)
  define B1 where "B1 = B\<lparr>sv_handshakes := dict_set (dict_set (sv_handshakes B) a
      (handshake_init cr RESPONDER ?sr None)) a r2\<rparr>"
  have s1: "handshake_step cr eb t1 a (x_pub cr ea) (handshake_init cr RESPONDER ?sr None) =
      Inr (Some m2, r2, None)"
    using handshake_step_respond [OF 1(2,4) _ 2(1,4), of t1 a] by simp
  have p1: "process_handshake_message cr eb t1 a (x_pub cr ea) B = (Inr (Some m2), B1, [])"
    using process_first_message [OF _ assms(5) s1] l by (simp add: B1_def)
  define sa where "sa = session_of cr t2 b (hs_ck w3) INITIATOR (x_pub cr ?sr)"
  have s2: "handshake_step cr ec t2 b m2 w1 = Inr (Some m3, w3, Some sa)"
    using handshake_step_respond [OF 2(2,5) _ 3(1,4), of t2 b] by (simp add: sa_def)
  have p2: "process_handshake_message cr ec t2 b m2 A1 = (Inr (Some m3),
      A1\<lparr>sv_sessions := dict_set (sv_sessions A1) b sa,
         sv_handshakes := dict_del (dict_set (sv_handshakes A1) b w1) b\<rparr>,
      [(b, hex (sha256 cr (x_pub cr ?sr)))])"
    using process_last_message [OF _ _ inc(1) s2] 2(3) by (simp add: A1_def sa_def)
  define sb where "sb = session_of cr t3 a (hs_ck r3) RESPONDER (x_pub cr ?si)"
  have s3: "handshake_step cr ed t3 a m3 r2 = Inr (None, r3, Some sb)"
    using handshake_step_finish [OF 3(2,5), of ed t3 a] by (simp add: sb_def)
  have p3: "process_handshake_message cr ed t3 a m3 B1 = (Inr None,
      B1\<lparr>sv_sessions := dict_set (sv_sessions B1) a sb,
         sv_handshakes := dict_del (dict_set (sv_handshakes B1) a r2) a\<rparr>,
      [(a, hex (sha256 cr (x_pub cr ?si)))])"
    using process_last_message [OF _ _ inc(2) s3] 3(3) by (simp add: B1_def sb_def)
  have "hs_ck w3 = hs_ck r3" using 3(6) by (simp add: sym_eq_def)
  then have "linked sa sb" using assms(1) by (simp add: sa_def sb_def linked_session_of)
  then show ?thesis
    using i p1 p2 p3 l 2(3) 3(3) by (auto simp: sa_def sb_def session_of_def)
qed

text \<open>
  C6: the Noise handshake works. When A initiates with B, who has no handshake with A in progress,
  and the three messages arrive, both services end with a session for the other: the ciphers are
  crosswise equal, each side holds the other's true static public key, each is told the other's
  fingerprint once, and no handshake state is left. The Diffie-Hellman secrets must not be refused
  by X25519.
\<close>

theorem handshake_establishes_sessions:
  assumes "crypto_ok cr"
    and "x_dh cr ea (x_pub cr eb) = Some ee" and "x_dh cr ea (x_pub cr (sv_static B)) = Some es"
    and "x_dh cr (sv_static A) (x_pub cr eb) = Some se"
    and "\<not> has_key (sv_handshakes B) a"
  shows "\<exists>m1 m2 m3 A1 A2 B1 B2 sa sb.
    initiate_handshake cr ea b A = (Inr m1, A1) \<and>
    process_handshake_message cr eb t1 a m1 B = (Inr (Some m2), B1, []) \<and>
    process_handshake_message cr ec t2 b m2 A1 =
      (Inr (Some m3), A2, [(b, hex (sha256 cr (x_pub cr (sv_static B))))]) \<and>
    process_handshake_message cr ed t3 a m3 B1 =
      (Inr None, B2, [(a, hex (sha256 cr (x_pub cr (sv_static A))))]) \<and>
    dict_get (sv_sessions A2) b = Some sa \<and> dict_get (sv_sessions B2) a = Some sb \<and>
    linked sa sb \<and>
    ses_remote_static sa = x_pub cr (sv_static B) \<and>
    ses_remote_static sb = x_pub cr (sv_static A) \<and>
    \<not> has_key (sv_handshakes A2) b \<and> \<not> has_key (sv_handshakes B2) a"
  using handshake_run [OF assms, of b t1 ec t2 ed t3] by blast

theorem handshake_establishes_sessions_witness:
  "\<exists>m1 m2 m3 A1 A2 B1 B2 sa sb.
    initiate_handshake plain_crypto [3] (lit ''bb'') (service_init [1]) = (Inr m1, A1) \<and>
    process_handshake_message plain_crypto [4] 0 (lit ''aa'') m1 (service_init [2]) =
      (Inr (Some m2), B1, []) \<and>
    process_handshake_message plain_crypto [5] 1 (lit ''bb'') m2 A1 =
      (Inr (Some m3), A2, [(lit ''bb'', hex (sha256 plain_crypto (x_pub plain_crypto [2])))]) \<and>
    process_handshake_message plain_crypto [6] 2 (lit ''aa'') m3 B1 =
      (Inr None, B2, [(lit ''aa'', hex (sha256 plain_crypto (x_pub plain_crypto [1])))]) \<and>
    dict_get (sv_sessions A2) (lit ''bb'') = Some sa \<and>
    dict_get (sv_sessions B2) (lit ''aa'') = Some sb \<and> linked sa sb"
proof -
  have "\<exists>k. x_dh plain_crypto a p = Some k" for a p by (simp add: plain_crypto_def)
  then obtain ee es se where
    "x_dh plain_crypto [3] (x_pub plain_crypto [4]) = Some ee"
    "x_dh plain_crypto [3] (x_pub plain_crypto (sv_static (service_init [2]))) = Some es"
    "x_dh plain_crypto (sv_static (service_init [1])) (x_pub plain_crypto [4]) = Some se" by metis
  from handshake_establishes_sessions [OF crypto_ok_plain this, of "lit ''aa''" "lit ''bb''" 0 "[5]" 1 "[6]" 2]
  show ?thesis by (auto simp: service_init_def)
qed

subsection \<open>Talking over a session\<close>

text \<open>
  A conversation over two sessions: one side encrypts a list of messages in order, the other
  decrypts what it receives in order.
\<close>

fun encrypt_all :: "crypto \<Rightarrow> bytes list \<Rightarrow> session \<Rightarrow> bytes res list \<times> session" where
  "encrypt_all cr [] ses = ([], ses)"
| "encrypt_all cr (p # ps) ses =
     (let (r, ses') = session_encrypt cr p ses; (rs, ses'') = encrypt_all cr ps ses'
      in (r # rs, ses''))"

fun decrypt_all :: "crypto \<Rightarrow> bytes list \<Rightarrow> session \<Rightarrow> bytes res list \<times> session" where
  "decrypt_all cr [] ses = ([], ses)"
| "decrypt_all cr (c # cs) ses =
     (let (r, ses') = session_decrypt cr c ses; (rs, ses'') = decrypt_all cr cs ses'
      in (r # rs, ses''))"

definition sent :: "crypto \<Rightarrow> bytes list \<Rightarrow> session \<Rightarrow> bytes list" where
  "sent cr ps ses = map projr (fst (encrypt_all cr ps ses))"

text \<open>A cipher whose counter leaves room for \<open>n\<close> more messages.\<close>

definition room :: "nat \<Rightarrow> cipher_state \<Rightarrow> bool" where
  "room n cs \<longleftrightarrow> (\<exists>k. cs_key cs = Some k \<and> length k = 32) \<and> cs_nonce cs + n \<le> 2 ^ 64"

lemma room_ready: "room (Suc n) cs \<Longrightarrow> ready cs" "room (Suc n) cs \<Longrightarrow> room n (next_nonce cs)"
  by (auto simp: room_def ready_def next_nonce_def)

lemma session_encrypt_ready:
  "ready (ses_send ses) \<Longrightarrow> session_encrypt cr p ses =
     (Inr (seal cr (ses_send ses) p []), ses\<lparr>ses_send := next_nonce (ses_send ses)\<rparr>)"
  by (simp add: session_encrypt_def cipher_encrypt_ready)

lemma session_decrypt_seal:
  "crypto_ok cr \<Longrightarrow> ready (ses_receive ses) \<Longrightarrow>
   session_decrypt cr (seal cr (ses_receive ses) p []) ses =
     (Inr p, ses\<lparr>ses_receive := next_nonce (ses_receive ses)\<rparr>)"
  by (simp add: session_decrypt_def cipher_decrypt_seal)

lemma encrypt_all_ok:
  "room (length ps) (ses_send ses) \<Longrightarrow> \<forall>r\<in>set (fst (encrypt_all cr ps ses)). \<exists>c. r = Inr c"
proof (induction ps arbitrary: ses)
  case (Cons p ps)
  from Cons.prems have r: "ready (ses_send ses)" "room (length ps) (next_nonce (ses_send ses))"
    by (auto dest: room_ready)
  from Cons.IH [of "ses\<lparr>ses_send := next_nonce (ses_send ses)\<rparr>"] r show ?case
    by (auto simp: session_encrypt_ready split: prod.split_asm prod.split)
qed simp

lemma sent_Cons:
  "ready (ses_send ses) \<Longrightarrow> sent cr (p # ps) ses =
     seal cr (ses_send ses) p [] # sent cr ps (ses\<lparr>ses_send := next_nonce (ses_send ses)\<rparr>)"
  by (simp add: sent_def session_encrypt_ready split: prod.split)

lemma decrypt_all_Cons:
  "session_decrypt cr c ses = (r, ses') \<Longrightarrow>
     fst (decrypt_all cr (c # cs) ses) = r # fst (decrypt_all cr cs ses')"
  by (simp split: prod.split)

text \<open>
  C19: everything one side of an established pair of sessions encrypts, in order, is decrypted by the
  other side to exactly what was sent, as long as the 64-bit counter does not run out.
\<close>

theorem session_transport_roundtrip:
  assumes "crypto_ok cr" and "ses_send a = ses_receive b" and "room (length ps) (ses_send a)"
  shows "(\<forall>r\<in>set (fst (encrypt_all cr ps a)). \<exists>c. r = Inr c) \<and>
    fst (decrypt_all cr (sent cr ps a) b) = map Inr ps"
proof -
  have "fst (decrypt_all cr (sent cr ps a) b) = map Inr ps"
    using assms(2,3)
  proof (induction ps arbitrary: a b)
    case Nil
    then show ?case by (simp add: sent_def)
  next
    case (Cons p ps)
    from Cons.prems(2) have r: "ready (ses_send a)" "room (length ps) (next_nonce (ses_send a))"
      by (auto dest: room_ready)
    let ?a = "a\<lparr>ses_send := next_nonce (ses_send a)\<rparr>"
    let ?b = "b\<lparr>ses_receive := next_nonce (ses_receive b)\<rparr>"
    have "fst (decrypt_all cr (sent cr ps ?a) ?b) = map Inr ps"
      by (rule Cons.IH) (use Cons.prems(1) r in simp_all)
    with decrypt_all_Cons [OF session_decrypt_seal [OF assms(1), of b p]] r Cons.prems(1) show ?case
      by (simp add: sent_Cons)
  qed
  with encrypt_all_ok [OF assms(3)] show ?thesis by blast
qed

theorem session_transport_roundtrip_witness:
  "fst (decrypt_all plain_crypto
      (sent plain_crypto [[1, 2], [], [3]] (session_of plain_crypto 0 [] [9] INITIATOR []))
      (session_of plain_crypto 0 [] [9] RESPONDER [])) = map Inr [[1, 2], [], [3]]"
proof -
  let ?a = "session_of plain_crypto 0 [] [9] INITIATOR []"
  let ?b = "session_of plain_crypto 0 [] [9] RESPONDER []"
  have l: "ses_send ?a = ses_receive ?b"
    using linked_session_of [OF crypto_ok_plain] by (simp add: linked_def)
  have "room (length [[1, 2], [], [3 :: byte]]) (ses_send ?a)"
    by (simp add: room_def session_of_def transport_of_def Let_def initialize_key_def cipher_new_def
        crypto_okD [OF crypto_ok_plain])
  from session_transport_roundtrip [OF crypto_ok_plain l this] show ?thesis by blast
qed

subsection \<open>Losing synchronisation\<close>

text \<open>Authenticated encryption binds the nonce: a ciphertext opens under no other counter value.\<close>

definition nonce_bound :: "crypto \<Rightarrow> bool" where
  "nonce_bound cr \<longleftrightarrow>
     (\<forall>k i j p. i \<noteq> j \<longrightarrow> i < 2 ^ 64 \<longrightarrow> j < 2 ^ 64 \<longrightarrow>
        aead_dec cr k (replicate 4 0 @ le_bytes 8 j)
          (aead_enc cr k (replicate 4 0 @ le_bytes 8 i) p []) [] = None)"

lemma session_decrypt_shifted:
  assumes "nonce_bound cr" and "cs_key (ses_receive b) = cs_key cs" and "room (Suc n) cs"
    and "cs_nonce cs < cs_nonce (ses_receive b)" and "room (Suc n) (ses_receive b)"
  shows "session_decrypt cr (seal cr cs p []) b =
    (Inl InvalidTag, b\<lparr>ses_receive := next_nonce (ses_receive b)\<rparr>)"
  using assms
  by (auto simp: session_decrypt_def cipher_decrypt_def room_def nonce_bytes_def check_key_def
      seal_def nonce_bound_def next_nonce_def)

text \<open>
  One undecryptable packet ends a session for good. The receiver counts its nonce up on a failed
  decryption, so after a single forged ciphertext every later genuine message, in order and
  unaltered, is rejected too.
\<close>

theorem forged_packet_desynchronises:
  assumes "nonce_bound cr" and "ses_send a = ses_receive b" and "room (length ps + 1) (ses_send a)"
    and "session_decrypt cr forged b = (Inl InvalidTag, b')"
  shows "fst (decrypt_all cr (sent cr ps a) b') = map (\<lambda>_. Inl InvalidTag) ps"
proof -
  have step: "fst (decrypt_all cr (sent cr ps a) b) = map (\<lambda>_. Inl InvalidTag) ps"
    if "cs_key (ses_receive b) = cs_key (ses_send a)" "room (length ps) (ses_send a)"
      "cs_nonce (ses_send a) < cs_nonce (ses_receive b)" "room (length ps) (ses_receive b)"
    for a b
    using that
  proof (induction ps arbitrary: a b)
    case Nil
    then show ?case by (simp add: sent_def)
  next
    case (Cons p ps)
    let ?a = "a\<lparr>ses_send := next_nonce (ses_send a)\<rparr>"
    let ?b = "b\<lparr>ses_receive := next_nonce (ses_receive b)\<rparr>"
    from Cons.prems have d: "session_decrypt cr (seal cr (ses_send a) p []) b = (Inl InvalidTag, ?b)"
      by (intro session_decrypt_shifted [OF assms(1)]) simp_all
    have "fst (decrypt_all cr (sent cr ps ?a) ?b) = map (\<lambda>_. Inl InvalidTag) ps"
      by (rule Cons.IH) (use Cons.prems in \<open>auto simp: room_def next_nonce_def\<close>)
    moreover have "ready (ses_send a)" using Cons.prems(2) by (auto dest: room_ready)
    ultimately show ?case using decrypt_all_Cons [OF d] by (simp add: sent_Cons)
  qed
  have "b' = b\<lparr>ses_receive := next_nonce (ses_receive b)\<rparr>"
    using assms(2-4)
    by (auto simp: session_decrypt_def cipher_decrypt_def room_def nonce_bytes_def check_key_def
        next_nonce_def split: option.splits)
  then show ?thesis
    using assms(2,3) by (intro step) (auto simp: room_def next_nonce_def)
qed

lemma nonce_bound_plain: "nonce_bound plain_crypto"
proof -
  have "fit 16 (replicate 4 0 @ le_bytes 8 i) = fit 16 (replicate 4 0 @ le_bytes 8 j) \<longleftrightarrow>
      be_bytes 8 i = be_bytes 8 j" for i j
    by (simp add: fit_def le_bytes_def)
  moreover have "be_bytes 8 i = be_bytes 8 j \<longleftrightarrow> i = j" if "i < 2 ^ 64" "j < 2 ^ 64" for i j
  proof -
    have p: "(256::nat) ^ 8 = 2 ^ 64" by simp
    have "be_nat (be_bytes 8 i) = i" "be_nat (be_bytes 8 j) = j"
      unfolding be_nat_bytes p by (rule mod_less, rule that)+
    then show ?thesis by metis
  qed
  ultimately show ?thesis by (auto simp: nonce_bound_def plain_crypto_def)
qed

theorem forged_packet_desynchronises_witness:
  "\<exists>b'. session_decrypt plain_crypto [] (session_of plain_crypto 0 [] [9] RESPONDER []) =
      (Inl InvalidTag, b') \<and>
    fst (decrypt_all plain_crypto
      (sent plain_crypto [[1, 2]] (session_of plain_crypto 0 [] [9] INITIATOR [])) b') =
      [Inl InvalidTag]"
proof -
  let ?a = "session_of plain_crypto 0 [] [9] INITIATOR []"
  let ?b = "session_of plain_crypto 0 [] [9] RESPONDER []"
  have l: "ses_send ?a = ses_receive ?b"
    using linked_session_of [OF crypto_ok_plain] by (simp add: linked_def)
  have k: "cs_key (ses_receive ?b) = Some (hmac plain_crypto (hmac plain_crypto [9] []) [1])"
    "cs_nonce (ses_receive ?b) = 0"
    by (simp_all add: session_of_def transport_of_def Let_def initialize_key_def cipher_new_def)
  then have r: "room (length [[1, 2 :: byte]] + 1) (ses_send ?a)"
    by (simp add: room_def l crypto_okD [OF crypto_ok_plain])
  have "aead_dec plain_crypto ky n [] [] = None" for ky n
    by (simp add: plain_crypto_def)
  then have "\<exists>b'. session_decrypt plain_crypto [] ?b = (Inl InvalidTag, b')"
    using k by (simp add: session_decrypt_def cipher_decrypt_def nonce_bytes_def check_key_def
        crypto_okD(1) [OF crypto_ok_plain])
  then obtain b' where b': "session_decrypt plain_crypto [] ?b = (Inl InvalidTag, b')" by blast
  from forged_packet_desynchronises [OF nonce_bound_plain l r b'] b' show ?thesis by simp
qed

end
