(* ===== verification/Sessions.thy ===== *)
theory Sessions
  imports Encryption
begin

text \<open>
  The life of the \<open>EncryptionService\<close> of \<^verbatim>\<open>bitchat/encryption.py\<close> over sequences of
  calls: an operation on one peer leaves the other peers alone, the handshake table holds only
  handshakes in progress, failed handshakes are cleaned up, expired sessions are removed exactly,
  the identity key survives a restart, and channel messages are read back.
\<close>

subsection \<open>Operations as events\<close>

datatype service_op =
  Op_initiate bytes pystr
| Op_process bytes time pystr bytes
| Op_encrypt pystr bytes
| Op_decrypt pystr bytes
| Op_remove pystr
| Op_clear pystr

fun op_peer :: "service_op \<Rightarrow> pystr" where
  "op_peer (Op_initiate eph p) = p"
| "op_peer (Op_process eph now p m) = p"
| "op_peer (Op_encrypt p d) = p"
| "op_peer (Op_decrypt p d) = p"
| "op_peer (Op_remove p) = p"
| "op_peer (Op_clear p) = p"

fun service_step :: "crypto \<Rightarrow> service_op \<Rightarrow> service \<Rightarrow> service" where
  "service_step cr (Op_initiate eph p) s = snd (initiate_handshake cr eph p s)"
| "service_step cr (Op_process eph now p m) s = fst (snd (process_handshake_message cr eph now p m s))"
| "service_step cr (Op_encrypt p d) s = snd (encrypt_for_peer cr p d s)"
| "service_step cr (Op_decrypt p d) s = snd (decrypt_from_peer cr p d s)"
| "service_step cr (Op_remove p) s = remove_session p s"
| "service_step cr (Op_clear p) s = clear_handshake_state p s"

definition peer_view :: "service \<Rightarrow> pystr \<Rightarrow> session option \<times> handshake option" where
  "peer_view s p = (dict_get (sv_sessions s) p, dict_get (sv_handshakes s) p)"

lemmas service_defs =
  initiate_handshake_def process_handshake_message_def encrypt_for_peer_def decrypt_from_peer_def
  remove_session_def clear_handshake_state_def

subsection \<open>Peers do not interfere\<close>

interpretation svc: keyed peer_view op_peer "service_step cr" for cr
proof
  fix k and e :: service_op and s
  assume "k \<noteq> op_peer e"
  then show "peer_view (service_step cr e s) k = peer_view s k"
    by (cases e) (auto simp: service_defs peer_view_def Let_def
        split: sum.splits option.splits prod.splits if_splits)
qed

interpretation svc_remove: removal "\<lambda>s. dict_get (sv_sessions s)" remove_session
  by unfold_locales (simp add: remove_session_def)

interpretation svc_clear: removal "\<lambda>s. dict_get (sv_handshakes s)" clear_handshake_state
  by unfold_locales (simp add: clear_handshake_state_def)

text \<open>
  C28: sessions are isolated. Whatever sequence of handshakes, encryptions, decryptions and removals
  a service performs for other peers, the session and the handshake it holds for a peer are the ones
  it held before.
\<close>

theorem service_isolation:
  assumes "\<forall>e\<in>set es. op_peer e \<noteq> p"
  shows "dict_get (sv_sessions (fold (service_step cr) es s)) p = dict_get (sv_sessions s) p \<and>
    dict_get (sv_handshakes (fold (service_step cr) es s)) p = dict_get (sv_handshakes s) p"
  using svc.run_frame [OF assms, of cr s] by (simp add: peer_view_def)

theorem service_isolation_witness:
  "dict_get (sv_handshakes (fold (service_step plain_crypto)
      [Op_process [] 0 [1] (replicate 40 0), Op_remove [1], Op_clear [3]]
      (snd (initiate_handshake plain_crypto [5] [2] (service_init [7]))))) [2] \<noteq> None"
proof -
  let ?es = "[Op_process [] 0 [1] (replicate 40 0), Op_remove [1], Op_clear [3]]"
  have "\<forall>e\<in>set ?es. op_peer e \<noteq> [2]" by simp
  from service_isolation [OF this] show ?thesis
    by (simp add: initiate_handshake_def Let_def del: fold_simps split: sum.split)
qed

subsection \<open>The handshake table\<close>

text \<open>
  A stored handshake waits for the peer: an initiator for the second message, a responder for the
  third. So it is never complete, and completing it always yields a session.
\<close>

definition waiting :: "handshake \<Rightarrow> bool" where
  "waiting hs \<longleftrightarrow>
     (hs_role hs = INITIATOR \<and> hs_pattern hs = 1) \<or> (hs_role hs = RESPONDER \<and> hs_pattern hs = 2)"

definition wf_service :: "service \<Rightarrow> bool" where
  "wf_service s \<longleftrightarrow>
     wf_dict (sv_sessions s) \<and> wf_dict (sv_handshakes s) \<and>
     (\<forall>p hs. dict_get (sv_handshakes s) p = Some hs \<longrightarrow> waiting hs)"

definition progress :: "handshake \<Rightarrow> handshake \<Rightarrow> bool" where
  "progress hs hs' \<longleftrightarrow>
     hs_role hs' = hs_role hs \<and> hs_pattern hs' = hs_pattern hs \<and>
     (hs_remote_static hs \<noteq> None \<longrightarrow> hs_remote_static hs' \<noteq> None)"

lemma progress_trans: "progress a b \<Longrightarrow> progress b c \<Longrightarrow> progress a c"
  by (simp add: progress_def)

lemma progress_dh: "dh_token cr tok hs = Inr hs' \<Longrightarrow> progress hs hs'"
  by (auto simp: dh_token_def progress_def mix_key_def Let_def split: option.splits)

lemma progress_decrypt: "decrypt_and_hash cr c hs = Inr (p, hs') \<Longrightarrow> progress hs hs'"
  by (auto simp: decrypt_and_hash_def progress_def mix_hash_def Let_def res_simps
      split: prod.splits if_splits)

lemma progress_encrypt: "encrypt_and_hash cr c hs = Inr (p, hs') \<Longrightarrow> progress hs hs'"
  by (auto simp: encrypt_and_hash_def progress_def mix_hash_def Let_def res_simps
      split: prod.splits if_splits)

lemma progress_read_token:
  assumes "read_token cr t (buf, hs) = Inr (buf', hs')"
  shows "progress hs hs'" and "t = Tok_s \<Longrightarrow> hs_remote_static hs' \<noteq> None"
proof -
  show "progress hs hs'"
    using assms progress_dh
    by (cases t) (auto simp: res_simps Let_def progress_def mix_hash_def split: if_splits prod.splits
        dest!: progress_decrypt)
  show "hs_remote_static hs' \<noteq> None" if "t = Tok_s"
    using assms that by (auto simp: res_simps Let_def split: if_splits prod.splits)
qed

lemma progress_write_token:
  "write_token cr eph t (buf, hs) = Inr (buf', hs') \<Longrightarrow> progress hs hs'"
  using progress_dh progress_encrypt
  by (cases t) (auto simp: res_simps progress_def mix_hash_def split: prod.splits)

lemma progress_read_tokens:
  "run_tokens (read_token cr) ts (buf, hs) = Inr (buf', hs') \<Longrightarrow>
     progress hs hs' \<and> (Tok_s \<in> set ts \<longrightarrow> hs_remote_static hs' \<noteq> None)"
proof (induction ts arbitrary: buf hs)
  case (Cons t ts)
  then obtain b h where r: "read_token cr t (buf, hs) = Inr (b, h)"
    "run_tokens (read_token cr) ts (b, h) = Inr (buf', hs')"
    by (auto simp: res_simps)
  from Cons.IH [OF r(2)] progress_read_token [OF r(1)] show ?case
    by (auto simp: progress_def)
qed (simp add: progress_def)

lemma progress_write_tokens:
  "run_tokens (write_token cr eph) ts (buf, hs) = Inr (buf', hs') \<Longrightarrow> progress hs hs'"
proof (induction ts arbitrary: buf hs)
  case (Cons t ts)
  then obtain b h where r: "write_token cr eph t (buf, hs) = Inr (b, h)"
    "run_tokens (write_token cr eph) ts (b, h) = Inr (buf', hs')"
    by (auto simp: res_simps)
  from Cons.IH [OF r(2)] progress_write_token [OF r(1)] show ?case
    by (rule progress_trans [rotated])
qed (simp add: progress_def)

lemma read_message_progress:
  assumes "read_message cr m hs = Inr (p, hs')"
  shows "hs_role hs' = hs_role hs" and "hs_pattern hs' = Suc (hs_pattern hs)"
    and "hs_pattern hs < 3"
    and "hs_remote_static hs \<noteq> None \<or> Tok_s \<in> set (xx_patterns ! hs_pattern hs) \<Longrightarrow>
      hs_remote_static hs' \<noteq> None"
proof -
  from assms obtain b h h2 where r: "hs_pattern hs < 3"
    "run_tokens (read_token cr) (xx_patterns ! hs_pattern hs) (m, hs) = Inr (b, h)"
    "decrypt_and_hash cr b h = Inr (p, h2)" "hs' = h2\<lparr>hs_pattern := hs_pattern h2 + 1\<rparr>"
    by (auto simp: read_message_def res_simps is_handshake_complete_def xx_patterns_def
        split: if_splits)
  with progress_read_tokens [OF r(2)] progress_decrypt [OF r(3)]
  show "hs_role hs' = hs_role hs" "hs_pattern hs' = Suc (hs_pattern hs)" "hs_pattern hs < 3"
    "hs_remote_static hs \<noteq> None \<or> Tok_s \<in> set (xx_patterns ! hs_pattern hs) \<Longrightarrow>
      hs_remote_static hs' \<noteq> None"
    by (auto simp: progress_def)
qed

lemma write_message_progress:
  assumes "write_message cr eph p hs = Inr (m, hs')"
  shows "hs_role hs' = hs_role hs" and "hs_pattern hs' = Suc (hs_pattern hs)"
    and "hs_remote_static hs \<noteq> None \<Longrightarrow> hs_remote_static hs' \<noteq> None"
proof -
  from assms obtain b h h2 c where r:
    "run_tokens (write_token cr eph) (xx_patterns ! hs_pattern hs) ([], hs) = Inr (b, h)"
    "encrypt_and_hash cr p h = Inr (c, h2)" "hs' = h2\<lparr>hs_pattern := hs_pattern h2 + 1\<rparr>"
    by (auto simp: write_message_def res_simps split: if_splits)
  with progress_write_tokens [OF r(1)] progress_encrypt [OF r(2)]
  show "hs_role hs' = hs_role hs" "hs_pattern hs' = Suc (hs_pattern hs)"
    "hs_remote_static hs \<noteq> None \<Longrightarrow> hs_remote_static hs' \<noteq> None"
    by (auto simp: progress_def)
qed

lemma handshake_step_waiting:
  assumes "waiting hs" and "handshake_step cr eph now peer m hs = Inr (response, hs', ses)"
  shows "ses \<noteq> None"
proof -
  from assms(2) obtain p h where r: "read_message cr m hs = Inr (p, h)"
    by (auto simp: handshake_step_def res_simps)
  note rp = read_message_progress [OF r]
  have s: "hs_remote_static h \<noteq> None"
    using assms(1) rp(4) by (auto simp: waiting_def xx_patterns_def)
  show ?thesis
  proof (cases "is_handshake_complete h")
    case True
    with assms(2) r s show ?thesis by (auto simp: handshake_step_def res_simps)
  next
    case False
    with assms(1) rp have i: "hs_role h = INITIATOR" "hs_pattern h = 2"
      by (auto simp: waiting_def is_handshake_complete_def xx_patterns_def)
    from False assms(2) r obtain m' h' where w: "write_message cr eph [] h = Inr (m', h')"
      by (auto simp: handshake_step_def res_simps)
    from write_message_progress [OF w] i s
    have "is_handshake_complete h'" "hs_remote_static h' \<noteq> None"
      by (auto simp: is_handshake_complete_def xx_patterns_def)
    with False assms(2) r w show ?thesis by (auto simp: handshake_step_def res_simps)
  qed
qed

lemma handshake_step_fresh:
  assumes "handshake_step cr eph now peer m (handshake_init cr RESPONDER static None) =
    Inr (response, hs', ses)"
  shows "waiting hs' \<and> ses = None"
proof -
  from assms obtain p h where r: "read_message cr m (handshake_init cr RESPONDER static None) = Inr (p, h)"
    by (auto simp: handshake_step_def res_simps)
  from read_message_progress [OF r] have h: "hs_role h = RESPONDER" "hs_pattern h = 1"
    by (auto simp: handshake_init_def)
  then have inc: "\<not> is_handshake_complete h"
    by (simp add: is_handshake_complete_def xx_patterns_def)
  with assms r obtain m' h' where w: "write_message cr eph [] h = Inr (m', h')"
    by (auto simp: handshake_step_def res_simps)
  from write_message_progress [OF w] h have h': "hs_role h' = RESPONDER" "hs_pattern h' = 2" by auto
  then have "\<not> is_handshake_complete h'"
    by (simp add: is_handshake_complete_def xx_patterns_def)
  with assms r w inc h' show ?thesis by (auto simp: handshake_step_def res_simps waiting_def)
qed

lemma waiting_not_complete: "waiting hs \<Longrightarrow> \<not> is_handshake_complete hs"
  by (auto simp: waiting_def is_handshake_complete_def xx_patterns_def)

lemma wf_service_initiate:
  assumes "wf_service s" and "initiate_handshake cr eph p s = (r, s')"
  shows "wf_service s'"
proof -
  have "\<exists>m hs. write_message cr eph [] (handshake_init cr INITIATOR (sv_static s) None) = Inr (m, hs)"
    by (simp add: write_message_def is_handshake_complete_def xx_patterns_def handshake_init_def
        encrypt_and_hash_def cs_has_key_def cipher_new_def mix_hash_def)
  then obtain m hs where
    w: "write_message cr eph [] (handshake_init cr INITIATOR (sv_static s) None) = Inr (m, hs)" by blast
  from write_message_progress [OF w] have "waiting hs"
    by (simp add: waiting_def handshake_init_def)
  with assms w show ?thesis
    by (auto simp: initiate_handshake_def Let_def wf_service_def split: if_splits)
qed

text \<open>The branches of \<open>process_handshake_message\<close> on a well-formed service.\<close>

lemma process_cases:
  assumes "wf_service s" and "process_handshake_message cr eph now peer m s = (r, s', evs)"
  obtains
    (short) "length m < 32" "r = Inl NoiseError" "s' = s" "evs = []"
  | (failed) "32 \<le> length m" "r = Inl NoiseError" "evs = []" "sv_static s' = sv_static s"
      "sv_sessions s' = sv_sessions s" "dict_get (sv_handshakes s') = (dict_get (sv_handshakes s))(peer := None)"
      "wf_dict (sv_handshakes s')"
  | (answered) response hs where "32 \<le> length m" "\<not> has_key (sv_handshakes s) peer"
      "r = Inr response" "evs = []" "sv_static s' = sv_static s" "sv_sessions s' = sv_sessions s"
      "dict_get (sv_handshakes s') = (dict_get (sv_handshakes s))(peer \<mapsto> hs)" "waiting hs"
      "wf_dict (sv_handshakes s')"
  | (established) response ses where "32 \<le> length m" "has_key (sv_handshakes s) peer"
      "r = Inr response" "sv_static s' = sv_static s" "evs = [(peer, get_fingerprint cr ses)]"
      "sv_sessions s' = dict_set (sv_sessions s) peer ses"
      "dict_get (sv_handshakes s') = (dict_get (sv_handshakes s))(peer := None)"
      "wf_dict (sv_handshakes s')"
proof (cases "length m < 32")
  case True
  with assms(2) short show thesis by (auto simp: process_handshake_message_def split: if_splits)
next
  case False
  then have ne: "m \<noteq> []" by auto
  define hs where "hs = (case dict_get (sv_handshakes s) peer of Some hs \<Rightarrow> hs
    | None \<Rightarrow> handshake_init cr RESPONDER (sv_static s) None)"
  have inc: "\<not> is_handshake_complete hs"
    using assms(1) waiting_not_complete
    by (auto simp: hs_def wf_service_def handshake_init_def is_handshake_complete_def xx_patterns_def
        split: option.split)
  note p = assms(2) [unfolded process_handshake_message_def Let_def, folded hs_def]
  show thesis
  proof (cases "handshake_step cr eph now peer m hs")
    case (Inl e)
    with p False ne inc assms(1) show thesis
      by (intro failed) (auto simp: wf_service_def fun_eq_iff)
  next
    case (Inr t)
    then obtain response hs' ses where t: "handshake_step cr eph now peer m hs = Inr (response, hs', ses)"
      by (cases t) auto
    show thesis
    proof (cases "dict_get (sv_handshakes s) peer")
      case None
      with t have "waiting hs'" "ses = None" by (auto simp: hs_def dest: handshake_step_fresh)
      with p False ne inc t assms(1) None show thesis
        by (intro answered [of response hs']) (auto simp: has_key_def wf_service_def fun_eq_iff)
    next
      case (Some h)
      with assms(1) have "waiting hs" by (auto simp: hs_def wf_service_def)
      with t obtain se where "ses = Some se" by (auto dest: handshake_step_waiting)
      with p False ne inc t assms(1) Some show thesis
        by (intro established [of response se]) (auto simp: has_key_def wf_service_def fun_eq_iff)
    qed
  qed
qed

lemma dict_get_fold_del:
  "dict_get (fold (\<lambda>p d. dict_del d p) ps d) q = (if q \<in> set ps then None else dict_get d q)"
  by (induction ps arbitrary: d) auto

lemma wf_dict_fold_del: "wf_dict d \<Longrightarrow> wf_dict (fold (\<lambda>p d. dict_del d p) ps d)"
  by (induction ps arbitrary: d) auto

datatype service_event = Peer_op service_op | Cleanup time time

fun service_event_step :: "crypto \<Rightarrow> service_event \<Rightarrow> service \<Rightarrow> service" where
  "service_event_step cr (Peer_op e) s = service_step cr e s"
| "service_event_step cr (Cleanup now max_age) s = cleanup_old_sessions now max_age s"

lemma wf_service_process:
  assumes "wf_service s"
  shows "wf_service (fst (snd (process_handshake_message cr eph now peer m s)))"
proof -
  obtain r s' evs where p: "process_handshake_message cr eph now peer m s = (r, s', evs)"
    by (rule prod_cases3)
  from assms p have "wf_service s'"
    by (cases rule: process_cases) (use assms in \<open>auto simp: wf_service_def\<close>)
  with p show ?thesis by simp
qed

lemma wf_service_step: "wf_service s \<Longrightarrow> wf_service (service_step cr e s)"
proof (cases e)
  case (Op_initiate eph p)
  assume "wf_service s"
  then show ?thesis
    using wf_service_initiate [of s cr eph p] by (simp add: Op_initiate) (metis prod.collapse)
next
  case (Op_process eph now p m)
  assume "wf_service s"
  then show ?thesis by (simp add: Op_process wf_service_process)
qed (auto simp: wf_service_def encrypt_for_peer_def decrypt_from_peer_def remove_session_def
    clear_handshake_state_def split: option.split prod.split)

interpretation life: keeps wf_service "service_event_step cr" for cr
proof
  fix e :: service_event and s
  assume "wf_service s"
  then show "wf_service (service_event_step cr e s)"
    by (cases e) (auto simp: wf_service_step, simp add: wf_service_def cleanup_old_sessions_def
        Let_def wf_dict_fold_del)
qed

lemma wf_service_init: "wf_service (service_init key)"
  by (simp add: wf_service_def service_init_def)

text \<open>
  From its start, over any sequence of operations, a service has at most one session and one
  handshake per peer, and each handshake it keeps is still in progress: an initiator waits for the
  second message, a responder for the third. So the branch of \<open>process_handshake_message\<close>
  that ignores a message because the handshake is complete is never taken.
\<close>

theorem handshakes_in_progress:
  "let s = fold (service_event_step cr) es (service_init key) in
     wf_dict (sv_sessions s) \<and> wf_dict (sv_handshakes s) \<and>
     list_all (\<lambda>(p, hs). waiting hs \<and> \<not> is_handshake_complete hs) (sv_handshakes s)"
proof -
  let ?s = "fold (service_event_step cr) es (service_init key)"
  have w: "wf_service ?s" by (rule life.run_keeps [OF wf_service_init])
  then have "waiting hs" if "(p, hs) \<in> set (sv_handshakes ?s)" for p hs
    using that map_of_is_SomeI [of "sv_handshakes ?s" p hs]
    by (auto simp: wf_service_def wf_dict_def)
  with w waiting_not_complete show ?thesis
    by (auto simp: Let_def wf_service_def list_all_iff)
qed

text \<open>
  C30: a handshake message that is refused does no harm beyond its own handshake. On a service in a
  reachable state the only error is \<open>NoiseError\<close>; the established sessions are untouched,
  nobody is reported as authenticated, other peers' handshakes stay, and either the message was
  shorter than a key and nothing changed at all, or the handshake with that peer is discarded.
\<close>

theorem handshake_failure_contained:
  assumes "wf_service s" and "process_handshake_message cr eph now peer m s = (Inl e, s', evs)"
  shows "e = NoiseError \<and> evs = [] \<and> sv_sessions s' = sv_sessions s \<and>
    (if length m < 32 then s' = s
     else dict_get (sv_handshakes s') = (dict_get (sv_handshakes s))(peer := None))"
  using assms by (cases rule: process_cases) auto

theorem handshake_failure_contained_witness:
  "process_handshake_message plain_crypto [] 0 [1] [9] (service_init [7]) =
      (Inl NoiseError, service_init [7], []) \<and> sv_sessions (service_init [7]) = []"
proof -
  have "process_handshake_message plain_crypto [] 0 [1] [9] (service_init [7]) =
      (Inl NoiseError, service_init [7], [])"
    by (simp add: process_handshake_message_def)
  with handshake_failure_contained [OF wf_service_init this] show ?thesis
    by (simp add: service_init_def)
qed

text \<open>
  C29: a session appears only at the end of a handshake this service took part in. If a message makes
  a session for a peer appear or change, the service held a handshake with that peer that was waiting
  for exactly this message, its completion is reported once with the fingerprint of the key the
  session holds, and the handshake is gone.
\<close>

theorem session_needs_handshake:
  assumes "wf_service s" and "process_handshake_message cr eph now peer m s = (r, s', evs)"
    and "dict_get (sv_sessions s') q \<noteq> dict_get (sv_sessions s) q"
  shows "q = peer \<and> has_key (sv_handshakes s) peer \<and> \<not> has_key (sv_handshakes s') peer \<and>
    (\<exists>ses. dict_get (sv_sessions s') peer = Some ses \<and> evs = [(peer, get_fingerprint cr ses)])"
  using assms by (cases rule: process_cases) (auto simp: has_key_def split: if_splits)

theorem session_needs_handshake_witness:
  "\<exists>m s s' r. wf_service s \<and> \<not> has_key (sv_sessions s) [2] \<and> has_key (sv_handshakes s) [2] \<and>
     process_handshake_message plain_crypto [5] 0 [2] m s =
       (r, s', [(2 # [], hex (sha256 plain_crypto (x_pub plain_crypto [8])))]) \<and>
     has_key (sv_sessions s') [2] \<and> \<not> has_key (sv_handshakes s') [2]"
proof -
  let ?c = plain_crypto
  have "\<exists>k. x_dh ?c a p = Some k" for a p by (simp add: plain_crypto_def)
  then obtain ee es se where d: "x_dh ?c [3] (x_pub ?c [4]) = Some ee"
    "x_dh ?c [3] (x_pub ?c [8]) = Some es" "x_dh ?c [7] (x_pub ?c [4]) = Some se" by metis
  obtain w1 m2 w2 m3 w3 where w: "read_message ?c m2 w1 = Inr ([], w2)" "length m2 = 96"
    "side INITIATOR [7] None (Some [3]) None 1 w1"
    "side INITIATOR [7] (Some (x_pub ?c [8])) (Some [3]) (Some (x_pub ?c [4])) 2 w2"
    "write_message ?c [5] [] w2 = Inr (m3, w3)"
    "side INITIATOR [7] (Some (x_pub ?c [8])) (Some [3]) (Some (x_pub ?c [4])) 3 w3"
    by (rule xx_run [OF crypto_ok_plain d, of "[5]"])
  let ?s = "(service_init [7])\<lparr>sv_handshakes := [([2], w1)]\<rparr>"
  have wf: "wf_service ?s"
    using w(3) by (auto simp: wf_service_def service_init_def waiting_def side_def)
  have "handshake_step ?c [5] 0 [2] m2 w1 =
      Inr (Some m3, w3, Some (session_of ?c 0 [2] (hs_ck w3) INITIATOR (x_pub ?c [8])))"
    using handshake_step_respond [OF w(1,4) _ w(5,6), of 0 "[2]"] by simp
  then have p: "process_handshake_message ?c [5] 0 [2] m2 ?s = (Inr (Some m3),
      ?s\<lparr>sv_sessions := dict_set (sv_sessions ?s) [2] (session_of ?c 0 [2] (hs_ck w3) INITIATOR (x_pub ?c [8])),
        sv_handshakes := dict_del (dict_set (sv_handshakes ?s) [2] w1) [2]\<rparr>,
      [(2 # [], get_fingerprint ?c (session_of ?c 0 [2] (hs_ck w3) INITIATOR (x_pub ?c [8])))])"
    using w(2,3) by (intro process_last_message)
      (auto simp: is_handshake_complete_def xx_patterns_def side_def)
  have n: "\<not> has_key (sv_sessions ?s) [2]" "has_key (sv_handshakes ?s) [2]"
    by (simp_all add: service_init_def has_key_def)
  from session_needs_handshake [OF wf p, of "[2]"] n(1)
  have "has_key (sv_handshakes ?s) [2]" "\<not> has_key (dict_del (dict_set (sv_handshakes ?s) [2] w1) [2])
      [2]" by (simp_all add: has_key_def)
  with wf p n show ?thesis by (intro exI conjI) (assumption | simp)+
qed

subsection \<open>Simultaneous initiation\<close>

lemma initiate_handshake_first:
  assumes "crypto_ok cr" and "initiate_handshake cr eph p s = (r, s')"
  obtains hs where "r = Inr (x_pub cr eph)" and "length (x_pub cr eph) = 32"
    and "dict_get (sv_handshakes s') p = Some hs" and "waiting hs" and "hs_role hs = INITIATOR"
    and "sv_sessions s' = dict_del (sv_sessions s) p"
proof -
  obtain hs where w: "write_message cr eph [] (handshake_init cr INITIATOR (sv_static s) None) =
      Inr (x_pub cr eph, hs)"
    by (simp add: write_message_def is_handshake_complete_def xx_patterns_def handshake_init_def
        encrypt_and_hash_def cs_has_key_def cipher_new_def mix_hash_def)
  from write_message_progress [OF w] have "waiting hs" "hs_role hs = INITIATOR"
    by (simp_all add: waiting_def handshake_init_def)
  moreover have "r = Inr (x_pub cr eph)" "dict_get (sv_handshakes s') p = Some hs"
    "sv_sessions s' = dict_del (sv_sessions s) p"
    using assms(2) w by (auto simp: initiate_handshake_def Let_def)
  ultimately show thesis using that crypto_okD(2) [OF assms(1)] by blast
qed

lemma second_message_too_short:
  assumes "waiting hs" and "hs_role hs = INITIATOR" and "length m = 32"
  shows "\<exists>e. handshake_step cr eph now p m hs = Inl e"
proof -
  have "hs_pattern hs = 1" using assms(1,2) by (auto simp: waiting_def)
  then show ?thesis
    using assms(3)
    by (cases "read_message cr m hs")
      (auto simp: handshake_step_def read_message_def is_handshake_complete_def xx_patterns_def
        res_simps Let_def split: if_splits)
qed

lemma crossed_side:
  assumes "crypto_ok cr" and "initiate_handshake cr eph p s = (r, s')" and "length m = 32"
  shows "\<exists>s''. process_handshake_message cr eph' now p m s' = (Inl NoiseError, s'', []) \<and>
    \<not> has_key (sv_sessions s'') p \<and> \<not> has_key (sv_handshakes s'') p"
proof -
  obtain hs where hs: "dict_get (sv_handshakes s') p = Some hs" "waiting hs" "hs_role hs = INITIATOR"
    "sv_sessions s' = dict_del (sv_sessions s) p"
    by (rule initiate_handshake_first [OF assms(1,2)])
  obtain e where "handshake_step cr eph' now p m hs = Inl e"
    using second_message_too_short [OF hs(2,3) assms(3)] by blast
  with hs(1,4) waiting_not_complete [OF hs(2)] assms(3) show ?thesis
    by (auto simp: process_handshake_message_def Let_def)
qed

text \<open>
  Two peers that initiate at the same time defeat each other. If A and B each start a handshake
  with the other and then each receives the other's first message, both refuse it, and both end with
  neither a session nor a handshake for the other.
\<close>

theorem crossed_initiations_fail:
  assumes "crypto_ok cr"
    and "initiate_handshake cr ea b A = (Inr ma, A1)" and "initiate_handshake cr eb a B = (Inr mb, B1)"
  shows "\<exists>A2 B2.
    process_handshake_message cr ec t1 b mb A1 = (Inl NoiseError, A2, []) \<and>
    process_handshake_message cr ed t2 a ma B1 = (Inl NoiseError, B2, []) \<and>
    \<not> has_key (sv_sessions A2) b \<and> \<not> has_key (sv_handshakes A2) b \<and>
    \<not> has_key (sv_sessions B2) a \<and> \<not> has_key (sv_handshakes B2) a"
proof -
  have "length ma = 32" "length mb = 32"
    using initiate_handshake_first [OF assms(1,2)] initiate_handshake_first [OF assms(1,3)]
    by (metis sum.inject(2))+
  with crossed_side [OF assms(1,2), of mb ec t1] crossed_side [OF assms(1,3), of ma ed t2]
  show ?thesis by blast
qed

theorem crossed_initiations_fail_witness:
  "\<exists>ma A1 mb B1 A2.
     initiate_handshake plain_crypto [3] (lit ''b'') (service_init [1]) = (Inr ma, A1) \<and>
     initiate_handshake plain_crypto [4] (lit ''a'') (service_init [2]) = (Inr mb, B1) \<and>
     process_handshake_message plain_crypto [5] 0 (lit ''b'') mb A1 = (Inl NoiseError, A2, [])"
proof -
  have "\<exists>m s'. initiate_handshake plain_crypto e p s = (Inr m, s')" for e p s
    by (metis initiate_handshake_first [OF crypto_ok_plain] surj_pair)
  then obtain ma A1 mb B1 where
    "initiate_handshake plain_crypto [3] (lit ''b'') (service_init [1]) = (Inr ma, A1)"
    "initiate_handshake plain_crypto [4] (lit ''a'') (service_init [2]) = (Inr mb, B1)" by metis
  with crossed_initiations_fail [OF crypto_ok_plain this] show ?thesis by blast
qed

subsection \<open>Expiry\<close>

text \<open>
  \<open>cleanup_old_sessions\<close> removes a session exactly when it is older than the maximal age:
  every other session, every handshake and the static key stay.
\<close>

theorem cleanup_removes_expired:
  assumes "wf_service s"
  shows "dict_get (sv_sessions (cleanup_old_sessions now max_age s)) p =
      (case dict_get (sv_sessions s) p of
         Some ses \<Rightarrow> if max_age < now - ses_established ses then None else Some ses
       | None \<Rightarrow> None) \<and>
    sv_handshakes (cleanup_old_sessions now max_age s) = sv_handshakes s \<and>
    sv_static (cleanup_old_sessions now max_age s) = sv_static s"
proof -
  let ?old = "\<lambda>(p, ses). max_age < now - ses_established ses"
  let ?d = "sv_sessions s"
  have "p \<in> set (map fst (filter ?old ?d)) \<longleftrightarrow>
      (\<exists>ses. dict_get ?d p = Some ses \<and> max_age < now - ses_established ses)"
    using assms by (force simp: wf_dict_def wf_service_def image_iff)
  then show ?thesis
    by (simp add: cleanup_old_sessions_def Let_def dict_get_fold_del split: option.split del: set_map)
qed

theorem cleanup_removes_expired_witness:
  "let old = \<lparr>ses_peer_id = [1], ses_send = cipher_new, ses_receive = cipher_new,
       ses_remote_static = [], ses_established = 0\<rparr>;
     s = (service_init [7])\<lparr>sv_sessions :=
       [([1], old), ([2], old\<lparr>ses_peer_id := [2], ses_established := 900\<rparr>)]\<rparr> in
   wf_service s \<and> dict_get (sv_sessions (cleanup_old_sessions 4000 3600 s)) [1] = None \<and>
   dict_get (sv_sessions (cleanup_old_sessions 4000 3600 s)) [2] \<noteq> None"
proof -
  let ?old = "\<lparr>ses_peer_id = [1], ses_send = cipher_new, ses_receive = cipher_new,
       ses_remote_static = [], ses_established = 0\<rparr>"
  let ?s = "(service_init [7])\<lparr>sv_sessions :=
       [([1], ?old), ([2], ?old\<lparr>ses_peer_id := [2], ses_established := 900\<rparr>)]\<rparr>"
  have wf: "wf_service ?s"
    by (simp add: wf_service_def service_init_def wf_dict_def)
  show ?thesis
    using wf cleanup_removes_expired [OF wf, of 4000 3600 "[1]"]
      cleanup_removes_expired [OF wf, of 4000 3600 "[2]"]
    unfolding Let_def by simp
qed

subsection \<open>The identity key\<close>

text \<open>
  An identity survives a restart. When a path is given and the key file can be written, starting
  again on the file that the first start left gives the same key, whatever the second start's random
  key would be, and leaves the file alone.
\<close>

theorem identity_survives_restart:
  assumes "path \<noteq> []" and "length fresh = 32"
    and "load_or_create_identity (Some path) file True fresh = (key, file')"
  shows "load_or_create_identity (Some path) file' ok fresh' = (key, file') \<and> length key = 32"
  using assms by (auto simp: load_or_create_identity_def Let_def split: option.splits if_splits)

theorem identity_survives_restart_witness:
  "load_or_create_identity (Some [1]) (Some (replicate 32 5)) False (replicate 32 8) =
     (replicate 32 5, Some (replicate 32 5))"
proof -
  have l: "load_or_create_identity (Some [1]) None True (replicate 32 5) =
      (replicate 32 5, Some (replicate 32 5))"
    by (simp add: load_or_create_identity_def)
  from identity_survives_restart [OF _ _ l, of False "replicate 32 8"] show ?thesis by simp
qed

subsection \<open>Channels\<close>

text \<open>What PBKDF2 with \<open>length=32\<close> promises of its output.\<close>

definition kdf_ok :: "crypto \<Rightarrow> bool" where
  "kdf_ok cr \<longleftrightarrow> (\<forall>p salt. length (pbkdf2 cr p salt) = 32)"

text \<open>
  A channel message is read back by everyone who derives the key from the same password and
  channel name. For every Unicode password, channel name and text the key exists, encryption
  succeeds with 28 bytes of overhead, and decryption returns the text.
\<close>

theorem channel_message_roundtrip:
  assumes "crypto_ok cr" and "kdf_ok cr" and "length rnd = 12"
    and "utf8_encode message = Inr enc" and "utf8_encode password = Inr pw"
    and "utf8_encode channel = Inr salt"
  shows "\<exists>key data. derive_channel_key cr password channel = Inr key \<and>
    encrypt_for_channel cr rnd message channel key fp = Inr data \<and>
    length data = length enc + 28 \<and>
    decrypt_from_channel cr data channel key fp' = Inr message"
  using assms utf8_decode_encode [OF assms(4)]
  by (simp add: derive_channel_key_def encrypt_for_channel_def decrypt_from_channel_def
      check_key_def crypto_okD kdf_ok_def)

theorem channel_message_roundtrip_witness:
  "\<exists>key data. derive_channel_key plain_crypto (lit ''pw'') (lit ''#c'') = Inr key \<and>
    encrypt_for_channel plain_crypto (replicate 12 3) (lit ''hi'') (lit ''#c'') key [] = Inr data \<and>
    length data = 30 \<and>
    decrypt_from_channel plain_crypto data (lit ''#c'') key [] = Inr (lit ''hi'')"
proof -
  have k: "kdf_ok plain_crypto" by (simp add: kdf_ok_def plain_crypto_def)
  have "utf8_encode (lit ''hi'') = Inr [104, 105]" "utf8_encode (lit ''pw'') = Inr [112, 119]"
    "utf8_encode (lit ''#c'') = Inr [35, 99]"
    by (simp_all add: lit_def utf8_enc1_def)
  from channel_message_roundtrip [OF crypto_ok_plain k _ this, of "replicate 12 3" "[]" "[]"]
  show ?thesis by simp
qed

end
