(* ===== verification/Decimal.thy ===== *)
theory Decimal
  imports Prelude
begin

text \<open>
  Decimal numerals as Python prints and reads them, and the \<open>host:port\<close> addresses that the
  transport, the mesh and discovery use as keys. \<open>py_int\<close> is \<open>int(s)\<close> on text: surrounding
  white space, a sign and single underscores between digits are allowed; of the decimal digits of
  Unicode only the ASCII ones are read.
\<close>

subsection \<open>Numerals\<close>

fun dec :: "nat \<Rightarrow> pystr" where
  "dec n = (if n < 10 then [48 + n] else dec (n div 10) @ [48 + n mod 10])"

declare dec.simps [simp del]

definition dec_int :: "int \<Rightarrow> pystr" where
  "dec_int i = (if i < 0 then 45 # dec (nat (- i)) else dec (nat i))"

fun digits :: "nat \<Rightarrow> bool \<Rightarrow> pystr \<Rightarrow> nat option" where
  "digits acc ok [] = (if ok then Some acc else None)"
| "digits acc ok (c # cs) =
     (if 48 \<le> c \<and> c \<le> 57 then digits (acc * 10 + (c - 48)) True cs
      else if c = 95 \<and> ok then digits acc False cs
      else None)"

definition py_int :: "pystr \<Rightarrow> int res" where
  "py_int s =
     (let t = strip is_space s;
          (neg, ds) = (case t of
             [] \<Rightarrow> (False, [])
           | c # cs \<Rightarrow> if c = 45 then (True, cs) else if c = 43 then (False, cs) else (False, t))
      in (case digits 0 False ds of
            None \<Rightarrow> Inl ValueError
          | Some n \<Rightarrow> Inr (if neg then - int n else int n)))"

lemma dec_digits: "c \<in> set (dec n) \<Longrightarrow> 48 \<le> c \<and> c \<le> 57"
proof (induction n rule: dec.induct)
  case (1 n)
  then show ?case by (subst (asm) (2) dec.simps) (auto split: if_splits)
qed

lemma dec_neq_Nil [simp]: "dec n \<noteq> []"
  by (subst dec.simps) simp

lemma digits_dec: "\<exists>k. digits acc ok (dec n @ rest) = digits (acc * 10 ^ k + n) True rest"
proof (induction n arbitrary: acc ok rest rule: dec.induct)
  case (1 n)
  show ?case
  proof (cases "n < 10")
    case True
    then have "digits acc ok (dec n @ rest) = digits (acc * 10 ^ 1 + n) True rest"
      by (subst dec.simps) simp
    then show ?thesis by blast
  next
    case False
    from 1 [OF False, of acc ok "[48 + n mod 10] @ rest"] obtain k where
      "digits acc ok (dec (n div 10) @ [48 + n mod 10] @ rest) =
        digits (acc * 10 ^ k + n div 10) True ([48 + n mod 10] @ rest)" by blast
    moreover have "48 + n mod 10 \<le> 57" using mod_less_divisor [of 10 n] by linarith
    moreover have "(acc * 10 ^ k + n div 10) * 10 + n mod 10 = acc * 10 ^ Suc k + n"
      by (simp add: algebra_simps)
    ultimately have "digits acc ok ((dec (n div 10) @ [48 + n mod 10]) @ rest) =
        digits (acc * 10 ^ Suc k + n) True rest" by (simp add: ac_simps)
    then have "digits acc ok (dec n @ rest) = digits (acc * 10 ^ Suc k + n) True rest"
      unfolding dec.simps [of n] using False by simp
    then show ?thesis by blast
  qed
qed

lemma digits_dec_0: "digits 0 ok (dec n) = Some n"
  using digits_dec [of 0 ok n "[]"] by auto

lemma is_space_digit: "48 \<le> c \<Longrightarrow> c \<le> 57 \<Longrightarrow> \<not> is_space c"
  by (simp add: is_space_def)

lemma strip_id:
  assumes "\<forall>c\<in>set s. \<not> P c"
  shows "strip P s = s"
proof -
  have "dropWhile P s = s" using assms by (cases s) auto
  moreover have "s = [] \<or> \<not> P (last s)" using assms last_in_set by blast
  ultimately show ?thesis by (simp add: strip_def rstrip_id)
qed

lemma dec_no_space: "c \<in> set (dec n) \<Longrightarrow> \<not> is_space c"
  using dec_digits is_space_digit by blast

lemma py_int_dec: "py_int (dec n) = Inr (int n)"
proof -
  have s: "strip is_space (dec n) = dec n"
    by (intro strip_id) (simp add: dec_no_space)
  obtain c cs where c: "dec n = c # cs" by (cases "dec n") auto
  then have "c \<noteq> 45" "c \<noteq> 43" using dec_digits [of c n] by auto
  with s c digits_dec_0 [of False n] show ?thesis by (simp add: py_int_def)
qed

lemma py_int_dec_int: "py_int (dec_int i) = Inr i"
proof (cases "i < 0")
  case True
  have "strip is_space (45 # dec (nat (- i))) = 45 # dec (nat (- i))"
    using dec_no_space by (intro strip_id) (simp add: is_space_def [of 45])
  with True digits_dec_0 show ?thesis by (simp add: py_int_def dec_int_def)
qed (simp add: dec_int_def py_int_dec)

subsection \<open>Addresses\<close>

text \<open>\<open>f"{host}:{port}"\<close>, and \<open>entry.rsplit(":", 1)\<close> unpacked into two names.\<close>

definition address :: "pystr \<Rightarrow> int \<Rightarrow> pystr" where
  "address host port = host @ 58 # dec_int port"

definition rsplit_colon :: "pystr \<Rightarrow> (pystr \<times> pystr) res" where
  "rsplit_colon s =
     (if 58 \<in> set s then
        let tl = rev (takeWhile (\<lambda>c. c \<noteq> 58) (rev s)) in Inr (take (length s - Suc (length tl)) s, tl)
      else Inl ValueError)"

lemma colon_notin_dec_int: "58 \<notin> set (dec_int i)"
  using dec_digits [of 58] by (auto simp: dec_int_def)

lemma rsplit_colon_append: "58 \<notin> set p \<Longrightarrow> rsplit_colon (h @ 58 # p) = Inr (h, p)"
  by (subst rsplit_colon_def) (simp add: takeWhile_append takeWhile_eq_all_conv [THEN iffD2])

lemma rsplit_address: "rsplit_colon (address host port) = Inr (host, dec_int port)"
  unfolding address_def by (rule rsplit_colon_append [OF colon_notin_dec_int])

lemma dec_int_inject [simp]: "dec_int i = dec_int j \<longleftrightarrow> i = j"
  by (metis py_int_dec_int sum.inject(2))

lemma address_inject [simp]: "address h p = address h' p' \<longleftrightarrow> h = h' \<and> p = p'"
  using rsplit_address by (metis Pair_inject dec_int_inject sum.inject(2))

lemma address_neq_Nil [simp]: "address h p \<noteq> []"
  by (simp add: address_def)

end
