(* ===== verification/Transport.thy ===== *)
theory Transport
  imports Decimal Interfaces
begin

text \<open>
  \<^verbatim>\<open>daemon/transport.py\<close>: the TCP transport. A connection object is a record with an
  identity, the table maps addresses to connections, and each operation returns the updated table
  and its effects in order: bytes written, writers closed and callbacks fired. What the network does
  is an argument: \<open>fails\<close> gives the exception that writing to a connection raises, if any, and
  the bytes that a connection delivers before it ends are a list.
\<close>

subsection \<open>Connections and effects\<close>

definition MAX_PACKET_SIZE :: nat where
  "MAX_PACKET_SIZE = 10 * 1024 * 1024"

record conn =
  cn_id :: nat
  cn_host :: pystr
  cn_port :: int
  cn_outgoing :: bool

definition conn_address :: "conn \<Rightarrow> pystr" where
  "conn_address c = address (cn_host c) (cn_port c)"

datatype effect =
  Write nat bytes
| Close nat
| Fire_connected conn
| Fire_disconnected "conn option"
| Fire_packet conn bytes

record transport =
  tr_connections :: "(pystr, conn) dict"
  tr_listening :: bool

definition transport_init :: transport where
  "transport_init = \<lparr>tr_connections = [], tr_listening = False\<rparr>"

subsection \<open>Server and client sides\<close>

definition start_server :: "transport \<Rightarrow> transport" where
  "start_server t = t\<lparr>tr_listening := True\<rparr>"

definition stop_server :: "transport \<Rightarrow> transport" where
  "stop_server t = t\<lparr>tr_listening := False\<rparr>"

text \<open>
  \<open>_handle_client\<close> suspends while it reads: the first part runs when the connection is
  accepted, the second when its read loop has ended, in whatever state the transport is then.
\<close>

definition handle_client_begin :: "nat \<Rightarrow> pystr \<Rightarrow> int \<Rightarrow> transport \<Rightarrow> conn \<times> transport \<times> effect list" where
  "handle_client_begin cid host port t =
     (let c = \<lparr>cn_id = cid, cn_host = host, cn_port = port, cn_outgoing = False\<rparr> in
      (c, t\<lparr>tr_connections := dict_set (tr_connections t) (address host port) c\<rparr>, [Fire_connected c]))"

definition handle_client_end :: "conn \<Rightarrow> transport \<Rightarrow> transport \<times> effect list" where
  "handle_client_end c t =
     (t\<lparr>tr_connections := dict_del (tr_connections t) (conn_address c)\<rparr>,
      [Close (cn_id c), Fire_disconnected (Some c)])"

definition on_read_done :: "conn \<Rightarrow> transport \<Rightarrow> transport \<times> effect list" where
  "on_read_done c t =
     ((if has_key (tr_connections t) (conn_address c)
       then t\<lparr>tr_connections := dict_del (tr_connections t) (conn_address c)\<rparr> else t),
      [Close (cn_id c), Fire_disconnected (Some c)])"

text \<open>
  \<open>connect\<close> suspends while the connection opens; \<open>connect_open\<close> is what it does when
  that has succeeded, and \<open>result\<close> is how opening ends: a new connection or an exception.
\<close>

definition connect_open :: "nat \<Rightarrow> pystr \<Rightarrow> int \<Rightarrow> transport \<Rightarrow> conn \<times> transport \<times> effect list" where
  "connect_open cid host port t =
     (let c = \<lparr>cn_id = cid, cn_host = host, cn_port = port, cn_outgoing = True\<rparr> in
      (c, t\<lparr>tr_connections := dict_set (tr_connections t) (address host port) c\<rparr>, [Fire_connected c]))"

definition connect :: "nat res \<Rightarrow> pystr \<Rightarrow> int \<Rightarrow> transport \<Rightarrow> conn res \<times> transport \<times> effect list" where
  "connect result host port t =
     (case dict_get (tr_connections t) (address host port) of
        Some c \<Rightarrow> (Inr c, t, [])
      | None \<Rightarrow>
          (case result of
             Inl e \<Rightarrow> (Inl e, t, [])
           | Inr cid \<Rightarrow> (let (c, t', es) = connect_open cid host port t in (Inr c, t', es))))"

definition disconnect :: "pystr \<Rightarrow> transport \<Rightarrow> transport \<times> effect list" where
  "disconnect addr t =
     (let found = dict_get (tr_connections t) addr in
      (t\<lparr>tr_connections := dict_del (tr_connections t) addr\<rparr>,
       (case found of Some c \<Rightarrow> [Close (cn_id c)] | None \<Rightarrow> []) @ [Fire_disconnected found]))"

definition transport_stop :: "transport \<Rightarrow> transport \<times> effect list" where
  "transport_stop t =
     (stop_server (t\<lparr>tr_connections := []\<rparr>), map (\<lambda>(addr, c). Close (cn_id c)) (tr_connections t))"

definition get_connection_count :: "transport \<Rightarrow> nat" where
  "get_connection_count t = length (tr_connections t)"

subsection \<open>Sending\<close>

definition send_packet ::
  "(nat \<Rightarrow> py_error option) \<Rightarrow> conn \<Rightarrow> bytes \<Rightarrow> transport \<Rightarrow> unit res \<times> transport \<times> effect list" where
  "send_packet fails c pkt t =
     (if length pkt > MAX_PACKET_SIZE then (Inl ValueError, t, [])
      else
        (case pack_H (length pkt) of
           Inl e \<Rightarrow> (Inl e, t, [])
         | Inr header \<Rightarrow>
             (case fails (cn_id c) of
                None \<Rightarrow> (Inr (), t, [Write (cn_id c) (header @ pkt)])
              | Some e \<Rightarrow>
                  if is_OSError e then (let (t', es) = on_read_done c t in (Inl e, t', es))
                  else (Inl e, t, []))))"

fun broadcast_to ::
  "(nat \<Rightarrow> py_error option) \<Rightarrow> pystr set \<Rightarrow> bytes \<Rightarrow> (pystr \<times> conn) list \<Rightarrow> transport
     \<Rightarrow> unit res \<times> transport \<times> effect list" where
  "broadcast_to fails exclude pkt [] t = (Inr (), t, [])"
| "broadcast_to fails exclude pkt ((addr, c) # cs) t =
     (if addr \<in> exclude then broadcast_to fails exclude pkt cs t
      else
        (case send_packet fails c pkt t of
           (r, t', es) \<Rightarrow>
             if (case r of Inl e \<Rightarrow> is_OSError e | Inr _ \<Rightarrow> True) then
               (case broadcast_to fails exclude pkt cs t' of (r', t'', es') \<Rightarrow> (r', t'', es @ es'))
             else (r, t', es)))"

definition broadcast_packet ::
  "(nat \<Rightarrow> py_error option) \<Rightarrow> bytes \<Rightarrow> pystr set \<Rightarrow> transport \<Rightarrow> unit res \<times> transport \<times> effect list" where
  "broadcast_packet fails pkt exclude t = broadcast_to fails exclude pkt (tr_connections t) t"

subsection \<open>Receiving\<close>

text \<open>
  \<open>_read_loop\<close> on the bytes a connection delivers before it ends: the packets it fires. When
  fewer bytes arrive than \<open>readexactly\<close> asks for, the loop ends, by its own \<open>break\<close> at the
  end of the stream or by the exception of a broken connection, which the callers handle alike.
\<close>

function read_loop :: "conn \<Rightarrow> bytes \<Rightarrow> effect list" where
  "read_loop c data =
     (if length data < 2 then []
      else
        let payload_len = be_nat (take 2 data); rest = drop 2 data in
        if payload_len > MAX_PACKET_SIZE then []
        else if length rest < payload_len then []
        else Fire_packet c (take payload_len rest) # read_loop c (drop payload_len rest))"
  by pat_completeness auto

termination
  by (relation "measure (\<lambda>(c, data). length data)") auto

declare read_loop.simps [simp del]

subsection \<open>Framing\<close>

fun send_all ::
  "(nat \<Rightarrow> py_error option) \<Rightarrow> conn \<Rightarrow> bytes list \<Rightarrow> transport \<Rightarrow> transport \<times> effect list" where
  "send_all fails c [] t = (t, [])"
| "send_all fails c (p # ps) t =
     (case send_packet fails c p t of (r, t', es) \<Rightarrow>
        (case send_all fails c ps t' of (t'', es') \<Rightarrow> (t'', es @ es')))"

fun written :: "nat \<Rightarrow> effect list \<Rightarrow> bytes" where
  "written cid [] = []"
| "written cid (Write i b # es) = (if i = cid then b else []) @ written cid es"
| "written cid (e # es) = written cid es"

text \<open>The packets whose frames are complete within the first \<open>k\<close> bytes of the stream.\<close>

fun arrived :: "nat \<Rightarrow> bytes list \<Rightarrow> bytes list" where
  "arrived k [] = []"
| "arrived k (p # ps) = (if length p + 2 \<le> k then p # arrived (k - (length p + 2)) ps else [])"

lemma written_append: "written cid (es @ es') = written cid es @ written cid es'"
  by (induction cid es rule: written.induct) auto

lemma send_packet_ok:
  "fails (cn_id c) = None \<Longrightarrow> length p < 65536 \<Longrightarrow>
     send_packet fails c p t = (Inr (), t, [Write (cn_id c) (be_bytes 2 (length p) @ p)])"
  by (simp add: send_packet_def MAX_PACKET_SIZE_def pack_H_def)

lemma send_all_ok:
  assumes "fails (cn_id c) = None" and "\<forall>p\<in>set ps. length p < 65536"
  shows "send_all fails c ps t = (t, map (\<lambda>p. Write (cn_id c) (be_bytes 2 (length p) @ p)) ps)"
  using assms by (induction ps) (simp_all add: send_packet_ok)

lemma written_frames:
  "written cid (map (\<lambda>p. Write cid (be_bytes 2 (length p) @ p)) ps) =
     concat (map (\<lambda>p. be_bytes 2 (length p) @ p) ps)"
  by (induction ps) simp_all

lemma read_loop_short: "length data < 2 \<Longrightarrow> read_loop c data = []"
  by (simp add: read_loop.simps)

lemma read_loop_head:
  assumes "length h = 2" and "be_nat h < 65536"
  shows "read_loop c (h @ xs) =
    (if length xs < be_nat h then []
     else Fire_packet c (take (be_nat h) xs) # read_loop c (drop (be_nat h) xs))"
  using assms by (subst read_loop.simps) (simp add: MAX_PACKET_SIZE_def Let_def)

lemma read_loop_frame:
  assumes "length p < 65536" and "length h = 2" and "be_nat h = length p"
  shows "read_loop c (take k (h @ p @ rest)) =
    (if length p + 2 \<le> k then Fire_packet c p # read_loop c (take (k - (length p + 2)) rest) else [])"
proof (cases "k < 2")
  case True
  then show ?thesis by (simp add: read_loop_short)
next
  case False
  then have "take k (h @ p @ rest) = h @ take (k - 2) (p @ rest)" using assms(2) by simp
  then show ?thesis using False assms
    by (auto simp: read_loop_head drop_take)
qed

lemma read_loop_stream:
  assumes "\<forall>p\<in>set ps. length p < 65536"
  shows "read_loop c (take k (concat (map (\<lambda>p. be_bytes 2 (length p) @ p) ps))) =
    map (Fire_packet c) (arrived k ps)"
  using assms
proof (induction ps arbitrary: k)
  case (Cons p ps)
  have "be_nat (be_bytes 2 (length p)) = length p" using Cons.prems by (simp add: be_nat_bytes)
  then have "read_loop c (take k (be_bytes 2 (length p) @ p @ rest)) =
      (if length p + 2 \<le> k then Fire_packet c p # read_loop c (take (k - (length p + 2)) rest) else [])"
    for rest using Cons.prems by (intro read_loop_frame) simp_all
  moreover have "read_loop c (take j (concat (map (\<lambda>p. be_bytes 2 (length p) @ p) ps))) =
      map (Fire_packet c) (arrived j ps)" for j using Cons by simp
  ultimately show ?case by (simp only: concat.simps list.map append_assoc arrived.simps split: if_split) simp
qed (simp add: read_loop_short)

lemma arrived_all:
  "length (concat (map (\<lambda>p. be_bytes 2 (length p) @ p) ps)) \<le> k \<Longrightarrow> arrived k ps = ps"
  by (induction ps arbitrary: k) auto

text \<open>
  C25: framing is lossless and never invents a packet. When packets of at most 65535 bytes are sent
  over a connection that does not fail, and the receiver gets any prefix of the bytes written, its
  read loop fires exactly the packets whose frames arrived completely, unchanged and in order; from
  the whole stream it fires all of them.
\<close>

theorem framing_roundtrip:
  assumes "fails (cn_id c) = None" and "\<forall>p\<in>set ps. length p \<le> 65535"
  shows "let stream = written (cn_id c) (snd (send_all fails c ps t)) in
    read_loop d (take k stream) = map (Fire_packet d) (arrived k ps) \<and>
    read_loop d stream = map (Fire_packet d) ps"
proof -
  let ?stream = "concat (map (\<lambda>p. be_bytes 2 (length p) @ p) ps)"
  have small: "\<forall>p\<in>set ps. length p < 65536" using assms(2) by auto
  have "written (cn_id c) (snd (send_all fails c ps t)) = ?stream"
    by (simp add: send_all_ok [of fails c, OF assms(1) small] written_frames)
  moreover have "read_loop d ?stream = map (Fire_packet d) ps"
    using read_loop_stream [OF small, of d "length ?stream"] by (simp add: arrived_all)
  ultimately show ?thesis by (simp add: Let_def read_loop_stream [OF small])
qed

theorem framing_roundtrip_witness:
  "let c = \<lparr>cn_id = 1, cn_host = [], cn_port = 80, cn_outgoing = True\<rparr>;
     stream = written 1 (snd (send_all (\<lambda>_. None) c [[7, 8], [], [9]] transport_init)) in
   read_loop c (take 7 stream) = [Fire_packet c [7, 8], Fire_packet c []] \<and>
   read_loop c stream = [Fire_packet c [7, 8], Fire_packet c [], Fire_packet c [9]]"
  using framing_roundtrip [of "\<lambda>_. None" "\<lparr>cn_id = 1, cn_host = [], cn_port = 80, cn_outgoing = True\<rparr>"
      "[[7, 8], [], [9]]" transport_init "\<lparr>cn_id = 1, cn_host = [], cn_port = 80, cn_outgoing = True\<rparr>" 7]
  by (simp add: Let_def)

text \<open>
  The two-byte length prefix bounds what can be sent. A packet of more than 65535 bytes is never
  written, although the transport's own limit is ten megabytes: up to that limit the error is the
  \<open>struct.error\<close> of packing the length, above it \<open>ValueError\<close>; neither touches the
  connection table, and both escape \<open>broadcast_packet\<close> as soon as one connection is not
  excluded.
\<close>

theorem oversized_packet_refused:
  assumes "65535 < length pkt"
  shows "send_packet fails c pkt t =
      (Inl (if length pkt \<le> MAX_PACKET_SIZE then StructError else ValueError), t, []) \<and>
    broadcast_packet fails pkt exclude t =
      (if list_all (\<lambda>(addr, c). addr \<in> exclude) (tr_connections t) then Inr ()
       else Inl (if length pkt \<le> MAX_PACKET_SIZE then StructError else ValueError), t, [])"
proof -
  have s: "send_packet fails c pkt t =
      (Inl (if length pkt \<le> MAX_PACKET_SIZE then StructError else ValueError), t, [])" for c
    using assms by (simp add: send_packet_def pack_H_def)
  have "broadcast_to fails exclude pkt cs t =
      (if list_all (\<lambda>(addr, c). addr \<in> exclude) cs then Inr ()
       else Inl (if length pkt \<le> MAX_PACKET_SIZE then StructError else ValueError), t, [])" for cs
    by (induction cs) (auto simp: s)
  with s show ?thesis by (simp add: broadcast_packet_def)
qed

theorem oversized_packet_refused_witness:
  "fst (send_packet (\<lambda>_. None) \<lparr>cn_id = 1, cn_host = [], cn_port = 80, cn_outgoing = True\<rparr>
     (replicate 70000 0) transport_init) = Inl StructError"
  using oversized_packet_refused [of "replicate 70000 0" "\<lambda>_. None"
      "\<lparr>cn_id = 1, cn_host = [], cn_port = 80, cn_outgoing = True\<rparr>" transport_init "{}"]
  by (simp add: MAX_PACKET_SIZE_def)

subsection \<open>Broadcasting\<close>

text \<open>What broadcasting does for one connection that is not excluded.\<close>

definition broadcast_effects :: "(nat \<Rightarrow> py_error option) \<Rightarrow> bytes \<Rightarrow> conn \<Rightarrow> effect list" where
  "broadcast_effects fails pkt c =
     (case fails (cn_id c) of
        None \<Rightarrow> [Write (cn_id c) (be_bytes 2 (length pkt) @ pkt)]
      | Some e \<Rightarrow> [Close (cn_id c), Fire_disconnected (Some c)])"

definition wf_transport :: "transport \<Rightarrow> bool" where
  "wf_transport t \<longleftrightarrow>
     wf_dict (tr_connections t) \<and> list_all (\<lambda>(addr, c). addr = conn_address c) (tr_connections t)"

lemma send_packet_cases:
  assumes "length pkt < 65536" and "\<forall>i e. fails i = Some e \<longrightarrow> is_OSError e"
  shows "send_packet fails c pkt t =
    ((case fails (cn_id c) of None \<Rightarrow> Inr () | Some e \<Rightarrow> Inl e),
     (if fails (cn_id c) = None then t
      else t\<lparr>tr_connections := dict_del (tr_connections t) (conn_address c)\<rparr>),
     broadcast_effects fails pkt c)"
proof (cases "fails (cn_id c)")
  case None
  with assms(1) show ?thesis by (simp add: send_packet_ok broadcast_effects_def)
next
  case (Some e)
  with assms(2) have "is_OSError e" by blast
  with assms(1) Some show ?thesis
    by (simp add: send_packet_def pack_H_def MAX_PACKET_SIZE_def on_read_done_def broadcast_effects_def
        dict_del_absent)
qed

lemma broadcast_to_all:
  assumes "length pkt < 65536" and "\<forall>i e. fails i = Some e \<longrightarrow> is_OSError e"
  shows "broadcast_to fails exclude pkt cs t = (Inr (),
    t\<lparr>tr_connections := fold (\<lambda>(addr, c) d. if addr \<notin> exclude \<and> fails (cn_id c) \<noteq> None
        then dict_del d (conn_address c) else d) cs (tr_connections t)\<rparr>,
    concat (map (\<lambda>(addr, c). broadcast_effects fails pkt c) (filter (\<lambda>(addr, c). addr \<notin> exclude) cs)))"
proof (induction cs arbitrary: t)
  case (Cons x cs)
  obtain addr c where x: "x = (addr, c)" by (cases x)
  have "(case fails (cn_id c) of None \<Rightarrow> True | Some e \<Rightarrow> is_OSError e)"
    using assms(2) by (auto split: option.split)
  with Cons x show ?case
    by (auto simp: send_packet_cases [OF assms] split: option.split)
qed simp

lemma dict_get_fold_del_if:
  "dict_get (fold (\<lambda>(a, c) d. if P a c then dict_del d (f c) else d) cs d) k =
     (if \<exists>(a, c)\<in>set cs. P a c \<and> f c = k then None else dict_get d k)"
  by (induction cs arbitrary: d) (auto split: if_splits)

text \<open>
  C26: a broadcast reaches every connected peer. For a packet that fits the frame, when writers fail
  only with connection errors, \<open>broadcast_packet\<close> returns normally; each connection that is not
  excluded gets the frame exactly once, in table order, or, if writing to it fails, is closed,
  reported as disconnected and dropped from the table; one peer's failure does not keep the packet
  from the others, and no other table entry changes.
\<close>

theorem broadcast_reaches_all:
  assumes "wf_transport t" and "length pkt \<le> 65535" and "\<forall>i e. fails i = Some e \<longrightarrow> is_OSError e"
  shows "\<exists>t'. broadcast_packet fails pkt exclude t = (Inr (), t',
      concat (map (\<lambda>(addr, c). case fails (cn_id c) of
          None \<Rightarrow> [Write (cn_id c) (be_bytes 2 (length pkt) @ pkt)]
        | Some e \<Rightarrow> [Close (cn_id c), Fire_disconnected (Some c)])
        (filter (\<lambda>(addr, c). addr \<notin> exclude) (tr_connections t)))) \<and>
    (\<forall>addr. dict_get (tr_connections t') addr =
      (case dict_get (tr_connections t) addr of
         Some c \<Rightarrow> if addr \<notin> exclude \<and> fails (cn_id c) \<noteq> None then None else Some c
       | None \<Rightarrow> None))"
proof -
  have l: "length pkt < 65536" using assms(2) by simp
  let ?d = "tr_connections t"
  let ?P = "\<lambda>addr c. addr \<notin> exclude \<and> fails (cn_id c) \<noteq> None"
  have wf: "(addr, c) \<in> set ?d \<longleftrightarrow> dict_get ?d addr = Some c" "(addr, c) \<in> set ?d \<Longrightarrow> conn_address c = addr"
    for addr c using assms(1) by (auto simp: wf_transport_def wf_dict_def list_all_iff)
  have "(\<exists>(a, c)\<in>set ?d. ?P a c \<and> conn_address c = addr) \<longleftrightarrow>
      (\<exists>c. dict_get ?d addr = Some c \<and> ?P addr c)" for addr
    using wf by fastforce
  then have "dict_get (fold (\<lambda>(a, c) d. if ?P a c then dict_del d (conn_address c) else d) ?d ?d) addr =
      (case dict_get ?d addr of Some c \<Rightarrow> if ?P addr c then None else Some c | None \<Rightarrow> None)" for addr
    by (auto simp: dict_get_fold_del_if split: option.split)
  then show ?thesis
    unfolding broadcast_packet_def broadcast_to_all [OF l assms(3)] broadcast_effects_def by simp
qed

theorem broadcast_reaches_all_witness:
  "let c1 = \<lparr>cn_id = 11, cn_host = [97], cn_port = 1, cn_outgoing = True\<rparr>;
     c2 = \<lparr>cn_id = 12, cn_host = [98], cn_port = 1, cn_outgoing = True\<rparr>;
     c3 = \<lparr>cn_id = 13, cn_host = [99], cn_port = 1, cn_outgoing = False\<rparr> in
   \<exists>t'. broadcast_packet (\<lambda>i. if i = 11 then Some ConnectionError else None) [5] {conn_address c3}
      \<lparr>tr_connections = [(conn_address c1, c1), (conn_address c2, c2), (conn_address c3, c3)],
       tr_listening = True\<rparr> =
     (Inr (), t', [Close 11, Fire_disconnected (Some c1), Write 12 [0, 1, 5]]) \<and>
     dict_get (tr_connections t') (conn_address c1) = None"
proof -
  let ?c1 = "\<lparr>cn_id = 11, cn_host = [97], cn_port = 1, cn_outgoing = True\<rparr>"
  let ?c2 = "\<lparr>cn_id = 12, cn_host = [98], cn_port = 1, cn_outgoing = True\<rparr>"
  let ?c3 = "\<lparr>cn_id = 13, cn_host = [99], cn_port = 1, cn_outgoing = False\<rparr>"
  let ?t = "\<lparr>tr_connections = [(conn_address ?c1, ?c1), (conn_address ?c2, ?c2), (conn_address ?c3, ?c3)],
       tr_listening = True\<rparr>"
  have w: "wf_transport ?t"
    by (simp add: wf_transport_def wf_dict_def conn_address_def)
  have b: "be_bytes 2 (length [5::byte]) = [0, 1]" by (simp add: numeral_2_eq_2)
  have p: "\<forall>i e. (if i = (11::nat) then Some ConnectionError else None) = Some e \<longrightarrow> is_OSError e"
    by simp
  obtain t' where "broadcast_packet (\<lambda>i. if i = 11 then Some ConnectionError else None) [5]
      {conn_address ?c3} ?t = (Inr (), t', concat (map (\<lambda>(addr, c). case (if cn_id c = 11 then Some ConnectionError else None) of
          None \<Rightarrow> [Write (cn_id c) (be_bytes 2 (length [5::byte]) @ [5])]
        | Some e \<Rightarrow> [Close (cn_id c), Fire_disconnected (Some c)])
        (filter (\<lambda>(addr, c). addr \<notin> {conn_address ?c3}) (tr_connections ?t))))"
    and "dict_get (tr_connections t') (conn_address ?c1) = None"
    using broadcast_reaches_all [OF w _ p, of "[5]" "{conn_address ?c3}"]
    by (auto simp: conn_address_def)
  then show ?thesis
    unfolding Let_def b by (intro exI [of _ t']) (simp add: conn_address_def)
qed

subsection \<open>The connection table\<close>

datatype transport_event =
  Accept nat pystr int
| Client_end conn
| Opened nat pystr int
| Read_done conn
| Disconnect pystr
| Send "nat \<Rightarrow> py_error option" conn bytes
| Broadcast "nat \<Rightarrow> py_error option" bytes "pystr set"
| Stop

fun transport_step :: "transport_event \<Rightarrow> transport \<Rightarrow> transport" where
  "transport_step (Accept cid host port) t = fst (snd (handle_client_begin cid host port t))"
| "transport_step (Client_end c) t = fst (handle_client_end c t)"
| "transport_step (Opened cid host port) t = fst (snd (connect_open cid host port t))"
| "transport_step (Read_done c) t = fst (on_read_done c t)"
| "transport_step (Disconnect addr) t = fst (disconnect addr t)"
| "transport_step (Send fails c pkt) t = fst (snd (send_packet fails c pkt t))"
| "transport_step (Broadcast fails pkt exclude) t = fst (snd (broadcast_packet fails pkt exclude t))"
| "transport_step Stop t = fst (transport_stop t)"

lemma list_all_dict_set:
  "list_all P d \<Longrightarrow> P (k, v) \<Longrightarrow> list_all P (dict_set d k v)"
  by (induction d) auto

lemma list_all_dict_del: "list_all P d \<Longrightarrow> list_all P (dict_del d k)"
  by (induction d) auto

lemma wf_transport_del:
  "wf_transport t \<Longrightarrow> wf_transport (t\<lparr>tr_connections := dict_del (tr_connections t) k\<rparr>)"
  by (simp add: wf_transport_def list_all_dict_del)

lemma wf_transport_set:
  "wf_transport t \<Longrightarrow> k = conn_address c \<Longrightarrow>
     wf_transport (t\<lparr>tr_connections := dict_set (tr_connections t) k c\<rparr>)"
  by (simp add: wf_transport_def list_all_dict_set)

lemma wf_transport_cleared: "wf_transport (t\<lparr>tr_connections := [], tr_listening := b\<rparr>)"
  by (simp add: wf_transport_def)

lemma wf_on_read_done: "wf_transport t \<Longrightarrow> wf_transport (fst (on_read_done c t))"
  by (simp add: on_read_done_def wf_transport_del)

lemma wf_send_packet: "wf_transport t \<Longrightarrow> wf_transport (fst (snd (send_packet fails c pkt t)))"
  using wf_on_read_done [of t c]
  by (auto simp: send_packet_def pack_H_def split: option.split prod.split)

lemma wf_broadcast_to: "wf_transport t \<Longrightarrow> wf_transport (fst (snd (broadcast_to fails exclude pkt cs t)))"
proof (induction cs arbitrary: t)
  case (Cons x cs)
  obtain addr c where x: "x = (addr, c)" by (cases x)
  obtain r t' es where s: "send_packet fails c pkt t = (r, t', es)" by (rule prod_cases3)
  have "wf_transport t'" using wf_send_packet [OF Cons.prems, of fails c pkt] by (simp add: s)
  then have "wf_transport (fst (snd (broadcast_to fails exclude pkt cs t')))" by (rule Cons.IH)
  with Cons.IH [OF Cons.prems] \<open>wf_transport t'\<close> show ?case
    by (cases "broadcast_to fails exclude pkt cs t'") (simp add: x s)
qed simp

lemma wf_transport_step: "wf_transport t \<Longrightarrow> wf_transport (transport_step e t)"
  by (cases e)
    (simp_all add: handle_client_begin_def handle_client_end_def connect_open_def disconnect_def
      transport_stop_def stop_server_def broadcast_packet_def conn_address_def Let_def
      wf_send_packet wf_broadcast_to wf_on_read_done wf_transport_cleared wf_transport_set wf_transport_del)

interpretation table: keeps wf_transport transport_step
  by unfold_locales (rule wf_transport_step)

text \<open>
  The connection table is sound. Whatever sequence of accepted and opened connections, ended
  read loops, disconnects, sends with failing writers, broadcasts and stops occurs, the table has one
  entry per address and every entry is a connection to the address it is filed under.
\<close>

theorem connection_table_sound:
  "let t = fold transport_step es transport_init in
     wf_dict (tr_connections t) \<and>
     (\<forall>addr. case dict_get (tr_connections t) addr of Some c \<Rightarrow> conn_address c = addr | None \<Rightarrow> True)"
proof -
  have "wf_transport (fold transport_step es transport_init)"
    by (rule table.run_keeps) (simp add: wf_transport_def transport_init_def)
  then show ?thesis
    by (auto simp: Let_def wf_transport_def list_all_iff split: option.split dest: map_of_SomeD)
qed

interpretation drops: removal "\<lambda>t. dict_get (tr_connections t)" "\<lambda>addr t. fst (disconnect addr t)"
  by unfold_locales (simp add: disconnect_def Let_def)

text \<open>
  Reconnecting can lose the new connection. After an outgoing connection is disconnected and the
  same address is connected again, the end of the old connection's read loop removes the new
  connection from the table without closing it: the table has no entry for the address although the
  new connection is open.
\<close>

theorem stale_read_end_drops_reconnection:
  "let (old, t1, _) = connect_open i host port t;
       (t2, es2) = disconnect (address host port) t1;
       (new, t3, _) = connect_open (Suc i) host port t2;
       (t4, es4) = on_read_done old t3 in
   dict_get (tr_connections t3) (address host port) = Some new \<and> new \<noteq> old \<and>
   dict_get (tr_connections t4) (address host port) = None \<and>
   Close (cn_id new) \<notin> set (es2 @ es4)"
  by (simp add: connect_open_def disconnect_def on_read_done_def conn_address_def Let_def)

end
