(* ===== verification/Persistence.thy ===== *)
theory Persistence
  imports Encryption
begin

text \<open>
  \<^verbatim>\<open>bitchat/persistence.py\<close>: the saved state of a node and the password encryption under its
  identity key. A state file is absent, unreadable, or a JSON object; the object is the list of its
  members, each a key with a value of the type that \<open>AppState\<close> declares for it, or a key that
  \<open>AppState\<close> does not know. (\<open>json.dump\<close> and \<open>json.load\<close> themselves are not
  modelled; values of other types are outside the model.) A Python set is the list of its elements
  in iteration order. AES-GCM is a parameter.
\<close>

subsection \<open>The application state\<close>

record encrypted_password =
  ep_nonce :: "int list"
  ep_ciphertext :: "int list"

record app_state =
  st_nickname :: "pystr option"
  st_blocked_peers :: "pystr list"
  st_channel_creators :: "(pystr, pystr) dict"
  st_joined_channels :: "pystr list"
  st_password_protected_channels :: "pystr list"
  st_channel_key_commitments :: "(pystr, pystr) dict"
  st_favorites :: "pystr list"
  st_identity_key :: "int list option"
  st_encrypted_channel_passwords :: "(pystr, encrypted_password) dict"

definition default_state :: app_state where
  "default_state = \<lparr>st_nickname = None, st_blocked_peers = [], st_channel_creators = [],
     st_joined_channels = [], st_password_protected_channels = [], st_channel_key_commitments = [],
     st_favorites = [], st_identity_key = None, st_encrypted_channel_passwords = []\<rparr>"

datatype json_member =
  M_nickname "pystr option"
| M_blocked_peers "pystr list"
| M_channel_creators "(pystr, pystr) dict"
| M_joined_channels "pystr list"
| M_password_protected_channels "pystr list"
| M_channel_key_commitments "(pystr, pystr) dict"
| M_favorites "pystr list"
| M_identity_key "int list option"
| M_encrypted_channel_passwords "(pystr, int list option \<times> int list option) dict"
| M_unknown pystr

datatype state_file = Absent | Unreadable | Members "json_member list"

subsection \<open>Loading and saving\<close>

text \<open>The conversion of \<open>encrypted_channel_passwords\<close>: a missing key is a \<open>KeyError\<close>.\<close>

fun convert_passwords ::
  "(pystr, int list option \<times> int list option) dict \<Rightarrow> (pystr, encrypted_password) dict
     \<Rightarrow> (pystr, encrypted_password) dict res" where
  "convert_passwords [] acc = Inr acc"
| "convert_passwords ((channel, Some n, Some c) # xs) acc =
     convert_passwords xs (dict_set acc channel \<lparr>ep_nonce = n, ep_ciphertext = c\<rparr>)"
| "convert_passwords (x # xs) acc = Inl KeyError"

text \<open>
  \<open>AppState(**data)\<close> after the conversions, member by member (\<open>json.load\<close> keeps the last of
  several members with the same key); \<open>set(xs)\<close> drops repeated elements.
\<close>

fun apply_member :: "json_member \<Rightarrow> app_state \<Rightarrow> app_state res" where
  "apply_member (M_nickname v) s = Inr (s\<lparr>st_nickname := v\<rparr>)"
| "apply_member (M_blocked_peers v) s = Inr (s\<lparr>st_blocked_peers := remdups v\<rparr>)"
| "apply_member (M_channel_creators v) s = Inr (s\<lparr>st_channel_creators := v\<rparr>)"
| "apply_member (M_joined_channels v) s = Inr (s\<lparr>st_joined_channels := v\<rparr>)"
| "apply_member (M_password_protected_channels v) s =
     Inr (s\<lparr>st_password_protected_channels := remdups v\<rparr>)"
| "apply_member (M_channel_key_commitments v) s = Inr (s\<lparr>st_channel_key_commitments := v\<rparr>)"
| "apply_member (M_favorites v) s = Inr (s\<lparr>st_favorites := remdups v\<rparr>)"
| "apply_member (M_identity_key v) s = Inr (s\<lparr>st_identity_key := v\<rparr>)"
| "apply_member (M_encrypted_channel_passwords v) s =
     bindE (convert_passwords v []) (\<lambda>d. Inr (s\<lparr>st_encrypted_channel_passwords := d\<rparr>))"
| "apply_member (M_unknown k) s = Inl TypeError"

fun apply_members :: "json_member list \<Rightarrow> app_state \<Rightarrow> app_state res" where
  "apply_members [] s = Inr s"
| "apply_members (m # ms) s = bindE (apply_member m s) (apply_members ms)"

definition state_members :: "app_state \<Rightarrow> json_member list" where
  "state_members s =
     [M_nickname (st_nickname s), M_blocked_peers (st_blocked_peers s),
      M_channel_creators (st_channel_creators s), M_joined_channels (st_joined_channels s),
      M_password_protected_channels (st_password_protected_channels s),
      M_channel_key_commitments (st_channel_key_commitments s), M_favorites (st_favorites s),
      M_identity_key (st_identity_key s),
      M_encrypted_channel_passwords
        (map (\<lambda>(channel, ep). (channel, Some (ep_nonce ep), Some (ep_ciphertext ep)))
          (st_encrypted_channel_passwords s))]"

text \<open>\<open>wr\<close> is the exception that opening the file for writing raises, if any; a write that fails halfway is not modelled.\<close>

definition save_state :: "py_error option \<Rightarrow> app_state \<Rightarrow> state_file \<Rightarrow> unit res \<times> state_file" where
  "save_state wr s file =
     (case wr of
        Some e \<Rightarrow> (Inl e, file)
      | None \<Rightarrow> (Inr (), Members (state_members s)))"

definition load_state ::
  "int list \<Rightarrow> py_error option \<Rightarrow> state_file \<Rightarrow> app_state res \<times> state_file" where
  "load_state fresh wr file =
     (let state = (case file of
            Members ms \<Rightarrow>
              (case apply_members ms default_state of Inr s \<Rightarrow> s | Inl e \<Rightarrow> default_state)
          | _ \<Rightarrow> default_state)
      in if st_identity_key state = None then
           let state' = state\<lparr>st_identity_key := Some fresh\<rparr> in
           (case save_state wr state' file of
              (Inl e, f) \<Rightarrow> (Inl e, f)
            | (Inr _, f) \<Rightarrow> (Inr state', f))
         else (Inr state, file))"

subsection \<open>Passwords under the identity key\<close>

record aesgcm =
  gcm_enc :: "bytes \<Rightarrow> bytes \<Rightarrow> bytes \<Rightarrow> bytes"
  gcm_dec :: "bytes \<Rightarrow> bytes \<Rightarrow> bytes \<Rightarrow> bytes option"

text \<open>\<open>bytes(xs)\<close> and \<open>list(b)\<close> between byte strings and lists of integers.\<close>

fun bytes_of_ints :: "int list \<Rightarrow> bytes res" where
  "bytes_of_ints [] = Inr []"
| "bytes_of_ints (i # is) =
     (if 0 \<le> i \<and> i < 256 then bindE (bytes_of_ints is) (\<lambda>bs. Inr (word_of_int i # bs)) else Inl ValueError)"

definition ints_of_bytes :: "bytes \<Rightarrow> int list" where
  "ints_of_bytes bs = map uint bs"

definition derive_encryption_key :: "crypto \<Rightarrow> bytes \<Rightarrow> bytes" where
  "derive_encryption_key cr identity_key =
     sha256 cr (map word_of_nat (lit ''bitchat-password-encryption'') @ identity_key)"

definition gcm_key :: "bytes \<Rightarrow> unit res" where
  "gcm_key key = (if length key \<in> {16, 24, 32} then Inr () else Inl ValueError)"

definition gcm_nonce :: "bytes \<Rightarrow> unit res" where
  "gcm_nonce nonce = (if 8 \<le> length nonce \<and> length nonce \<le> 128 then Inr () else Inl ValueError)"

definition encrypt_password ::
  "crypto \<Rightarrow> aesgcm \<Rightarrow> bytes \<Rightarrow> pystr \<Rightarrow> int list \<Rightarrow> encrypted_password res" where
  "encrypt_password cr g rnd password identity_key =
     bindE (bytes_of_ints identity_key) (\<lambda>ik.
     let key = derive_encryption_key cr ik in
     bindE (gcm_key key) (\<lambda>_.
     bindE (utf8_encode password) (\<lambda>p.
     bindE (gcm_nonce rnd) (\<lambda>_.
     Inr \<lparr>ep_nonce = ints_of_bytes rnd, ep_ciphertext = ints_of_bytes (gcm_enc g key rnd p)\<rparr>))))"

definition decrypt_password ::
  "crypto \<Rightarrow> aesgcm \<Rightarrow> encrypted_password \<Rightarrow> int list \<Rightarrow> pystr res" where
  "decrypt_password cr g enc identity_key =
     bindE (bytes_of_ints identity_key) (\<lambda>ik.
     let key = derive_encryption_key cr ik in
     bindE (gcm_key key) (\<lambda>_.
     bindE (bytes_of_ints (ep_nonce enc)) (\<lambda>nonce.
     bindE (bytes_of_ints (ep_ciphertext enc)) (\<lambda>ciphertext.
     bindE (gcm_nonce nonce) (\<lambda>_.
     (case gcm_dec g key nonce ciphertext of
        None \<Rightarrow> Inl InvalidTag
      | Some plaintext \<Rightarrow> utf8_decode plaintext))))))"

subsection \<open>Round trips\<close>

lemma bytes_of_ints_of_bytes [simp]: "bytes_of_ints (ints_of_bytes bs) = Inr bs"
proof -
  have "uint (b :: byte) < 256" for b using uint_lt2p [of b] by simp
  then show ?thesis by (induction bs) (simp_all add: ints_of_bytes_def)
qed

lemma convert_passwords_append:
  assumes "distinct (map fst (acc @ d))"
  shows "convert_passwords (map (\<lambda>(c, ep). (c, Some (ep_nonce ep), Some (ep_ciphertext ep))) d) acc =
    Inr (acc @ d)"
  using assms
proof (induction d arbitrary: acc)
  case (Cons x d)
  obtain c ep where x: "x = (c, ep)" by (cases x)
  have "c \<notin> fst ` set acc" using Cons.prems by (auto simp: x)
  then have "dict_set acc c ep = acc @ [(c, ep)]" by (induction acc) auto
  with Cons show ?case by (cases ep) (simp add: x)
qed simp

definition wf_state :: "app_state \<Rightarrow> bool" where
  "wf_state s \<longleftrightarrow>
     distinct (st_blocked_peers s) \<and> distinct (st_password_protected_channels s) \<and>
     distinct (st_favorites s) \<and> wf_dict (st_encrypted_channel_passwords s)"

lemma convert_passwords_wf: "wf_dict acc \<Longrightarrow> convert_passwords v acc = Inr d \<Longrightarrow> wf_dict d"
  by (induction v acc rule: convert_passwords.induct) auto

lemma apply_members_wf: "apply_members ms s = Inr s' \<Longrightarrow> wf_state s \<Longrightarrow> wf_state s'"
proof (induction ms arbitrary: s)
  case (Cons m ms)
  from Cons.prems(1) obtain t where t: "apply_member m s = Inr t" "apply_members ms t = Inr s'"
    by (auto simp: res_simps)
  from t(1) Cons.prems(2) have "wf_state t"
    by (cases m) (auto simp: wf_state_def res_simps dest: convert_passwords_wf [OF wf_dict_Nil])
  with t(2) show ?case by (rule Cons.IH)
qed simp

lemma load_saved:
  assumes "wf_state s" and "st_identity_key s \<noteq> None"
  shows "load_state fresh wr (Members (state_members s)) = (Inr s, Members (state_members s))"
proof -
  have "apply_members (state_members s) default_state = Inr s"
    using assms(1) convert_passwords_append [of "[]" "st_encrypted_channel_passwords s"]
    by (simp add: state_members_def wf_state_def wf_dict_def default_state_def)
  with assms(2) show ?thesis by (auto simp: load_state_def)
qed

text \<open>
  Saving and loading the state of a node that has an identity key gives the same state back and
  leaves the file as it is: nothing is lost, and no new identity is generated.
\<close>

theorem state_roundtrip:
  assumes "wf_state s" and "st_identity_key s = Some key"
  shows "\<exists>file'. save_state None s file = (Inr (), file') \<and>
    load_state fresh wr file' = (Inr s, file')"
  using assms load_saved [of s fresh wr] by (simp add: save_state_def)

theorem state_roundtrip_witness:
  "\<exists>file'. save_state None (default_state\<lparr>st_nickname := Some [97], st_identity_key := Some [1],
        st_encrypted_channel_passwords := [([35], \<lparr>ep_nonce = [1], ep_ciphertext = [2]\<rparr>)]\<rparr>) Absent =
      (Inr (), file') \<and>
    load_state [9] None file' =
      (Inr (default_state\<lparr>st_nickname := Some [97], st_identity_key := Some [1],
        st_encrypted_channel_passwords := [([35], \<lparr>ep_nonce = [1], ep_ciphertext = [2]\<rparr>)]\<rparr>), file')"
  by (rule state_roundtrip [where key = "[1]"]) (simp_all add: wf_state_def default_state_def)

text \<open>
  Loading never fails because of what the file holds. With a writable state directory
  \<open>load_state\<close> returns a state with an identity key for every file, damaged ones included, and
  every later load of the file it leaves returns the same state, whatever random key it would draw:
  the identity is on disk.
\<close>

theorem load_state_total:
  "\<exists>s file'. load_state fresh None file = (Inr s, file') \<and> st_identity_key s \<noteq> None \<and>
     (\<forall>fresh' wr. load_state fresh' wr file' = (Inr s, file'))"
proof -
  define st where "st = (case file of
            Members ms \<Rightarrow>
              (case apply_members ms default_state of Inr s \<Rightarrow> s | Inl e \<Rightarrow> default_state)
          | _ \<Rightarrow> default_state)"
  have "wf_state default_state" by (simp add: wf_state_def default_state_def)
  then have w: "wf_state st"
    by (auto simp: st_def apply_members_wf split: state_file.split sum.split)
  show ?thesis
  proof (cases "st_identity_key st")
    case None
    let ?s = "st\<lparr>st_identity_key := Some fresh\<rparr>"
    have "wf_state ?s" using w by (simp add: wf_state_def)
    then have "load_state fresh' wr (Members (state_members ?s)) = (Inr ?s, Members (state_members ?s))"
      for fresh' wr by (rule load_saved) simp
    moreover have "load_state fresh None file = (Inr ?s, Members (state_members ?s))"
      using None by (simp add: load_state_def st_def [symmetric] save_state_def Let_def)
    ultimately show ?thesis by auto
  next
    case (Some k)
    then have "load_state fresh' wr file = (Inr st, file)" for fresh' wr
      by (simp add: load_state_def st_def [symmetric])
    with Some show ?thesis by auto
  qed
qed

lemma password_recovered:
  assumes "\<forall>k n p. gcm_dec g k n (gcm_enc g k n p) = Some p" and "\<forall>x. length (sha256 cr x) = 32"
    and "length rnd = 12" and "list_all (\<lambda>i. 0 \<le> i \<and> i < 256) identity_key"
    and "utf8_encode password = Inr enc"
  shows "\<exists>ep. encrypt_password cr g rnd password identity_key = Inr ep \<and>
    decrypt_password cr g ep identity_key = Inr password"
proof -
  have "\<exists>b. bytes_of_ints xs = Inr b" if "list_all (\<lambda>i. 0 \<le> i \<and> i < 256) xs" for xs
    using that by (induction xs) auto
  then obtain b where "bytes_of_ints identity_key = Inr b" using assms(4) by blast
  with assms utf8_decode_encode [OF assms(5)] show ?thesis
    by (simp add: encrypt_password_def decrypt_password_def derive_encryption_key_def gcm_key_def
        gcm_nonce_def)
qed

text \<open>
  A channel password saved under the identity key is recovered under the same identity key: for
  every Unicode password and every identity key of byte values, encryption succeeds and decryption
  returns the password. AES-GCM must invert itself and SHA-256 return 32 bytes.
\<close>

theorem password_roundtrip:
  assumes "\<forall>k n p. gcm_dec g k n (gcm_enc g k n p) = Some p" and "\<forall>x. length (sha256 cr x) = 32"
    and "length rnd = 12" and "list_all (\<lambda>i. 0 \<le> i \<and> i < 256) identity_key"
    and "utf8_encode password = Inr enc"
  shows "\<exists>ep. encrypt_password cr g rnd password identity_key = Inr ep \<and>
    decrypt_password cr g ep identity_key = Inr password"
  using assms by (rule password_recovered)

theorem password_roundtrip_witness:
  "\<exists>ep. encrypt_password plain_crypto \<lparr>gcm_enc = \<lambda>k n p. 0 # p, gcm_dec = \<lambda>k n c. Some (tl c)\<rparr>
      (replicate 12 7) (lit ''pw'') [1, 255] = Inr ep \<and>
    decrypt_password plain_crypto \<lparr>gcm_enc = \<lambda>k n p. 0 # p, gcm_dec = \<lambda>k n c. Some (tl c)\<rparr>
      ep [1, 255] = Inr (lit ''pw'')"
proof -
  have "utf8_encode (lit ''pw'') = Inr [112, 119]" by (simp add: lit_def utf8_enc1_def)
  moreover have "\<forall>x. length (sha256 plain_crypto x) = 32" by (simp add: plain_crypto_def)
  ultimately show ?thesis by (intro password_roundtrip) simp_all
qed

end
