(* ===== verification/Node.thy ===== *)
theory Node
  imports Actions Message Identity Fragmentation Sessions Transport Persistence
begin

text \<open>
  The state of a mesh node (\<open>MeshNode\<close> of \<^verbatim>\<open>daemon/mesh.py\<close>) and what its handlers are
  built from. A handler is a function from the node to a result, the node and the outputs, so an
  exception keeps the changes made before it. Where a coroutine sleeps or is only scheduled, the
  rest of it is a task in \<open>ms_tasks\<close>: other tasks may run before it, in any order. Sending is
  atomic (\<open>drain\<close> suspends only when the peer reads too slowly). The libraries are a parameter,
  and so are the readings of the clock and the random values of a handler's run.

  \<open>blocked_peers\<close> and the channel dictionaries are shared with \<open>app_state\<close> in the code;
  \<open>app_state\<close> is only read by \<open>save_state\<close>, which first assigns these fields, so keeping
  them apart is not observable. The Bloom filter is only written and is left out.
\<close>

subsection \<open>Libraries and readings of the outside\<close>

text \<open>
  \<open>lb_ack_dumps\<close> is \<open>json.dumps(...).encode()\<close> on the six members of an acknowledgment, and
  \<open>lb_ack_loads\<close> is \<open>json.loads\<close> followed by the six lookups, for values of the declared
  types. \<open>lb_bloom n keys key\<close> is the exception, if any, that \<open>add(key)\<close> raises on a
  \<open>BloomFilter\<close> of capacity \<open>n\<close> to which \<open>keys\<close> have been added; what is relied on is that a filter
  takes as many keys as its capacity says.
\<close>

record libs =
  lb_crypto :: crypto
  lb_lz4 :: lz4
  lb_gcm :: aesgcm
  lb_ack_dumps :: "delivery_ack \<Rightarrow> bytes"
  lb_ack_loads :: "bytes \<Rightarrow> delivery_ack res"
  lb_bloom :: "nat \<Rightarrow> pystr list \<Rightarrow> pystr \<Rightarrow> py_error option"

definition bloom_ok :: "libs \<Rightarrow> bool" where
  "bloom_ok lb \<longleftrightarrow> (\<forall>n keys key. length keys < n \<longrightarrow> lb_bloom lb n keys key = None)"

text \<open>
  One run of a handler: \<open>ev_ts i\<close> is the \<open>i\<close>-th \<open>int(time.time() * 1000)\<close> it reads,
  \<open>ev_rnd i\<close> the \<open>i\<close>-th source of random bytes, \<open>ev_uuid\<close> its \<open>uuid4\<close>,
  \<open>ev_eph\<close> the fresh ephemeral key, \<open>ev_now\<close> the time, \<open>ev_fails\<close> how writers fail
  and \<open>ev_wr\<close> whether the state file can be opened for writing.
\<close>

record env =
  ev_ts :: "nat \<Rightarrow> nat"
  ev_rnd :: "nat \<Rightarrow> nat \<Rightarrow> bytes"
  ev_uuid :: pystr
  ev_eph :: bytes
  ev_now :: time
  ev_fails :: "nat \<Rightarrow> py_error option"
  ev_wr :: "py_error option"

subsection \<open>The node\<close>

datatype task =
  Handle packet conn bytes
| Relay bytes nat
| Start_pending pystr
| Send_pending pystr "(pystr \<times> pystr \<times> pystr) list"
| Announce_identity
| Announce_name

datatype node_output =
  Net effect
| Message_received message pystr bool
| Peer_joined pystr pystr
| Peer_left pystr pystr
| Ack_received delivery_ack

record mesh =
  ms_id :: pystr
  ms_nickname :: pystr
  ms_app :: app_state
  ms_file :: state_file
  ms_enc :: service
  ms_transport :: transport
  ms_peers :: "(pystr, pystr option) dict"
  ms_addresses :: "(pystr, pystr) dict"
  ms_bloom :: "pystr list"
  ms_processed :: "pystr set"
  ms_collector :: collector
  ms_tracker :: delivery_tracker
  ms_channel_keys :: "(pystr, bytes) dict"
  ms_channel_creators :: "(pystr, pystr) dict"
  ms_protected :: "pystr list"
  ms_commitments :: "(pystr, pystr) dict"
  ms_discovered :: "pystr list"
  ms_blocked :: "pystr list"
  ms_attempts :: "(pystr, time) dict"
  ms_pending :: "(pystr, (pystr \<times> pystr \<times> pystr) list) dict"
  ms_tasks :: "task list"

subsection \<open>Actions\<close>

type_synonym 'a act = "(mesh, node_output, 'a) action"

definition spawn :: "task \<Rightarrow> unit act" where
  "spawn t = modA (\<lambda>s. s\<lparr>ms_tasks := ms_tasks s @ [t]\<rparr>)"

lemmas act_defs = action_defs spawn_def

subsection \<open>Leaving peers\<close>

definition remove_peer :: "pystr \<Rightarrow> unit act" where
  "remove_peer pid =
     getA (\<lambda>s.
     let peer = dict_get (ms_peers s) pid in
     seqA (modA (\<lambda>s. s\<lparr>ms_peers := dict_del (ms_peers s) pid,
                       ms_addresses := dict_del (ms_addresses s) pid,
                       ms_pending := dict_del (ms_pending s) pid,
                       ms_enc := remove_session pid (ms_enc s)\<rparr>))
     (case peer of
        Some (Some (c # cs)) \<Rightarrow> outA (Peer_left pid (c # cs))
      | _ \<Rightarrow> ret ()))"

text \<open>The first peer filed under the connection's address; an empty identifier counts as none.\<close>

definition on_peer_disconnected :: "conn \<Rightarrow> unit act" where
  "on_peer_disconnected c =
     getA (\<lambda>s.
     (case find (\<lambda>(pid, addr). addr = conn_address c) (ms_addresses s) of
        Some (p # ps, _) \<Rightarrow> remove_peer (p # ps)
      | _ \<Rightarrow> ret ()))"

subsection \<open>Sending\<close>

text \<open>
  The callbacks the transport fires run at once. The only one that acts on the node is
  \<open>on_disconnected\<close>; on \<open>None\<close> it raises.
\<close>

fun perform :: "effect list \<Rightarrow> unit act" where
  "perform [] = ret ()"
| "perform (Fire_disconnected None # es) = seqA (outA (Net (Fire_disconnected None))) (liftA (Inl AttributeError))"
| "perform (Fire_disconnected (Some c) # es) =
     seqA (outA (Net (Fire_disconnected (Some c)))) (seqA (on_peer_disconnected c) (perform es))"
| "perform (e # es) = seqA (outA (Net e)) (perform es)"

definition transportA :: "(transport \<Rightarrow> unit res \<times> transport \<times> effect list) \<Rightarrow> unit act" where
  "transportA f =
     getA (\<lambda>s.
     (case f (ms_transport s) of (r, t, es) \<Rightarrow>
        seqA (modA (\<lambda>s. s\<lparr>ms_transport := t\<rparr>)) (seqA (perform es) (liftA r))))"

definition raw_send :: "env \<Rightarrow> bytes \<Rightarrow> unit act" where
  "raw_send ev pkt = transportA (broadcast_packet (ev_fails ev) pkt {})"

definition send_to_peer :: "env \<Rightarrow> pystr \<Rightarrow> bytes \<Rightarrow> unit act" where
  "send_to_peer ev pid pkt =
     getA (\<lambda>s.
     (case dict_get (ms_addresses s) pid of
        Some (a # as) \<Rightarrow>
          (case dict_get (tr_connections (ms_transport s)) (a # as) of
             Some c \<Rightarrow> transportA (send_packet (ev_fails ev) c pkt)
           | None \<Rightarrow> ret ())
      | _ \<Rightarrow> ret ()))"

definition get_conn_for_peer :: "pystr \<Rightarrow> mesh \<Rightarrow> conn option" where
  "get_conn_for_peer pid s =
     (case dict_get (ms_addresses s) pid of
        Some (a # as) \<Rightarrow> dict_get (tr_connections (ms_transport s)) (a # as)
      | _ \<Rightarrow> None)"

subsection \<open>Saving\<close>

definition mesh_save_state :: "env \<Rightarrow> unit act" where
  "mesh_save_state ev =
     modA (\<lambda>s.
       let app = (ms_app s)\<lparr>st_nickname := Some (ms_nickname s), st_blocked_peers := ms_blocked s,
             st_channel_creators := ms_channel_creators s,
             st_password_protected_channels := ms_protected s,
             st_channel_key_commitments := ms_commitments s\<rparr>
       in s\<lparr>ms_app := app, ms_file := snd (save_state (ev_wr ev) app (ms_file s))\<rparr>)"

subsection \<open>Start\<close>

definition restore_channel_keys :: "libs \<Rightarrow> app_state \<Rightarrow> (pystr, bytes) dict" where
  "restore_channel_keys lb app =
     (case st_identity_key app of
        Some (k # ks) \<Rightarrow>
          fold (\<lambda>(channel, ep) d.
            case bindE (decrypt_password (lb_crypto lb) (lb_gcm lb) ep (k # ks))
                   (\<lambda>password. derive_channel_key (lb_crypto lb) password channel) of
              Inr key \<Rightarrow> dict_set d channel key
            | Inl e \<Rightarrow> d) (st_encrypted_channel_passwords app) []
      | _ \<Rightarrow> [])"

text \<open>
  \<open>MeshNode(transport, config)\<close> with the configured nickname, if any, eight random bytes, a
  fresh static key and the loaded state.
\<close>

definition node_nickname :: "pystr option \<Rightarrow> pystr option \<Rightarrow> pystr" where
  "node_nickname configured saved =
     (case configured of
        Some (c # cs) \<Rightarrow> c # cs
      | _ \<Rightarrow>
          (case saved of
             Some (c # cs) \<Rightarrow> c # cs
           | _ \<Rightarrow> (case configured of Some n \<Rightarrow> n | None \<Rightarrow> lit ''anon-daemon'')))"

definition mesh_init ::
  "libs \<Rightarrow> pystr option \<Rightarrow> bytes \<Rightarrow> bytes \<Rightarrow> app_state \<Rightarrow> state_file \<Rightarrow> transport \<Rightarrow> mesh" where
  "mesh_init lb configured rnd8 static app file t =
     \<lparr>ms_id = hex rnd8, ms_nickname = node_nickname configured (st_nickname app),
      ms_app = app, ms_file = file, ms_enc = service_init static, ms_transport = t,
      ms_peers = [], ms_addresses = [], ms_bloom = [], ms_processed = {}, ms_collector = collector_init,
      ms_tracker = tracker_init, ms_channel_keys = restore_channel_keys lb app,
      ms_channel_creators = st_channel_creators app,
      ms_protected = st_password_protected_channels app,
      ms_commitments = st_channel_key_commitments app, ms_discovered = [],
      ms_blocked = st_blocked_peers app, ms_attempts = [], ms_pending = [], ms_tasks = []\<rparr>"

end
