(* ===== verification/Mesh.thy ===== *)
theory Mesh
  imports Node
begin

text \<open>
  The handlers and the public operations of \<open>MeshNode\<close> (\<^verbatim>\<open>daemon/mesh.py\<close>), in the
  order of the file. \<open>on_packet_received\<close> files a task for each packet; \<open>handle_packet\<close> is
  the dispatch table; \<open>run_task\<close> runs one task.
\<close>

subsection \<open>Receiving\<close>

definition on_packet_received :: "libs \<Rightarrow> conn \<Rightarrow> bytes \<Rightarrow> unit act" where
  "on_packet_received lb c raw =
     (case parse_bitchat_packet (lb_lz4 lb) raw of
        Inl e \<Rightarrow> ret ()
      | Inr pk \<Rightarrow>
          getA (\<lambda>s.
          if pkt_sender_id_str pk = ms_id s then ret ()
          else
            seqA (modA (\<lambda>s. s\<lparr>ms_addresses :=
              dict_set (ms_addresses s) (pkt_sender_id_str pk) (conn_address c)\<rparr>))
            (if pkt_type pk \<in> set [ANNOUNCE, MESSAGE, FRAGMENT_START, FRAGMENT_CONTINUE, FRAGMENT_END,
                 KEY_EXCHANGE, NOISE_HANDSHAKE_INIT, NOISE_HANDSHAKE_RESP, NOISE_ENCRYPTED, LEAVE,
                 CHANNEL_ANNOUNCE, NOISE_IDENTITY_ANNOUNCE, DELIVERY_ACK]
             then spawn (Handle pk c raw) else ret ())))"

text \<open>\<open>on_authenticated\<close> files the task that \<open>_on_peer_authenticated\<close> creates.\<close>

fun on_authenticated :: "(pystr \<times> pystr) list \<Rightarrow> unit act" where
  "on_authenticated [] = ret ()"
| "on_authenticated ((pid, fingerprint) # es) = seqA (spawn (Start_pending pid)) (on_authenticated es)"

definition process_handshake :: "libs \<Rightarrow> env \<Rightarrow> pystr \<Rightarrow> bytes \<Rightarrow> bytes option act" where
  "process_handshake lb ev pid msg =
     getA (\<lambda>s.
     (case process_handshake_message (lb_crypto lb) (ev_eph ev) (ev_now ev) pid msg (ms_enc s) of
        (r, enc, events) \<Rightarrow>
          seqA (modA (\<lambda>s. s\<lparr>ms_enc := enc\<rparr>))
          (seqA (on_authenticated events) (liftA r))))"

text \<open>The operations of the encryption service that update it, as actions.\<close>

definition decryptA :: "libs \<Rightarrow> pystr \<Rightarrow> bytes \<Rightarrow> bytes act" where
  "decryptA lb pid data =
     getA (\<lambda>s.
     (case decrypt_from_peer (lb_crypto lb) pid data (ms_enc s) of
        (r, enc) \<Rightarrow> seqA (modA (\<lambda>s. s\<lparr>ms_enc := enc\<rparr>)) (liftA r)))"

definition encryptA :: "libs \<Rightarrow> pystr \<Rightarrow> bytes \<Rightarrow> bytes act" where
  "encryptA lb pid data =
     getA (\<lambda>s.
     (case encrypt_for_peer (lb_crypto lb) pid data (ms_enc s) of
        (r, enc) \<Rightarrow> seqA (modA (\<lambda>s. s\<lparr>ms_enc := enc\<rparr>)) (liftA r)))"

subsection \<open>Identity and handshakes\<close>

definition send_identity_announce :: "libs \<Rightarrow> env \<Rightarrow> unit act" where
  "send_identity_announce lb ev =
     getA (\<lambda>s.
     let timestamp_ms = ev_ts ev 0;
         pub_key = get_public_key_bytes (lb_crypto lb) (ms_enc s);
         signing_pub_key = get_signing_public_key_bytes (lb_crypto lb) (ms_enc s)
     in
     bindA (liftA (utf8_encode (ms_id s))) (\<lambda>idb.
     bindA (liftA (utf8_encode (dec timestamp_ms))) (\<lambda>tsb.
     let signature = sign_data (lb_crypto lb) (idb @ pub_key @ tsb) (ms_enc s) in
     bindA (liftA (encode_noise_identity_announcement_binary (ms_id s) pub_key signing_pub_key
              (ms_nickname s) (int timestamp_ms) signature None)) (\<lambda>payload.
     bindA (liftA (create_bitchat_packet_with_signature (ev_ts ev 1) (ev_rnd ev 0) (ms_id s)
              NOISE_IDENTITY_ANNOUNCE payload (Some signature))) (\<lambda>pkt.
     raw_send ev pkt)))))"

definition send_announce :: "env \<Rightarrow> unit act" where
  "send_announce ev =
     getA (\<lambda>s.
     bindA (liftA (utf8_encode (ms_nickname s))) (\<lambda>name.
     bindA (liftA (create_bitchat_packet (ev_ts ev 0) (ev_rnd ev 0) (ms_id s) ANNOUNCE name)) (\<lambda>pkt.
     raw_send ev pkt)))"

text \<open>What both announcement handlers do with the peer table.\<close>

definition note_peer :: "pystr \<Rightarrow> pystr \<Rightarrow> unit act" where
  "note_peer pid nickname =
     getA (\<lambda>s.
     let is_new = \<not> has_key (ms_peers s) pid in
     seqA (modA (\<lambda>s. s\<lparr>ms_peers := dict_set (ms_peers s) pid (Some nickname)\<rparr>))
     (if is_new then outA (Peer_joined pid nickname) else ret ()))"

definition handle_announce :: "packet \<Rightarrow> unit act" where
  "handle_announce pk =
     note_peer (pkt_sender_id_str pk) (strip is_space (utf8_decode_ignore (pkt_payload pk)))"

text \<open>\<open>a < b\<close> on strings.\<close>

fun str_less :: "pystr \<Rightarrow> pystr \<Rightarrow> bool" where
  "str_less [] [] = False"
| "str_less [] (b # bs) = True"
| "str_less (a # as) [] = False"
| "str_less (a # as) (b # bs) = (a < b \<or> (a = b \<and> str_less as bs))"

definition mesh_initiate_handshake :: "libs \<Rightarrow> env \<Rightarrow> pystr \<Rightarrow> unit act" where
  "mesh_initiate_handshake lb ev pid =
     tryA
       (getA (\<lambda>s.
        (case initiate_handshake (lb_crypto lb) (ev_eph ev) pid (ms_enc s) of
           (r, enc) \<Rightarrow>
             seqA (modA (\<lambda>s. s\<lparr>ms_enc := enc\<rparr>))
             (bindA (liftA r) (\<lambda>msg.
              bindA (liftA (create_bitchat_packet_with_recipient (ev_ts ev 0) (ev_rnd ev 0) (ms_id s)
                       (Some pid) NOISE_HANDSHAKE_INIT msg None)) (\<lambda>pkt.
              send_to_peer ev pid (set_ttl pkt 3)))))))
       any_error (ret ())"

definition handle_noise_identity_announce :: "libs \<Rightarrow> env \<Rightarrow> packet \<Rightarrow> unit act" where
  "handle_noise_identity_announce lb ev pk =
     getA (\<lambda>s.
     if pkt_sender_id_str pk = ms_id s then ret ()
     else
       (case parse_noise_identity_announcement_binary (pkt_payload pk) of
          None \<Rightarrow> ret ()
        | Some announcement \<Rightarrow>
            let pid = ann_peerID announcement in
            seqA (note_peer pid (ann_nickname announcement))
            (if str_less (ms_id s) pid \<and> \<not> is_session_established pid (ms_enc s)
             then mesh_initiate_handshake lb ev pid else ret ())))"

subsection \<open>Pending private messages\<close>

definition send_pending_private_messages :: "pystr \<Rightarrow> unit act" where
  "send_pending_private_messages pid =
     getA (\<lambda>s.
     (case dict_get (ms_pending s) pid of
        None \<Rightarrow> ret ()
      | Some messages \<Rightarrow>
          seqA (modA (\<lambda>s. s\<lparr>ms_pending := dict_del (ms_pending s) pid\<rparr>))
          (spawn (Send_pending pid messages))))"

definition handle_handshake :: "libs \<Rightarrow> env \<Rightarrow> MessageType \<Rightarrow> packet \<Rightarrow> unit act" where
  "handle_handshake lb ev reply_type pk =
     getA (\<lambda>s.
     if pkt_recipient_id_str pk \<noteq> None \<and> pkt_recipient_id_str pk \<noteq> Some [] \<and>
        pkt_recipient_id_str pk \<noteq> Some (ms_id s) then ret ()
     else
       let pid = pkt_sender_id_str pk in
       tryA
         (bindA (process_handshake lb ev pid (pkt_payload pk)) (\<lambda>response.
          seqA
            (case response of
               Some (b # bs) \<Rightarrow>
                 bindA (liftA (create_bitchat_packet_with_recipient (ev_ts ev 0) (ev_rnd ev 0) (ms_id s)
                          (Some pid) reply_type (b # bs) None)) (\<lambda>pkt.
                 send_to_peer ev pid (set_ttl pkt 3))
             | _ \<Rightarrow> ret ())
            (getA (\<lambda>s.
             if is_session_established pid (ms_enc s) then
               seqA (modA (\<lambda>s. s\<lparr>ms_attempts := dict_del (ms_attempts s) pid\<rparr>))
                 (send_pending_private_messages pid)
             else ret ()))))
         any_error
         (modA (\<lambda>s. s\<lparr>ms_enc := clear_handshake_state pid (ms_enc s)\<rparr>)))"

definition handle_noise_handshake_init :: "libs \<Rightarrow> env \<Rightarrow> packet \<Rightarrow> unit act" where
  "handle_noise_handshake_init lb ev = handle_handshake lb ev NOISE_HANDSHAKE_RESP"

definition handle_noise_handshake_resp :: "libs \<Rightarrow> env \<Rightarrow> packet \<Rightarrow> unit act" where
  "handle_noise_handshake_resp lb ev = handle_handshake lb ev NOISE_HANDSHAKE_INIT"

definition handle_key_exchange :: "libs \<Rightarrow> env \<Rightarrow> packet \<Rightarrow> unit act" where
  "handle_key_exchange lb ev pk =
     tryA
       (bindA (process_handshake lb ev (pkt_sender_id_str pk) (pkt_payload pk)) (\<lambda>response.
        (case response of
           Some (b # bs) \<Rightarrow>
             getA (\<lambda>s.
             bindA (liftA (create_bitchat_packet (ev_ts ev 0) (ev_rnd ev 0) (ms_id s) KEY_EXCHANGE (b # bs)))
               (\<lambda>pkt. send_to_peer ev (pkt_sender_id_str pk) pkt))
         | _ \<Rightarrow> ret ())))
       any_error (ret ())"

subsection \<open>Relaying and acknowledging\<close>

text \<open>\<open>_relay\<close> up to its sleep; what follows is \<open>run_task\<close> on the task it leaves.\<close>

definition relay :: "bytes \<Rightarrow> nat \<Rightarrow> unit act" where
  "relay raw ttl = (if ttl \<le> 1 then ret () else spawn (Relay raw ttl))"

definition relay_if :: "packet \<Rightarrow> bytes \<Rightarrow> unit act" where
  "relay_if pk raw = (if pkt_ttl pk > 1 then relay raw (pkt_ttl pk) else ret ())"

definition send_delivery_ack :: "libs \<Rightarrow> env \<Rightarrow> pystr \<Rightarrow> pystr \<Rightarrow> bool \<Rightarrow> unit act" where
  "send_delivery_ack lb ev message_id sender is_private =
     getA (\<lambda>s.
     (case tracker_should_send_ack (message_id @ 45 # ms_id s) (ms_tracker s) of (ok, tracker) \<Rightarrow>
     seqA (modA (\<lambda>s. s\<lparr>ms_tracker := tracker\<rparr>))
     (if \<not> ok then ret ()
      else
        let ack_payload = lb_ack_dumps lb
              \<lparr>ack_original_message_id = message_id, ack_id = ev_uuid ev, ack_recipient_id = ms_id s,
               ack_recipient_nickname = ms_nickname s, ack_timestamp = int (ev_ts ev 0), ack_hop_count = 1\<rparr>
        in
        bindA (if is_private then tryA (encryptA lb sender ack_payload) any_error (ret ack_payload)
               else ret ack_payload) (\<lambda>ack_payload.
        bindA (liftA (create_bitchat_packet_with_recipient (ev_ts ev 1) (ev_rnd ev 0) (ms_id s)
                 (Some sender) DELIVERY_ACK ack_payload None)) (\<lambda>pkt.
        send_to_peer ev sender (set_ttl pkt 3))))))"

subsection \<open>Messages\<close>

definition is_blocked :: "libs \<Rightarrow> pystr \<Rightarrow> mesh \<Rightarrow> bool" where
  "is_blocked lb pid s =
     (case get_peer_fingerprint (lb_crypto lb) pid (ms_enc s) of
        Some fingerprint \<Rightarrow> fingerprint \<noteq> [] \<and> fingerprint \<in> set (ms_blocked s)
      | None \<Rightarrow> False)"

definition is_broadcast :: "packet \<Rightarrow> bool" where
  "is_broadcast pk =
     (case pkt_recipient_id pk of
        Some (b # bs) \<Rightarrow> b # bs = BROADCAST_RECIPIENT
      | _ \<Rightarrow> True)"

text \<open>
  The first handling of a message identifier: \<open>k\<close> runs unless it was processed before. The Bloom
  filter is never asked, but a full one raises, before the identifier is marked.
\<close>

definition bloom_capacity :: nat where
  "bloom_capacity = 5000"

definition once :: "libs \<Rightarrow> pystr \<Rightarrow> unit act \<Rightarrow> unit act" where
  "once lb message_id k =
     getA (\<lambda>s.
     if message_id \<in> ms_processed s then ret ()
     else
       (case lb_bloom lb bloom_capacity (ms_bloom s) message_id of
          Some e \<Rightarrow> liftA (Inl e)
        | None \<Rightarrow>
            seqA (modA (\<lambda>s. s\<lparr>ms_bloom := ms_bloom s @ [message_id],
                              ms_processed := insert message_id (ms_processed s)\<rparr>)) k))"

definition deliver_message :: "libs \<Rightarrow> env \<Rightarrow> packet \<Rightarrow> bytes \<Rightarrow> bool \<Rightarrow> message \<Rightarrow> unit act" where
  "deliver_message lb ev pk raw is_private msg =
     once lb (msg_id msg)
       (seqA (outA (Message_received msg (pkt_sender_id_str pk) is_private))
       (getA (\<lambda>s.
        seqA
          (if should_send_ack is_private (msg_channel msg) None (ms_nickname s) (length (ms_peers s))
           then send_delivery_ack lb ev (msg_id msg) (pkt_sender_id_str pk) is_private else ret ())
          (relay_if pk raw))))"

definition handle_message :: "libs \<Rightarrow> env \<Rightarrow> packet \<Rightarrow> bytes \<Rightarrow> unit act" where
  "handle_message lb ev pk raw =
     getA (\<lambda>s.
     if is_blocked lb (pkt_sender_id_str pk) s then ret ()
     else
       let is_for_us = (is_broadcast pk \<or> pkt_recipient_id_str pk = Some (ms_id s)) in
       if \<not> is_for_us then relay_if pk raw
       else
         let is_private = \<not> is_broadcast pk in
         if is_private then
           bindA (tryA (bindA (decryptA lb (pkt_sender_id_str pk) (pkt_payload pk)) (\<lambda>d. ret (Some d)))
                   (\<lambda>e. e = NoiseError) (ret None)) (\<lambda>decrypted.
           (case decrypted of
              None \<Rightarrow> ret ()
            | Some d \<Rightarrow>
                tryA (bindA (liftA (parse_bitchat_message_payload
                              (if d \<noteq> [] then unpad_message d else pkt_payload pk)))
                       (deliver_message lb ev pk raw True))
                  any_error (ret ())))
         else
           tryA (bindA (liftA (parse_bitchat_message_payload (pkt_payload pk)))
                  (deliver_message lb ev pk raw False))
             any_error (ret ()))"

definition handle_noise_encrypted :: "libs \<Rightarrow> env \<Rightarrow> packet \<Rightarrow> unit act" where
  "handle_noise_encrypted lb ev pk =
     getA (\<lambda>s.
     if is_blocked lb (pkt_sender_id_str pk) s then ret ()
     else
       tryA
         (bindA (decryptA lb (pkt_sender_id_str pk) (pkt_payload pk)) (\<lambda>decrypted.
          (case decrypted of
             b # bs \<Rightarrow>
               if b = 1 then
                 bindA (liftA (parse_bitchat_packet (lb_lz4 lb) (b # bs))) (\<lambda>inner.
                 if pkt_type inner = MESSAGE then
                   bindA (liftA (parse_bitchat_message_payload (pkt_payload inner))) (\<lambda>msg.
                   once lb (msg_id msg)
                     (seqA (outA (Message_received msg (pkt_sender_id_str pk) True))
                       (send_delivery_ack lb ev (msg_id msg) (pkt_sender_id_str pk) True)))
                 else ret ())
               else ret ()
           | [] \<Rightarrow> ret ())))
         any_error (ret ()))"

subsection \<open>Fragments\<close>

text \<open>
  \<^verbatim>\<open>mesh.py\<close> does not import \<open>struct\<close>: on a payload of 13 bytes or more the first
  \<open>struct.unpack\<close> raises \<open>NameError\<close>, before the collector is reached.
\<close>

definition handle_fragment :: "packet \<Rightarrow> bytes \<Rightarrow> unit act" where
  "handle_fragment pk raw =
     (if 13 \<le> length (pkt_payload pk) then liftA (Inl NameError) else relay_if pk raw)"

subsection \<open>Leaving, channels and acknowledgments received\<close>

definition handle_leave :: "packet \<Rightarrow> bytes \<Rightarrow> unit act" where
  "handle_leave pk raw =
     (let payload = strip is_space (utf8_decode_ignore (pkt_payload pk)) in
      seqA (if take 1 payload = [35] then ret () else remove_peer (pkt_sender_id_str pk))
        (relay_if pk raw))"

definition set_add :: "'a \<Rightarrow> 'a list \<Rightarrow> 'a list" where
  "set_add x xs = (if x \<in> set xs then xs else xs @ [x])"

definition note_channel :: "pystr \<Rightarrow> bool \<Rightarrow> pystr \<Rightarrow> pystr \<Rightarrow> mesh \<Rightarrow> mesh" where
  "note_channel channel is_protected creator_id key_commitment s =
     (let s1 = (if creator_id \<noteq> []
                then s\<lparr>ms_channel_creators := dict_set (ms_channel_creators s) channel creator_id\<rparr> else s);
          s2 = (if is_protected then s1\<lparr>ms_protected := set_add channel (ms_protected s1)\<rparr>
                else s1\<lparr>ms_protected := removeAll channel (ms_protected s1)\<rparr>);
          s3 = (if is_protected then
                  if key_commitment \<noteq> []
                  then s2\<lparr>ms_commitments := dict_set (ms_commitments s2) channel key_commitment\<rparr> else s2
                else s2\<lparr>ms_channel_keys := dict_del (ms_channel_keys s2) channel\<rparr>);
          s4 = (if is_protected then s3 else s3\<lparr>ms_commitments := dict_del (ms_commitments s3) channel\<rparr>)
      in s4\<lparr>ms_discovered := set_add channel (ms_discovered s4)\<rparr>)"

definition handle_channel_announce :: "env \<Rightarrow> packet \<Rightarrow> unit act" where
  "handle_channel_announce ev pk =
     (let parts = split_on 124 (utf8_decode_ignore (pkt_payload pk)) in
      if 3 \<le> length parts then
        seqA (modA (note_channel (parts ! 0) (parts ! 1 = [49]) (parts ! 2)
                (if 3 < length parts then parts ! 3 else [])))
          (mesh_save_state ev)
      else ret ())"

definition send_channel_announce :: "env \<Rightarrow> pystr \<Rightarrow> bool \<Rightarrow> pystr option \<Rightarrow> unit act" where
  "send_channel_announce ev channel is_protected key_commitment =
     getA (\<lambda>s.
     let payload = channel @ [124] @ (if is_protected then [49] else [48]) @ [124] @ ms_id s @ [124] @
           (case key_commitment of Some k \<Rightarrow> k | None \<Rightarrow> [])
     in
     bindA (liftA (utf8_encode payload)) (\<lambda>bs.
     bindA (liftA (create_bitchat_packet (ev_ts ev 0) (ev_rnd ev 0) (ms_id s) CHANNEL_ANNOUNCE bs)) (\<lambda>pkt.
     raw_send ev (set_ttl pkt 5))))"

definition handle_delivery_ack :: "libs \<Rightarrow> packet \<Rightarrow> bytes \<Rightarrow> unit act" where
  "handle_delivery_ack lb pk raw =
     getA (\<lambda>s.
     if pkt_recipient_id_str pk = Some (ms_id s) \<and> ms_id s \<noteq> [] then
       bindA (if pkt_ttl pk = 3 \<and> is_session_established (pkt_sender_id_str pk) (ms_enc s)
              then tryA (decryptA lb (pkt_sender_id_str pk) (pkt_payload pk)) any_error
                     (ret (pkt_payload pk))
              else ret (pkt_payload pk)) (\<lambda>ack_payload.
       tryA
         (bindA (liftA (lb_ack_loads lb ack_payload)) (\<lambda>ack.
          getA (\<lambda>s.
          (case mark_delivered (ack_original_message_id ack) (ms_tracker s) of (found, tracker) \<Rightarrow>
             seqA (modA (\<lambda>s. s\<lparr>ms_tracker := tracker\<rparr>))
             (if found then outA (Ack_received ack) else ret ())))))
         any_error (ret ()))
     else relay_if pk raw)"

subsection \<open>Sending messages\<close>

definition send_public_message :: "libs \<Rightarrow> env \<Rightarrow> pystr \<Rightarrow> pystr option \<Rightarrow> pystr act" where
  "send_public_message lb ev content channel =
     getA (\<lambda>s.
     bindA
       (case (case channel of Some (c # cs) \<Rightarrow> dict_get (ms_channel_keys s) (c # cs) | _ \<Rightarrow> None) of
          Some key \<Rightarrow>
            bindA (liftA (encrypt_for_channel (lb_crypto lb) (ev_rnd ev 0 12) content (the channel) key
                     (case dict_get (ms_channel_creators s) (the channel) of Some fp \<Rightarrow> fp | None \<Rightarrow> [])))
              (\<lambda>encrypted.
            liftA (create_bitchat_message_payload_full (ev_ts ev 0) (ev_uuid ev) (ms_nickname s) content
              channel False (ms_id s) True (Some encrypted)))
        | None \<Rightarrow>
            liftA (create_bitchat_message_payload_full (ev_ts ev 0) (ev_uuid ev) (ms_nickname s) content
              channel False (ms_id s) False None)) (\<lambda>(payload, mid).
     seqA (modA (\<lambda>s. s\<lparr>ms_tracker := track_message (ev_now ev) mid content False (ms_tracker s)\<rparr>))
     (bindA (liftA (create_bitchat_packet (ev_ts ev 1) (ev_rnd ev 1) (ms_id s) MESSAGE payload)) (\<lambda>pkt.
      seqA (raw_send ev pkt) (ret mid)))))"

text \<open>The first branch of \<open>send_private_message\<close>: queue the message and see to a handshake.\<close>

definition handshake_timeout :: time where
  "handshake_timeout = 5"

definition queue_private_message ::
  "libs \<Rightarrow> env \<Rightarrow> pystr \<Rightarrow> pystr \<Rightarrow> pystr \<Rightarrow> pystr option \<Rightarrow> pystr act" where
  "queue_private_message lb ev content target nickname message_id =
     (let mid = (case message_id of Some (c # cs) \<Rightarrow> c # cs | _ \<Rightarrow> ev_uuid ev) in
      seqA (modA (\<lambda>s. s\<lparr>ms_pending := dict_set (ms_pending s) target
        ((case dict_get (ms_pending s) target of Some q \<Rightarrow> q | None \<Rightarrow> []) @ [(content, nickname, mid)])\<rparr>))
      (getA (\<lambda>s.
       if (case dict_get (ms_attempts s) target of
             Some prev \<Rightarrow> ev_now ev - prev < handshake_timeout | None \<Rightarrow> False)
       then ret mid
       else
         seqA (modA (\<lambda>s. s\<lparr>ms_attempts := dict_set (ms_attempts s) target (ev_now ev)\<rparr>))
         (seqA (mesh_initiate_handshake lb ev target) (ret mid)))))"

definition send_private_message ::
  "libs \<Rightarrow> env \<Rightarrow> pystr \<Rightarrow> pystr \<Rightarrow> pystr \<Rightarrow> pystr option \<Rightarrow> pystr act" where
  "send_private_message lb ev content target nickname message_id =
     getA (\<lambda>s.
     if \<not> is_session_established target (ms_enc s) then
       queue_private_message lb ev content target nickname message_id
     else
       bindA (liftA (create_bitchat_message_payload_full (ev_ts ev 0) (ev_uuid ev) (ms_nickname s) content
                None True (ms_id s) False None)) (\<lambda>(payload, mid).
       seqA (modA (\<lambda>s. s\<lparr>ms_tracker := track_message (ev_now ev) mid content True (ms_tracker s)\<rparr>))
       (bindA (liftA (create_bitchat_packet_with_recipient (ev_ts ev 1) (ev_rnd ev 0) (ms_id s)
                 (Some target) MESSAGE payload None)) (\<lambda>inner.
        bindA (encryptA lb target (set_ttl inner 7)) (\<lambda>encrypted.
        bindA (liftA (create_bitchat_packet_with_recipient (ev_ts ev 2) (ev_rnd ev 1) (ms_id s)
                 (Some target) NOISE_ENCRYPTED encrypted None)) (\<lambda>outer.
        seqA (send_to_peer ev target outer) (ret mid)))))))"

subsection \<open>Connections, status and shutdown\<close>

text \<open>\<open>on_connect_transport\<close> sleeps before each of its two announcements.\<close>

definition on_connect_transport :: "unit act" where
  "on_connect_transport = spawn Announce_identity"

record status =
  sta_peer_id :: pystr
  sta_nickname :: pystr
  sta_peers_count :: nat
  sta_connections_count :: nat
  sta_session_count :: nat
  sta_peers :: "(pystr \<times> pystr option \<times> pystr) list"
  sta_channels :: "pystr list"

definition get_status :: "mesh \<Rightarrow> status" where
  "get_status s =
     \<lparr>sta_peer_id = ms_id s, sta_nickname = ms_nickname s, sta_peers_count = length (ms_peers s),
      sta_connections_count = get_connection_count (ms_transport s),
      sta_session_count = get_session_count (ms_enc s),
      sta_peers = map (\<lambda>(pid, nick).
        (pid, nick, case dict_get (ms_addresses s) pid of Some a \<Rightarrow> a | None \<Rightarrow> [])) (ms_peers s),
      sta_channels = ms_discovered s\<rparr>"

definition send_leave :: "env \<Rightarrow> unit act" where
  "send_leave ev =
     getA (\<lambda>s.
     bindA (liftA (utf8_encode (ms_nickname s))) (\<lambda>name.
     bindA (liftA (create_bitchat_packet (ev_ts ev 0) (ev_rnd ev 0) (ms_id s) LEAVE name)) (\<lambda>pkt.
     raw_send ev pkt)))"

subsection \<open>Dispatch and scheduling\<close>

text \<open>
  \<open>_handle_packet_internal\<close> is the same table without the fragment types; only the code after
  the \<open>NameError\<close> of \<open>_handle_fragment\<close> calls it.
\<close>

fun handle_packet_internal :: "libs \<Rightarrow> env \<Rightarrow> MessageType \<Rightarrow> packet \<Rightarrow> bytes \<Rightarrow> unit act" where
  "handle_packet_internal lb ev ANNOUNCE pk raw = handle_announce pk"
| "handle_packet_internal lb ev MESSAGE pk raw = handle_message lb ev pk raw"
| "handle_packet_internal lb ev NOISE_IDENTITY_ANNOUNCE pk raw = handle_noise_identity_announce lb ev pk"
| "handle_packet_internal lb ev NOISE_HANDSHAKE_INIT pk raw = handle_noise_handshake_init lb ev pk"
| "handle_packet_internal lb ev NOISE_HANDSHAKE_RESP pk raw = handle_noise_handshake_resp lb ev pk"
| "handle_packet_internal lb ev NOISE_ENCRYPTED pk raw = handle_noise_encrypted lb ev pk"
| "handle_packet_internal lb ev LEAVE pk raw = handle_leave pk raw"
| "handle_packet_internal lb ev CHANNEL_ANNOUNCE pk raw = handle_channel_announce ev pk"
| "handle_packet_internal lb ev KEY_EXCHANGE pk raw = handle_key_exchange lb ev pk"
| "handle_packet_internal lb ev DELIVERY_ACK pk raw = handle_delivery_ack lb pk raw"
| "handle_packet_internal lb ev t pk raw = ret ()"

definition handle_packet :: "libs \<Rightarrow> env \<Rightarrow> packet \<Rightarrow> bytes \<Rightarrow> unit act" where
  "handle_packet lb ev pk raw =
     (if pkt_type pk \<in> set [FRAGMENT_START, FRAGMENT_CONTINUE, FRAGMENT_END] then handle_fragment pk raw
      else handle_packet_internal lb ev (pkt_type pk) pk raw)"

fun run_task :: "libs \<Rightarrow> env \<Rightarrow> task \<Rightarrow> unit act" where
  "run_task lb ev (Handle pk c raw) = handle_packet lb ev pk raw"
| "run_task lb ev (Relay raw ttl) = raw_send ev (set_ttl raw (ttl - 1))"
| "run_task lb ev (Start_pending pid) = send_pending_private_messages pid"
| "run_task lb ev (Send_pending pid []) = ret ()"
| "run_task lb ev (Send_pending pid ((content, nickname, mid) # ms)) =
     seqA (tryA (bindA (send_private_message lb ev content pid nickname (Some mid)) (\<lambda>_. ret ()))
            any_error (ret ()))
       (if ms = [] then ret () else spawn (Send_pending pid ms))"
| "run_task lb ev Announce_identity =
     tryA (seqA (send_identity_announce lb ev) (spawn Announce_name)) any_error (ret ())"
| "run_task lb ev Announce_name = tryA (send_announce ev) any_error (ret ())"

text \<open>
  What can happen to a node: a packet arrives, a connection opens or ends, a task runs, or the
  application asks for something. The exception that ends a task is dropped, as \<open>asyncio\<close> does.
\<close>

datatype node_event =
  Receive conn bytes
| Run env nat
| Opened_conn nat pystr int
| Accepted_conn nat pystr int
| Ended conn
| Say env pystr "pystr option"
| Whisper env pystr pystr pystr
| Leave env

fun node_act :: "libs \<Rightarrow> node_event \<Rightarrow> unit act" where
  "node_act lb (Receive c raw) = on_packet_received lb c raw"
| "node_act lb (Run ev i) =
     getA (\<lambda>s.
     if i < length (ms_tasks s) then
       seqA (modA (\<lambda>s. s\<lparr>ms_tasks := take i (ms_tasks s) @ drop (Suc i) (ms_tasks s)\<rparr>))
         (run_task lb ev (ms_tasks s ! i))
     else ret ())"
| "node_act lb (Opened_conn cid host port) =
     seqA (transportA (\<lambda>t. case connect_open cid host port t of (c, t', es) \<Rightarrow> (Inr (), t', es)))
       on_connect_transport"
| "node_act lb (Accepted_conn cid host port) =
     seqA (transportA (\<lambda>t. case handle_client_begin cid host port t of (c, t', es) \<Rightarrow> (Inr (), t', es)))
       on_connect_transport"
| "node_act lb (Ended c) = transportA (\<lambda>t. case on_read_done c t of (t', es) \<Rightarrow> (Inr (), t', es))"
| "node_act lb (Say ev content channel) = bindA (send_public_message lb ev content channel) (\<lambda>_. ret ())"
| "node_act lb (Whisper ev content target nickname) =
     bindA (send_private_message lb ev content target nickname None) (\<lambda>_. ret ())"
| "node_act lb (Leave ev) = send_leave ev"

definition node_step :: "libs \<Rightarrow> node_event \<Rightarrow> mesh \<Rightarrow> mesh" where
  "node_step lb e s = fst (snd (node_act lb e s))"

definition node_outputs :: "libs \<Rightarrow> node_event \<Rightarrow> mesh \<Rightarrow> node_output list" where
  "node_outputs lb e s = snd (snd (node_act lb e s))"

fun node_trace :: "libs \<Rightarrow> node_event list \<Rightarrow> mesh \<Rightarrow> node_output list" where
  "node_trace lb [] s = []"
| "node_trace lb (e # es) s = node_outputs lb e s @ node_trace lb es (node_step lb e s)"

end
