(* ===== verification/Overlay.thy ===== *)
theory Overlay
  imports Mesh
begin

text \<open>
  Invariants of a mesh node over any sequence of events. \<open>change\<close> is the abstract specification
  of a node: the elementary changes it may make, each with what it reports. Every handler, task and
  public operation refines a sequence of such changes (\<open>node_act_changes\<close>), and the
  invariants follow by rule induction on them.
\<close>

subsection \<open>The elementary changes\<close>

inductive change :: "libs \<Rightarrow> mesh \<Rightarrow> node_output list \<Rightarrow> mesh \<Rightarrow> bool" for lb where
  report_net: "change lb s [Net e] s"
| report_ack: "change lb s [Ack_received a] s"
| deliver: "msg_id m \<notin> ms_processed s \<Longrightarrow> lb_bloom lb bloom_capacity (ms_bloom s) (msg_id m) = None \<Longrightarrow>
    change lb s [Message_received m p pr]
      (s\<lparr>ms_bloom := ms_bloom s @ [msg_id m], ms_processed := insert (msg_id m) (ms_processed s)\<rparr>)"
| join: "\<not> has_key (ms_peers s) p \<Longrightarrow>
    change lb s [Peer_joined p n] (s\<lparr>ms_peers := dict_set (ms_peers s) p (Some n)\<rparr>)"
| rename: "has_key (ms_peers s) p \<Longrightarrow>
    change lb s [] (s\<lparr>ms_peers := dict_set (ms_peers s) p (Some n)\<rparr>)"
| part: "dict_get (ms_peers s) p = Some (Some n) \<Longrightarrow> n \<noteq> [] \<Longrightarrow>
    change lb s [Peer_left p n] (s\<lparr>ms_peers := dict_del (ms_peers s) p\<rparr>)"
| part_silently: "\<forall>n. dict_get (ms_peers s) p = Some (Some n) \<longrightarrow> n = [] \<Longrightarrow>
    change lb s [] (s\<lparr>ms_peers := dict_del (ms_peers s) p\<rparr>)"
| address_set: "change lb s [] (s\<lparr>ms_addresses := dict_set (ms_addresses s) p a\<rparr>)"
| address_del: "change lb s [] (s\<lparr>ms_addresses := dict_del (ms_addresses s) p\<rparr>)"
| pending_set: "change lb s [] (s\<lparr>ms_pending := dict_set (ms_pending s) p q\<rparr>)"
| pending_del: "change lb s [] (s\<lparr>ms_pending := dict_del (ms_pending s) p\<rparr>)"
| attempt_set: "change lb s [] (s\<lparr>ms_attempts := dict_set (ms_attempts s) p t\<rparr>)"
| attempt_del: "change lb s [] (s\<lparr>ms_attempts := dict_del (ms_attempts s) p\<rparr>)"
| service: "change lb s [] (s\<lparr>ms_enc := service_step (lb_crypto lb) op (ms_enc s)\<rparr>)"
| network: "change lb s [] (s\<lparr>ms_transport := transport_step e (ms_transport s)\<rparr>)"
| tasks: "change lb s [] (s\<lparr>ms_tasks := ts\<rparr>)"
| tracker: "change lb s [] (s\<lparr>ms_tracker := tr\<rparr>)"
| saved: "change lb s [] (s\<lparr>ms_app := app, ms_file := file\<rparr>)"
| creators: "change lb s [] (s\<lparr>ms_channel_creators := dict_set (ms_channel_creators s) c v\<rparr>)"
| protect: "change lb s [] (s\<lparr>ms_protected := set_add c (ms_protected s)\<rparr>)"
| unprotect: "change lb s [] (s\<lparr>ms_protected := removeAll c (ms_protected s)\<rparr>)"
| key_del: "change lb s [] (s\<lparr>ms_channel_keys := dict_del (ms_channel_keys s) c\<rparr>)"
| commitment_set: "change lb s [] (s\<lparr>ms_commitments := dict_set (ms_commitments s) c v\<rparr>)"
| commitment_del: "change lb s [] (s\<lparr>ms_commitments := dict_del (ms_commitments s) c\<rparr>)"
| discover: "change lb s [] (s\<lparr>ms_discovered := set_add c (ms_discovered s)\<rparr>)"
| naming: "change lb s [] (s\<lparr>ms_nickname := n\<rparr>)"

abbreviation changes :: "libs \<Rightarrow> mesh \<Rightarrow> node_output list \<Rightarrow> mesh \<Rightarrow> bool" where
  "changes lb \<equiv> runs (change lb)"

lemmas changes_rest = runs.rest [of "change lb" for lb]
  and changes_one = runs_one [of "change lb" for lb]
  and changes_and_then = runs.and_then [of "change lb" for lb]
  and changes_then = runs_then [of "change lb" for lb]

subsection \<open>Every operation refines the changes\<close>

lemmas node_rules [obeys_intros] =
  chained.obeys_ret chained.obeys_liftA chained.obeys_bindA chained.obeys_seqA chained.obeys_tryA chained.obeys_getA

lemma mod_one: "(\<And>s. change lb s [] (f s)) \<Longrightarrow> obeys (changes lb) (modA f)"
  by (rule chained.obeys_modA) (rule changes_one)

lemma mod_service:
  "(\<And>s. f s = s\<lparr>ms_enc := service_step (lb_crypto lb) op (ms_enc s)\<rparr>) \<Longrightarrow> obeys (changes lb) (modA f)"
  by (rule mod_one) (simp add: change.service)

lemma spawn_changes [obeys_intros]: "obeys (changes lb) (spawn t)"
  unfolding spawn_def by (intro mod_one change.tasks)

lemma remove_peer_changes [obeys_intros]: "obeys (changes lb) (remove_peer p)"
proof (rule obeysI)
  fix s r s' os
  assume "remove_peer p s = (r, s', os)"
  then have s': "s' = s\<lparr>ms_peers := dict_del (ms_peers s) p, ms_addresses := dict_del (ms_addresses s) p,
      ms_pending := dict_del (ms_pending s) p, ms_enc := remove_session p (ms_enc s)\<rparr>"
    and os: "os = (case dict_get (ms_peers s) p of Some (Some (c # cs)) \<Rightarrow> [Peer_left p (c # cs)] | _ \<Rightarrow> [])"
    by (auto simp: remove_peer_def act_defs split: option.splits list.splits)
  have "change lb s os (s\<lparr>ms_peers := dict_del (ms_peers s) p\<rparr>)"
    unfolding os by (auto split: option.split list.split intro: change.intros)
  moreover have "changes lb (s\<lparr>ms_peers := dict_del (ms_peers s) p\<rparr>) [] s'"
    using change.address_del [of lb "s\<lparr>ms_peers := dict_del (ms_peers s) p\<rparr>" p]
      change.pending_del [of lb "s\<lparr>ms_peers := dict_del (ms_peers s) p, ms_addresses := dict_del (ms_addresses s) p\<rparr>" p]
      change.service [of lb "s\<lparr>ms_peers := dict_del (ms_peers s) p, ms_addresses := dict_del (ms_addresses s) p,
        ms_pending := dict_del (ms_pending s) p\<rparr>" "Op_remove p"]
    unfolding s' by (auto dest!: changes_one intro: changes_then)
  ultimately show "changes lb s os s'" by (metis append_Nil2 changes_and_then)
qed

lemma outA_net [obeys_intros]: "obeys (changes lb) (outA (Net e))"
  by (rule chained.obeys_outA) (rule changes_one, rule change.report_net)

lemma on_peer_disconnected_changes [obeys_intros]: "obeys (changes lb) (on_peer_disconnected c)"
  unfolding on_peer_disconnected_def
  by (auto intro!: obeys_intros split: option.split list.split)

lemma perform_changes [obeys_intros]: "obeys (changes lb) (perform es)"
  by (induction es rule: perform.induct) (auto intro!: obeys_intros)

lemma transportA_changes:
  assumes "\<And>t. \<exists>e. fst (snd (f t)) = transport_step e t"
  shows "obeys (changes lb) (transportA f)"
proof (rule obeysI)
  fix s r s' os
  assume run: "transportA f s = (r, s', os)"
  obtain r1 t es where f: "f (ms_transport s) = (r1, t, es)" by (rule prod_cases3)
  obtain e where "t = transport_step e (ms_transport s)" using assms [of "ms_transport s"] f by auto
  then have "changes lb s [] (s\<lparr>ms_transport := t\<rparr>)" by (simp add: changes_one change.network)
  moreover have "obeys (changes lb) (seqA (perform es) (liftA r1))" by (intro obeys_intros)
  moreover have "seqA (perform es) (liftA r1) (s\<lparr>ms_transport := t\<rparr>) = (r, s', os)"
    using run f by (simp add: transportA_def getA_def seqA_def bindA_def modA_def split: prod.splits)
  ultimately show "changes lb s os s'" by (blast dest: obeysD intro: changes_then)
qed

lemma raw_send_changes [obeys_intros]: "obeys (changes lb) (raw_send ev pkt)"
  unfolding raw_send_def
  by (rule transportA_changes, rule exI [of _ "Broadcast (ev_fails ev) pkt {}"]) simp

lemma send_to_peer_changes [obeys_intros]: "obeys (changes lb) (send_to_peer ev p pkt)"
proof -
  have "obeys (changes lb) (transportA (send_packet (ev_fails ev) c pkt))" for c
    by (rule transportA_changes, rule exI [of _ "Send (ev_fails ev) c pkt"]) simp
  then show ?thesis
    unfolding send_to_peer_def
    by (auto intro!: obeys_intros split: option.split list.split)
qed

lemma save_changes [obeys_intros]: "obeys (changes lb) (mesh_save_state ev)"
  unfolding mesh_save_state_def Let_def by (intro mod_one change.saved)

lemma get_mod_changes:
  assumes "\<And>s. changes lb s [] (f s s)" and "\<And>s. obeys (changes lb) (k s)"
  shows "obeys (changes lb) (getA (\<lambda>s. seqA (modA (f s)) (k s)))"
proof (rule obeysI)
  fix s r s' os
  assume "getA (\<lambda>s. seqA (modA (f s)) (k s)) s = (r, s', os)"
  then have "k s (f s s) = (r, s', os)" by (simp add: getA_def seqA_def bindA_def modA_def split: prod.splits)
  from changes_then [OF assms(1) obeysD [OF assms(2) this]]
  show "changes lb s os s'" .
qed

lemma service_changes:
  assumes "\<And>s. \<exists>op. enc s = service_step (lb_crypto lb) op (ms_enc s)"
    and "\<And>s. obeys (changes lb) (k s)"
  shows "obeys (changes lb) (getA (\<lambda>s. seqA (modA (\<lambda>s'. s'\<lparr>ms_enc := enc s\<rparr>)) (k s)))"
  using assms by (intro get_mod_changes) (metis change.service changes_one)+

lemma on_authenticated_changes [obeys_intros]: "obeys (changes lb) (on_authenticated es)"
  by (induction es rule: on_authenticated.induct) (auto intro!: obeys_intros)

lemma process_handshake_changes [obeys_intros]: "obeys (changes lb) (process_handshake lb ev p m)"
  unfolding process_handshake_def case_prod_unfold
  by (intro service_changes exI [of _ "Op_process (ev_eph ev) (ev_now ev) p m"] obeys_intros) simp

lemma decryptA_changes [obeys_intros]: "obeys (changes lb) (decryptA lb p d)"
  unfolding decryptA_def case_prod_unfold
  by (intro service_changes exI [of _ "Op_decrypt p d"] obeys_intros) simp

lemma encryptA_changes [obeys_intros]: "obeys (changes lb) (encryptA lb p d)"
  unfolding encryptA_def case_prod_unfold
  by (intro service_changes exI [of _ "Op_encrypt p d"] obeys_intros) simp

lemma mesh_initiate_handshake_changes [obeys_intros]:
  "obeys (changes lb) (mesh_initiate_handshake lb ev p)"
  unfolding mesh_initiate_handshake_def case_prod_unfold
  by (intro chained.obeys_tryA service_changes exI [of _ "Op_initiate (ev_eph ev) p"] obeys_intros) simp

lemma note_peer_changes [obeys_intros]: "obeys (changes lb) (note_peer p n)"
proof (rule obeysI)
  fix s r s' os
  assume "note_peer p n s = (r, s', os)"
  then show "changes lb s os s'"
    by (auto simp: note_peer_def act_defs intro: changes_one change.join change.rename split: if_splits)
qed

lemma once_changes:
  assumes "obeys (changes lb) k"
  shows "obeys (changes lb) (once lb (msg_id m) (seqA (outA (Message_received m p pr)) k))"
proof (rule obeysI)
  fix s r s' os
  assume run: "once lb (msg_id m) (seqA (outA (Message_received m p pr)) k) s = (r, s', os)"
  show "changes lb s os s'"
  proof (cases "msg_id m \<in> ms_processed s")
    case True
    with run show ?thesis by (simp add: once_def act_defs changes_rest)
  next
    case False
    let ?s = "s\<lparr>ms_bloom := ms_bloom s @ [msg_id m], ms_processed := insert (msg_id m) (ms_processed s)\<rparr>"
    show ?thesis
    proof (cases "lb_bloom lb bloom_capacity (ms_bloom s) (msg_id m)")
      case None
      obtain os' where "k ?s = (r, s', os')" "os = [Message_received m p pr] @ os'"
        using run False None by (auto simp: once_def act_defs split: prod.splits)
      with obeysD [OF assms] show ?thesis
        by (metis False None change.deliver changes_and_then)
    next
      case (Some e)
      with run False show ?thesis by (simp add: once_def act_defs changes_rest)
    qed
  qed
qed

lemma relay_if_changes [obeys_intros]: "obeys (changes lb) (relay_if pk raw)"
  by (simp add: relay_if_def relay_def obeys_intros)

lemma tracker_changes [obeys_intros]:
  "obeys (changes lb) (modA (\<lambda>s. s\<lparr>ms_tracker := f s\<rparr>))"
  by (intro mod_one change.tracker)

lemma send_pending_changes [obeys_intros]: "obeys (changes lb) (send_pending_private_messages p)"
  unfolding send_pending_private_messages_def
  by (auto intro!: obeys_intros mod_one change.pending_del split: option.split)

lemma send_delivery_ack_changes [obeys_intros]:
  "obeys (changes lb) (send_delivery_ack lb ev mid p pr)"
  unfolding send_delivery_ack_def Let_def
  by (auto intro!: obeys_intros split: prod.split)

lemma clear_changes [obeys_intros]:
  "obeys (changes lb) (modA (\<lambda>s. s\<lparr>ms_enc := clear_handshake_state p (ms_enc s)\<rparr>))"
  by (rule mod_service [where op = "Op_clear p"]) simp

lemma attempt_del_changes [obeys_intros]:
  "obeys (changes lb) (modA (\<lambda>s. s\<lparr>ms_attempts := dict_del (ms_attempts s) p\<rparr>))"
  by (intro mod_one change.attempt_del)

lemma handle_handshake_changes [obeys_intros]: "obeys (changes lb) (handle_handshake lb ev t pk)"
  unfolding handle_handshake_def Let_def
  by (auto intro!: obeys_intros split: option.split list.split)

lemma deliver_message_changes [obeys_intros]:
  "obeys (changes lb) (deliver_message lb ev pk raw pr msg)"
  unfolding deliver_message_def by (intro once_changes) (auto intro!: obeys_intros)

lemma handle_message_changes [obeys_intros]: "obeys (changes lb) (handle_message lb ev pk raw)"
  unfolding handle_message_def Let_def
  by (auto intro!: obeys_intros split: option.split)

lemma handle_noise_encrypted_changes [obeys_intros]:
  "obeys (changes lb) (handle_noise_encrypted lb ev pk)"
  unfolding handle_noise_encrypted_def
  by (auto intro!: obeys_intros once_changes split: list.split)

lemma note_channel_changes: "changes lb s [] (note_channel c pr creator km s)"
proof -
  define s1 where "s1 = (if creator \<noteq> []
    then s\<lparr>ms_channel_creators := dict_set (ms_channel_creators s) c creator\<rparr> else s)"
  define s2 where "s2 = (if pr then s1\<lparr>ms_protected := set_add c (ms_protected s1)\<rparr>
    else s1\<lparr>ms_protected := removeAll c (ms_protected s1)\<rparr>)"
  define s3 where "s3 = (if pr then
      if km \<noteq> [] then s2\<lparr>ms_commitments := dict_set (ms_commitments s2) c km\<rparr> else s2
    else s2\<lparr>ms_channel_keys := dict_del (ms_channel_keys s2) c\<rparr>)"
  define s4 where "s4 = (if pr then s3 else s3\<lparr>ms_commitments := dict_del (ms_commitments s3) c\<rparr>)"
  have "changes lb s [] s1" unfolding s1_def
    by (simp add: changes_rest changes_one change.creators)
  moreover have "changes lb s1 [] s2" unfolding s2_def
    by (simp add: changes_one change.protect change.unprotect)
  moreover have "changes lb s2 [] s3" unfolding s3_def
    by (simp add: changes_rest changes_one change.commitment_set change.key_del)
  moreover have "changes lb s3 [] s4" unfolding s4_def
    by (simp add: changes_rest changes_one change.commitment_del)
  ultimately have "changes lb s [] s4" by (blast intro: changes_then)
  then show ?thesis
    unfolding note_channel_def Let_def s1_def [symmetric] s2_def [symmetric] s3_def [symmetric]
      s4_def [symmetric]
    by (rule changes_then) (intro changes_one change.discover)
qed

lemma handle_channel_announce_changes [obeys_intros]:
  "obeys (changes lb) (handle_channel_announce ev pk)"
  unfolding handle_channel_announce_def Let_def
  by (auto intro!: obeys_intros chained.obeys_modA note_channel_changes)

lemma handle_delivery_ack_changes [obeys_intros]: "obeys (changes lb) (handle_delivery_ack lb pk raw)"
proof -
  have "obeys (changes lb) (outA (Ack_received a))" for a
    by (rule chained.obeys_outA) (rule changes_one, rule change.report_ack)
  then show ?thesis
    unfolding handle_delivery_ack_def by (auto intro!: obeys_intros split: prod.split)
qed

lemma handle_other_changes [obeys_intros]:
  "obeys (changes lb) (handle_announce pk)" "obeys (changes lb) (handle_noise_identity_announce lb ev pk)"
  "obeys (changes lb) (handle_fragment pk raw)" "obeys (changes lb) (handle_leave pk raw)"
  unfolding handle_announce_def handle_noise_identity_announce_def handle_fragment_def handle_leave_def
    Let_def
  by (auto intro!: obeys_intros split: option.split)

lemma handle_key_exchange_changes [obeys_intros]: "obeys (changes lb) (handle_key_exchange lb ev pk)"
  unfolding handle_key_exchange_def
  by (auto intro!: obeys_intros split: option.split list.split)

lemma handle_packet_changes [obeys_intros]: "obeys (changes lb) (handle_packet lb ev pk raw)"
  unfolding handle_packet_def
  by (cases "pkt_type pk")
    (auto intro!: obeys_intros simp: handle_noise_handshake_init_def handle_noise_handshake_resp_def)

lemma send_public_message_changes [obeys_intros]:
  "obeys (changes lb) (send_public_message lb ev content channel)"
  unfolding send_public_message_def
  by (auto intro!: obeys_intros split: option.split list.split prod.split)

lemma queue_private_message_changes [obeys_intros]:
  "obeys (changes lb) (queue_private_message lb ev content target nick mid)"
proof -
  have "obeys (changes lb) (modA (\<lambda>s. s\<lparr>ms_pending := dict_set (ms_pending s) target (q s)\<rparr>))"
    "obeys (changes lb) (modA (\<lambda>s. s\<lparr>ms_attempts := dict_set (ms_attempts s) target t\<rparr>))" for q t
    by (intro mod_one change.pending_set change.attempt_set)+
  then show ?thesis
    unfolding queue_private_message_def Let_def by (auto intro!: obeys_intros)
qed

lemma send_private_message_changes [obeys_intros]:
  "obeys (changes lb) (send_private_message lb ev content target nick mid)"
  unfolding send_private_message_def by (auto intro!: obeys_intros split: prod.split)

lemma announcements_changes [obeys_intros]:
  "obeys (changes lb) (send_identity_announce lb' ev)" "obeys (changes lb) (send_announce ev)"
  "obeys (changes lb) (send_leave ev)" "obeys (changes lb) on_connect_transport"
  unfolding send_identity_announce_def send_announce_def send_leave_def on_connect_transport_def Let_def
  by (auto intro!: obeys_intros)

lemma run_task_changes [obeys_intros]: "obeys (changes lb) (run_task lb ev t)"
  by (cases "(lb, ev, t)" rule: run_task.cases) (auto intro!: obeys_intros)

lemma on_packet_received_changes [obeys_intros]: "obeys (changes lb) (on_packet_received lb c raw)"
  unfolding on_packet_received_def
  by (auto intro!: obeys_intros mod_one change.address_set split: sum.split)

lemma node_act_changes: "obeys (changes lb) (node_act lb e)"
proof (cases e)
  case (Run ev i)
  have "obeys (changes lb) (modA (\<lambda>s. s\<lparr>ms_tasks := f s\<rparr>))" for f by (intro mod_one change.tasks)
  then show ?thesis by (auto simp: Run intro!: obeys_intros)
next
  case (Opened_conn cid host port)
  show ?thesis
    by (auto simp: Opened_conn split: prod.split
        intro!: obeys_intros transportA_changes exI [of _ "Opened cid host port"])
next
  case (Accepted_conn cid host port)
  show ?thesis
    by (auto simp: Accepted_conn split: prod.split
        intro!: obeys_intros transportA_changes exI [of _ "Accept cid host port"])
next
  case (Ended c)
  show ?thesis
    by (auto simp: Ended split: prod.split intro!: transportA_changes exI [of _ "Read_done c"])
qed (auto intro!: obeys_intros)

lemma node_step_changes: "changes lb s (node_outputs lb e s) (node_step lb e s)"
  using node_act_changes [of lb e]
  by (cases "node_act lb e s") (simp add: node_outputs_def node_step_def obeysD)

lemma node_trace_changes: "changes lb s (node_trace lb es s) (fold (node_step lb) es s)"
  by (induction es arbitrary: s) (auto intro: changes_rest runs_trans [OF node_step_changes])

subsection \<open>Each message once\<close>

fun received_ids :: "node_output list \<Rightarrow> pystr list" where
  "received_ids [] = []"
| "received_ids (Message_received m p pr # os) = msg_id m # received_ids os"
| "received_ids (x # os) = received_ids os"

lemma received_ids_append [simp]: "received_ids (os @ os') = received_ids os @ received_ids os'"
  by (induction os rule: received_ids.induct) auto

lemma changes_received:
  "changes lb s os s' \<Longrightarrow> distinct (received_ids os) \<and> set (received_ids os) \<inter> ms_processed s = {} \<and>
     ms_processed s' = ms_processed s \<union> set (received_ids os)"
proof (induction rule: runs.induct)
  case (and_then s os s' os' s'')
  have "distinct (received_ids os) \<and> set (received_ids os) \<inter> ms_processed s = {} \<and>
     ms_processed s' = ms_processed s \<union> set (received_ids os)"
    using and_then(1) by cases auto
  with and_then.IH show ?case by auto
qed simp

text \<open>
  C14: a node passes each message to the application once. Over any sequence of packets, tasks in any
  order, connections and application requests, the identifiers of the messages it reports are
  distinct, none was processed before, and afterwards all of them count as processed.
\<close>

theorem messages_delivered_once:
  "distinct (received_ids (node_trace lb es s)) \<and>
   set (received_ids (node_trace lb es s)) \<inter> ms_processed s = {} \<and>
   ms_processed (fold (node_step lb) es s) = ms_processed s \<union> set (received_ids (node_trace lb es s))"
  by (rule changes_received [OF node_trace_changes])

text \<open>
  An identifier that a node will handle: it has not seen it, and its Bloom filter, of the capacity
  that \<open>MeshNode\<close> asks for, has room.
\<close>

definition new_to :: "libs \<Rightarrow> pystr \<Rightarrow> mesh \<Rightarrow> bool" where
  "new_to lb mid s \<longleftrightarrow> mid \<notin> ms_processed s \<and> bloom_ok lb \<and> length (ms_bloom s) < bloom_capacity"

lemma new_toD: "new_to lb mid s \<Longrightarrow> mid \<notin> ms_processed s \<and> lb_bloom lb bloom_capacity (ms_bloom s) mid = None"
  by (simp add: new_to_def bloom_ok_def)

lemma new_to_cong: "ms_processed s' = ms_processed s \<Longrightarrow> ms_bloom s' = ms_bloom s \<Longrightarrow> new_to lb mid s' = new_to lb mid s"
  by (simp add: new_to_def)

text \<open>
  The filter counts the messages that were reported, and a full one ends all reports: once it refuses
  every key, no message is reported again, whatever happens to the node.
\<close>

lemma changes_bloom:
  "changes lb s os s' \<Longrightarrow> length (ms_bloom s') = length (ms_bloom s) + length (received_ids os)"
proof (induction rule: runs.induct)
  case (and_then s os s' os' s'')
  have "length (ms_bloom s') = length (ms_bloom s) + length (received_ids os)" using and_then(1) by cases auto
  with and_then.IH show ?case by simp
qed simp

lemma changes_full:
  "changes lb s os s' \<Longrightarrow> \<forall>key. lb_bloom lb bloom_capacity (ms_bloom s) key \<noteq> None \<Longrightarrow> received_ids os = []"
proof (induction rule: runs.induct)
  case (and_then s os s' os' s'')
  have "received_ids os = [] \<and> ms_bloom s' = ms_bloom s" using and_then(1,4) by cases (auto simp del: not_None_eq)
  with and_then.IH and_then.prems show ?case by simp
qed simp

theorem full_filter_ends_reports:
  assumes "\<forall>key. lb_bloom lb bloom_capacity (ms_bloom s) key \<noteq> None"
  shows "received_ids (node_trace lb es s) = []"
  using assms by (rule changes_full [OF node_trace_changes])

subsection \<open>The node stays well formed\<close>

definition wf_node :: "mesh \<Rightarrow> bool" where
  "wf_node s \<longleftrightarrow>
     wf_service (ms_enc s) \<and> wf_transport (ms_transport s) \<and>
     wf_dict (ms_peers s) \<and> wf_dict (ms_addresses s) \<and> wf_dict (ms_pending s) \<and>
     wf_dict (ms_attempts s) \<and> wf_dict (ms_channel_keys s) \<and> wf_dict (ms_channel_creators s) \<and>
     wf_dict (ms_commitments s) \<and> distinct (ms_protected s) \<and> distinct (ms_discovered s)"

lemma distinct_set_add: "distinct xs \<Longrightarrow> distinct (set_add x xs)"
  by (simp add: set_add_def)

lemma change_wf: "change lb s os s' \<Longrightarrow> wf_node s \<Longrightarrow> wf_node s' \<and> ms_id s' = ms_id s"
  by (cases rule: change.cases, assumption)
    (simp_all add: wf_node_def distinct_set_add distinct_removeAll wf_service_step wf_transport_step)

lemma changes_wf: "changes lb s os s' \<Longrightarrow> wf_node s \<Longrightarrow> wf_node s' \<and> ms_id s' = ms_id s"
  by (induction rule: runs.induct) (auto dest: change_wf)

interpretation running: keeps wf_node "node_step lb" for lb
  by unfold_locales (blast dest: changes_wf [OF node_step_changes])

lemma wf_dict_restore: "wf_dict (restore_channel_keys lb app)"
proof -
  have "wf_dict d \<Longrightarrow> wf_dict (fold (\<lambda>(channel, ep) d.
            case bindE (decrypt_password (lb_crypto lb) (lb_gcm lb) ep k)
                   (\<lambda>password. derive_channel_key (lb_crypto lb) password channel) of
              Inr key \<Rightarrow> dict_set d channel key
            | Inl e \<Rightarrow> d) ps d)" for ps d k
    by (induction ps arbitrary: d) (auto split: sum.split)
  then show ?thesis
    by (auto simp: restore_channel_keys_def split: option.split list.split)
qed

text \<open>
  C15: a node that starts from a loaded state with unrepeated keys stays well formed whatever happens
  to it: one entry per peer in every table, sound connection and handshake tables, no repeated
  channel, and the same node identifier.
\<close>

theorem node_invariant:
  assumes "wf_dict (st_channel_creators app)" and "wf_dict (st_channel_key_commitments app)"
    and "distinct (st_password_protected_channels app)"
  shows "let s = fold (node_step lb) es (mesh_init lb nick rnd8 static app file transport_init) in
    wf_node s \<and> ms_id s = hex rnd8"
proof -
  let ?s = "mesh_init lb nick rnd8 static app file transport_init"
  have "wf_transport transport_init" by (simp add: wf_transport_def transport_init_def)
  then have w: "wf_node ?s"
    using assms by (simp add: wf_node_def mesh_init_def wf_service_init wf_dict_restore)
  from changes_wf [OF node_trace_changes w, of lb es] show ?thesis
    by (simp add: Let_def mesh_init_def)
qed

theorem node_invariant_witness:
  "wf_node (fold (node_step \<lparr>lb_crypto = plain_crypto, lb_lz4 = lz4_stored,
      lb_gcm = \<lparr>gcm_enc = \<lambda>k n p. p, gcm_dec = \<lambda>k n c. Some c\<rparr>,
      lb_ack_dumps = \<lambda>a. [], lb_ack_loads = \<lambda>b. Inl JSONDecodeError, lb_bloom = \<lambda>n keys key. None\<rparr>)
    [Opened_conn 1 [97] 80] (mesh_init \<lparr>lb_crypto = plain_crypto, lb_lz4 = lz4_stored,
      lb_gcm = \<lparr>gcm_enc = \<lambda>k n p. p, gcm_dec = \<lambda>k n c. Some c\<rparr>,
      lb_ack_dumps = \<lambda>a. [], lb_ack_loads = \<lambda>b. Inl JSONDecodeError, lb_bloom = \<lambda>n keys key. None\<rparr>
      None [1] [2] default_state Absent transport_init))"
  using node_invariant [of default_state "\<lparr>lb_crypto = plain_crypto, lb_lz4 = lz4_stored,
      lb_gcm = \<lparr>gcm_enc = \<lambda>k n p. p, gcm_dec = \<lambda>k n c. Some c\<rparr>,
      lb_ack_dumps = \<lambda>a. [], lb_ack_loads = \<lambda>b. Inl JSONDecodeError, lb_bloom = \<lambda>n keys key. None\<rparr>"
      "[Opened_conn 1 [97] 80]" None "[1]" "[2]" Absent]
  by (simp add: Let_def default_state_def)

subsection \<open>Joining and leaving\<close>

fun joins :: "pystr \<Rightarrow> node_output list \<Rightarrow> nat" where
  "joins p [] = 0"
| "joins p (Peer_joined q n # os) = (if q = p then 1 else 0) + joins p os"
| "joins p (x # os) = joins p os"

fun leaves :: "pystr \<Rightarrow> node_output list \<Rightarrow> nat" where
  "leaves p [] = 0"
| "leaves p (Peer_left q n # os) = (if q = p then 1 else 0) + leaves p os"
| "leaves p (x # os) = leaves p os"

lemma joins_append [simp]: "joins p (os @ os') = joins p os + joins p os'"
  by (induction p os rule: joins.induct) auto

lemma leaves_append [simp]: "leaves p (os @ os') = leaves p os + leaves p os'"
  by (induction p os rule: leaves.induct) auto

definition known :: "pystr \<Rightarrow> mesh \<Rightarrow> nat" where
  "known p s = (if has_key (ms_peers s) p then 1 else 0)"

lemma change_known: "change lb s os s' \<Longrightarrow> leaves p os + known p s' \<le> joins p os + known p s"
  by (cases rule: change.cases, assumption) (auto simp: known_def has_key_def)

text \<open>
  The reports of peers joining and leaving are consistent with the peer table. Over any run, a
  peer is reported as leaving at most as often as it was reported as joining or was known before, and
  a peer that is known at the end and was not at the start was reported as joining.
\<close>

theorem joins_and_leaves_balance:
  "leaves p (node_trace lb es s) + known p (fold (node_step lb) es s) \<le>
     joins p (node_trace lb es s) + known p s"
proof -
  have "changes lb s os s' \<Longrightarrow> leaves p os + known p s' \<le> joins p os + known p s" for s os s'
    by (induction rule: runs.induct) (auto dest: change_known [where p = p])
  then show ?thesis using node_trace_changes by blast
qed

text \<open>
  A peer without a nickname leaves unnoticed. An announcement whose text is empty after stripping
  is reported as a peer joining, but when that peer leaves or its connection ends, it is removed from
  the table without a report.
\<close>

theorem nameless_peer_leaves_silently:
  assumes "\<not> has_key (ms_peers s) (pkt_sender_id_str pk)"
    and "strip is_space (utf8_decode_ignore (pkt_payload pk)) = []"
  shows "\<exists>s1 s2. handle_announce pk s = (Inr (), s1, [Peer_joined (pkt_sender_id_str pk) []]) \<and>
    remove_peer (pkt_sender_id_str pk) s1 = (Inr (), s2, []) \<and>
    \<not> has_key (ms_peers s2) (pkt_sender_id_str pk)"
  using assms by (simp add: handle_announce_def note_peer_def remove_peer_def act_defs Let_def)

subsection \<open>The order of identifiers\<close>

text \<open>Python's order on strings is the lexicographic order of the library, a linear order.\<close>

lemma str_less_lexordp: "str_less = ord_class.lexordp"
proof (intro ext)
  show "str_less a b = ord_class.lexordp a b" for a b
    by (induction a b rule: str_less.induct) auto
qed

interpretation str: linorder ord_class.lexordp_eq str_less
  unfolding str_less_lexordp by (rule lexordp_linorder)

end
