(* ===== verification/Delivery.thy ===== *)
theory Delivery
  imports Overlay
begin

text \<open>
  What the mesh promises end to end and handler by handler: private messages arrive, relays
  decrement the TTL, blocked peers are ignored, the identifier order decides who initiates, leaving
  removes every trace of a peer, and queued messages wait for the handshake.
\<close>

subsection \<open>Successful runs of actions\<close>

lemma bindA_Inr:
  "bindA m f s = (Inr y, s', os) \<longleftrightarrow>
     (\<exists>x s1 os1 os2. m s = (Inr x, s1, os1) \<and> f x s1 = (Inr y, s', os2) \<and> os = os1 @ os2)"
  by (auto simp: bindA_def split: prod.splits sum.splits)

lemma seqA_Inr:
  "seqA m n s = (Inr y, s', os) \<longleftrightarrow>
     (\<exists>s1 os1 os2. m s = (Inr (), s1, os1) \<and> n s1 = (Inr y, s', os2) \<and> os = os1 @ os2)"
  by (simp add: seqA_def bindA_Inr)

lemma liftA_Inr: "liftA r s = (Inr x, s', os) \<longleftrightarrow> r = Inr x \<and> s' = s \<and> os = []"
  by (auto simp: liftA_def)

lemma ret_Inr: "ret y s = (Inr x, s', os) \<longleftrightarrow> y = x \<and> s' = s \<and> os = []"
  by (auto simp: ret_def)

lemmas run_simps = bindA_Inr seqA_Inr liftA_Inr ret_Inr getA_def modA_def

lemma send_to_peer_writes:
  assumes "dict_get (ms_addresses s) p = Some addr" and "addr \<noteq> []"
    and "dict_get (tr_connections (ms_transport s)) addr = Some c" and "ev_fails ev (cn_id c) = None"
    and "send_to_peer ev p pkt s = (Inr (), s', os)"
  shows "length pkt \<le> 65535 \<and> s' = s \<and> os = [Net (Write (cn_id c) (be_bytes 2 (length pkt) @ pkt))]"
proof (cases "length pkt < 65536")
  case True
  have "send_packet (ev_fails ev) c pkt t = (Inr (), t, [Write (cn_id c) (be_bytes 2 (length pkt) @ pkt)])"
    for t using send_packet_ok [of "ev_fails ev" c] assms(4) True by blast
  with assms True show ?thesis
    by (cases addr) (auto simp: send_to_peer_def transportA_def act_defs)
next
  case False
  then have "\<exists>e. send_packet (ev_fails ev) c pkt (ms_transport s) = (Inl e, ms_transport s, [])"
    by (simp add: send_packet_def pack_H_def)
  with assms show ?thesis
    by (cases addr) (auto simp: send_to_peer_def transportA_def act_defs)
qed

lemma encryptA_ready:
  assumes "dict_get (sv_sessions (ms_enc s)) p = Some ses" and "ready (ses_send ses)"
  shows "encryptA lb p d s = (Inr (seal (lb_crypto lb) (ses_send ses) d []),
    s\<lparr>ms_enc := (ms_enc s)\<lparr>sv_sessions := dict_set (sv_sessions (ms_enc s)) p
      (ses\<lparr>ses_send := next_nonce (ses_send ses)\<rparr>)\<rparr>\<rparr>, [])"
  using assms by (simp add: encryptA_def encrypt_for_peer_def session_encrypt_ready act_defs)

lemma decryptA_seal:
  assumes "crypto_ok (lb_crypto lb)" and "dict_get (sv_sessions (ms_enc s)) p = Some ses"
    and "ready (ses_receive ses)"
  shows "decryptA lb p (seal (lb_crypto lb) (ses_receive ses) d []) s = (Inr d,
    s\<lparr>ms_enc := (ms_enc s)\<lparr>sv_sessions := dict_set (sv_sessions (ms_enc s)) p
      (ses\<lparr>ses_receive := next_nonce (ses_receive ses)\<rparr>)\<rparr>\<rparr>, [])"
  using assms by (simp add: decryptA_def decrypt_from_peer_def session_decrypt_seal act_defs)

subsection \<open>Private messages\<close>

lemma send_private_run:
  assumes "dict_get (sv_sessions (ms_enc s)) p = Some ses" and "ready (ses_send ses)"
    and "dict_get (ms_addresses s) p = Some addr" and "addr \<noteq> []"
    and "dict_get (tr_connections (ms_transport s)) addr = Some c" and "ev_fails ev (cn_id c) = None"
    and "send_private_message lb ev content p nick mid s = (Inr mid', s', os)"
  obtains payload inner outer where
    "create_bitchat_message_payload_full (ev_ts ev 0) (ev_uuid ev) (ms_nickname s) content None True
       (ms_id s) False None = Inr (payload, mid')"
    and "create_bitchat_packet_with_recipient (ev_ts ev 1) (ev_rnd ev 0) (ms_id s) (Some p) MESSAGE
       payload None = Inr inner"
    and "create_bitchat_packet_with_recipient (ev_ts ev 2) (ev_rnd ev 1) (ms_id s) (Some p)
       NOISE_ENCRYPTED (seal (lb_crypto lb) (ses_send ses) (set_ttl inner 7) []) None = Inr outer"
    and "os = [Net (Write (cn_id c) (be_bytes 2 (length outer) @ outer))]"
    and "dict_get (pending_messages (ms_tracker s')) mid' = Some (content, ev_now ev, True)"
proof -
  have est: "is_session_established p (ms_enc s)"
    using assms(1) by (simp add: is_session_established_def has_key_def)
  from assms(7) est obtain payload m inner enc outer s2 s3 os3 where
    1: "create_bitchat_message_payload_full (ev_ts ev 0) (ev_uuid ev) (ms_nickname s) content None True
       (ms_id s) False None = Inr (payload, m)"
    and 2: "create_bitchat_packet_with_recipient (ev_ts ev 1) (ev_rnd ev 0) (ms_id s) (Some p) MESSAGE
       payload None = Inr inner"
    and 3: "encryptA lb p (set_ttl inner 7)
       (s\<lparr>ms_tracker := track_message (ev_now ev) m content True (ms_tracker s)\<rparr>) = (Inr enc, s2, os3)"
    and 4: "create_bitchat_packet_with_recipient (ev_ts ev 2) (ev_rnd ev 1) (ms_id s) (Some p)
       NOISE_ENCRYPTED enc None = Inr outer"
    and 5: "send_to_peer ev p outer s2 = (Inr (), s', s3)" "os = os3 @ s3" "mid' = m"
    by (auto simp: send_private_message_def run_simps)
  from 3 have e: "enc = seal (lb_crypto lb) (ses_send ses) (set_ttl inner 7) []" "os3 = []"
    "ms_addresses s2 = ms_addresses s" "ms_transport s2 = ms_transport s"
    "ms_tracker s2 = track_message (ev_now ev) m content True (ms_tracker s)"
    using encryptA_ready [of "s\<lparr>ms_tracker := track_message (ev_now ev) m content True (ms_tracker s)\<rparr>" p ses]
      assms(1,2) by auto
  have "s' = s2" "s3 = [Net (Write (cn_id c) (be_bytes 2 (length outer) @ outer))]"
    using send_to_peer_writes [of s2 p addr c ev outer s' s3] assms(3-6) 5(1) e(3,4) by auto
  with 1 2 4 5 e show thesis by (intro that) (auto simp: track_message_def)
qed

lemma create_parts:
  assumes "create_bitchat_packet_with_recipient ts rnd sender recipient t payload sg = Inr data"
  shows "ts < 2 ^ 64" and "length payload < 2 ^ 16" and "\<exists>sb. fromhex sender = Inr sb"
    and "recipient = Some r \<Longrightarrow> \<exists>rb. recipient_field recipient = Inr rb"
  using assms
  by (auto simp: create_bitchat_packet_with_recipient_def bindE_eq_Inr Let_def pack_Q_def pack_H_def
      flag_values(2) split: if_splits)

lemma created_from:
  assumes "create_bitchat_packet_with_recipient ts rnd (hex ia) (Some r) t payload None = Inr data"
    and "length ia = 8" and "last ia \<noteq> 0"
  obtains rb where "parse_bitchat_packet z data = Inr
    \<lparr>pkt_type = t, pkt_sender_id = ia, pkt_sender_id_str = hex ia, pkt_recipient_id = Some (rstrip0 rb),
     pkt_recipient_id_str = Some (hex (rstrip0 rb)), pkt_payload = payload, pkt_ttl = 7\<rparr>"
    and "recipient_field (Some r) = Inr rb"
proof -
  obtain rb where rb: "recipient_field (Some r) = Inr rb" using create_parts(4) [OF assms(1)] by blast
  have "rstrip0 ia = ia" using assms(2,3) by (simp add: rstrip0_def rstrip_id)
  with parse_created [OF fromhex_hex [of ia] create_parts(1,2) [OF assms(1)] rb, of rnd t None z] assms that rb
  show thesis by auto
qed

lemma parse_public:
  assumes "create_bitchat_packet_with_signature ts rnd (hex ia) MESSAGE payload None = Inr raw"
    and "length ia = 8" and "last ia \<noteq> 0"
  shows "parse_bitchat_packet z raw = Inr \<lparr>pkt_type = MESSAGE, pkt_sender_id = ia, pkt_sender_id_str = hex ia,
    pkt_recipient_id = Some BROADCAST_RECIPIENT, pkt_recipient_id_str = Some (hex BROADCAST_RECIPIENT),
    pkt_payload = payload, pkt_ttl = 7\<rparr>"
proof -
  have c: "create_bitchat_packet_with_recipient ts rnd (hex ia) None MESSAGE payload None = Inr raw"
    using assms(1) by (simp add: create_bitchat_packet_with_signature_def)
  have r: "rstrip0 ia = ia" "rstrip0 BROADCAST_RECIPIENT = BROADCAST_RECIPIENT"
    using assms(2,3) by (simp_all add: rstrip0_def rstrip_id BROADCAST_RECIPIENT_def)
  have "recipient_field None = Inr BROADCAST_RECIPIENT" by (simp add: recipient_field_def)
  from parse_created [OF fromhex_hex [of ia] create_parts(1,2) [OF c] this, where rnd = rnd and t = MESSAGE and signature = None and z = z] c r assms(2)
  show ?thesis by (simp add: exclude_recipient_types_def)
qed

text \<open>What the receiver does with the opened inner packet.\<close>

lemma handle_noise_encrypted_run:
  assumes "crypto_ok (lb_crypto lb)" and "\<not> is_blocked lb (pkt_sender_id_str pk) s"
    and "dict_get (sv_sessions (ms_enc s)) (pkt_sender_id_str pk) = Some ses"
    and "ready (ses_receive ses)" and "pkt_payload pk = seal (lb_crypto lb) (ses_receive ses) d []"
    and "d = 1 # ds" and "parse_bitchat_packet (lb_lz4 lb) d = Inr inner" and "pkt_type inner = MESSAGE"
    and "parse_bitchat_message_payload (pkt_payload inner) = Inr m" and "new_to lb (msg_id m) s"
  shows "\<exists>s' os. handle_noise_encrypted lb ev pk s =
    (Inr (), s', Message_received m (pkt_sender_id_str pk) True # os)"
proof -
  note dec = decryptA_seal [OF assms(1,3,4), of d]
  show ?thesis
    using assms dec new_toD [OF assms(10)]
    by (auto simp: handle_noise_encrypted_def once_def act_defs split: prod.split sum.split)
qed

lemma receive_noise_message:
  assumes "parse_bitchat_packet (lb_lz4 lb) raw = Inr pk" and "pkt_type pk = NOISE_ENCRYPTED"
    and "pkt_sender_id_str pk \<noteq> ms_id s" and "crypto_ok (lb_crypto lb)"
    and "\<not> is_blocked lb (pkt_sender_id_str pk) s"
    and "dict_get (sv_sessions (ms_enc s)) (pkt_sender_id_str pk) = Some ses"
    and "ready (ses_receive ses)" and "pkt_payload pk = seal (lb_crypto lb) (ses_receive ses) d []"
    and "d = 1 # ds" and "parse_bitchat_packet (lb_lz4 lb) d = Inr inner" and "pkt_type inner = MESSAGE"
    and "parse_bitchat_message_payload (pkt_payload inner) = Inr m" and "new_to lb (msg_id m) s"
  shows "\<exists>s1 s2 os. on_packet_received lb c raw s = (Inr (), s1, []) \<and>
    ms_tasks s1 = ms_tasks s @ [Handle pk c raw] \<and>
    run_task lb ev (Handle pk c raw) s1 = (Inr (), s2, Message_received m (pkt_sender_id_str pk) True # os)"
proof -
  define s1 where "s1 = s\<lparr>ms_addresses := dict_set (ms_addresses s) (pkt_sender_id_str pk) (conn_address c),
      ms_tasks := ms_tasks s @ [Handle pk c raw]\<rparr>"
  have f: "ms_enc s1 = ms_enc s" "ms_blocked s1 = ms_blocked s" "new_to lb (msg_id m) s1 = new_to lb (msg_id m) s"
    "ms_tasks s1 = ms_tasks s @ [Handle pk c raw]"
    by (simp_all add: s1_def new_to_def)
  have b: "\<not> is_blocked lb (pkt_sender_id_str pk) s1" using assms(5) unfolding is_blocked_def f .
  have r: "on_packet_received lb c raw s = (Inr (), s1, [])"
    using assms(1-3) by (simp add: on_packet_received_def act_defs s1_def)
  have "\<exists>s' os. handle_noise_encrypted lb ev pk s1 =
      (Inr (), s', Message_received m (pkt_sender_id_str pk) True # os)"
    by (rule handle_noise_encrypted_run [OF assms(4) b _ assms(7-12)]) (simp_all add: f assms(6,13))
  with r f(4) assms(2) show ?thesis by (auto simp: handle_packet_def)
qed

lemma set_ttl_same: "length pk > 2 \<Longrightarrow> pk ! 2 = word_of_nat n \<Longrightarrow> set_ttl pk n = pk"
  by (metis set_ttl_def list_update_id)

lemma created_head:
  assumes "create_bitchat_packet_with_recipient ts rnd sender recipient t payload sg = Inr data"
  shows "\<exists>rest. data = [1, mt_value t, 7] @ rest"
  using assms by (auto simp: create_bitchat_packet_with_recipient_def bindE_eq_Inr Let_def)

text \<open>What a private message to a peer with a session puts on the wire.\<close>

lemma private_message_sealed:
  assumes "dict_get (sv_sessions (ms_enc A)) p = Some sa" and "ready (ses_send sa)"
    and "ms_id A = hex ia" and "length ia = 8" and "last ia \<noteq> 0"
    and "dict_get (ms_addresses A) p = Some addr" and "addr \<noteq> []"
    and "dict_get (tr_connections (ms_transport A)) addr = Some c" and "ev_fails ev (cn_id c) = None"
    and "send_private_message lb ev content p nick mid A = (Inr mid', A', os)"
  obtains raw pk inner where "os = [Net (Write (cn_id c) (be_bytes 2 (length raw) @ raw))]"
    and "dict_get (pending_messages (ms_tracker A')) mid' = Some (content, ev_now ev, True)"
    and "parse_bitchat_packet (lb_lz4 lb) raw = Inr pk" and "pkt_type pk = NOISE_ENCRYPTED"
    and "pkt_sender_id_str pk = hex ia"
    and "pkt_payload pk = seal (lb_crypto lb) (ses_send sa) ([1, mt_value MESSAGE, 7] @ inner) []"
    and "\<exists>ipk. parse_bitchat_packet (lb_lz4 lb) ([1, mt_value MESSAGE, 7] @ inner) = Inr ipk \<and> pkt_type ipk = MESSAGE \<and>
      parse_bitchat_message_payload (pkt_payload ipk) = Inr \<lparr>msg_id = mid', msg_content = content,
        msg_channel = None, msg_is_encrypted = False, msg_encrypted_content = None\<rparr>"
proof -
  obtain payload inner outer where
    p: "create_bitchat_message_payload_full (ev_ts ev 0) (ev_uuid ev) (ms_nickname A) content None True
       (ms_id A) False None = Inr (payload, mid')"
    and i: "create_bitchat_packet_with_recipient (ev_ts ev 1) (ev_rnd ev 0) (hex ia) (Some p)
       MESSAGE payload None = Inr inner"
    and o: "create_bitchat_packet_with_recipient (ev_ts ev 2) (ev_rnd ev 1) (hex ia) (Some p)
       NOISE_ENCRYPTED (seal (lb_crypto lb) (ses_send sa) (set_ttl inner 7) []) None = Inr outer"
    and os: "os = [Net (Write (cn_id c) (be_bytes 2 (length outer) @ outer))]"
    and tr: "dict_get (pending_messages (ms_tracker A')) mid' = Some (content, ev_now ev, True)"
    by (rule send_private_run [OF assms(1,2,6-10)]) (simp add: assms(3))
  obtain rb where po: "parse_bitchat_packet (lb_lz4 lb) outer = Inr
    \<lparr>pkt_type = NOISE_ENCRYPTED, pkt_sender_id = ia, pkt_sender_id_str = hex ia,
     pkt_recipient_id = Some (rstrip0 rb), pkt_recipient_id_str = Some (hex (rstrip0 rb)),
     pkt_payload = seal (lb_crypto lb) (ses_send sa) (set_ttl inner 7) [], pkt_ttl = 7\<rparr>"
    by (rule created_from [OF o assms(4,5)])
  obtain rest where rest: "inner = [1, mt_value MESSAGE, 7] @ rest" using created_head [OF i] by blast
  then have ttl: "set_ttl inner 7 = inner" by (intro set_ttl_same) simp_all
  obtain rb' where pin: "parse_bitchat_packet (lb_lz4 lb) inner = Inr
    \<lparr>pkt_type = MESSAGE, pkt_sender_id = ia, pkt_sender_id_str = hex ia,
     pkt_recipient_id = Some (rstrip0 rb'), pkt_recipient_id_str = Some (hex (rstrip0 rb')),
     pkt_payload = payload, pkt_ttl = 7\<rparr>"
    by (rule created_from [OF i assms(4,5)])
  have pm: "parse_bitchat_message_payload payload = Inr \<lparr>msg_id = mid', msg_content = content,
      msg_channel = None, msg_is_encrypted = False, msg_encrypted_content = None\<rparr>"
    using payload_read_back [OF p] by auto
  show thesis
    by (rule that [OF os tr po, of rest]) (use pin pm rest ttl in simp_all)
qed

text \<open>A private message from A's call to B's report.\<close>

lemma private_message_flow:
  assumes "crypto_ok (lb_crypto lb)"
    and "dict_get (sv_sessions (ms_enc A)) (ms_id B) = Some sa"
    and "dict_get (sv_sessions (ms_enc B)) (ms_id A) = Some sb"
    and "ses_send sa = ses_receive sb" and "ready (ses_send sa)"
    and "ms_id A = hex ia" and "length ia = 8" and "last ia \<noteq> 0" and "ms_id A \<noteq> ms_id B"
    and "\<not> is_blocked lb (ms_id A) B"
    and "dict_get (ms_addresses A) (ms_id B) = Some addr" and "addr \<noteq> []"
    and "dict_get (tr_connections (ms_transport A)) addr = Some c" and "ev_fails ev (cn_id c) = None"
    and "send_private_message lb ev content (ms_id B) nick mid A = (Inr mid', A', os)"
    and "new_to lb mid' B"
  shows "\<exists>raw pk B1 B2 rest.
    os = [Net (Write (cn_id c) (be_bytes 2 (length raw) @ raw))] \<and>
    dict_get (pending_messages (ms_tracker A')) mid' = Some (content, ev_now ev, True) \<and>
    on_packet_received lb d raw B = (Inr (), B1, []) \<and>
    ms_tasks B1 = ms_tasks B @ [Handle pk d raw] \<and>
    run_task lb ev' (Handle pk d raw) B1 = (Inr (), B2, Message_received
      \<lparr>msg_id = mid', msg_content = content, msg_channel = None, msg_is_encrypted = False,
       msg_encrypted_content = None\<rparr> (ms_id A) True # rest)"
proof -
  obtain raw pk inner where os: "os = [Net (Write (cn_id c) (be_bytes 2 (length raw) @ raw))]"
    and tr: "dict_get (pending_messages (ms_tracker A')) mid' = Some (content, ev_now ev, True)"
    and pk: "parse_bitchat_packet (lb_lz4 lb) raw = Inr pk" "pkt_type pk = NOISE_ENCRYPTED" "pkt_sender_id_str pk = hex ia"
      "pkt_payload pk = seal (lb_crypto lb) (ses_send sa) ([1, mt_value MESSAGE, 7] @ inner) []"
    and ipk: "\<exists>ipk. parse_bitchat_packet (lb_lz4 lb) ([1, mt_value MESSAGE, 7] @ inner) = Inr ipk \<and> pkt_type ipk = MESSAGE \<and>
      parse_bitchat_message_payload (pkt_payload ipk) = Inr \<lparr>msg_id = mid', msg_content = content,
        msg_channel = None, msg_is_encrypted = False, msg_encrypted_content = None\<rparr>"
    by (rule private_message_sealed [OF assms(2,5-8,11-15)])
  let ?m = "\<lparr>msg_id = mid', msg_content = content, msg_channel = None, msg_is_encrypted = False,
    msg_encrypted_content = None\<rparr>"
  obtain ipk where ip: "parse_bitchat_packet (lb_lz4 lb) ([1, mt_value MESSAGE, 7] @ inner) = Inr ipk"
    "pkt_type ipk = MESSAGE" "parse_bitchat_message_payload (pkt_payload ipk) = Inr ?m" using ipk by blast
  have "\<exists>B1 B2 rest. on_packet_received lb d raw B = (Inr (), B1, []) \<and>
    ms_tasks B1 = ms_tasks B @ [Handle pk d raw] \<and>
    run_task lb ev' (Handle pk d raw) B1 = (Inr (), B2, Message_received ?m (pkt_sender_id_str pk) True # rest)"
    by (rule receive_noise_message [OF pk(1,2) _ assms(1), where ses = sb and inner = ipk and
          ds = "[mt_value MESSAGE, 7] @ inner" and d = "[1, mt_value MESSAGE, 7] @ inner"])
      (use assms(3-6,9,10,16) pk(3,4) ip in simp_all)
  with os tr pk(3) assms(6) show ?thesis by auto
qed

text \<open>
  C1: a private message arrives. When A and B hold the two ends of a session, A knows B's connection,
  writing to it works and A's send returns, then A has written exactly one frame, to that connection,
  and tracks the message; the framed packet, received by B from any connection, becomes a task; and
  that task, run next with any clock, random source and writers, reports to B's application exactly
  the text A sent, as a private message from A. A's identifier must have eight bytes, not end in a
  zero byte and differ from B's, B must not have blocked A, the message identifier must be new to B,
  and B's Bloom filter must have room, that is, B has handled fewer than 5000 messages so far.
\<close>

theorem private_message_arrives:
  assumes "crypto_ok (lb_crypto lb)"
    and "dict_get (sv_sessions (ms_enc A)) (ms_id B) = Some sa"
    and "dict_get (sv_sessions (ms_enc B)) (ms_id A) = Some sb"
    and "ses_send sa = ses_receive sb" and "ready (ses_send sa)"
    and "ms_id A = hex ia" and "length ia = 8" and "last ia \<noteq> 0" and "ms_id A \<noteq> ms_id B"
    and "\<not> is_blocked lb (ms_id A) B"
    and "dict_get (ms_addresses A) (ms_id B) = Some addr" and "addr \<noteq> []"
    and "dict_get (tr_connections (ms_transport A)) addr = Some c" and "ev_fails ev (cn_id c) = None"
    and "send_private_message lb ev content (ms_id B) nick mid A = (Inr mid', A', os)"
    and "new_to lb mid' B"
  shows "\<exists>raw pk B1 B2 rest.
    os = [Net (Write (cn_id c) (be_bytes 2 (length raw) @ raw))] \<and>
    dict_get (pending_messages (ms_tracker A')) mid' = Some (content, ev_now ev, True) \<and>
    on_packet_received lb d raw B = (Inr (), B1, []) \<and>
    ms_tasks B1 = ms_tasks B @ [Handle pk d raw] \<and>
    run_task lb ev' (Handle pk d raw) B1 = (Inr (), B2, Message_received
      \<lparr>msg_id = mid', msg_content = content, msg_channel = None, msg_is_encrypted = False,
       msg_encrypted_content = None\<rparr> (ms_id A) True # rest)"
  using assms by (rule private_message_flow)

text \<open>Two nodes that share a session, for the examples.\<close>

definition example_libs :: libs where
  "example_libs = \<lparr>lb_crypto = plain_crypto, lb_lz4 = lz4_stored,
     lb_gcm = \<lparr>gcm_enc = \<lambda>k n p. p, gcm_dec = \<lambda>k n c. Some c\<rparr>,
     lb_ack_dumps = \<lambda>a. [], lb_ack_loads = \<lambda>b. Inl JSONDecodeError,
     lb_bloom = \<lambda>n keys key. if length keys < n then None else Some IndexError\<rparr>"

definition example_env :: env where
  "example_env = \<lparr>ev_ts = \<lambda>i. 5, ev_rnd = \<lambda>i n. replicate n 0, ev_uuid = lit ''m1'', ev_eph = [3],
     ev_now = 10, ev_fails = \<lambda>i. None, ev_wr = None\<rparr>"

definition example_conn :: conn where
  "example_conn = \<lparr>cn_id = 4, cn_host = [98], cn_port = 1, cn_outgoing = True\<rparr>"

definition example_node :: "bytes \<Rightarrow> bytes \<Rightarrow> NoiseRole \<Rightarrow> mesh" where
  "example_node me peer role =
     (mesh_init example_libs (Some [97]) me [7] default_state Absent
       \<lparr>tr_connections = [(conn_address example_conn, example_conn)], tr_listening = True\<rparr>)
     \<lparr>ms_addresses := [(hex peer, conn_address example_conn)],
      ms_enc := (service_init [7])\<lparr>sv_sessions := [(hex peer, session_of plain_crypto 0 (hex peer) [9] role [])]\<rparr>\<rparr>"

lemma example_bloom: "bloom_ok example_libs"
  by (simp add: bloom_ok_def example_libs_def)

lemma new_to_empty: "ms_processed s = {} \<Longrightarrow> ms_bloom s = [] \<Longrightarrow> new_to example_libs i s"
  by (simp add: new_to_def example_bloom bloom_capacity_def)

lemma create_succeeds:
  assumes "fromhex sender = Inr sb" and "ts < 2 ^ 64" and "length payload < 2 ^ 16"
    and "recipient_field recipient = Inr rb" and "\<And>n. length (rnd n) = n"
  shows "\<exists>data. create_bitchat_packet_with_recipient ts rnd sender recipient t payload None = Inr data \<and>
    length data \<le> length payload + 285"
proof -
  obtain pk where pk: "create_bitchat_packet_with_recipient ts rnd sender recipient t payload None =
      Inr (pk @ padding rnd (length pk))"
    "pk = [1, mt_value t, 7] @ be_bytes 8 ts @ [packet_flags recipient t None] @
       be_bytes 2 (length payload) @ pad8 sb @
       (if packet_flags recipient t None AND FLAG_HAS_RECIPIENT \<noteq> 0 then rb else []) @
       payload @ (case None of Some s \<Rightarrow> s | None \<Rightarrow> [])"
    by (rule create_layout [OF assms(1-4)])
  have "length (padding rnd (length pk)) \<le> 255"
    using assms(5) by (auto simp: padding_def Let_def)
  moreover have "length pk \<le> length payload + 30"
    using length_recipient_field [OF assms(4)] by (simp add: pk(2))
  ultimately have "length (pk @ padding rnd (length pk)) \<le> length payload + 285" by simp
  with pk(1) show ?thesis by blast
qed

lemma recipient_field_hex: "bs \<noteq> [] \<Longrightarrow> recipient_field (Some (hex bs)) = Inr (pad8 bs)"
  using fromhex_hex [of bs] by (cases "hex bs") (simp_all add: recipient_field_def)

lemma example_payload:
  "\<exists>payload. create_bitchat_message_payload_full 5 (lit ''m1'') [97] (lit ''hi'') None True
      (hex [1, 2, 3, 4, 5, 6, 7, 8]) False None = Inr (payload, lit ''m1'') \<and> length payload < 100"
proof -
  have h: "hex [1, 2, 3, 4, 5, 6, 7, 8] = [48,49,48,50,48,51,48,52,48,53,48,54,48,55,48,56]"
    by code_simp
  show ?thesis unfolding h
    by (simp add: create_bitchat_message_payload_full_def pack_Q_def pack_H_def write_text8_def
        write_len8_def content_field_def utf8_enc1_def lit_def byte_of_def)
qed

lemma example_send:
  "\<exists>A' os. send_private_message example_libs example_env (lit ''hi'') (hex [9]) [] None
    (example_node [1, 2, 3, 4, 5, 6, 7, 8] [9] role) = (Inr (lit ''m1''), A', os)"
proof -
  let ?A = "example_node [1, 2, 3, 4, 5, 6, 7, 8] [9] role"
  let ?ses = "session_of plain_crypto 0 (hex [9]) [9] role []"
  let ?me = "hex [1, 2, 3, 4, 5, 6, 7, 8]"
  obtain payload where p: "create_bitchat_message_payload_full 5 (lit ''m1'') [97] (lit ''hi'') None True
      ?me False None = Inr (payload, lit ''m1'')" "length payload < 100"
    using example_payload by blast
  obtain inner where i: "create_bitchat_packet_with_recipient 5 (\<lambda>n. replicate n 0) ?me (Some (hex [9]))
      MESSAGE payload None = Inr inner" "length inner \<le> length payload + 285"
    using create_succeeds [OF fromhex_hex _ _ recipient_field_hex [of "[9]"], of 5 payload "\<lambda>n. replicate n 0"]
      p(2) by fastforce
  let ?enc = "seal plain_crypto (ses_send ?ses) (set_ttl inner 7) []"
  have l: "length ?enc < 500" using i(2) p(2) by (simp add: length_seal [OF crypto_ok_plain] set_ttl_def)
  obtain outer where o: "create_bitchat_packet_with_recipient 5 (\<lambda>n. replicate n 0) ?me (Some (hex [9]))
      NOISE_ENCRYPTED ?enc None = Inr outer" "length outer \<le> length ?enc + 285"
    using create_succeeds [OF fromhex_hex _ _ recipient_field_hex [of "[9]"], of 5 ?enc "\<lambda>n. replicate n 0"]
      l by fastforce
  have rdy: "ready (ses_send ?ses)"
    using ready_transport_of [OF crypto_ok_plain] by (simp add: session_of_def)
  have small: "length outer < 65536" using o(2) l by simp
  have snd: "send_packet (\<lambda>i. None) example_conn outer t =
      (Inr (), t, [Write 4 (be_bytes 2 (length outer) @ outer)])" for t
    using send_packet_ok [of "\<lambda>i. None" example_conn outer t] small by (simp add: example_conn_def)
  show ?thesis
    using rdy p(1) i(1) o(1) snd
    by (simp add: send_private_message_def is_session_established_def has_key_def example_node_def
        mesh_init_def node_nickname_def example_env_def example_libs_def act_defs encryptA_def
        encrypt_for_peer_def session_encrypt_ready send_to_peer_def transportA_def
        split: list.split)
qed

theorem private_message_arrives_witness:
  "\<exists>A' os raw B1 pk B2 rest.
    send_private_message example_libs example_env (lit ''hi'') (hex [9]) [] None
      (example_node [1, 2, 3, 4, 5, 6, 7, 8] [9] INITIATOR) = (Inr (lit ''m1''), A', os) \<and>
    os = [Net (Write 4 (be_bytes 2 (length raw) @ raw))] \<and>
    on_packet_received example_libs example_conn raw (example_node [9] [1, 2, 3, 4, 5, 6, 7, 8] RESPONDER) =
      (Inr (), B1, []) \<and>
    run_task example_libs example_env (Handle pk example_conn raw) B1 = (Inr (), B2, Message_received
      \<lparr>msg_id = lit ''m1'', msg_content = lit ''hi'', msg_channel = None, msg_is_encrypted = False,
       msg_encrypted_content = None\<rparr> (hex [1, 2, 3, 4, 5, 6, 7, 8]) True # rest)"
proof -
  let ?A = "example_node [1, 2, 3, 4, 5, 6, 7, 8] [9] INITIATOR"
  let ?B = "example_node [9] [1, 2, 3, 4, 5, 6, 7, 8] RESPONDER"
  let ?sa = "session_of plain_crypto 0 (hex [9]) [9] INITIATOR []"
  let ?sb = "session_of plain_crypto 0 (hex [1, 2, 3, 4, 5, 6, 7, 8]) [9] RESPONDER []"
  obtain A' os where send: "send_private_message example_libs example_env (lit ''hi'') (hex [9]) [] None ?A =
      (Inr (lit ''m1''), A', os)" using example_send by blast
  have f: "ms_id ?A = hex [1, 2, 3, 4, 5, 6, 7, 8]" "ms_id ?B = hex [9]"
    "ms_addresses ?A = [(hex [9], conn_address example_conn)]"
    "tr_connections (ms_transport ?A) = [(conn_address example_conn, example_conn)]"
    "dict_get (sv_sessions (ms_enc ?A)) (hex [9]) = Some ?sa"
    "dict_get (sv_sessions (ms_enc ?B)) (hex [1, 2, 3, 4, 5, 6, 7, 8]) = Some ?sb"
    "ms_blocked ?B = []"
    by (simp_all add: example_node_def mesh_init_def default_state_def)
  have n: "new_to example_libs (lit ''m1'') ?B" by (rule new_to_empty) (simp_all add: example_node_def mesh_init_def)
  have l: "ses_send ?sa = ses_receive ?sb" "ready (ses_send ?sa)"
    using linked_session_of [OF crypto_ok_plain] by (simp_all add: linked_def)
  have e: "crypto_ok (lb_crypto example_libs)" "ev_fails example_env (cn_id example_conn) = None"
    "cn_id example_conn = 4" "conn_address example_conn \<noteq> []"
    "\<not> is_blocked example_libs (ms_id ?A) ?B"
    by (simp_all add: example_libs_def example_env_def example_conn_def crypto_ok_plain conn_address_def
        is_blocked_def f split: option.split)
  obtain raw pk B1 B2 rest where "os = [Net (Write 4 (be_bytes 2 (length raw) @ raw))]"
    "on_packet_received example_libs example_conn raw ?B = (Inr (), B1, [])"
    "run_task example_libs example_env (Handle pk example_conn raw) B1 = (Inr (), B2, Message_received
      \<lparr>msg_id = lit ''m1'', msg_content = lit ''hi'', msg_channel = None, msg_is_encrypted = False,
       msg_encrypted_content = None\<rparr> (hex [1, 2, 3, 4, 5, 6, 7, 8]) True # rest)"
    using private_message_arrives [of example_libs ?A ?B ?sa ?sb "[1, 2, 3, 4, 5, 6, 7, 8]"
        "conn_address example_conn" example_conn example_env "lit ''hi''" "[]" None "lit ''m1''" A' os
        example_conn example_env] e l n send
    unfolding f by (auto simp del: run_task.simps)
  with send show ?thesis by blast
qed

end
