(* ===== verification/Handlers.thy ===== *)
theory Handlers
  imports Delivery
begin

text \<open>
  Properties of single handlers of \<^verbatim>\<open>daemon/mesh.py\<close>: relaying, blocking, the tie-break for
  handshakes, leaving, queued private messages, channel announcements and the start of a node.
\<close>

subsection \<open>Sending to one peer\<close>

text \<open>A packet for one peer goes to the connection that \<open>get_conn_for_peer\<close> finds, and nowhere without one.\<close>

lemma send_to_peer_conn:
  "send_to_peer ev pid pkt s =
     (case get_conn_for_peer pid s of Some c \<Rightarrow> transportA (send_packet (ev_fails ev) c pkt) s | None \<Rightarrow> ret () s)"
  by (simp add: send_to_peer_def get_conn_for_peer_def getA_def split: option.split list.split)

subsection \<open>Relaying\<close>

lemma perform_writes:
  "perform (map (\<lambda>(addr, c). Write (cn_id c) (f c)) cs) s =
     (Inr (), s, map (\<lambda>(addr, c). Net (Write (cn_id c) (f c))) cs)"
  by (induction cs) (auto simp: act_defs)

lemma raw_send_all:
  assumes "\<forall>i. ev_fails ev i = None" and "length pkt \<le> 65535"
  shows "raw_send ev pkt s = (Inr (), s, map (\<lambda>(addr, c).
    Net (Write (cn_id c) (be_bytes 2 (length pkt) @ pkt))) (tr_connections (ms_transport s)))"
proof -
  have "send_packet (ev_fails ev) c pkt t = (Inr (), t, [Write (cn_id c) (be_bytes 2 (length pkt) @ pkt)])"
    for c t using send_packet_ok [of "ev_fails ev" c pkt t] assms by simp
  then have "broadcast_to (ev_fails ev) {} pkt cs t = (Inr (), t,
      map (\<lambda>(addr, c). Write (cn_id c) (be_bytes 2 (length pkt) @ pkt)) cs)" for cs t
    by (induction cs) auto
  then show ?thesis
    by (simp add: raw_send_def broadcast_packet_def transportA_def act_defs perform_writes)
qed

text \<open>
  A relay repeats the packet with one hop less. For a packet whose TTL allows another hop the
  relay task writes one frame to every connection, the one it came from included, and what the
  receivers parse is the same packet with the TTL decremented; the node itself does not change.
\<close>

theorem relay_decrements_ttl:
  assumes "parse_bitchat_packet z raw = Inr pk" and "length raw \<le> 65535"
    and "\<forall>i. ev_fails ev i = None"
  shows "\<exists>raw'. run_task lb ev (Relay raw (pkt_ttl pk)) s =
      (Inr (), s, map (\<lambda>(addr, c). Net (Write (cn_id c) (be_bytes 2 (length raw') @ raw')))
        (tr_connections (ms_transport s))) \<and>
    parse_bitchat_packet z raw' = Inr (pk\<lparr>pkt_ttl := pkt_ttl pk - 1\<rparr>)"
proof -
  let ?raw = "set_ttl raw (pkt_ttl pk - 1)"
  have "pkt_ttl pk < 256"
    using assms(1) unat_byte_less
    by (auto simp: parse_bitchat_packet_def Let_def bindE_eq_Inr split: if_splits)
  then have "parse_bitchat_packet z ?raw = Inr (pk\<lparr>pkt_ttl := pkt_ttl pk - 1\<rparr>)"
    by (intro parse_after_set_ttl [OF assms(1)]) simp
  moreover have "length ?raw \<le> 65535" using assms(2) by (simp add: set_ttl_def)
  ultimately show ?thesis using raw_send_all [OF assms(3), of ?raw s] by auto
qed

theorem relay_decrements_ttl_witness:
  "\<exists>raw'. run_task example_libs example_env (Relay ([1, 4, 7] @ replicate 19 0) 7)
      (example_node [1] [9] INITIATOR) =
      (Inr (), example_node [1] [9] INITIATOR, [Net (Write 4 (be_bytes 2 (length raw') @ raw'))]) \<and>
    parse_bitchat_packet lz4_stored raw' = Inr \<lparr>pkt_type = MESSAGE, pkt_sender_id = [],
      pkt_sender_id_str = [], pkt_recipient_id = None, pkt_recipient_id_str = None, pkt_payload = [],
      pkt_ttl = 6\<rparr>"
proof -
  have h: "parse_bitchat_packet lz4_stored ([1, 4, 7] @ replicate 19 0) =
     Inr \<lparr>pkt_type = MESSAGE, pkt_sender_id = [], pkt_sender_id_str = [],
          pkt_recipient_id = None, pkt_recipient_id_str = None, pkt_payload = [], pkt_ttl = 7\<rparr>"
    by code_simp
  show ?thesis
    using relay_decrements_ttl [OF h, of example_env example_libs "example_node [1] [9] INITIATOR"]
    by (simp add: example_env_def example_node_def mesh_init_def example_conn_def del: run_task.simps)
qed

subsection \<open>Blocking\<close>

text \<open>
  A blocked peer is not heard. When the fingerprint of the sender's session key is blocked, a
  public or private message or an encrypted packet from it changes nothing and reports nothing: it
  is neither delivered nor acknowledged nor relayed, and the session's counter does not move.
\<close>

theorem blocked_peer_ignored:
  assumes "get_peer_fingerprint (lb_crypto lb) (pkt_sender_id_str pk) (ms_enc s) = Some fp"
    and "fp \<noteq> []" and "fp \<in> set (ms_blocked s)"
    and "pkt_type pk = MESSAGE \<or> pkt_type pk = NOISE_ENCRYPTED"
  shows "run_task lb ev (Handle pk c raw) s = (Inr (), s, [])"
  using assms
  by (auto simp: handle_packet_def handle_message_def handle_noise_encrypted_def is_blocked_def act_defs)

theorem blocked_peer_ignored_witness:
  "\<exists>fp. run_task example_libs example_env (Handle \<lparr>pkt_type = MESSAGE, pkt_sender_id = [9],
      pkt_sender_id_str = hex [9], pkt_recipient_id = None, pkt_recipient_id_str = None, pkt_payload = [],
      pkt_ttl = 6\<rparr> example_conn []) ((example_node [1] [9] INITIATOR)\<lparr>ms_blocked := [fp]\<rparr>) =
    (Inr (), (example_node [1] [9] INITIATOR)\<lparr>ms_blocked := [fp]\<rparr>, [])"
proof -
  let ?s = "(example_node [1] [9] INITIATOR)\<lparr>ms_blocked := [hex (sha256 plain_crypto [])]\<rparr>"
  have "get_peer_fingerprint (lb_crypto example_libs) (hex [9]) (ms_enc ?s) =
      Some (hex (sha256 plain_crypto []))"
    by (simp add: get_peer_fingerprint_def example_node_def example_libs_def)
  moreover have "length (sha256 plain_crypto []) = 32" by (simp add: plain_crypto_def)
  then have "hex (sha256 plain_crypto []) \<noteq> []" by auto
  ultimately show ?thesis
    by (intro exI blocked_peer_ignored) (auto simp: example_node_def)
qed

subsection \<open>Fragments\<close>

text \<open>
  Fragments are lost. A fragment with a complete header (13 bytes or more of payload) ends its
  handler with \<open>NameError\<close> before anything happens: the collector does not see it, no message can
  ever be reassembled, and the fragment is not relayed.
\<close>

theorem fragments_are_lost:
  assumes "pkt_type pk \<in> {FRAGMENT_START, FRAGMENT_CONTINUE, FRAGMENT_END}"
    and "13 \<le> length (pkt_payload pk)"
  shows "run_task lb ev (Handle pk c raw) s = (Inl NameError, s, [])"
  using assms by (auto simp: handle_packet_def handle_fragment_def liftA_def)

theorem fragments_are_lost_witness:
  "run_task example_libs example_env (Handle \<lparr>pkt_type = FRAGMENT_START, pkt_sender_id = [9],
      pkt_sender_id_str = hex [9], pkt_recipient_id = None, pkt_recipient_id_str = None,
      pkt_payload = replicate 20 0, pkt_ttl = 6\<rparr> example_conn []) (example_node [1] [9] INITIATOR) =
    (Inl NameError, example_node [1] [9] INITIATOR, [])"
  by (rule fragments_are_lost) simp_all

subsection \<open>Leaving\<close>

lemma remove_peer_run:
  "\<exists>os. remove_peer p s = (Inr (), s\<lparr>ms_peers := dict_del (ms_peers s) p,
     ms_addresses := dict_del (ms_addresses s) p, ms_pending := dict_del (ms_pending s) p,
     ms_enc := remove_session p (ms_enc s)\<rparr>, os)"
  by (auto simp: remove_peer_def act_defs split: option.split list.split)

definition peer_record ::
  "mesh \<Rightarrow> pystr \<Rightarrow> (pystr option option \<times> pystr option \<times> (pystr \<times> pystr \<times> pystr) list option \<times>
     session option \<times> handshake option) option" where
  "peer_record s p =
     (let r = (dict_get (ms_peers s) p, dict_get (ms_addresses s) p, dict_get (ms_pending s) p,
               dict_get (sv_sessions (ms_enc s)) p, dict_get (sv_handshakes (ms_enc s)) p)
      in if r = (None, None, None, None, None) then None else Some r)"

interpretation forgetting: removal peer_record "\<lambda>p s. fst (snd (remove_peer p s))"
proof
  fix p q and s :: mesh
  obtain os where r: "remove_peer p s = (Inr (), s\<lparr>ms_peers := dict_del (ms_peers s) p,
     ms_addresses := dict_del (ms_addresses s) p, ms_pending := dict_del (ms_pending s) p,
     ms_enc := remove_session p (ms_enc s)\<rparr>, os)"
    using remove_peer_run by blast
  show "peer_record (fst (snd (remove_peer p s))) q = (if q = p then None else peer_record s q)"
    unfolding r by (cases "q = p") (simp_all add: peer_record_def remove_session_def)
qed

text \<open>
  When peers leave, everything kept for them goes and nothing else does: after removing any
  peers, one of them has no entry in the peer and address tables, no queued messages, no session and
  no handshake, and every other peer has exactly what it had.
\<close>

theorem leaving_forgets_peers:
  "peer_record (fold (\<lambda>p s. fst (snd (remove_peer p s))) ps s) q =
     (if q \<in> set ps then None else peer_record s q)"
  by (rule forgetting.lookup_remove_all)

subsection \<open>Who initiates\<close>

lemma note_peer_run: "\<exists>os. note_peer p n s =
    (Inr (), s\<lparr>ms_peers := dict_set (ms_peers s) p (Some n)\<rparr>, os)"
  by (auto simp: note_peer_def act_defs Let_def)

lemma initiate_run:
  assumes "ms_id s = hex me" and "p = hex pb" and "pb \<noteq> []" and "ev_ts ev 0 < 2 ^ 64"
    and "crypto_ok (lb_crypto lb)" and "\<forall>i. ev_fails ev i = None" and "\<And>n. length (ev_rnd ev 0 n) = n"
  shows "\<exists>s' os. mesh_initiate_handshake lb ev p s = (Inr (), s', os) \<and>
    ms_enc s' = snd (initiate_handshake (lb_crypto lb) (ev_eph ev) p (ms_enc s)) \<and>
    ms_pending s' = ms_pending s"
proof -
  obtain r enc where i: "initiate_handshake (lb_crypto lb) (ev_eph ev) p (ms_enc s) = (r, enc)"
    by (cases "initiate_handshake (lb_crypto lb) (ev_eph ev) p (ms_enc s)")
  obtain m where m: "r = Inr m" "length m = 32"
    by (rule initiate_handshake_first [OF assms(5) i]) auto
  have ts: "length m < 2 ^ 16" using m(2) by simp
  obtain pkt where pkt: "create_bitchat_packet_with_recipient (ev_ts ev 0) (ev_rnd ev 0) (hex me)
      (Some p) NOISE_HANDSHAKE_INIT m None = Inr pkt" "length pkt \<le> 317"
    using create_succeeds [OF fromhex_hex assms(4) ts recipient_field_hex [OF assms(3)] assms(7),
        of me NOISE_HANDSHAKE_INIT] m(2) assms(2) by auto
  have "send_packet (ev_fails ev) c (set_ttl pkt 3) t =
      (Inr (), t, [Write (cn_id c) (be_bytes 2 (length (set_ttl pkt 3)) @ set_ttl pkt 3)])" for c t
    using send_packet_ok [of "ev_fails ev" c "set_ttl pkt 3" t] pkt(2) assms(6) by (simp add: set_ttl_def)
  then have "\<exists>os. send_to_peer ev p (set_ttl pkt 3) t = (Inr (), t, os)" for t
    by (auto simp: send_to_peer_def transportA_def act_defs split: option.split list.split)
  then obtain os where "send_to_peer ev p (set_ttl pkt 3) (s\<lparr>ms_enc := enc\<rparr>) =
      (Inr (), s\<lparr>ms_enc := enc\<rparr>, os)" by blast
  with i m pkt assms(1) show ?thesis by (simp add: mesh_initiate_handshake_def act_defs)
qed

lemma identity_announce_run:
  assumes "ms_id s = hex me" and "pp \<noteq> []" and "me \<noteq> pp" and "pkt_sender_id_str pk = hex pp"
    and "parse_noise_identity_announcement_binary (pkt_payload pk) = Some n" and "ann_peerID n = hex pp"
    and "\<not> is_session_established (hex pp) (ms_enc s)"
    and "ev_ts ev 0 < 2 ^ 64" and "crypto_ok (lb_crypto lb)" and "\<forall>i. ev_fails ev i = None"
    and "\<forall>n. length (ev_rnd ev 0 n) = n"
  shows "\<exists>s' os. handle_noise_identity_announce lb ev pk s = (Inr (), s', os) \<and>
    (if str_less (hex me) (hex pp) then has_key (sv_handshakes (ms_enc s')) (hex pp)
     else ms_enc s' = ms_enc s)"
proof -
  let ?s = "s\<lparr>ms_peers := dict_set (ms_peers s) (hex pp) (Some (ann_nickname n))\<rparr>"
  obtain os where np: "note_peer (hex pp) (ann_nickname n) s = (Inr (), ?s, os)"
    using note_peer_run by blast
  have "ms_id ?s = hex me" using assms(1) by simp
  from initiate_run [OF this refl assms(2) assms(8-10)] assms(11)
  obtain s' os' where i: "mesh_initiate_handshake lb ev (hex pp) ?s = (Inr (), s', os')"
    "ms_enc s' = snd (initiate_handshake (lb_crypto lb) (ev_eph ev) (hex pp) (ms_enc ?s))"
    by blast
  then have "has_key (sv_handshakes (ms_enc s')) (hex pp)"
    by (auto simp: initiate_handshake_def Let_def split: sum.split)
  with np i assms(1-7) show ?thesis
    by (simp add: handle_noise_identity_announce_def getA_def seqA_def bindA_def ret_def Let_def)
qed

text \<open>
  Exactly one of two peers initiates the handshake. When two nodes with different identifiers and
  no session each handle the other's identity announcement, the one with the smaller identifier
  starts a handshake and the other leaves its encryption state alone, so initiations do not cross.
\<close>

theorem one_side_initiates:
  assumes "ms_id A = hex ia" and "ms_id B = hex ib" and "ia \<noteq> []" and "ib \<noteq> []" and "ia \<noteq> ib"
    and "parse_noise_identity_announcement_binary (pkt_payload pa) = Some na" and "ann_peerID na = hex ia"
    and "parse_noise_identity_announcement_binary (pkt_payload pb) = Some nb" and "ann_peerID nb = hex ib"
    and "pkt_sender_id_str pa = hex ia" and "pkt_sender_id_str pb = hex ib"
    and "\<not> is_session_established (hex ib) (ms_enc A)" and "\<not> is_session_established (hex ia) (ms_enc B)"
    and "crypto_ok (lb_crypto lb)" and "ev_ts ev 0 < 2 ^ 64" and "\<forall>i. ev_fails ev i = None"
    and "\<forall>n. length (ev_rnd ev 0 n) = n"
  shows "\<exists>A' osA B' osB. handle_noise_identity_announce lb ev pb A = (Inr (), A', osA) \<and>
    handle_noise_identity_announce lb ev pa B = (Inr (), B', osB) \<and>
    (if str_less (hex ia) (hex ib)
     then has_key (sv_handshakes (ms_enc A')) (hex ib) \<and> ms_enc B' = ms_enc B
     else has_key (sv_handshakes (ms_enc B')) (hex ia) \<and> ms_enc A' = ms_enc A)"
proof -
  have l: "str_less (hex ib) (hex ia) \<longleftrightarrow> \<not> str_less (hex ia) (hex ib)"
    using assms(5) by (metis hex_inject str.less_asym str.less_linear)
  note a = identity_announce_run [OF assms(1,4,5,11,8,9,12,15,14,16,17)]
    and b = identity_announce_run [OF assms(2,3) assms(5) [symmetric] assms(10,6,7,13,15,14,16,17)]
  from a b l show ?thesis by (cases "str_less (hex ia) (hex ib)") auto
qed

definition example_announcement :: "byte \<Rightarrow> packet" where
  "example_announcement b = \<lparr>pkt_type = NOISE_IDENTITY_ANNOUNCE, pkt_sender_id = replicate 8 b,
     pkt_sender_id_str = hex (replicate 8 b), pkt_recipient_id = None, pkt_recipient_id_str = None,
     pkt_payload = [0] @ replicate 8 b @ [0, 0, 0] @ replicate 8 0 @ [0], pkt_ttl = 7\<rparr>"

lemma example_announcement_parses:
  "\<exists>n. parse_noise_identity_announcement_binary (pkt_payload (example_announcement b)) = Some n \<and>
     ann_peerID n = hex (replicate 8 b)"
  by (simp add: example_announcement_def parse_noise_identity_announcement_binary_def
      parse_identity_fields_def rd_byte_def rd_bytes_def rd_len8_def rd_nickname_def slice_def
      numeral_eq_Suc)

theorem one_side_initiates_witness:
  "\<exists>A' osA B' osB.
    handle_noise_identity_announce example_libs example_env (example_announcement 2)
      (mesh_init example_libs None (replicate 8 1) [7] default_state Absent transport_init) =
      (Inr (), A', osA) \<and>
    handle_noise_identity_announce example_libs example_env (example_announcement 1)
      (mesh_init example_libs None (replicate 8 2) [8] default_state Absent transport_init) =
      (Inr (), B', osB) \<and>
    has_key (sv_handshakes (ms_enc A')) (hex (replicate 8 2)) \<and> ms_enc B' = service_init [8]"
proof -
  let ?A = "mesh_init example_libs None (replicate 8 1) [7] default_state Absent transport_init"
  let ?B = "mesh_init example_libs None (replicate 8 2) [8] default_state Absent transport_init"
  obtain na nb where n:
    "parse_noise_identity_announcement_binary (pkt_payload (example_announcement 1)) = Some na"
    "ann_peerID na = hex (replicate 8 1)"
    "parse_noise_identity_announcement_binary (pkt_payload (example_announcement 2)) = Some nb"
    "ann_peerID nb = hex (replicate 8 2)"
    using example_announcement_parses by meson
  have ids: "ms_id ?A = hex (replicate 8 1)" "ms_id ?B = hex (replicate 8 2)"
    "ms_enc ?A = service_init [7]" "ms_enc ?B = service_init [8]"
    by (simp_all add: mesh_init_def)
  have lt: "str_less (hex (replicate 8 1)) (hex (replicate 8 2))" by code_simp
  have pre: "\<not> is_session_established (hex (replicate 8 2)) (ms_enc ?A)"
    "\<not> is_session_established (hex (replicate 8 1)) (ms_enc ?B)" "crypto_ok (lb_crypto example_libs)"
    "ev_ts example_env 0 < 2 ^ 64" "\<forall>i. ev_fails example_env i = None"
    "\<forall>n. length (ev_rnd example_env 0 n) = n"
    unfolding ids
    by (simp_all add: is_session_established_def service_init_def example_libs_def crypto_ok_plain
        example_env_def)
  have snd: "pkt_sender_id_str (example_announcement b) = hex (replicate 8 b)" for b
    by (simp add: example_announcement_def)
  show ?thesis
    using one_side_initiates [OF ids(1,2) _ _ _ n snd snd pre] lt by (simp add: ids)
qed

subsection \<open>Queued private messages\<close>

text \<open>
  A private message to a peer without a session is kept until there is one. Sending it queues it
  behind the peer's earlier messages and returns its identifier; unless a handshake was attempted
  within the last five seconds one is initiated and the attempt noted. When the session is there, the
  queue becomes one task with all messages in the order in which they were sent, and the peer's queue
  is empty.
\<close>

theorem private_message_queued:
  assumes "\<not> is_session_established (hex pb) (ms_enc s)" and "ms_id s = hex me" and "pb \<noteq> []"
    and "ev_ts ev 0 < 2 ^ 64" and "crypto_ok (lb_crypto lb)" and "\<forall>i. ev_fails ev i = None"
    and "\<forall>n. length (ev_rnd ev 0 n) = n"
  shows "\<exists>s' os mid' q s''. send_private_message lb ev content (hex pb) nick mid s = (Inr mid', s', os) \<and>
    mid' = (case mid of Some (c # cs) \<Rightarrow> c # cs | _ \<Rightarrow> ev_uuid ev) \<and>
    q = (case dict_get (ms_pending s) (hex pb) of Some q \<Rightarrow> q | None \<Rightarrow> []) @ [(content, nick, mid')] \<and>
    dict_get (ms_pending s') (hex pb) = Some q \<and>
    (if (case dict_get (ms_attempts s) (hex pb) of Some t \<Rightarrow> ev_now ev - t < 5 | None \<Rightarrow> False)
     then ms_enc s' = ms_enc s \<and> os = []
     else has_key (sv_handshakes (ms_enc s')) (hex pb)) \<and>
    send_pending_private_messages (hex pb) s' = (Inr (), s'', []) \<and>
    ms_tasks s'' = ms_tasks s' @ [Send_pending (hex pb) q] \<and> \<not> has_key (ms_pending s'') (hex pb)"
proof -
  define m where "m = (case mid of Some (c # cs) \<Rightarrow> c # cs | _ \<Rightarrow> ev_uuid ev)"
  define q where "q = (case dict_get (ms_pending s) (hex pb) of Some q \<Rightarrow> q | None \<Rightarrow> []) @ [(content, nick, m)]"
  let ?s = "s\<lparr>ms_pending := dict_set (ms_pending s) (hex pb) q\<rparr>"
  let ?t = "?s\<lparr>ms_attempts := dict_set (ms_attempts s) (hex pb) (ev_now ev)\<rparr>"
  let ?recent = "case dict_get (ms_attempts s) (hex pb) of Some t \<Rightarrow> ev_now ev - t < 5 | None \<Rightarrow> False"
  obtain u os where i: "mesh_initiate_handshake lb ev (hex pb) ?t = (Inr (), u, os)"
    "ms_enc u = snd (initiate_handshake (lb_crypto lb) (ev_eph ev) (hex pb) (ms_enc ?t))"
    "ms_pending u = ms_pending ?t"
    using initiate_run [of ?t me "hex pb" pb ev lb] assms(2-7) by auto
  then have k: "has_key (sv_handshakes (ms_enc u)) (hex pb)"
    by (auto simp: initiate_handshake_def Let_def split: sum.split)
  have run: "send_private_message lb ev content (hex pb) nick mid s =
      (Inr m, if ?recent then ?s else u, if ?recent then [] else os)"
    using assms(1) i(1)
    unfolding send_private_message_def queue_private_message_def Let_def act_defs handshake_timeout_def
      m_def [symmetric] by (simp add: q_def [symmetric])
  let ?s' = "if ?recent then ?s else u"
  have p: "dict_get (ms_pending ?s') (hex pb) = Some q" using i(3) by simp
  have "send_pending_private_messages (hex pb) ?s' = (Inr (),
      ?s'\<lparr>ms_pending := dict_del (ms_pending ?s') (hex pb), ms_tasks := ms_tasks ?s' @ [Send_pending (hex pb) q]\<rparr>, [])"
    using p by (simp add: send_pending_private_messages_def act_defs)
  then have "\<exists>s''. send_pending_private_messages (hex pb) ?s' = (Inr (), s'', []) \<and>
      ms_tasks s'' = ms_tasks ?s' @ [Send_pending (hex pb) q] \<and> \<not> has_key (ms_pending s'') (hex pb)"
    by simp
  moreover have "if ?recent then ms_enc ?s' = ms_enc s \<and> (if ?recent then [] else os) = []
      else has_key (sv_handshakes (ms_enc ?s')) (hex pb)" using k by simp
  ultimately show ?thesis unfolding run m_def [symmetric] q_def [symmetric] using p
    by (intro exI [of _ ?s'] exI [of _ m] exI [of _ q]) (auto simp: q_def)
qed

theorem private_message_queued_witness:
  "\<exists>s' os. send_private_message example_libs example_env (lit ''hi'') (hex [9]) [] None
      (mesh_init example_libs None (replicate 8 1) [7] default_state Absent transport_init) =
      (Inr (lit ''m1''), s', os) \<and>
    dict_get (ms_pending s') (hex [9]) = Some [(lit ''hi'', [], lit ''m1'')] \<and>
    has_key (sv_handshakes (ms_enc s')) (hex [9])"
proof -
  let ?A = "mesh_init example_libs None (replicate 8 1) [7] default_state Absent transport_init"
  have ids: "ms_id ?A = hex (replicate 8 1)" "ms_enc ?A = service_init [7]" "ms_pending ?A = []"
    "ms_attempts ?A = []" "ev_uuid example_env = lit ''m1''"
    by (simp_all add: mesh_init_def example_env_def)
  have pre: "\<not> is_session_established (hex [9]) (ms_enc ?A)"
    unfolding ids by (simp add: is_session_established_def service_init_def)
  have e: "ev_ts example_env 0 < 2 ^ 64" "crypto_ok (lb_crypto example_libs)"
    "\<forall>i. ev_fails example_env i = None" "\<forall>n. length (ev_rnd example_env 0 n) = n"
    by (simp_all add: example_libs_def crypto_ok_plain example_env_def)
  show ?thesis
    using private_message_queued [OF pre ids(1) _ e, of "lit ''hi''" "[]" None] by (auto simp: ids)
qed

text \<open>
  A queued message loses its identifier. Once a session exists, \<open>send_private_message\<close> ignores
  the identifier it is given and returns and tracks a fresh one, so the identifier that was returned
  when the message was queued is never acknowledged.
\<close>

theorem queued_identifier_ignored:
  assumes "is_session_established p (ms_enc s)"
    and "send_private_message lb ev content p nick (Some mid) s = (Inr mid', s', os)"
  shows "mid' = ev_uuid ev \<and>
    send_private_message lb ev content p nick None s = (Inr mid', s', os)"
proof -
  from assms have run: "send_private_message lb ev content p nick None s = (Inr mid', s', os)"
    by (simp add: send_private_message_def getA_def)
  from assms show ?thesis
    using run by (auto simp: send_private_message_def run_simps create_bitchat_message_payload_full_def bindE_eq_Inr)
qed

theorem queued_identifier_ignored_witness:
  "\<exists>s' os. send_private_message example_libs example_env (lit ''hi'') (hex [9]) [] (Some (lit ''old''))
      (example_node [1, 2, 3, 4, 5, 6, 7, 8] [9] INITIATOR) = (Inr (lit ''m1''), s', os)"
proof -
  let ?A = "example_node [1, 2, 3, 4, 5, 6, 7, 8] [9] INITIATOR"
  have e: "is_session_established (hex [9]) (ms_enc ?A)"
    by (simp add: example_node_def is_session_established_def has_key_def)
  obtain A' os where "send_private_message example_libs example_env (lit ''hi'') (hex [9]) [] None ?A =
      (Inr (lit ''m1''), A', os)" using example_send by blast
  then have "send_private_message example_libs example_env (lit ''hi'') (hex [9]) [] (Some (lit ''old'')) ?A =
      (Inr (lit ''m1''), A', os)"
    using e by (simp add: send_private_message_def getA_def)
  with queued_identifier_ignored [OF e this] show ?thesis by blast
qed

subsection \<open>Channel announcements\<close>

text \<open>
  Any peer can take the protection off a channel. An announcement that a channel is not
  protected, from whatever sender, removes the channel's key, its key commitment and its protected
  mark, and a public message to that channel afterwards is sent in the clear.
\<close>

theorem announcement_strips_protection:
  assumes "split_on 124 (utf8_decode_ignore (pkt_payload pk)) = [c # cs, [48], creator]"
  shows "\<exists>s'. handle_channel_announce ev pk s = (Inr (), s', []) \<and>
    c # cs \<notin> set (ms_protected s') \<and> \<not> has_key (ms_channel_keys s') (c # cs) \<and>
    \<not> has_key (ms_commitments s') (c # cs) \<and>
    send_public_message lb ev' content (Some (c # cs)) s' =
      bindA (liftA (create_bitchat_message_payload_full (ev_ts ev' 0) (ev_uuid ev') (ms_nickname s') content
        (Some (c # cs)) False (ms_id s') False None)) (\<lambda>(payload, mid).
      seqA (modA (\<lambda>s. s\<lparr>ms_tracker := track_message (ev_now ev') mid content False (ms_tracker s)\<rparr>))
      (bindA (liftA (create_bitchat_packet (ev_ts ev' 1) (ev_rnd ev' 1) (ms_id s') MESSAGE payload)) (\<lambda>pkt.
       seqA (raw_send ev' pkt) (ret mid)))) s'"
proof -
  let ?u = "note_channel (c # cs) False creator [] s"
  obtain s' where s': "handle_channel_announce ev pk s = (Inr (), s', [])"
    and f: "ms_protected s' = ms_protected ?u" "ms_channel_keys s' = ms_channel_keys ?u"
      "ms_commitments s' = ms_commitments ?u"
    using assms by (simp add: handle_channel_announce_def mesh_save_state_def act_defs Let_def)
  have u: "c # cs \<notin> set (ms_protected ?u)" "\<not> has_key (ms_channel_keys ?u) (c # cs)"
    "\<not> has_key (ms_commitments ?u) (c # cs)"
    by (simp_all add: note_channel_def Let_def)
  have "dict_get (ms_channel_keys s') (c # cs) = None" using u(2) f(2) by (simp add: has_key_def)
  then have "send_public_message lb ev' content (Some (c # cs)) s' =
      bindA (liftA (create_bitchat_message_payload_full (ev_ts ev' 0) (ev_uuid ev') (ms_nickname s') content
        (Some (c # cs)) False (ms_id s') False None)) (\<lambda>(payload, mid).
      seqA (modA (\<lambda>s. s\<lparr>ms_tracker := track_message (ev_now ev') mid content False (ms_tracker s)\<rparr>))
      (bindA (liftA (create_bitchat_packet (ev_ts ev' 1) (ev_rnd ev' 1) (ms_id s') MESSAGE payload)) (\<lambda>pkt.
       seqA (raw_send ev' pkt) (ret mid)))) s'"
    by (simp add: send_public_message_def getA_def)
  with s' f u show ?thesis by (intro exI [of _ s'] conjI) simp_all
qed

theorem announcement_strips_protection_witness:
  "\<exists>s'. handle_channel_announce example_env
      \<lparr>pkt_type = CHANNEL_ANNOUNCE, pkt_sender_id = [9], pkt_sender_id_str = hex [9],
       pkt_recipient_id = None, pkt_recipient_id_str = None,
       pkt_payload = [35, 99, 124, 48, 124, 120], pkt_ttl = 5\<rparr>
      ((example_node [1] [9] INITIATOR)\<lparr>ms_channel_keys := [(lit ''#c'', [5])], ms_protected := [lit ''#c'']\<rparr>) =
      (Inr (), s', []) \<and> lit ''#c'' \<notin> set (ms_protected s') \<and> \<not> has_key (ms_channel_keys s') (lit ''#c'')"
proof -
  let ?pk = "\<lparr>pkt_type = CHANNEL_ANNOUNCE, pkt_sender_id = [9], pkt_sender_id_str = hex [9],
    pkt_recipient_id = None, pkt_recipient_id_str = None,
    pkt_payload = [35, 99, 124, 48, 124, 120], pkt_ttl = 5\<rparr> :: packet"
  have "split_on 124 (utf8_decode_ignore (pkt_payload ?pk)) = [[35, 99], [48], [120]]" by code_simp
  from announcement_strips_protection [OF this, of example_env
      "(example_node [1] [9] INITIATOR)\<lparr>ms_channel_keys := [(lit ''#c'', [5])], ms_protected := [lit ''#c'']\<rparr>"
      example_libs example_env "[]"]
  show ?thesis by (auto simp: lit_def)
qed

subsection \<open>The nickname of a starting node\<close>

text \<open>
  A saved nickname is only used when none is configured. Whenever the configuration gives a
  non-empty nickname, as the default configuration does, the node starts with that one and the
  nickname that was saved has no effect.
\<close>

theorem saved_nickname_overridden:
  "ms_nickname (mesh_init lb (Some (c # cs)) rnd8 static app file t) = c # cs"
  by (simp add: mesh_init_def node_nickname_def)

end
