(* ===== verification/Config.thy ===== *)
theory Config
  imports Decimal
begin

text \<open>
  \<^verbatim>\<open>daemon/config.py\<close>: loading the configuration. \<open>DEFAULT_CONFIG.copy()\<close> is shallow, so
  the sections of the loaded configuration are the very dictionaries of the defaults: an entry of a
  configuration is either \<open>Shared\<close>, a reference to the section of the defaults with that name, or
  a value of its own. The defaults are an argument and a result of \<open>load_config\<close>. What YAML gives
  for a file is an argument.
\<close>

subsection \<open>Values\<close>

datatype cvalue =
  CNull
| CBool bool
| CInt int
| CStr pystr
| CList "cvalue list"
| CDict "(pystr \<times> cvalue) list"

type_synonym csection = "(pystr, cvalue) dict"
type_synonym defaults = "(pystr, csection) dict"

datatype entry = Shared pystr | Own cvalue

type_synonym config = "(pystr, entry) dict"

definition default_config :: "pystr \<Rightarrow> defaults" where
  "default_config data_dir =
     [(lit ''node'', [(lit ''port'', CInt 8765), (lit ''listen'', CStr (lit ''0.0.0.0'')),
        (lit ''nickname'', CStr (lit ''bitchat-node'')), (lit ''data_dir'', CStr data_dir)]),
      (lit ''mesh'', [(lit ''bootstrap_nodes'', CList []), (lit ''max_peers'', CInt 50),
        (lit ''default_ttl'', CInt 7)]),
      (lit ''discovery'', [(lit ''mdns'', CBool True), (lit ''mdns_service'', CStr (lit ''_bitchat._tcp''))]),
      (lit ''api'', [(lit ''rest_port'', CInt 8080), (lit ''ws_port'', CInt 8080),
        (lit ''host'', CStr (lit ''127.0.0.1''))]),
      (lit ''logging'', [(lit ''level'', CStr (lit ''INFO'')), (lit ''file'', CNull)])]"

subsection \<open>Merging\<close>

text \<open>\<open>_deep_merge\<close> on dictionaries that are values.\<close>

function deep_merge :: "csection \<Rightarrow> csection \<Rightarrow> csection" where
  "deep_merge base [] = base"
| "deep_merge base ((key, value) # overlay) =
     deep_merge
       (case value of
          CNull \<Rightarrow> base
        | CDict v \<Rightarrow>
            (case dict_get base key of
               Some (CDict b) \<Rightarrow> dict_set base key (CDict (deep_merge b v))
             | _ \<Rightarrow> dict_set base key value)
        | _ \<Rightarrow> dict_set base key value) overlay"
  by pat_completeness auto

termination
  by (relation "measure (\<lambda>(b, ov). size_list (\<lambda>x. Suc (size (snd x))) ov)") (auto simp: size_prod_simp)

text \<open>\<open>_deep_merge(config, user_config)\<close>: at the top level a shared section is merged in place.\<close>

fun merge_config :: "config \<times> defaults \<Rightarrow> csection \<Rightarrow> config \<times> defaults" where
  "merge_config (c, h) [] = (c, h)"
| "merge_config (c, h) ((key, value) # overlay) =
     merge_config
       (case value of
          CNull \<Rightarrow> (c, h)
        | CDict v \<Rightarrow>
            (case dict_get c key of
               Some (Shared sec) \<Rightarrow>
                 (c, dict_set h sec (deep_merge (case dict_get h sec of Some b \<Rightarrow> b | None \<Rightarrow> []) v))
             | Some (Own (CDict b)) \<Rightarrow> (dict_set c key (Own (CDict (deep_merge b v))), h)
             | _ \<Rightarrow> (dict_set c key (Own value), h))
        | _ \<Rightarrow> (dict_set c key (Own value), h)) overlay"

subsection \<open>Overrides from the environment\<close>

text \<open>\<open>config[section][key] = value\<close>\<close>

definition set_option :: "pystr \<Rightarrow> pystr \<Rightarrow> cvalue \<Rightarrow> config \<times> defaults \<Rightarrow> (config \<times> defaults) res" where
  "set_option sec key value ch =
     (case dict_get (fst ch) sec of
        None \<Rightarrow> Inl KeyError
      | Some (Shared r) \<Rightarrow>
          Inr (fst ch, dict_set (snd ch) r
            (dict_set (case dict_get (snd ch) r of Some d \<Rightarrow> d | None \<Rightarrow> []) key value))
      | Some (Own (CDict d)) \<Rightarrow> Inr (dict_set (fst ch) sec (Own (CDict (dict_set d key value))), snd ch)
      | Some (Own v) \<Rightarrow> Inl TypeError)"

definition get_option :: "pystr \<Rightarrow> pystr \<Rightarrow> config \<times> defaults \<Rightarrow> cvalue option" where
  "get_option sec key ch =
     (case dict_get (fst ch) sec of
        Some (Shared r) \<Rightarrow> Option.bind (dict_get (snd ch) r) (\<lambda>d. dict_get d key)
      | Some (Own (CDict d)) \<Rightarrow> dict_get d key
      | _ \<Rightarrow> None)"

record environ =
  env_port :: pystr
  env_api_port :: pystr
  env_nick :: pystr
  env_api_host :: pystr
  env_bootstrap :: pystr

text \<open>An unset variable and an empty one count alike; an override applies to a non-empty one.\<close>

definition override ::
  "pystr \<Rightarrow> (pystr \<Rightarrow> config \<times> defaults \<Rightarrow> (config \<times> defaults) res) \<Rightarrow> config \<times> defaults
     \<Rightarrow> (config \<times> defaults) res" where
  "override var f ch = (if var = [] then Inr ch else f var ch)"

definition apply_environ :: "environ \<Rightarrow> config \<times> defaults \<Rightarrow> (config \<times> defaults) res" where
  "apply_environ e ch =
     bindE (override (env_port e) (\<lambda>v ch. bindE (py_int v) (\<lambda>p.
       set_option (lit ''node'') (lit ''port'') (CInt p) ch)) ch) (\<lambda>ch.
     bindE (override (env_api_port e) (\<lambda>v ch. bindE (py_int v) (\<lambda>p.
       bindE (set_option (lit ''api'') (lit ''rest_port'') (CInt p) ch)
         (set_option (lit ''api'') (lit ''ws_port'') (CInt p)))) ch) (\<lambda>ch.
     bindE (override (env_nick e) (\<lambda>v. set_option (lit ''node'') (lit ''nickname'') (CStr v)) ch) (\<lambda>ch.
     bindE (override (env_api_host e) (\<lambda>v. set_option (lit ''api'') (lit ''host'') (CStr v)) ch) (\<lambda>ch.
     override (env_bootstrap e) (\<lambda>v. set_option (lit ''mesh'') (lit ''bootstrap_nodes'')
       (CList (map (\<lambda>x. CStr (strip is_space x)) (split_on 44 v)))) ch))))"

text \<open>
  \<open>load_config\<close>: \<open>file\<close> is what \<open>yaml.safe_load\<close> makes of the file, \<open>None\<close> if there
  is no path or no file; an exception, also that of merging something that is no dictionary, is
  logged and the defaults are used.
\<close>

definition load_config :: "cvalue res option \<Rightarrow> environ \<Rightarrow> defaults \<Rightarrow> (config \<times> defaults) res" where
  "load_config file e h =
     (let c = map (\<lambda>(sec, d). (sec, Shared sec)) h;
          merged = (case file of
             Some (Inr (CDict overlay)) \<Rightarrow> merge_config (c, h) overlay
           | _ \<Rightarrow> (c, h))
      in apply_environ e merged)"

subsection \<open>Properties\<close>

lemma deep_merge_other: "k \<notin> fst ` set overlay \<Longrightarrow> dict_get (deep_merge base overlay) k = dict_get base k"
  by (induction base overlay rule: deep_merge.induct) (auto split: option.split cvalue.split)

text \<open>
  Merging a user's settings into a section keeps what the user does not set. For a YAML mapping
  (which repeats no key) a key that is missing or null keeps its default, a mapping is merged into a
  default that is a mapping, recursively, and every other value replaces the default.
\<close>

theorem deep_merge_spec:
  assumes "wf_dict overlay"
  shows "dict_get (deep_merge base overlay) k =
    (case dict_get overlay k of
       None \<Rightarrow> dict_get base k
     | Some CNull \<Rightarrow> dict_get base k
     | Some (CDict v) \<Rightarrow>
         (case dict_get base k of
            Some (CDict b) \<Rightarrow> Some (CDict (deep_merge b v))
          | _ \<Rightarrow> Some (CDict v))
     | Some v \<Rightarrow> Some v)"
  using assms
proof (induction overlay arbitrary: base)
  case (Cons x overlay)
  obtain key v where x: "x = (key, v)" by (cases x)
  from Cons.prems have wf: "wf_dict overlay" "key \<notin> fst ` set overlay"
    by (auto simp: wf_dict_def x)
  show ?case
  proof (cases "k = key")
    case True
    with wf(2) show ?thesis
      by (simp add: x deep_merge_other split: cvalue.split option.split)
  next
    case False
    then have "\<exists>b. deep_merge base (x # overlay) = deep_merge b overlay \<and> dict_get b k = dict_get base k"
      unfolding x deep_merge.simps
      by (intro exI conjI) (rule refl, auto split: cvalue.split option.split)
    then obtain b where b: "deep_merge base (x # overlay) = deep_merge b overlay"
      "dict_get b k = dict_get base k" by blast
    have "dict_get (x # overlay) k = dict_get overlay k" using False by (simp add: x)
    then show ?thesis unfolding b(1) b(2) [symmetric] by (simp only: Cons.IH [OF wf(1), of b])
  qed
qed simp

theorem deep_merge_spec_witness:
  "dict_get (deep_merge [([1], CInt 5), ([2], CInt 6)] [([1], CNull), ([2], CInt 7)]) [1] = Some (CInt 5)"
  using deep_merge_spec [of "[([1], CNull), ([2], CInt 7)]" "[([1], CInt 5), ([2], CInt 6)]" "[1]"]
  by (simp add: wf_dict_def)

definition no_environ :: environ where
  "no_environ = \<lparr>env_port = [], env_api_port = [], env_nick = [], env_api_host = [], env_bootstrap = []\<rparr>"

lemma lit_neq: "lit a = lit b \<longleftrightarrow> a = b"
  unfolding lit_def by (rule inj_map_eq_map) (auto simp: inj_def)

text \<open>
  Loading a configuration changes the defaults. After one load with the port set in the
  environment, a second load with nothing set returns that port and not the default one, because the
  copy of the defaults shares its sections.
\<close>

theorem load_config_changes_defaults:
  "\<exists>c h c' h'.
     load_config None (no_environ\<lparr>env_port := dec_int p\<rparr>) (default_config dir) = Inr (c, h) \<and>
     load_config None no_environ h = Inr (c', h') \<and>
     get_option (lit ''node'') (lit ''port'') (c', h') = Some (CInt p)"
proof -
  have d: "dec_int p \<noteq> []" by (simp add: dec_int_def)
  show ?thesis
    by (simp add: load_config_def apply_environ_def override_def no_environ_def d py_int_dec_int
        default_config_def set_option_def get_option_def lit_neq)
qed

end
