(* ===== verification/Api.thy ===== *)
theory Api
  imports Handlers Config
begin

text \<open>
  \<^verbatim>\<open>daemon/api.py\<close>: the REST handlers and the WebSocket clients of \<open>HttpServer\<close>. A
  handler is an action on the node that returns a response; an exception that escapes it is the
  server's error 500. aiohttp itself is not modelled: what a socket does is an argument.
\<close>

subsection \<open>Requests and responses\<close>

text \<open>
  \<open>Exception_reply e\<close> is the answer 500 with the text \<open>str(e)\<close>. A JSON value of a request is a
  configuration value: null, a Boolean, an integer, a string, a list or an object.
\<close>

datatype body = Invalid_json | Json cvalue

datatype response =
  Reply nat "(pystr \<times> cvalue) list"
| Exception_reply py_error
| Status_reply status
| Peers_reply "(pystr \<times> pystr option \<times> pystr \<times> bool) list"

definition error_reply :: "nat \<Rightarrow> string \<Rightarrow> response" where
  "error_reply code msg = Reply code [(lit ''error'', CStr (lit msg))]"

text \<open>\<open>bool(v)\<close>, \<open>data.get(key)\<close> on a parsed body, and \<open>int(v)\<close>.\<close>

fun truthy :: "cvalue \<Rightarrow> bool" where
  "truthy CNull = False"
| "truthy (CBool b) = b"
| "truthy (CInt i) = (i \<noteq> 0)"
| "truthy (CStr s) = (s \<noteq> [])"
| "truthy (CList xs) = (xs \<noteq> [])"
| "truthy (CDict d) = (d \<noteq> [])"

definition body_get :: "cvalue \<Rightarrow> string \<Rightarrow> cvalue \<Rightarrow> cvalue res" where
  "body_get data key dflt =
     (case data of
        CDict d \<Rightarrow> Inr (case dict_get d (lit key) of Some v \<Rightarrow> v | None \<Rightarrow> dflt)
      | _ \<Rightarrow> Inl AttributeError)"

fun value_int :: "cvalue \<Rightarrow> int res" where
  "value_int (CInt i) = Inr i"
| "value_int (CBool b) = Inr (if b then 1 else 0)"
| "value_int (CStr s) = py_int s"
| "value_int v = Inl TypeError"

subsection \<open>The REST handlers\<close>

definition handle_health :: "response act" where
  "handle_health = ret (Reply 200 [(lit ''status'', CStr (lit ''ok''))])"

definition handle_status :: "response act" where
  "handle_status = getA (\<lambda>s. ret (Status_reply (get_status s)))"

definition handle_peers :: "response act" where
  "handle_peers =
     getA (\<lambda>s. ret (Peers_reply (map (\<lambda>(pid, nick).
       (pid, nick, case dict_get (ms_addresses s) pid of Some a \<Rightarrow> a | None \<Rightarrow> [],
        is_session_established pid (ms_enc s))) (ms_peers s))))"

text \<open>
  \<open>transport.connect\<close> as the node sees it: a new connection starts the announcements. \<open>result\<close>
  is how opening the connection ends.
\<close>

definition connectA :: "nat res \<Rightarrow> pystr \<Rightarrow> int \<Rightarrow> unit act" where
  "connectA result host port =
     getA (\<lambda>s.
     (case connect result host port (ms_transport s) of (r, t, es) \<Rightarrow>
        seqA (modA (\<lambda>s. s\<lparr>ms_transport := t\<rparr>))
        (seqA (perform es)
        (seqA (if es = [] then ret () else on_connect_transport)
          (liftA (case r of Inl e \<Rightarrow> Inl e | Inr c \<Rightarrow> Inr ()))))))"

text \<open>\<open>except Exception as e: return json_response({"error": str(e)}, status=500)\<close>.\<close>

definition reporting :: "response act \<Rightarrow> response act" where
  "reporting m s =
     (case m s of
        (Inl e, s', os) \<Rightarrow> (Inr (Exception_reply e), s', os)
      | (Inr x, s', os) \<Rightarrow> (Inr x, s', os))"

definition handle_connect :: "nat res \<Rightarrow> body \<Rightarrow> response act" where
  "handle_connect result b =
     (case b of
        Invalid_json \<Rightarrow> ret (error_reply 400 ''invalid JSON'')
      | Json data \<Rightarrow>
          bindA (liftA (body_get data ''host'' CNull)) (\<lambda>host.
          bindA (liftA (body_get data ''port'' CNull)) (\<lambda>port.
          if \<not> truthy host \<or> \<not> truthy port then ret (error_reply 400 ''host and port required'')
          else
            reporting
              (bindA (liftA (value_int port)) (\<lambda>p.
               seqA (case host of CStr h \<Rightarrow> connectA result h p | _ \<Rightarrow> liftA (Inl TypeError))
                 (ret (Reply 200 [(lit ''status'', CStr (lit ''connecting'')), (lit ''host'', host),
                   (lit ''port'', port)])))))))"

definition handle_disconnect :: "body \<Rightarrow> response act" where
  "handle_disconnect b =
     (case b of
        Invalid_json \<Rightarrow> ret (error_reply 400 ''invalid JSON'')
      | Json data \<Rightarrow>
          bindA (liftA (body_get data ''address'' CNull)) (\<lambda>addr.
          if \<not> truthy addr then ret (error_reply 400 ''address required'')
          else
            seqA
              (case addr of
                 CStr a \<Rightarrow> transportA (\<lambda>t. case disconnect a t of (t', es) \<Rightarrow> (Inr (), t', es))
               | CList _ \<Rightarrow> liftA (Inl TypeError)
               | CDict _ \<Rightarrow> liftA (Inl TypeError)
               | _ \<Rightarrow> seqA (outA (Net (Fire_disconnected None))) (liftA (Inl AttributeError)))
              (ret (Reply 200 [(lit ''status'', CStr (lit ''disconnected''))]))))"

definition handle_set_name :: "env \<Rightarrow> body \<Rightarrow> response act" where
  "handle_set_name ev b =
     (case b of
        Invalid_json \<Rightarrow> ret (error_reply 400 ''invalid JSON'')
      | Json data \<Rightarrow>
          bindA (liftA (body_get data ''nickname'' (CStr []))) (\<lambda>v.
          (case v of
             CStr raw \<Rightarrow>
               let nickname = strip is_space raw in
               if nickname = [] \<or> length nickname > 20 then ret (error_reply 400 ''invalid nickname'')
               else
                 seqA (modA (\<lambda>s. s\<lparr>ms_nickname := nickname\<rparr>))
                 (seqA (mesh_save_state ev)
                 (seqA (send_announce ev)
                   (ret (Reply 200 [(lit ''status'', CStr (lit ''ok'')), (lit ''nickname'', CStr nickname)]))))
           | _ \<Rightarrow> liftA (Inl AttributeError))))"

subsection \<open>Routes\<close>

datatype http_method = GET | POST | PUT

datatype endpoint = Rest "response act" | Websocket

text \<open>
  \<open>_setup_routes\<close>: the endpoint of a request, \<open>None\<close> where the server answers by itself that
  there is none. \<open>result\<close> is how opening a connection ends, should the request ask for one.
\<close>

definition route :: "env \<Rightarrow> nat res \<Rightarrow> http_method \<Rightarrow> string \<Rightarrow> body \<Rightarrow> endpoint option" where
  "route ev result meth path b =
     (if meth = GET \<and> path = ''/health'' then Some (Rest handle_health)
      else if meth = GET \<and> path = ''/status'' then Some (Rest handle_status)
      else if meth = GET \<and> path = ''/peers'' then Some (Rest handle_peers)
      else if meth = POST \<and> path = ''/connect'' then Some (Rest (handle_connect result b))
      else if meth = POST \<and> path = ''/disconnect'' then Some (Rest (handle_disconnect b))
      else if meth = PUT \<and> path = ''/name'' then Some (Rest (handle_set_name ev b))
      else if meth = GET \<and> path = ''/ws'' then Some Websocket
      else None)"

subsection \<open>WebSocket events\<close>

datatype ws_event =
  Ev_peer_joined pystr pystr
| Ev_peer_left pystr pystr
| Ev_ack pystr pystr pystr

text \<open>Which reports of the node reach the clients: \<open>on_message\<close> is not wired.\<close>

fun ws_event_of :: "node_output \<Rightarrow> ws_event option" where
  "ws_event_of (Peer_joined p n) = Some (Ev_peer_joined p n)"
| "ws_event_of (Peer_left p n) = Some (Ev_peer_left p n)"
| "ws_event_of (Ack_received a) =
     Some (Ev_ack (ack_original_message_id a) (ack_recipient_id a) (ack_recipient_nickname a))"
| "ws_event_of (Message_received m p pr) = None"
| "ws_event_of (Net e) = None"

text \<open>
  \<open>_broadcast\<close>: the clients that are left and the clients that were sent the event. A client whose
  connection is broken is dropped; another exception ends the loop.
\<close>

fun ws_broadcast ::
  "(nat \<Rightarrow> bool) \<Rightarrow> (nat \<Rightarrow> py_error option) \<Rightarrow> nat list \<Rightarrow> nat list \<Rightarrow> unit res \<times> nat list \<times> nat list" where
  "ws_broadcast is_closed fails [] clients = (Inr (), clients, [])"
| "ws_broadcast is_closed fails (ws # rest) clients =
     (if is_closed ws then ws_broadcast is_closed fails rest clients
      else
        (case fails ws of
           None \<Rightarrow> (case ws_broadcast is_closed fails rest clients of (r, cs, got) \<Rightarrow> (r, cs, ws # got))
         | Some e \<Rightarrow>
             if e = ConnectionError then ws_broadcast is_closed fails rest (removeAll ws clients)
             else (Inl e, clients, [])))"

text \<open>
  A client is a number. \<open>ws_clients\<close> is the set \<open>_ws_clients\<close>, \<open>ws_handlers\<close> has the clients
  whose coroutine \<open>_handle_ws\<close> runs. A text message carries what \<open>json.loads\<close> makes of it.
\<close>

record ws_server =
  ws_clients :: "nat list"
  ws_handlers :: "nat list"

definition ws_init :: ws_server where
  "ws_init = \<lparr>ws_clients = [], ws_handlers = []\<rparr>"

datatype ws_msg = Ws_text "cvalue res" | Ws_error | Ws_other

datatype ws_frame = Pong | Event ws_event

text \<open>The body of the loop of \<open>_handle_ws\<close>; \<open>fail\<close> is the exception of sending, if any.\<close>

definition ws_receive :: "py_error option \<Rightarrow> ws_msg \<Rightarrow> unit res \<times> ws_frame list" where
  "ws_receive fail msg =
     (case msg of
        Ws_text (Inl e) \<Rightarrow> (if e = JSONDecodeError then Inr () else Inl e, [])
      | Ws_text (Inr data) \<Rightarrow>
          (case body_get data ''action'' CNull of
             Inl e \<Rightarrow> (Inl e, [])
           | Inr v \<Rightarrow>
               if v = CStr (lit ''ping'') then
                 (case fail of Some e \<Rightarrow> (Inl e, []) | None \<Rightarrow> (Inr (), [Pong]))
               else (Inr (), []))
      | Ws_error \<Rightarrow> (Inr (), [])
      | Ws_other \<Rightarrow> (Inr (), []))"

text \<open>
  What happens to the server: a client connects, sends a message, or goes away (its loop ends or is
  cancelled), or a report of the node is broadcast. An exception in the loop ends the coroutine; its
  \<open>finally\<close> discards the client.
\<close>

datatype ws_input = Ws_open nat | Ws_message nat ws_msg | Ws_end nat | Ws_report node_output

definition ws_leave :: "nat \<Rightarrow> ws_server \<Rightarrow> ws_server" where
  "ws_leave ws s = s\<lparr>ws_clients := removeAll ws (ws_clients s), ws_handlers := removeAll ws (ws_handlers s)\<rparr>"

fun ws_step ::
  "(nat \<Rightarrow> bool) \<Rightarrow> (nat \<Rightarrow> py_error option) \<Rightarrow> ws_input \<Rightarrow> ws_server
     \<Rightarrow> ws_server \<times> (nat \<times> ws_frame) list" where
  "ws_step is_closed fails (Ws_open ws) s =
     (s\<lparr>ws_clients := List.insert ws (ws_clients s), ws_handlers := List.insert ws (ws_handlers s)\<rparr>, [])"
| "ws_step is_closed fails (Ws_message ws msg) s =
     (if ws \<notin> set (ws_handlers s) then (s, [])
      else
        (case ws_receive (fails ws) msg of
           (Inl e, fs) \<Rightarrow> (ws_leave ws s, map (Pair ws) fs)
         | (Inr _, fs) \<Rightarrow> (s, map (Pair ws) fs)))"
| "ws_step is_closed fails (Ws_end ws) s = (ws_leave ws s, [])"
| "ws_step is_closed fails (Ws_report report) s =
     (case ws_event_of report of
        None \<Rightarrow> (s, [])
      | Some e \<Rightarrow>
          (case ws_broadcast is_closed fails (ws_clients s) (ws_clients s) of
             (r, cs, got) \<Rightarrow> (s\<lparr>ws_clients := cs\<rparr>, map (\<lambda>ws. (ws, Event e)) got)))"

text \<open>
  \<open>HttpServer.stop\<close> up to its next \<open>await\<close>. The loop iterates over the set itself while \<open>ws.close()\<close> is
  awaited, and meanwhile clients may come and go. \<open>snap\<close> is the set when the loop last looked at it and
  \<open>todo\<close> what it has still to visit. Python compares the sizes before it takes the next element, and at
  the end; if they differ, it raises. If the set is another one of the same size, the elements that the
  iterator still finds depend on its hash table: they are the argument \<open>redo\<close>. The result is the loop that
  goes on once the socket of the next open client is closed, or None when the loop is over and the clients
  are cleared; what is left then is the cleanup of the runner.
\<close>

definition http_stop_next ::
  "(nat \<Rightarrow> bool) \<Rightarrow> nat list \<Rightarrow> nat list \<Rightarrow> nat list \<Rightarrow> ws_server
     \<Rightarrow> (nat list \<times> nat list) option res \<times> ws_server" where
  "http_stop_next is_closed redo snap todo s =
     (if length (ws_clients s) \<noteq> length snap then (Inl RuntimeError, s)
      else
        (case dropWhile is_closed (if ws_clients s = snap then todo else redo) of
           [] \<Rightarrow> (Inr None, s\<lparr>ws_clients := []\<rparr>)
         | ws # rest \<Rightarrow> (Inr (Some (ws_clients s, rest)), s)))"

subsection \<open>Properties of the WebSocket clients\<close>

text \<open>
  A run of the server. Each step has its own sockets, closed and failing ones.
\<close>

definition ws_serve ::
  "(nat \<Rightarrow> bool) \<times> (nat \<Rightarrow> py_error option) \<times> ws_input \<Rightarrow> ws_server \<Rightarrow> ws_server" where
  "ws_serve = (\<lambda>(is_closed, fails, i) s. fst (ws_step is_closed fails i s))"

lemma ws_broadcast_clients:
  "ws_broadcast is_closed fails todo clients = (r, cs, got) \<Longrightarrow> set cs \<subseteq> set clients \<and> (distinct clients \<longrightarrow> distinct cs)"
proof (induction todo arbitrary: clients r cs got)
  case (Cons ws todo)
  show ?case
    using Cons.prems Cons.IH [of clients] Cons.IH [of "removeAll ws clients"]
    by (auto simp: distinct_removeAll split: if_splits option.splits prod.splits)
qed simp

text \<open>Registered clients are distinct and their coroutines run.\<close>

definition ws_sound :: "ws_server \<Rightarrow> bool" where
  "ws_sound s \<longleftrightarrow> distinct (ws_clients s) \<and> set (ws_clients s) \<subseteq> set (ws_handlers s)"

lemma ws_leave_sound: "ws_sound s \<Longrightarrow> ws_sound (ws_leave ws s)"
  by (auto simp: ws_sound_def ws_leave_def distinct_removeAll)

lemma ws_step_sound: "ws_sound s \<Longrightarrow> ws_sound (fst (ws_step is_closed fails i s))"
proof (cases i)
  case (Ws_report report)
  moreover assume "ws_sound s"
  ultimately show ?thesis
    using ws_broadcast_clients [of is_closed fails "ws_clients s" "ws_clients s"]
    by (auto simp: ws_sound_def split: option.split prod.split) blast
qed (auto simp: ws_leave_sound split: prod.split sum.split, auto simp: ws_sound_def)

interpretation ws_ops: keeps ws_sound ws_serve
  by unfold_locales (auto simp: ws_serve_def ws_step_sound split: prod.split)

lemma ws_broadcast_sends:
  assumes "\<forall>ws. fails ws = None \<or> fails ws = Some ConnectionError"
  shows "ws_broadcast is_closed fails todo clients =
    (Inr (), filter (\<lambda>ws. ws \<notin> set todo \<or> is_closed ws \<or> fails ws = None) clients,
     filter (\<lambda>ws. \<not> is_closed ws \<and> fails ws = None) todo)"
proof (induction todo arbitrary: clients)
  case (Cons ws todo)
  have "removeAll ws clients = filter (\<lambda>x. x \<noteq> ws) clients" by (auto simp: removeAll_filter_not_eq intro: filter_cong)
  with Cons assms [rule_format, of ws] show ?case
    by (auto intro!: filter_cong)
qed simp

text \<open>
  C40: the events of the node reach the WebSocket clients. After any run of the server, the clients
  that are registered are distinct and have a running coroutine, and a report of the node that is an
  event is sent once to each of them whose socket works; a client whose connection is found broken is
  no longer registered, and no other is dropped.
\<close>

theorem events_reach_clients:
  assumes "s = fold ws_serve run ws_init" and "ws_event_of report = Some e"
    and "\<forall>ws. fails ws = None \<or> fails ws = Some ConnectionError"
  shows "distinct (ws_clients s) \<and> set (ws_clients s) \<subseteq> set (ws_handlers s) \<and>
    ws_step is_closed fails (Ws_report report) s =
      (s\<lparr>ws_clients := filter (\<lambda>ws. is_closed ws \<or> fails ws = None) (ws_clients s)\<rparr>,
       map (\<lambda>ws. (ws, Event e)) (filter (\<lambda>ws. \<not> is_closed ws \<and> fails ws = None) (ws_clients s)))"
proof -
  have "ws_sound s" unfolding assms(1)
    by (rule ws_ops.run_keeps) (simp add: ws_sound_def ws_init_def)
  moreover have "filter (\<lambda>ws. ws \<notin> set (ws_clients s) \<or> is_closed ws \<or> fails ws = None) (ws_clients s) =
      filter (\<lambda>ws. is_closed ws \<or> fails ws = None) (ws_clients s)"
    by (rule filter_cong) auto
  ultimately show ?thesis by (simp add: ws_sound_def assms(2) ws_broadcast_sends [OF assms(3)])
qed

theorem events_reach_clients_witness:
  "ws_step (\<lambda>ws. False) (\<lambda>ws. if ws = 2 then Some ConnectionError else None) (Ws_report (Peer_joined [7] [8]))
     (fold ws_serve [(\<lambda>ws. False, \<lambda>ws. None, Ws_open 1), (\<lambda>ws. False, \<lambda>ws. None, Ws_open 2)] ws_init) =
   (\<lparr>ws_clients = [1], ws_handlers = [2, 1]\<rparr>, [(1, Event (Ev_peer_joined [7] [8]))])"
  using events_reach_clients [OF refl, of "Peer_joined [7] [8]" "Ev_peer_joined [7] [8]"
      "\<lambda>ws. if ws = 2 then Some ConnectionError else None"
      "[(\<lambda>ws. False, \<lambda>ws. None, Ws_open 1), (\<lambda>ws. False, \<lambda>ws. None, Ws_open 2)]" "\<lambda>ws. False"]
  by (simp add: ws_serve_def ws_init_def List.insert_def)

text \<open>Stopping the server keeps the clients it has not cleared; with no clients there is nothing to wait for.\<close>

lemma http_stop_next_sound: "ws_sound s \<Longrightarrow> ws_sound (snd (http_stop_next is_closed redo snap todo s))"
  by (auto simp: http_stop_next_def ws_sound_def split: list.split)

lemma http_stop_next_idle:
  "ws_clients s = [] \<Longrightarrow> http_stop_next is_closed redo [] [] s = (Inr None, s)"
  by (simp add: http_stop_next_def)

subsection \<open>Properties of the API\<close>

text \<open>Sending leaves the nickname and the saved state alone, also when connections break.\<close>

definition same_profile :: "mesh \<Rightarrow> node_output list \<Rightarrow> mesh \<Rightarrow> bool" where
  "same_profile s os s' \<longleftrightarrow>
     ms_nickname s' = ms_nickname s \<and> ms_app s' = ms_app s \<and> ms_file s' = ms_file s"

interpretation profile: composing same_profile
  by unfold_locales (auto simp: same_profile_def)

lemmas profile_rules = profile.obeys_ret profile.obeys_liftA profile.obeys_bindA profile.obeys_seqA
  profile.obeys_getA profile.obeys_outA profile.obeys_modA

lemma profile_remove_peer: "obeys same_profile (remove_peer p)"
  unfolding remove_peer_def Let_def
  by (auto intro!: profile_rules simp: same_profile_def split: option.split list.split)

lemma profile_perform: "obeys same_profile (perform es)"
proof -
  have "obeys same_profile (on_peer_disconnected c)" for c
    unfolding on_peer_disconnected_def
    by (auto intro!: profile_rules profile_remove_peer split: option.split list.split)
  then show ?thesis
    by (induction es rule: perform.induct) (auto intro!: profile_rules simp: same_profile_def)
qed

lemma profile_send_announce: "obeys same_profile (send_announce ev)"
  unfolding send_announce_def raw_send_def transportA_def
  by (auto intro!: profile_rules profile_perform simp: same_profile_def split: prod.split)

text \<open>
  A nickname that the API accepts is short, in force and saved. If the request is answered with
  success, the node's nickname is the stripped text, not empty and at most 20 characters long, and
  with a writable state file the file holds it; the only other answer is 400 and changes nothing.
\<close>

theorem set_name_effect:
  assumes "handle_set_name ev (Json (CDict [(lit ''nickname'', CStr raw)])) s = (Inr reply, s', os)"
  shows "(reply = Reply 200 [(lit ''status'', CStr (lit ''ok'')), (lit ''nickname'', CStr (ms_nickname s'))] \<and>
      ms_nickname s' = strip is_space raw \<and> ms_nickname s' \<noteq> [] \<and> length (ms_nickname s') \<le> 20 \<and>
      st_nickname (ms_app s') = Some (ms_nickname s') \<and>
      (ev_wr ev \<noteq> None \<or> ms_file s' = Members (state_members (ms_app s')))) \<or>
    (reply = error_reply 400 ''invalid nickname'' \<and> s' = s \<and> os = [])"
proof (cases "strip is_space raw = [] \<or> length (strip is_space raw) > 20")
  case True
  with assms show ?thesis
    by (auto simp: handle_set_name_def body_get_def run_simps Let_def)
next
  case False
  let ?s = "fst (snd (mesh_save_state ev (s\<lparr>ms_nickname := strip is_space raw\<rparr>)))"
  from assms False obtain os1 where a: "send_announce ev ?s = (Inr (), s', os1)"
    and r: "reply = Reply 200 [(lit ''status'', CStr (lit ''ok'')), (lit ''nickname'', CStr (strip is_space raw))]"
    by (auto simp: handle_set_name_def body_get_def run_simps Let_def mesh_save_state_def)
  from obeysD [OF profile_send_announce a] have
    "ms_nickname s' = ms_nickname ?s" "ms_app s' = ms_app ?s" "ms_file s' = ms_file ?s"
    by (simp_all add: same_profile_def)
  moreover have "ms_nickname ?s = strip is_space raw" "st_nickname (ms_app ?s) = Some (strip is_space raw)"
    "ev_wr ev = None \<Longrightarrow> ms_file ?s = Members (state_members (ms_app ?s))"
    by (simp_all add: mesh_save_state_def modA_def Let_def save_state_def)
  ultimately show ?thesis using False r by auto
qed

lemma strip_bob: "strip is_space (lit '' bob '') = lit ''bob''"
  by (simp add: lit_def strip_def rstrip_def is_space_def)

lemma example_set_name:
  "\<exists>s' os. handle_set_name example_env (Json (CDict [(lit ''nickname'', CStr (lit '' bob ''))]))
      (mesh_init example_libs None (replicate 8 1) [7] default_state Absent transport_init) =
      (Inr (Reply 200 [(lit ''status'', CStr (lit ''ok'')), (lit ''nickname'', CStr (lit ''bob''))]), s', os)"
proof -
  let ?s = "mesh_init example_libs None (replicate 8 1) [7] default_state Absent transport_init"
  note n = strip_bob
  obtain t where t: "mesh_save_state example_env (?s\<lparr>ms_nickname := lit ''bob''\<rparr>) = (Inr (), t, [])"
    "ms_id t = hex (replicate 8 1)" "ms_nickname t = lit ''bob''" "ms_transport t = transport_init"
    by (simp add: mesh_save_state_def modA_def Let_def mesh_init_def)
  have u: "utf8_encode (lit ''bob'') = Inr [98, 111, 98]" by (simp add: lit_def utf8_enc1_def)
  obtain pkt where pkt: "create_bitchat_packet 5 (\<lambda>n. replicate n 0) (hex (replicate 8 1)) ANNOUNCE
      [98, 111, 98] = Inr pkt" "length pkt \<le> 288"
    using create_succeeds [OF fromhex_hex, of 5 "[98, 111, 98]" None BROADCAST_RECIPIENT
        "\<lambda>n. replicate n 0" "replicate 8 1" ANNOUNCE]
    by (auto simp: create_bitchat_packet_def recipient_field_def)
  have "send_announce example_env t = (Inr (), t, [])"
    using raw_send_all [of example_env pkt t] pkt u t(2-4)
    by (simp add: send_announce_def act_defs example_env_def transport_init_def)
  with t(1) n show ?thesis
    by (simp add: handle_set_name_def body_get_def act_defs Let_def lit_def)
qed

theorem set_name_effect_witness:
  "\<exists>s' os. handle_set_name example_env (Json (CDict [(lit ''nickname'', CStr (lit '' bob ''))]))
      (mesh_init example_libs None (replicate 8 1) [7] default_state Absent transport_init) =
      (Inr (Reply 200 [(lit ''status'', CStr (lit ''ok'')), (lit ''nickname'', CStr (lit ''bob''))]), s', os) \<and>
    ms_nickname s' = lit ''bob''"
proof -
  note n = strip_bob
  obtain s' os where r: "handle_set_name example_env (Json (CDict [(lit ''nickname'', CStr (lit '' bob ''))]))
      (mesh_init example_libs None (replicate 8 1) [7] default_state Absent transport_init) =
      (Inr (Reply 200 [(lit ''status'', CStr (lit ''ok'')), (lit ''nickname'', CStr (lit ''bob''))]), s', os)"
    using example_set_name by blast
  have "Reply 200 fs \<noteq> error_reply 400 m" for fs m by (simp add: error_reply_def)
  with set_name_effect [OF r] have "ms_nickname s' = strip is_space (lit '' bob '')" by blast
  with r show ?thesis unfolding n by blast
qed

text \<open>
  Disconnecting an address that is not connected fails the request. The transport reports the
  loss of no connection, the node's callback raises, and the API answers with a server error instead
  of 200; nothing else changes.
\<close>

theorem disconnect_unknown_fails:
  assumes "\<not> has_key (tr_connections (ms_transport s)) addr" and "addr \<noteq> []"
  shows "handle_disconnect (Json (CDict [(lit ''address'', CStr addr)])) s =
    (Inl AttributeError, s, [Net (Fire_disconnected None)])"
  using assms
  by (simp add: handle_disconnect_def body_get_def transportA_def disconnect_def act_defs has_key_def
      dict_del_absent)

theorem disconnect_unknown_fails_witness:
  "fst (handle_disconnect (Json (CDict [(lit ''address'', CStr (lit ''a:1''))]))
    (mesh_init example_libs None (replicate 8 1) [7] default_state Absent transport_init)) = Inl AttributeError"
  using disconnect_unknown_fails [of "mesh_init example_libs None (replicate 8 1) [7] default_state Absent
      transport_init" "lit ''a:1''"]
  by (simp add: mesh_init_def transport_init_def lit_def)

end
