(* ===== verification/Discovery.thy ===== *)
theory Discovery
  imports Decimal Interfaces
begin

text \<open>
  \<^verbatim>\<open>daemon/discovery.py\<close>: finding peers from the bootstrap list, from mDNS and by hand. The
  calls of \<open>on_peer_found\<close> are the outputs. \<open>start\<close> also says whether the coroutine
  returns: with a working mDNS listener it stays in its loop until \<open>stop\<close>.
\<close>

subsection \<open>State and operations\<close>

record discovery =
  ds_mdns_enabled :: bool
  ds_bootstrap :: "pystr list"
  ds_known :: "pystr set"
  ds_zeroconf :: bool
  ds_running :: bool

definition discovery_init :: "bool option \<Rightarrow> pystr list option \<Rightarrow> discovery" where
  "discovery_init mdns bootstrap =
     \<lparr>ds_mdns_enabled = (case mdns of Some b \<Rightarrow> b | None \<Rightarrow> True),
      ds_bootstrap = (case bootstrap of Some b \<Rightarrow> b | None \<Rightarrow> []),
      ds_known = {}, ds_zeroconf = False, ds_running = False\<rparr>"

text \<open>The step that all three sources share: report an address unless it is known.\<close>

definition found :: "pystr \<Rightarrow> int \<Rightarrow> discovery \<Rightarrow> discovery \<times> (pystr \<times> int) list" where
  "found host port d =
     (if address host port \<in> ds_known d then (d, [])
      else (d\<lparr>ds_known := insert (address host port) (ds_known d)\<rparr>, [(host, port)]))"

definition connect_bootstrap :: "pystr \<Rightarrow> discovery \<Rightarrow> discovery \<times> (pystr \<times> int) list" where
  "connect_bootstrap entry d =
     (case bindE (rsplit_colon entry) (\<lambda>(host, port_str). bindE (py_int port_str) (\<lambda>port. Inr (host, port))) of
        Inl e \<Rightarrow> (d, [])
      | Inr (host, port) \<Rightarrow> found host port d)"

fun connect_all :: "pystr list \<Rightarrow> discovery \<Rightarrow> discovery \<times> (pystr \<times> int) list" where
  "connect_all [] d = (d, [])"
| "connect_all (e # es) d =
     (case connect_bootstrap e d of (d', os) \<Rightarrow>
        (case connect_all es d' of (d'', os') \<Rightarrow> (d'', os @ os')))"

text \<open>A change that mDNS reports: whether a service was added, and its server name and port if known.\<close>

definition on_mdns_change :: "bool \<Rightarrow> (pystr \<times> int) option \<Rightarrow> discovery \<Rightarrow> discovery \<times> (pystr \<times> int) list" where
  "on_mdns_change added info d =
     (case info of
        Some (server, port) \<Rightarrow> if added then found (strip (\<lambda>c. c = 46) server) port d else (d, [])
      | None \<Rightarrow> (d, []))"

definition add_manual :: "pystr \<Rightarrow> int \<Rightarrow> discovery \<Rightarrow> discovery \<times> (pystr \<times> int) list" where
  "add_manual host port d = found host port d"

datatype start_result = Returned | Waiting

text \<open>\<open>mdns\<close> is the exception that importing or starting zeroconf raises, if any.\<close>

definition discovery_start ::
  "py_error option \<Rightarrow> discovery \<Rightarrow> start_result \<times> discovery \<times> (pystr \<times> int) list" where
  "discovery_start mdns d =
     (case connect_all (ds_bootstrap d) (d\<lparr>ds_running := True\<rparr>) of (d', os) \<Rightarrow>
        if ds_mdns_enabled d' then
          (case mdns of
             Some e \<Rightarrow> (Returned, d', os)
           | None \<Rightarrow> (Waiting, d'\<lparr>ds_zeroconf := True\<rparr>, os))
        else (Returned, d', os))"

definition discovery_stop :: "discovery \<Rightarrow> discovery" where
  "discovery_stop d = d\<lparr>ds_running := False\<rparr>"

subsection \<open>Each address once\<close>

text \<open>Reports of addresses, as a filter on pairs of host and port.\<close>

definition admit_peer :: "pystr \<times> int \<Rightarrow> discovery \<Rightarrow> bool \<times> discovery" where
  "admit_peer hp d = (case found (fst hp) (snd hp) d of (d', os) \<Rightarrow> (os \<noteq> [], d'))"

interpretation discover: once_filter "\<lambda>d hp. address (fst hp) (snd hp) \<in> ds_known d" admit_peer
  by unfold_locales (auto simp: admit_peer_def found_def)

datatype discovery_event = Bootstrap pystr | Mdns bool "(pystr \<times> int) option" | Manual pystr int

fun discovery_step :: "discovery_event \<Rightarrow> discovery \<Rightarrow> discovery \<times> (pystr \<times> int) list" where
  "discovery_step (Bootstrap entry) d = connect_bootstrap entry d"
| "discovery_step (Mdns added info) d = on_mdns_change added info d"
| "discovery_step (Manual host port) d = add_manual host port d"

fun discovery_run :: "discovery_event list \<Rightarrow> discovery \<Rightarrow> (pystr \<times> int) list" where
  "discovery_run [] d = []"
| "discovery_run (e # es) d = (case discovery_step e d of (d', os) \<Rightarrow> os @ discovery_run es d')"

text \<open>The host and port an event names, if it names any.\<close>

fun event_peer :: "discovery_event \<Rightarrow> (pystr \<times> int) option" where
  "event_peer (Bootstrap entry) =
     (case bindE (rsplit_colon entry) (\<lambda>(host, port_str). bindE (py_int port_str) (\<lambda>port. Inr (host, port))) of
        Inl e \<Rightarrow> None | Inr hp \<Rightarrow> Some hp)"
| "event_peer (Mdns added info) =
     (if added then map_option (\<lambda>(server, port). (strip (\<lambda>c. c = 46) server, port)) info else None)"
| "event_peer (Manual host port) = Some (host, port)"

lemma discovery_step_found:
  "discovery_step e d = (case event_peer e of Some (host, port) \<Rightarrow> found host port d | None \<Rightarrow> (d, []))"
  by (cases e) (auto simp: connect_bootstrap_def on_mdns_change_def add_manual_def
      split: sum.split option.split prod.split)

lemma discovery_run_grants:
  "discovery_run es d = grants admit_peer d (List.map_filter event_peer es)"
proof (induction es arbitrary: d)
  case (Cons e es)
  show ?case
  proof (cases "event_peer e")
    case None
    with Cons show ?thesis by (simp add: discovery_step_found List.map_filter_simps)
  next
    case (Some hp)
    with Cons show ?thesis
      by (cases hp) (auto simp: discovery_step_found List.map_filter_simps admit_peer_def found_def)
  qed
qed (simp add: List.map_filter_simps)

text \<open>
  Discovery reports every new address exactly once. Over any mixture of bootstrap entries, mDNS
  changes and manual additions, the daemon is told to connect to exactly the hosts and ports that
  occur and were not known, each once, whichever source names them and however often.
\<close>

theorem discovery_reports_once:
  "distinct (discovery_run es d) \<and>
   set (discovery_run es d) = {(h, p). Some (h, p) \<in> event_peer ` set es \<and> address h p \<notin> ds_known d}"
proof -
  have "set (List.map_filter event_peer es) = {hp. Some hp \<in> event_peer ` set es}"
    by (induction es) (auto simp: List.map_filter_simps split: option.split)
  then show ?thesis
    unfolding discovery_run_grants
    using discover.distinct_grants discover.set_grants [of d "List.map_filter event_peer es"] by auto
qed

text \<open>
  A bootstrap entry names the peer it is meant to name: the printed address of any host, IPv6
  literals with their colons included, and any port is read back as that host and port; an entry
  without a colon or with a port that is not a number is skipped.
\<close>

theorem bootstrap_entry_roundtrip:
  "connect_bootstrap (address host port) d = found host port d \<and>
   (58 \<notin> set entry \<longrightarrow> connect_bootstrap entry d = (d, []))"
proof -
  have "58 \<notin> set entry \<Longrightarrow> rsplit_colon entry = Inl ValueError" by (simp add: rsplit_colon_def)
  then show ?thesis by (simp add: connect_bootstrap_def rsplit_address py_int_dec_int)
qed

theorem bootstrap_entry_roundtrip_witness:
  "connect_bootstrap (lit ''localhost'') (discovery_init None None) = (discovery_init None None, [])"
  using bootstrap_entry_roundtrip [of "[]" 0 "discovery_init None None" "lit ''localhost''"]
  by (simp add: lit_def)

end
