(* ===== verification/Daemon.thy ===== *)
theory Daemon
  imports Api Discovery
begin

text \<open>
  \<^verbatim>\<open>daemon/__main__.py\<close>: the \<open>Daemon\<close> that starts and stops the components and connects
  to the peers that discovery finds, and the command line's settings. Logging is not modelled.
\<close>

subsection \<open>The daemon\<close>

record daemon =
  dm_mesh :: mesh
  dm_discovery :: discovery
  dm_connecting :: "(pystr \<times> int) list"
  dm_ws :: ws_server
  dm_wired :: bool
  dm_serving :: bool
  dm_running :: bool

definition daemon_init :: "mesh \<Rightarrow> discovery \<Rightarrow> daemon" where
  "daemon_init m d = \<lparr>dm_mesh = m, dm_discovery = d, dm_connecting = [], dm_ws = ws_init, dm_wired = False,
     dm_serving = False, dm_running = False\<rparr>"

text \<open>
  \<open>HttpServer.start\<close>: \<open>serve\<close> is the exception of opening the API port, if any. \<open>daemon_ready\<close>
  is the end of \<open>Daemon.start\<close>, after the discovery: from then on new connections send our identity
  (\<open>dm_wired\<close>), and the HTTP server runs (\<open>dm_serving\<close>).
\<close>

definition http_start :: "py_error option \<Rightarrow> daemon \<Rightarrow> unit res \<times> daemon" where
  "http_start serve d = (case serve of Some e \<Rightarrow> (Inl e, d) | None \<Rightarrow> (Inr (), d\<lparr>dm_serving := True\<rparr>))"

definition daemon_ready :: "py_error option \<Rightarrow> daemon \<Rightarrow> unit res \<times> daemon" where
  "daemon_ready serve d = http_start serve (d\<lparr>dm_wired := True\<rparr>)"

text \<open>
  \<open>Daemon.start\<close>: \<open>bind\<close> is the exception of opening the TCP port, if any, \<open>mdns\<close> that of
  starting mDNS. The result says whether the coroutine returned, still waits in the discovery, or
  raised.
\<close>

definition daemon_start ::
  "py_error option \<Rightarrow> py_error option \<Rightarrow> py_error option \<Rightarrow> daemon \<Rightarrow> start_result res \<times> daemon" where
  "daemon_start bind mdns serve d =
     (case bind of
        Some e \<Rightarrow> (Inl e, d\<lparr>dm_running := True\<rparr>)
      | None \<Rightarrow>
          let d1 = d\<lparr>dm_running := True,
                dm_mesh := (dm_mesh d)\<lparr>ms_transport := start_server (ms_transport (dm_mesh d))\<rparr>\<rparr>
          in
          (case discovery_start mdns (dm_discovery d1) of (r, disc, hps) \<Rightarrow>
             let d2 = d1\<lparr>dm_discovery := disc, dm_connecting := dm_connecting d1 @ hps\<rparr> in
             (case r of
                Waiting \<Rightarrow> (Inr Waiting, d2)
              | Returned \<Rightarrow>
                  (case daemon_ready serve d2 of (Inl e, d3) \<Rightarrow> (Inl e, d3) | (Inr _, d3) \<Rightarrow> (Inr Returned, d3)))))"

text \<open>
  \<open>_connect_to_peer\<close>, the task that \<open>_on_peer_discovered\<close> creates for the first address of
  \<open>dm_connecting\<close>: a refused connection is logged. The node is told of the connection only once
  \<open>on_connected\<close> is wired.
\<close>

definition connect_to_peer :: "nat res \<Rightarrow> bool \<Rightarrow> pystr \<Rightarrow> int \<Rightarrow> unit act" where
  "connect_to_peer result wired host port s =
     (case (if wired then connectA result host port
            else transportA (\<lambda>t. case connect result host port t of
              (r, t', es) \<Rightarrow> (case r of Inl e \<Rightarrow> Inl e | Inr c \<Rightarrow> Inr (), t', es))) s of
        (Inl e, s', os) \<Rightarrow> (if is_OSError e then Inr () else Inl e, s', os)
      | (Inr _, s', os) \<Rightarrow> (Inr (), s', os))"

definition connect_next :: "nat res \<Rightarrow> daemon \<Rightarrow> unit res \<times> daemon \<times> node_output list" where
  "connect_next result d =
     (case dm_connecting d of
        [] \<Rightarrow> (Inr (), d, [])
      | (host, port) # rest \<Rightarrow>
          (case connect_to_peer result (dm_wired d) host port (dm_mesh d) of
             (r, m, os) \<Rightarrow> (r, d\<lparr>dm_mesh := m, dm_connecting := rest\<rparr>, os)))"

text \<open>
  \<open>Daemon.stop\<close> in the pieces between which other coroutines run. \<open>Announcing\<close>: \<open>send_leave\<close> is about to
  run, and the loop over the clients begins. \<open>Closing\<close>: the loop awaits the close of a client's socket.
  \<open>Cleaning\<close>: it awaits the cleanup of the HTTP server; when that is over, the discovery is stopped, the
  state is saved, the connections and the TCP port are closed. \<open>Waiting_closed\<close>: it awaits
  \<open>wait_closed()\<close>, which may never return. The result is the next stage, None when \<open>stop\<close> has returned, or
  the exception that ended it, after which nothing of the rest is done.
\<close>

datatype stop_stage = Announcing | Closing "nat list" "nat list" | Cleaning | Waiting_closed

definition closing_stage :: "(nat list \<times> nat list) option \<Rightarrow> stop_stage" where
  "closing_stage r = (case r of Some (snap, todo) \<Rightarrow> Closing snap todo | None \<Rightarrow> Cleaning)"

definition close_next ::
  "(nat \<Rightarrow> bool) \<Rightarrow> nat list \<Rightarrow> nat list \<Rightarrow> nat list \<Rightarrow> daemon \<Rightarrow> stop_stage option res \<times> daemon" where
  "close_next is_closed redo snap todo d =
     (case http_stop_next is_closed redo snap todo (dm_ws d) of
        (Inl e, ws) \<Rightarrow> (Inl e, d\<lparr>dm_ws := ws\<rparr>)
      | (Inr r, ws) \<Rightarrow> (Inr (Some (closing_stage r)), d\<lparr>dm_ws := ws\<rparr>))"

fun daemon_stop ::
  "env \<Rightarrow> (nat \<Rightarrow> bool) \<Rightarrow> nat list \<Rightarrow> stop_stage \<Rightarrow> daemon \<Rightarrow> stop_stage option res \<times> daemon \<times> node_output list" where
  "daemon_stop ev is_closed redo Announcing d =
     (case send_leave ev (dm_mesh d) of
        (Inl e, m, os) \<Rightarrow> (Inl e, d\<lparr>dm_mesh := m\<rparr>, os)
      | (Inr _, m, os) \<Rightarrow>
          (case close_next is_closed [] (ws_clients (dm_ws d)) (ws_clients (dm_ws d)) (d\<lparr>dm_mesh := m\<rparr>) of
             (r, d') \<Rightarrow> (r, d', os)))"
| "daemon_stop ev is_closed redo (Closing snap todo) d =
     (case close_next is_closed redo snap todo d of (r, d') \<Rightarrow> (r, d', []))"
| "daemon_stop ev is_closed redo Cleaning d =
     (case mesh_save_state ev (dm_mesh d) of (_, m, _) \<Rightarrow>
        (case transport_stop (ms_transport m) of (t, es) \<Rightarrow>
           (Inr (Some Waiting_closed),
            d\<lparr>dm_mesh := m\<lparr>ms_transport := t\<rparr>, dm_serving := False,
              dm_discovery := discovery_stop (dm_discovery d)\<rparr>,
            map Net es)))"
| "daemon_stop ev is_closed redo Waiting_closed d = (Inr None, d\<lparr>dm_running := False\<rparr>, [])"

subsection \<open>The command line\<close>

record args =
  arg_port :: "int option"
  arg_api_port :: "int option"
  arg_nickname :: "pystr option"
  arg_debug :: bool

definition setting :: "'a option \<Rightarrow> ('a \<Rightarrow> bool) \<Rightarrow> ('a \<Rightarrow> 'b \<Rightarrow> 'b res) \<Rightarrow> 'b \<Rightarrow> 'b res" where
  "setting v falsy f ch = (case v of None \<Rightarrow> Inr ch | Some x \<Rightarrow> if falsy x then Inr ch else f x ch)"

text \<open>\<open>main\<close> up to the configuration of the daemon: 0 and the empty string count as not given.\<close>

definition apply_args :: "args \<Rightarrow> config \<times> defaults \<Rightarrow> (config \<times> defaults) res" where
  "apply_args a ch =
     bindE (setting (arg_port a) (\<lambda>p. p = 0) (\<lambda>p. set_option (lit ''node'') (lit ''port'') (CInt p)) ch) (\<lambda>ch.
     bindE (setting (arg_api_port a) (\<lambda>p. p = 0) (\<lambda>p ch.
       bindE (set_option (lit ''api'') (lit ''rest_port'') (CInt p) ch)
         (set_option (lit ''api'') (lit ''ws_port'') (CInt p))) ch) (\<lambda>ch.
     bindE (setting (arg_nickname a) (\<lambda>n. n = []) (\<lambda>n. set_option (lit ''node'') (lit ''nickname'') (CStr n)) ch) (\<lambda>ch.
     if arg_debug a then set_option (lit ''logging'') (lit ''level'') (CStr (lit ''DEBUG'')) ch else Inr ch)))"

definition main_config :: "cvalue res option \<Rightarrow> environ \<Rightarrow> args \<Rightarrow> defaults \<Rightarrow> (config \<times> defaults) res" where
  "main_config content e a h = bindE (load_config content e h) (apply_args a)"

subsection \<open>Starting\<close>

lemma connect_bootstrap_keeps:
  "ds_mdns_enabled (fst (connect_bootstrap e d)) = ds_mdns_enabled d"
  "ds_running (fst (connect_bootstrap e d)) = ds_running d"
  by (auto simp: connect_bootstrap_def found_def split: sum.split prod.split)

lemma connect_all_keeps_mdns: "ds_mdns_enabled (fst (connect_all es d)) = ds_mdns_enabled d"
  by (induction es arbitrary: d) (simp_all add: case_prod_unfold connect_bootstrap_keeps)

lemma connect_all_keeps_running: "ds_running (fst (connect_all es d)) = ds_running d"
  by (induction es arbitrary: d) (simp_all add: case_prod_unfold connect_bootstrap_keeps)

text \<open>
  With working mDNS the daemon never finishes starting. When the port can be bound, mDNS is
  enabled and zeroconf works, \<open>start\<close> waits inside discovery: the HTTP server is not started and
  new connections do not send our identity; without mDNS it returns with both in place. In every case
  the bootstrap peers are being connected.
\<close>

theorem mdns_blocks_start:
  assumes "\<not> dm_wired d" and "\<not> dm_serving d"
    and "waits = (ds_mdns_enabled (dm_discovery d) \<and> mdns = None)"
  shows "\<exists>d'. daemon_start None mdns None d = (Inr (if waits then Waiting else Returned), d') \<and>
    (dm_serving d' \<longleftrightarrow> \<not> waits) \<and> (dm_wired d' \<longleftrightarrow> \<not> waits) \<and>
    dm_connecting d' = dm_connecting d @
      snd (connect_all (ds_bootstrap (dm_discovery d)) ((dm_discovery d)\<lparr>ds_running := True\<rparr>))"
proof -
  obtain disc os where c: "connect_all (ds_bootstrap (dm_discovery d)) ((dm_discovery d)\<lparr>ds_running := True\<rparr>) =
      (disc, os)" by (rule prod.exhaust)
  have "ds_mdns_enabled disc = ds_mdns_enabled (dm_discovery d)"
    using connect_all_keeps_mdns [of "ds_bootstrap (dm_discovery d)" "(dm_discovery d)\<lparr>ds_running := True\<rparr>"]
    by (simp add: c)
  with assms c show ?thesis
    by (auto simp: daemon_start_def daemon_ready_def http_start_def discovery_start_def Let_def split: option.split)
qed

theorem mdns_blocks_start_witness:
  "\<exists>d'. daemon_start None None None (daemon_init
      (mesh_init example_libs None (replicate 8 1) [7] default_state Absent transport_init)
      (discovery_init None None)) = (Inr Waiting, d') \<and> \<not> dm_serving d' \<and> \<not> dm_wired d'"
  using mdns_blocks_start [of "daemon_init
      (mesh_init example_libs None (replicate 8 1) [7] default_state Absent transport_init)
      (discovery_init None None)" True None]
  by (auto simp: daemon_init_def discovery_init_def)

subsection \<open>Stopping\<close>

text \<open>
  A WebSocket client that comes or goes keeps the daemon from stopping. If a client leaves or a new one
  joins while \<open>stop\<close> awaits the close of a socket, \<open>stop\<close> raises when it goes on: the state is not saved,
  and the transport, the discovery and the HTTP server go on.
\<close>

theorem changed_clients_end_shutdown:
  shows "ws \<in> set (ws_clients (dm_ws d)) \<Longrightarrow>
    daemon_stop ev is_closed redo (Closing (ws_clients (dm_ws d)) todo) (d\<lparr>dm_ws := ws_leave ws (dm_ws d)\<rparr>) =
      (Inl RuntimeError, d\<lparr>dm_ws := ws_leave ws (dm_ws d)\<rparr>, [])"
    and "ws \<notin> set (ws_clients (dm_ws d)) \<Longrightarrow> ws_step is_closed fails (Ws_open ws) (dm_ws d) = (s, fs) \<Longrightarrow>
    daemon_stop ev is_closed redo (Closing (ws_clients (dm_ws d)) todo) (d\<lparr>dm_ws := s\<rparr>) =
      (Inl RuntimeError, d\<lparr>dm_ws := s\<rparr>, [])"
proof -
  assume "ws \<in> set (ws_clients (dm_ws d))"
  then have "length (ws_clients (ws_leave ws (dm_ws d))) < length (ws_clients (dm_ws d))"
    by (simp add: ws_leave_def length_removeAll_less)
  then show "daemon_stop ev is_closed redo (Closing (ws_clients (dm_ws d)) todo) (d\<lparr>dm_ws := ws_leave ws (dm_ws d)\<rparr>) =
      (Inl RuntimeError, d\<lparr>dm_ws := ws_leave ws (dm_ws d)\<rparr>, [])"
    by (simp add: close_next_def http_stop_next_def)
next
  assume "ws \<notin> set (ws_clients (dm_ws d))" and "ws_step is_closed fails (Ws_open ws) (dm_ws d) = (s, fs)"
  then have "length (ws_clients s) = Suc (length (ws_clients (dm_ws d)))" by auto
  then show "daemon_stop ev is_closed redo (Closing (ws_clients (dm_ws d)) todo) (d\<lparr>dm_ws := s\<rparr>) =
      (Inl RuntimeError, d\<lparr>dm_ws := s\<rparr>, [])"
    by (simp add: close_next_def http_stop_next_def)
qed

text \<open>A node without connections announces its departure to nobody.\<close>

lemma lonely_leave:
  assumes m: "ms_id m = hex (replicate 8 1)" "ms_nickname m = [98]" "tr_connections (ms_transport m) = []"
  shows "send_leave example_env m = (Inr (), m, [])"
proof -
  obtain pkt where pkt: "create_bitchat_packet 5 (\<lambda>n. replicate n 0) (hex (replicate 8 1)) LEAVE [98] = Inr pkt"
    "length pkt \<le> 288"
    using create_succeeds [OF fromhex_hex, of 5 "[98]" None BROADCAST_RECIPIENT
        "\<lambda>n. replicate n 0" "replicate 8 1" LEAVE]
    by (auto simp: create_bitchat_packet_def recipient_field_def)
  show ?thesis
    using raw_send_all [of example_env pkt m] pkt m
    by (simp add: send_leave_def act_defs example_env_def utf8_enc1_def)
qed

subsection \<open>Settings\<close>

text \<open>A shared section is the section of the same name.\<close>

definition aligned :: "config \<Rightarrow> bool" where
  "aligned c \<longleftrightarrow> (\<forall>sec r. dict_get c sec = Some (Shared r) \<longrightarrow> r = sec)"

lemma set_option_cases:
  assumes "set_option sec key v ch = Inr ch'"
  obtains (shared) r where "dict_get (fst ch) sec = Some (Shared r)"
      "ch' = (fst ch, dict_set (snd ch) r (dict_set (case dict_get (snd ch) r of Some d \<Rightarrow> d | None \<Rightarrow> []) key v))"
  | (own) d where "dict_get (fst ch) sec = Some (Own (CDict d))"
      "ch' = (dict_set (fst ch) sec (Own (CDict (dict_set d key v))), snd ch)"
  using assms by (auto simp: set_option_def split: option.splits entry.splits cvalue.splits)

lemma set_option_aligned:
  assumes "aligned (fst ch)" and "set_option sec key v ch = Inr ch'"
  shows "aligned (fst ch')"
  using assms(2)
proof (cases rule: set_option_cases)
  case (own d)
  with assms(1) show ?thesis by (simp add: aligned_def)
qed (simp add: assms(1))

lemma get_set_option:
  assumes "aligned (fst ch)" and "set_option sec key v ch = Inr ch'"
  shows "get_option s k ch' = (if s = sec \<and> k = key then Some v else get_option s k ch)"
  using assms(2)
proof (cases rule: set_option_cases)
  case (shared r)
  with assms(1) have r: "r = sec" by (simp add: aligned_def)
  show ?thesis
  proof (cases "s = sec")
    case True
    with shared r show ?thesis by (simp add: get_option_def split: option.split)
  next
    case False
    have "dict_get (fst ch) s \<noteq> Some (Shared sec)" using False assms(1) by (auto simp: aligned_def)
    then show ?thesis using False shared(2) r
      by (auto simp: get_option_def split: option.split entry.split)
  qed
next
  case (own d)
  then show ?thesis by (auto simp: get_option_def split: option.split entry.split)
qed

lemma merge_aligned: "aligned (fst ch) \<Longrightarrow> aligned (fst (merge_config ch overlay))"
proof (induction ch overlay rule: merge_config.induct)
  case (2 c h key v overlay)
  have "aligned (fst (case v of CNull \<Rightarrow> (c, h)
        | CDict d \<Rightarrow>
            (case dict_get c key of
               Some (Shared sec) \<Rightarrow>
                 (c, dict_set h sec (deep_merge (case dict_get h sec of Some b \<Rightarrow> b | None \<Rightarrow> []) d))
             | Some (Own (CDict b)) \<Rightarrow> (dict_set c key (Own (CDict (deep_merge b d))), h)
             | _ \<Rightarrow> (dict_set c key (Own v), h))
        | _ \<Rightarrow> (dict_set c key (Own v), h)))"
    using "2.prems"
    by (auto simp: aligned_def split: cvalue.split option.split entry.split)
  with "2.IH" show ?case by simp
qed simp

text \<open>The value that the command line gives an option, if any.\<close>

definition arg_value :: "args \<Rightarrow> pystr \<Rightarrow> pystr \<Rightarrow> cvalue option" where
  "arg_value a sec key =
     (if sec = lit ''node'' \<and> key = lit ''port'' then
        (case arg_port a of Some p \<Rightarrow> if p = 0 then None else Some (CInt p) | None \<Rightarrow> None)
      else if sec = lit ''api'' \<and> (key = lit ''rest_port'' \<or> key = lit ''ws_port'') then
        (case arg_api_port a of Some p \<Rightarrow> if p = 0 then None else Some (CInt p) | None \<Rightarrow> None)
      else if sec = lit ''node'' \<and> key = lit ''nickname'' then
        (case arg_nickname a of Some n \<Rightarrow> if n = [] then None else Some (CStr n) | None \<Rightarrow> None)
      else if sec = lit ''logging'' \<and> key = lit ''level'' \<and> arg_debug a then Some (CStr (lit ''DEBUG''))
      else None)"

text \<open>An operation on configurations that sets the options \<open>new\<close> gives and keeps the others.\<close>

definition sets :: "(pystr \<Rightarrow> pystr \<Rightarrow> cvalue option) \<Rightarrow> (config \<times> defaults \<Rightarrow> (config \<times> defaults) res) \<Rightarrow> bool" where
  "sets new f \<longleftrightarrow> (\<forall>ch ch'. aligned (fst ch) \<longrightarrow> f ch = Inr ch' \<longrightarrow> aligned (fst ch') \<and>
     (\<forall>s k. get_option s k ch' = (case new s k of Some v \<Rightarrow> Some v | None \<Rightarrow> get_option s k ch)))"

lemma setsD:
  assumes "sets new f" and "aligned (fst ch)" and "f ch = Inr ch'"
  shows "aligned (fst ch')"
    and "get_option s k ch' = (case new s k of Some v \<Rightarrow> Some v | None \<Rightarrow> get_option s k ch)"
  using assms unfolding sets_def by blast+

lemma sets_set_option: "sets (\<lambda>s k. if s = sec \<and> k = key then Some v else None) (set_option sec key v)"
  unfolding sets_def using get_set_option set_option_aligned by auto

lemma sets_id: "sets (\<lambda>s k. None) Inr"
  by (simp add: sets_def)

lemma sets_setting:
  assumes "\<And>x. sets (new x) (f x)"
  shows "sets (\<lambda>s k. case v of Some x \<Rightarrow> if falsy x then None else new x s k | None \<Rightarrow> None) (setting v falsy f)"
  using assms by (auto simp: sets_def setting_def split: option.split)

lemma sets_bindE:
  assumes "sets new f" and "sets new' g"
  shows "sets (\<lambda>s k. case new' s k of Some v \<Rightarrow> Some v | None \<Rightarrow> new s k) (\<lambda>ch. bindE (f ch) g)"
  unfolding sets_def
proof (intro allI impI)
  fix ch ch''
  assume a: "aligned (fst ch)" and r: "bindE (f ch) g = Inr ch''"
  from r obtain ch' where f: "f ch = Inr ch'" and g: "g ch' = Inr ch''"
    by (auto simp: bindE_def split: sum.splits)
  note 1 = setsD [OF assms(1) a f]
  note 2 = setsD [OF assms(2) 1(1) g]
  show "aligned (fst ch'') \<and> (\<forall>s k. get_option s k ch'' =
      (case case new' s k of Some v \<Rightarrow> Some v | None \<Rightarrow> new s k of
         Some v \<Rightarrow> Some v | None \<Rightarrow> get_option s k ch))"
    by (auto simp: 1(2) 2 split: option.split)
qed

lemma sets_cong: "sets new f \<Longrightarrow> (\<And>s k. new s k = new' s k) \<Longrightarrow> sets new' f"
  by (simp add: sets_def)

lemmas sets_rules = sets_bindE sets_setting sets_set_option sets_id

lemma apply_args_sets: "sets (arg_value a) (apply_args a)"
proof -
  have d: "sets (\<lambda>s k. if s = lit ''logging'' \<and> k = lit ''level'' \<and> arg_debug a then Some (CStr (lit ''DEBUG'')) else None)
      (\<lambda>ch. if arg_debug a then set_option (lit ''logging'') (lit ''level'') (CStr (lit ''DEBUG'')) ch else Inr ch)"
    using sets_set_option [of "lit ''logging''" "lit ''level''" "CStr (lit ''DEBUG'')"] sets_id
    by (cases "arg_debug a") simp_all
  show ?thesis
    unfolding apply_args_def
    apply (rule sets_cong)
     apply (rule sets_bindE sets_setting sets_set_option d)+
    apply (auto simp: arg_value_def lit_neq split: option.split)
    done
qed

lemma apply_environ_aligned:
  assumes "aligned (fst ch)" and "apply_environ e ch = Inr ch'"
  shows "aligned (fst ch')"
proof -
  have o: "\<exists>new. sets new (override v f)" if "\<And>v. \<exists>new. sets new (f v)" for v f
    using that [of v] sets_id by (cases "v = []") (auto simp: override_def [abs_def] cong: if_cong)
  have i: "\<exists>new. sets new (\<lambda>ch. bindE (py_int v) (\<lambda>p. f p ch))" if "\<And>p. \<exists>new. sets new (f p)" for v f
    using that by (cases "py_int v") (auto simp: bindE_def sets_def)
  have b: "\<exists>new. sets new (\<lambda>ch. bindE (f ch) g)" if "\<exists>new. sets new f" "\<exists>new. sets new g" for f g
    using that sets_bindE by blast
  have s: "\<exists>new. sets new (set_option sec key v)" for sec key v using sets_set_option by blast
  have "\<exists>new. sets new (apply_environ e)"
    unfolding apply_environ_def by (intro b o i s)
  with assms show ?thesis using setsD(1) by blast
qed

lemma load_config_aligned:
  assumes "load_config content e h = Inr ch"
  shows "aligned (fst ch)"
proof -
  let ?c = "map (\<lambda>(sec, d). (sec, Shared sec)) h"
  have m: "aligned ?c" by (induction h) (auto simp: aligned_def)
  define merged where "merged = (case content of
      Some (Inr (CDict overlay)) \<Rightarrow> merge_config (?c, h) overlay | _ \<Rightarrow> (?c, h))"
  have "aligned (fst merged)"
    using m merge_aligned [of "(?c, h)"] by (auto simp: merged_def split: option.split sum.split cvalue.split)
  moreover have "apply_environ e merged = Inr ch"
    using assms by (simp add: load_config_def merged_def Let_def)
  ultimately show ?thesis using apply_environ_aligned by blast
qed

text \<open>
  C36: the command line overrides the environment and the file. An option that the command line gives
  has that value in the daemon's configuration (the API port in both of its options, 0 and the empty
  string counting as not given), and every other option has the value it was loaded with.
\<close>

theorem arguments_override:
  assumes "main_config content e a h = Inr ch"
  shows "\<exists>ch0. load_config content e h = Inr ch0 \<and>
    (\<forall>s k. get_option s k ch = (case arg_value a s k of Some v \<Rightarrow> Some v | None \<Rightarrow> get_option s k ch0))"
proof -
  from assms obtain ch0 where l: "load_config content e h = Inr ch0" and a: "apply_args a ch0 = Inr ch"
    by (auto simp: main_config_def bindE_def split: sum.splits)
  show ?thesis using l setsD(2) [OF apply_args_sets load_config_aligned [OF l] a] by blast
qed

definition example_args :: args where
  "example_args = \<lparr>arg_port = Some 9000, arg_api_port = None, arg_nickname = Some [97], arg_debug = False\<rparr>"

lemma example_main_config:
  "\<exists>ch. main_config None (no_environ\<lparr>env_port := dec_int 7\<rparr>) example_args (default_config []) = Inr ch"
proof -
  have "dec_int 7 \<noteq> []" by (simp add: dec_int_def)
  then show ?thesis
    by (simp add: main_config_def load_config_def apply_environ_def override_def no_environ_def py_int_dec_int
        default_config_def set_option_def lit_neq apply_args_def setting_def example_args_def)
qed

theorem arguments_override_witness:
  "\<exists>ch. main_config None (no_environ\<lparr>env_port := dec_int 7\<rparr>) example_args (default_config []) = Inr ch \<and>
     get_option (lit ''node'') (lit ''port'') ch = Some (CInt 9000)"
proof -
  obtain ch where c: "main_config None (no_environ\<lparr>env_port := dec_int 7\<rparr>) example_args (default_config []) = Inr ch"
    using example_main_config by blast
  from arguments_override [OF c] have "get_option (lit ''node'') (lit ''port'') ch = Some (CInt 9000)"
    by (auto simp: arg_value_def example_args_def)
  with c show ?thesis by blast
qed

end
