(* ===== verification/Contract.thy ===== *)
theory Contract
  imports Overlay
begin

text \<open>
  What the application of a node may rely on, as an abstract chat service: a set of messages seen, a
  table of members, and the reports that go with their changes. Every run of \<open>MeshNode\<close>, seen
  through its reports, is a run of this service.
\<close>

subsection \<open>The abstract service\<close>

record chat_service =
  seen :: "pystr set"
  members :: "pystr \<rightharpoonup> pystr"

inductive promise :: "chat_service \<Rightarrow> node_output list \<Rightarrow> chat_service \<Rightarrow> bool" where
  idle: "promise v [] v"
| acknowledged: "promise v [Ack_received a] v"
| message: "msg_id m \<notin> seen v \<Longrightarrow> promise v [Message_received m p pr] (v\<lparr>seen := insert (msg_id m) (seen v)\<rparr>)"
| joined: "members v p = None \<Longrightarrow> promise v [Peer_joined p n] (v\<lparr>members := (members v)(p \<mapsto> n)\<rparr>)"
| renamed: "members v p \<noteq> None \<Longrightarrow> promise v [] (v\<lparr>members := (members v)(p \<mapsto> n)\<rparr>)"
| left: "members v p = Some n \<Longrightarrow> n \<noteq> [] \<Longrightarrow> promise v [Peer_left p n] (v\<lparr>members := (members v)(p := None)\<rparr>)"
| left_nameless: "members v p = Some [] \<Longrightarrow> promise v [] (v\<lparr>members := (members v)(p := None)\<rparr>)"

abbreviation promised :: "chat_service \<Rightarrow> node_output list \<Rightarrow> chat_service \<Rightarrow> bool" where
  "promised \<equiv> runs promise"

subsection \<open>The abstraction\<close>

definition abs_node :: "mesh \<Rightarrow> chat_service" where
  "abs_node s = \<lparr>seen = ms_processed s, members = (\<lambda>p.
     case dict_get (ms_peers s) p of Some (Some n) \<Rightarrow> Some n | Some None \<Rightarrow> Some [] | None \<Rightarrow> None)\<rparr>"

text \<open>What the application hears: everything but the traffic of the transport.\<close>

fun heard :: "node_output list \<Rightarrow> node_output list" where
  "heard [] = []"
| "heard (Net e # os) = heard os"
| "heard (x # os) = x # heard os"

lemma heard_append [simp]: "heard (os @ os') = heard os @ heard os'"
  by (induction os rule: heard.induct) auto

lemma members_set:
  "abs_node (s\<lparr>ms_peers := dict_set (ms_peers s) p (Some n)\<rparr>) = (abs_node s)\<lparr>members := (members (abs_node s))(p \<mapsto> n)\<rparr>"
  by (auto simp: abs_node_def)

lemma members_del:
  "abs_node (s\<lparr>ms_peers := dict_del (ms_peers s) p\<rparr>) = (abs_node s)\<lparr>members := (members (abs_node s))(p := None)\<rparr>"
  by (auto simp: abs_node_def)

lemma members_key: "members (abs_node s) p = None \<longleftrightarrow> \<not> has_key (ms_peers s) p"
  by (simp add: abs_node_def has_key_def split: option.split)

text \<open>A change of the node that the service does not see.\<close>

lemma promise_same: "abs_node s' = abs_node s \<Longrightarrow> promise (abs_node s) [] (abs_node s')"
  by (simp add: promise.idle)

lemma part_silently_promise:
  assumes "\<forall>n. dict_get (ms_peers s) p = Some (Some n) \<longrightarrow> n = []"
  shows "promise (abs_node s) [] (abs_node (s\<lparr>ms_peers := dict_del (ms_peers s) p\<rparr>))"
proof (cases "members (abs_node s) p")
  case None
  then have "(members (abs_node s))(p := None) = members (abs_node s)" by auto
  then have "abs_node (s\<lparr>ms_peers := dict_del (ms_peers s) p\<rparr>) = abs_node s" by (simp add: members_del)
  then show ?thesis by (rule promise_same)
next
  case (Some n)
  with assms have "members (abs_node s) p = Some []"
    by (auto simp: abs_node_def split: option.splits)
  then show ?thesis unfolding members_del by (rule promise.left_nameless)
qed

lemma change_promise: "change lb s os s' \<Longrightarrow> promise (abs_node s) (heard os) (abs_node s')"
proof (induction rule: change.induct)
  case (deliver m s p pr)
  have "abs_node (s\<lparr>ms_processed := insert (msg_id m) (ms_processed s)\<rparr>) =
      (abs_node s)\<lparr>seen := insert (msg_id m) (seen (abs_node s))\<rparr>" by (simp add: abs_node_def)
  with deliver promise.message [of m "abs_node s" p pr] show ?case by (simp add: abs_node_def)
next
  case (join s p n)
  then show ?case by (simp add: members_set members_key promise.joined)
next
  case (rename s p n)
  then show ?case unfolding members_set by (simp add: members_key promise.renamed)
next
  case (part s p n)
  then have "members (abs_node s) p = Some n" by (simp add: abs_node_def)
  with part(2) show ?case by (simp add: members_del promise.left)
next
  case (part_silently s p)
  then show ?case by (simp add: part_silently_promise)
qed (simp_all add: promise.idle promise.acknowledged abs_node_def)

interpretation service: simulates "change lb" promise abs_node heard for lb
  by unfold_locales (simp_all add: runs_one change_promise)

text \<open>
  C10: a node implements the abstract chat service. Whatever packets arrive, in whatever order tasks run
  and connections come and go, what the node reports to its application is a run of the service from
  the abstraction of its state before to the abstraction of its state after: a message is reported
  only when it is new, a peer as joined only when it was not a member, and as left only under the
  nickname it had.
\<close>

theorem node_implements_service:
  "promised (abs_node s) (heard (node_trace lb es s)) (abs_node (fold (node_step lb) es s))"
  by (rule service.run_simulated [OF node_trace_changes])

end
