(* ===== verification/Lifecycle.thy ===== *)
theory Lifecycle
  imports Daemon Contract "HOL-Library.Multiset"
begin

text \<open>
  The daemon as a program: \<open>run_forever\<close> of \<^verbatim>\<open>daemon/__main__.py\<close> with everything that
  happens while it waits. \<open>program_step\<close> interleaves the packets and tasks of the node, accepted
  and discovered connections, REST requests, WebSocket clients, the broadcasts the node's reports
  schedule, signals, and the pieces of the shutdowns they begin. Coroutines run one at a time; a handler
  is one step, except where its part of the model splits it.
\<close>

subsection \<open>The program\<close>

text \<open>
  \<open>Starting\<close>: \<open>Daemon.start\<close> waits in the mDNS loop. \<open>Waiting_stop\<close>: it has returned, and
  \<open>run_forever\<close> waits for the event \<open>pg_stop\<close>. \<open>Done\<close>: \<open>run_forever\<close> has returned or raised, and
  \<open>asyncio.run\<close> ends all that is left. \<open>pg_stops\<close> has the tasks \<open>_shutdown\<close> of the signals so far that
  are under way, each at its stage of \<open>Daemon.stop\<close>; \<open>pg_reports\<close> has the reports of the node whose
  \<open>_broadcast\<close> is scheduled.
\<close>

datatype phase = Starting | Waiting_stop | Done "unit res"

record program =
  pg_daemon :: daemon
  pg_phase :: phase
  pg_stop :: bool
  pg_stops :: "stop_stage list"
  pg_reports :: "node_output list"

datatype program_output = Told node_output | Frame nat ws_frame | Answer "response res"

fun active :: "phase \<Rightarrow> bool" where
  "active (Done r) = False"
| "active ph = True"

definition run_forever ::
  "py_error option \<Rightarrow> py_error option \<Rightarrow> py_error option \<Rightarrow> daemon \<Rightarrow> program" where
  "run_forever bind mdns serve d =
     (case daemon_start bind mdns serve d of (r, d') \<Rightarrow>
        \<lparr>pg_daemon = d',
         pg_phase = (case r of Inl e \<Rightarrow> Done (Inl e) | Inr Waiting \<Rightarrow> Starting | Inr Returned \<Rightarrow> Waiting_stop),
         pg_stop = False, pg_stops = [], pg_reports = []\<rparr>)"

text \<open>
  What a step of the daemon leaves: \<open>_on_peer_joined\<close>, \<open>_on_peer_left\<close> and \<open>_on_ack\<close> create
  the task of a broadcast.
\<close>

definition leaving :: "daemon \<Rightarrow> node_output list \<Rightarrow> program \<Rightarrow> program" where
  "leaving d os p = p\<lparr>pg_daemon := d, pg_reports := pg_reports p @ filter (\<lambda>x. ws_event_of x \<noteq> None) os\<rparr>"

definition act_on :: "'a act \<Rightarrow> program \<Rightarrow> 'a res \<times> program \<times> node_output list" where
  "act_on m p =
     (case m (dm_mesh (pg_daemon p)) of (r, s, os) \<Rightarrow> (r, leaving ((pg_daemon p)\<lparr>dm_mesh := s\<rparr>) os p, os))"

text \<open>
  \<open>_handle_client\<close> until it reads: the callback \<open>on_connected\<close> is set only once the daemon is
  wired.
\<close>

definition acceptA :: "bool \<Rightarrow> nat \<Rightarrow> pystr \<Rightarrow> int \<Rightarrow> unit act" where
  "acceptA wired cid host port =
     seqA (transportA (\<lambda>t. case handle_client_begin cid host port t of (c, t', es) \<Rightarrow> (Inr (), t', es)))
       (if wired then on_connect_transport else ret ())"

text \<open>
  \<open>_on_peer_discovered\<close> called for what mDNS found: in a thread without a running event loop
  \<open>create_task\<close> raises, and the address stays known without a connection.
\<close>

definition mdns_found :: "bool \<Rightarrow> bool \<Rightarrow> (pystr \<times> int) option \<Rightarrow> daemon \<Rightarrow> daemon" where
  "mdns_found in_loop added info d =
     (case on_mdns_change added info (dm_discovery d) of (disc, hps) \<Rightarrow>
        d\<lparr>dm_discovery := disc, dm_connecting := dm_connecting d @ (if in_loop then hps else [])\<rparr>)"

text \<open>The rest of \<open>Daemon.start\<close>, once the mDNS loop has ended.\<close>

definition start_resumed :: "py_error option \<Rightarrow> program \<Rightarrow> program" where
  "start_resumed serve p =
     (case daemon_ready serve (pg_daemon p) of (r, d) \<Rightarrow>
        p\<lparr>pg_daemon := d, pg_phase := (case r of Inl e \<Rightarrow> Done (Inl e) | Inr _ \<Rightarrow> Waiting_stop)\<rparr>)"

text \<open>
  What a piece of \<open>_shutdown\<close> leaves of the task: it goes on at the next stage, has ended with an
  exception, or \<open>stop\<close> has returned and the event that ends \<open>run_forever\<close> is set.
\<close>

definition shutdown ::
  "stop_stage option res \<Rightarrow> stop_stage list \<Rightarrow> stop_stage list \<Rightarrow> program \<Rightarrow> program" where
  "shutdown r before after p =
     (case r of
        Inl e \<Rightarrow> p\<lparr>pg_stops := before @ after\<rparr>
      | Inr (Some t) \<Rightarrow> p\<lparr>pg_stops := before @ t # after\<rparr>
      | Inr None \<Rightarrow> p\<lparr>pg_stops := before @ after, pg_stop := True\<rparr>)"

text \<open>Packets, tasks and ended connections; the other events of a node come in steps of their own.\<close>

fun network_event :: "node_event \<Rightarrow> bool" where
  "network_event (Receive c raw) = True"
| "network_event (Run ev i) = True"
| "network_event (Ended c) = True"
| "network_event e = False"

fun client_input :: "ws_input \<Rightarrow> bool" where
  "client_input (Ws_report report) = False"
| "client_input i = True"

inductive program_step :: "libs \<Rightarrow> program \<Rightarrow> program_output list \<Rightarrow> program \<Rightarrow> bool" for lb where
  node: "active (pg_phase p) \<Longrightarrow> network_event e \<Longrightarrow> act_on (node_act lb e) p = (r, p', os) \<Longrightarrow>
    program_step lb p (map Told os) p'"
| accept: "active (pg_phase p) \<Longrightarrow> tr_listening (ms_transport (dm_mesh (pg_daemon p))) \<Longrightarrow>
    act_on (acceptA (dm_wired (pg_daemon p)) cid host port) p = (r, p', os) \<Longrightarrow>
    program_step lb p (map Told os) p'"
| connect: "active (pg_phase p) \<Longrightarrow> connect_next result (pg_daemon p) = (r, d, os) \<Longrightarrow>
    program_step lb p (map Told os) (leaving d os p)"
| mdns: "active (pg_phase p) \<Longrightarrow> ds_zeroconf (dm_discovery (pg_daemon p)) \<Longrightarrow>
    ds_running (dm_discovery (pg_daemon p)) \<Longrightarrow>
    program_step lb p [] (p\<lparr>pg_daemon := mdns_found in_loop added info (pg_daemon p)\<rparr>)"
| request: "active (pg_phase p) \<Longrightarrow> dm_serving (pg_daemon p) \<Longrightarrow>
    route ev result meth path b = Some (Rest h) \<Longrightarrow> act_on h p = (r, p', os) \<Longrightarrow>
    program_step lb p (map Told os @ [Answer r]) p'"
| web: "active (pg_phase p) \<Longrightarrow> dm_serving (pg_daemon p) \<Longrightarrow> client_input i \<Longrightarrow>
    ws_step is_closed fails i (dm_ws (pg_daemon p)) = (ws, fs) \<Longrightarrow>
    program_step lb p (map (\<lambda>(c, f). Frame c f) fs) (p\<lparr>pg_daemon := (pg_daemon p)\<lparr>dm_ws := ws\<rparr>\<rparr>)"
| broadcast: "active (pg_phase p) \<Longrightarrow> pg_reports p = before @ x # after \<Longrightarrow>
    ws_step is_closed fails (Ws_report x) (dm_ws (pg_daemon p)) = (ws, fs) \<Longrightarrow>
    program_step lb p (map (\<lambda>(c, f). Frame c f) fs)
      (p\<lparr>pg_daemon := (pg_daemon p)\<lparr>dm_ws := ws\<rparr>, pg_reports := before @ after\<rparr>)"
| signal: "active (pg_phase p) \<Longrightarrow> program_step lb p [] (p\<lparr>pg_stops := pg_stops p @ [Announcing]\<rparr>)"
| stopping: "active (pg_phase p) \<Longrightarrow> pg_stops p = before @ t # after \<Longrightarrow>
    set redo \<subseteq> set (ws_clients (dm_ws (pg_daemon p))) \<Longrightarrow>
    daemon_stop ev is_closed redo t (pg_daemon p) = (r, d, os) \<Longrightarrow>
    program_step lb p (map Told os) (shutdown r before after (leaving d os p))"
| resume: "pg_phase p = Starting \<Longrightarrow> \<not> ds_running (dm_discovery (pg_daemon p)) \<Longrightarrow>
    program_step lb p [] (start_resumed serve p)"
| finish: "pg_phase p = Waiting_stop \<Longrightarrow> pg_stop p \<Longrightarrow>
    program_step lb p [] (p\<lparr>pg_phase := Done (Inr ())\<rparr>)"

lemmas program_one = runs_one [of "program_step lb" for lb]
  and program_and_then = runs.and_then [of "program_step lb" for lb]

subsection \<open>Every step refines the changes of the node\<close>

lemma connect_changes:
  "changes lb s [] (s\<lparr>ms_transport := fst (snd (connect result host port (ms_transport s)))\<rparr>)"
proof -
  have "changes lb s [] (s\<lparr>ms_transport := fst (snd (connect_open cid host port (ms_transport s)))\<rparr>)" for cid
    using changes_one [OF change.network [of lb s "Opened cid host port"]] by simp
  then show ?thesis
    by (simp add: connect_def case_prod_unfold changes_rest Let_def split: option.split sum.split)
qed

lemma connectA_changes [obeys_intros]: "obeys (changes lb) (connectA result host port)"
  unfolding connectA_def case_prod_unfold
  by (rule get_mod_changes) (auto intro!: obeys_intros connect_changes simp: on_connect_transport_def)

lemma unwired_connect_changes [obeys_intros]:
  "obeys (changes lb) (transportA (\<lambda>t. case connect result host port t of
     (r, t', es) \<Rightarrow> (case r of Inl e \<Rightarrow> Inl e | Inr c \<Rightarrow> Inr (), t', es)))"
  unfolding transportA_def case_prod_unfold fst_conv snd_conv
  by (rule get_mod_changes) (auto intro!: obeys_intros connect_changes)

lemma reporting_changes [obeys_intros]: "obeys (changes lb) m \<Longrightarrow> obeys (changes lb) (reporting m)"
  by (auto simp: obeys_def reporting_def split: prod.splits sum.split)

lemma disconnect_changes [obeys_intros]:
  "obeys (changes lb) (transportA (\<lambda>t. (Inr (), disconnect a t)))"
  by (auto intro!: transportA_changes exI [of _ "Disconnect a"])

lemma accept_changes [obeys_intros]: "obeys (changes lb) (acceptA wired cid host port)"
  unfolding acceptA_def
  by (auto split: prod.split simp: on_connect_transport_def
      intro!: obeys_intros transportA_changes exI [of _ "Accept cid host port"])

lemma naming_changes [obeys_intros]: "obeys (changes lb) (modA (\<lambda>s. s\<lparr>ms_nickname := n\<rparr>))"
  by (intro mod_one change.naming)

lemma rest_handlers_change:
  "obeys (changes lb) handle_health" "obeys (changes lb) handle_status" "obeys (changes lb) handle_peers"
  "obeys (changes lb) (handle_connect result b)" "obeys (changes lb) (handle_disconnect b)"
  "obeys (changes lb) (handle_set_name ev b)"
  unfolding handle_health_def handle_status_def handle_peers_def handle_connect_def handle_disconnect_def
    handle_set_name_def Let_def
  by (auto intro!: obeys_intros split: body.split cvalue.split)

lemma route_changes: "route ev result meth path b = Some (Rest h) \<Longrightarrow> obeys (changes lb) h"
  by (auto simp: route_def rest_handlers_change split: if_splits)

lemma connect_to_peer_changes: "obeys (changes lb) (connect_to_peer result wired host port)"
proof (rule obeysI)
  fix s r s' os
  assume run: "connect_to_peer result wired host port s = (r, s', os)"
  let ?m = "if wired then connectA result host port
            else transportA (\<lambda>t. case connect result host port t of
              (r, t', es) \<Rightarrow> (case r of Inl e \<Rightarrow> Inl e | Inr c \<Rightarrow> Inr (), t', es))"
  have "obeys (changes lb) ?m" by (cases wired) (simp_all only: if_True if_False connectA_changes unwired_connect_changes)
  moreover obtain r1 where "?m s = (r1, s', os)"
    using run by (auto simp: connect_to_peer_def split: prod.splits sum.splits)
  ultimately show "changes lb s os s'" by (rule obeysD)
qed

text \<open>What the node reports in a step, among the outputs of the program.\<close>

fun told :: "program_output list \<Rightarrow> node_output list" where
  "told [] = []"
| "told (Told x # os) = x # told os"
| "told (y # os) = told os"

lemma told_append [simp]: "told (os @ os') = told os @ told os'"
  by (induction os rule: told.induct) auto

lemma told_map_Told [simp]: "told (map Told os) = os"
  by (induction os) auto

lemma told_frames [simp]: "told (map (\<lambda>(c, f). Frame c f) fs) = []"
  by (induction fs) auto

lemma leaving_daemon [simp]: "pg_daemon (leaving d os p) = d"
  by (simp add: leaving_def)

lemma act_on_changes:
  assumes "act_on m p = (r, p', os)" and "obeys (changes lb) m"
  shows "changes lb (dm_mesh (pg_daemon p)) os (dm_mesh (pg_daemon p'))"
  using assms by (auto simp: act_on_def obeysD split: prod.splits)

lemma connect_next_changes:
  assumes "connect_next result d = (r, d', os)"
  shows "changes lb (dm_mesh d) os (dm_mesh d')"
  using assms obeysD [OF connect_to_peer_changes [of lb result "dm_wired d"], where s = "dm_mesh d"]
  by (auto simp: connect_next_def changes_rest split: list.splits prod.splits)

lemma net_changes: "changes lb s (map Net es) s"
proof (induction es)
  case (Cons e es)
  from changes_and_then [OF change.report_net Cons] show ?case by simp
qed (simp add: changes_rest)

lemma stop_changes: "changes lb s (map Net es) (s\<lparr>ms_transport := fst (transport_stop (ms_transport s))\<rparr>)"
  using changes_and_then [OF change.network [of lb s Stop] net_changes] by simp

lemma close_next_frame:
  assumes "close_next is_closed redo snap todo d = (r, d')"
  obtains ws r' where "d' = d\<lparr>dm_ws := ws\<rparr>" and "http_stop_next is_closed redo snap todo (dm_ws d) = (r', ws)"
    and "r \<noteq> Inr None" and "r \<noteq> Inr (Some Announcing)" and "r \<noteq> Inr (Some Waiting_closed)"
  using assms by (auto simp: close_next_def closing_stage_def split: prod.splits sum.splits option.splits)

lemma daemon_stop_changes:
  assumes "daemon_stop ev is_closed redo t d = (r, d', os)"
  shows "changes lb (dm_mesh d) os (dm_mesh d')"
proof (cases t)
  case Announcing
  obtain r1 m os1 where l: "send_leave ev (dm_mesh d) = (r1, m, os1)" by (rule prod_cases3)
  then have "changes lb (dm_mesh d) os1 m"
    using obeysD [of "changes lb" "send_leave ev"] by (simp add: announcements_changes)
  with assms Announcing l show ?thesis by (auto split: sum.splits prod.splits elim!: close_next_frame)
next
  case Closing
  with assms show ?thesis by (auto simp: changes_rest split: prod.splits elim!: close_next_frame)
next
  case Cleaning
  obtain r2 m os2 where v: "mesh_save_state ev (dm_mesh d) = (r2, m, os2)" by (rule prod_cases3)
  then have "os2 = []" by (simp add: mesh_save_state_def modA_def)
  with obeysD [OF save_changes v] have "changes lb (dm_mesh d) [] m" by blast
  from changes_then [OF this stop_changes] assms Cleaning v show ?thesis by (auto simp: case_prod_unfold)
next
  case Waiting_closed
  with assms show ?thesis by (auto simp: changes_rest)
qed

lemma shutdown_daemon [simp]:
  "pg_daemon (shutdown r before after p) = pg_daemon p" "pg_phase (shutdown r before after p) = pg_phase p"
  "pg_reports (shutdown r before after p) = pg_reports p"
  by (simp_all add: shutdown_def split: sum.split option.split)

lemma program_step_changes:
  assumes "program_step lb p os p'"
  shows "changes lb (dm_mesh (pg_daemon p)) (told os) (dm_mesh (pg_daemon p'))"
  using assms
proof cases
  case (stopping before t after redo ev is_closed r d os')
  then show ?thesis using daemon_stop_changes [of ev is_closed redo t "pg_daemon p"] by simp
qed (auto simp: mdns_found_def start_resumed_def daemon_ready_def http_start_def changes_rest
  intro: act_on_changes node_act_changes accept_changes route_changes connect_next_changes split: prod.split option.split)

subsection \<open>The program implements the chat service\<close>

interpretation implements: simulates "program_step lb" promise "\<lambda>p. abs_node (dm_mesh (pg_daemon p))" "\<lambda>os. heard (told os)" for lb
  by unfold_locales (simp_all add: service.run_simulated [OF program_step_changes])

interpretation formed: preserved "program_step lb" "\<lambda>p. wf_node (dm_mesh (pg_daemon p)) \<and> ms_id (dm_mesh (pg_daemon p)) = i" for lb i
  by unfold_locales (auto dest: changes_wf [OF program_step_changes])

text \<open>Starting touches the node only to listen.\<close>

lemma run_forever_mesh:
  "dm_mesh (pg_daemon (run_forever bind mdns serve d)) = dm_mesh d \<or>
   dm_mesh (pg_daemon (run_forever bind mdns serve d)) =
     (dm_mesh d)\<lparr>ms_transport := start_server (ms_transport (dm_mesh d))\<rparr>"
  by (simp add: run_forever_def daemon_start_def daemon_ready_def http_start_def case_prod_unfold Let_def
      split: option.split start_result.split)

text \<open>
  C11: the daemon implements the abstract chat service. From the start of \<open>run_forever\<close> with a loaded
  state whose keys are not repeated, in whatever order packets arrive, tasks run, peers connect,
  clients of the API send requests and signals come, what the node reports is a run of the service
  that starts without members and messages; the tables of the node stay well formed, and it keeps its
  identifier.
\<close>

theorem daemon_implements_service:
  assumes "wf_dict (st_channel_creators app)" and "wf_dict (st_channel_key_commitments app)"
    and "distinct (st_password_protected_channels app)"
    and "d = daemon_init (mesh_init lb nick rnd8 static app sfile transport_init) disc"
    and "runs (program_step lb) (run_forever bind mdns serve d) os p"
  shows "promised \<lparr>seen = {}, members = Map.empty\<rparr> (heard (told os)) (abs_node (dm_mesh (pg_daemon p))) \<and>
    wf_node (dm_mesh (pg_daemon p)) \<and> ms_id (dm_mesh (pg_daemon p)) = hex rnd8"
proof -
  let ?m = "mesh_init lb nick rnd8 static app sfile transport_init"
  have t: "wf_transport transport_init" "wf_transport (start_server transport_init)"
    by (simp_all add: wf_transport_def transport_init_def start_server_def)
  then have w: "wf_node ?m" "wf_node (?m\<lparr>ms_transport := start_server (ms_transport ?m)\<rparr>)"
    using assms(1-3) by (simp_all add: wf_node_def mesh_init_def wf_service_init wf_dict_restore)
  have e: "ms_processed ?m = {}" "ms_peers ?m = []" "ms_id ?m = hex rnd8" by (simp_all add: mesh_init_def)
  have p0: "wf_node (dm_mesh (pg_daemon (run_forever bind mdns serve d)))"
    "ms_id (dm_mesh (pg_daemon (run_forever bind mdns serve d))) = hex rnd8"
    "abs_node (dm_mesh (pg_daemon (run_forever bind mdns serve d))) = \<lparr>seen = {}, members = Map.empty\<rparr>"
    using run_forever_mesh [of bind mdns serve d] w e
    by (auto simp: assms(4) daemon_init_def abs_node_def)
  show ?thesis
    using implements.run_simulated [OF assms(5)] formed.run_from_start [OF assms(5), of "hex rnd8"] p0 by simp
qed

subsection \<open>What the WebSocket clients are sent\<close>

fun events_to :: "nat \<Rightarrow> program_output list \<Rightarrow> ws_event list" where
  "events_to c [] = []"
| "events_to c (Frame c' (Event e) # os) = (if c' = c then [e] else []) @ events_to c os"
| "events_to c (x # os) = events_to c os"

definition events_of :: "node_output list \<Rightarrow> ws_event list" where
  "events_of os = List.map_filter ws_event_of os"

lemma events_of_simps [simp]:
  "events_of [] = []" "events_of (os @ os') = events_of os @ events_of os'"
  "events_of (x # os) = (case ws_event_of x of None \<Rightarrow> [] | Some e \<Rightarrow> [e]) @ events_of os"
  "events_of (filter (\<lambda>x. ws_event_of x \<noteq> None) os) = events_of os"
  by (simp_all add: events_of_def map_filter_def split: option.split)

lemma events_to_append [simp]: "events_to c (os @ os') = events_to c os @ events_to c os'"
  by (induction c os rule: events_to.induct) auto

lemma events_to_Told [simp]: "events_to c (map Told os) = []"
  by (induction os) auto

lemma events_to_broadcast:
  "distinct got \<Longrightarrow> mset (events_to c (map (\<lambda>(c, f). Frame c f) (map (\<lambda>ws. (ws, Event e)) got))) \<subseteq># {#e#}"
proof -
  have "c \<notin> set got \<Longrightarrow> events_to c (map (\<lambda>(c, f). Frame c f) (map (\<lambda>ws. (ws, Event e)) got)) = []" for got
    by (induction got) auto
  then show "distinct got \<Longrightarrow> ?thesis" by (induction got) auto
qed

lemma ws_broadcast_got:
  "ws_broadcast is_closed fails todo clients = (r, cs, got) \<Longrightarrow> set got \<subseteq> set todo \<and> (distinct todo \<longrightarrow> distinct got)"
proof (induction todo arbitrary: clients r cs got)
  case (Cons ws todo)
  show ?case
    using Cons.prems Cons.IH [of clients] Cons.IH [of "removeAll ws clients"]
    by (fastforce split: if_splits option.splits prod.splits)
qed simp

lemma client_frames:
  "client_input i \<Longrightarrow> ws_step is_closed fails i s = (s', fs) \<Longrightarrow> events_to c (map (\<lambda>(c, f). Frame c f) fs) = []"
  by (cases i) (auto simp: ws_receive_def body_get_def split: if_splits prod.splits sum.splits ws_msg.splits
      cvalue.splits option.splits)

lemma report_frames:
  assumes "ws_sound s" and "ws_step is_closed fails (Ws_report x) s = (s', fs)"
  shows "mset (events_to c (map (\<lambda>(c, f). Frame c f) fs)) \<subseteq># mset (events_of [x])"
proof (cases "ws_event_of x")
  case (Some e)
  with assms obtain r cs got where "ws_broadcast is_closed fails (ws_clients s) (ws_clients s) = (r, cs, got)"
    "fs = map (\<lambda>ws. (ws, Event e)) got" by (auto split: prod.splits)
  with ws_broadcast_got [OF this(1)] assms(1) Some show ?thesis
    by (simp add: ws_sound_def events_to_broadcast del: map_map)
qed (use assms in simp)

text \<open>What the steps of the node and of its connections leave alone.\<close>

lemma act_on_frame:
  assumes "act_on m p = (r, p', os)"
  obtains s where "p' = leaving ((pg_daemon p)\<lparr>dm_mesh := s\<rparr>) os p"
  using assms by (auto simp: act_on_def split: prod.splits)

lemma connect_next_frame:
  assumes "connect_next result d = (r, d', os)"
  shows "dm_ws d' = dm_ws d \<and> dm_discovery d' = dm_discovery d \<and> dm_serving d' = dm_serving d \<and>
    dm_wired d' = dm_wired d \<and> dm_running d' = dm_running d"
  using assms by (auto simp: connect_next_def split: list.splits prod.splits)

lemma http_stop_next_clients:
  assumes "http_stop_next is_closed redo snap todo s = (r, s')"
  shows "s' = s \<or> s' = s\<lparr>ws_clients := []\<rparr>"
  using assms by (auto simp: http_stop_next_def split: if_splits list.splits)

text \<open>The three kinds of pieces of a shutdown: before the cleanup, after it, and the return.\<close>

lemma daemon_stop_pieces:
  assumes "daemon_stop ev is_closed redo t d = (r, d', os)"
  obtains (early) m ws where "t \<noteq> Cleaning" and "d' = d\<lparr>dm_mesh := m, dm_ws := ws\<rparr>"
      and "ws = dm_ws d \<or> ws = (dm_ws d)\<lparr>ws_clients := []\<rparr>" and "r \<noteq> Inr None" and "r \<noteq> Inr (Some Waiting_closed)"
      and "t = Announcing \<Longrightarrow> \<forall>t'. r = Inr (Some t') \<longrightarrow> send_leave ev (dm_mesh d) = (Inr (), m, os)"
      and "r \<noteq> Inr (Some Announcing)"
  | (cleaned) m n es where "t = Cleaning" and "r = Inr (Some Waiting_closed)" and "mesh_save_state ev (dm_mesh d) = (Inr (), m, [])"
      and "n = m\<lparr>ms_transport := fst (transport_stop (ms_transport m))\<rparr>" and "os = map Net es"
      and "d' = d\<lparr>dm_mesh := n, dm_serving := False, dm_discovery := discovery_stop (dm_discovery d)\<rparr>"
  | (returned) "t = Waiting_closed" and "r = Inr None" and "d' = d\<lparr>dm_running := False\<rparr>" and "os = []"
proof (cases t)
  case Announcing
  obtain r1 m os1 where l: "send_leave ev (dm_mesh d) = (r1, m, os1)" by (rule prod_cases3)
  obtain q e where c: "close_next is_closed [] (ws_clients (dm_ws d)) (ws_clients (dm_ws d)) (d\<lparr>dm_mesh := m\<rparr>) = (q, e)"
    by (rule prod.exhaust)
  show thesis
  proof (cases r1)
    case (Inl x)
    with assms Announcing l have "r = Inl x" "d' = d\<lparr>dm_mesh := m\<rparr>" by simp_all
    then show thesis using Announcing by (intro early [where m = m and ws = "dm_ws d"]) simp_all
  next
    case (Inr x)
    with assms Announcing l c have e: "r = q" "d' = e" "os = os1" by simp_all
    obtain ws r' where w: "e = d\<lparr>dm_mesh := m\<rparr>\<lparr>dm_ws := ws\<rparr>"
      "http_stop_next is_closed [] (ws_clients (dm_ws d)) (ws_clients (dm_ws d)) (dm_ws (d\<lparr>dm_mesh := m\<rparr>)) = (r', ws)"
      "q \<noteq> Inr None" "q \<noteq> Inr (Some Announcing)" "q \<noteq> Inr (Some Waiting_closed)"
      by (rule close_next_frame [OF c])
    then show thesis using http_stop_next_clients [OF w(2)] e l Inr Announcing by (intro early [where m = m and ws = ws]) simp_all
  qed
next
  case (Closing snap todo)
  with assms obtain q e where c: "close_next is_closed redo snap todo d = (q, e)" "r = q" "d' = e" by (auto split: prod.splits)
  obtain ws r' where w: "e = d\<lparr>dm_ws := ws\<rparr>" "http_stop_next is_closed redo snap todo (dm_ws d) = (r', ws)"
    "q \<noteq> Inr None" "q \<noteq> Inr (Some Announcing)" "q \<noteq> Inr (Some Waiting_closed)"
    by (rule close_next_frame [OF c(1)])
  then show thesis using http_stop_next_clients [OF w(2)] c Closing by (intro early [where m = "dm_mesh d" and ws = ws]) simp_all
next
  case Cleaning
  obtain r2 m os2 where v: "mesh_save_state ev (dm_mesh d) = (r2, m, os2)" by (rule prod_cases3)
  then have "r2 = Inr ()" "os2 = []" by (simp_all add: mesh_save_state_def modA_def)
  with v assms Cleaning show thesis
    by (intro cleaned [where m = m and n = "m\<lparr>ms_transport := fst (transport_stop (ms_transport m))\<rparr>" and es = "snd (transport_stop (ms_transport m))"])
      (simp_all add: case_prod_unfold)
next
  case Waiting_closed
  with assms show thesis by (intro returned) simp_all
qed

lemma daemon_stop_ws:
  assumes "daemon_stop ev is_closed redo t d = (r, d', os)" and "ws_sound (dm_ws d)"
  shows "ws_sound (dm_ws d')"
  using assms(1)
proof (cases rule: daemon_stop_pieces)
  case (early m ws)
  with assms(2) show ?thesis by (auto simp: ws_sound_def)
qed (use assms(2) in simp_all)

definition accounted :: "program_output list \<Rightarrow> program \<Rightarrow> bool" where
  "accounted past p \<longleftrightarrow> ws_sound (dm_ws (pg_daemon p)) \<and>
     (\<forall>c. mset (events_to c past) + mset (events_of (pg_reports p)) \<subseteq># mset (events_of (told past)))"

lemma accounted_leaving:
  assumes "accounted past p" and "ws_sound (dm_ws d)" and "told os = os'" and "\<And>c. events_to c os = []"
  shows "accounted (past @ os) (leaving d os' p)"
  using assms by (simp add: accounted_def leaving_def add.assoc [symmetric] del: not_None_eq add.assoc)

lemma accounted_same:
  "accounted past p \<Longrightarrow> dm_ws (pg_daemon p') = dm_ws (pg_daemon p) \<Longrightarrow> pg_reports p' = pg_reports p \<Longrightarrow> accounted past p'"
  by (simp add: accounted_def)

lemma accounted_broadcast:
  assumes "accounted past p" and r: "pg_reports p = before @ x # after"
    and "ws_step is_closed fails (Ws_report x) (dm_ws (pg_daemon p)) = (ws, fs)"
  shows "accounted (past @ map (\<lambda>(c, f). Frame c f) fs)
    (p\<lparr>pg_daemon := (pg_daemon p)\<lparr>dm_ws := ws\<rparr>, pg_reports := before @ after\<rparr>)"
proof -
  have w: "ws_sound (dm_ws (pg_daemon p))"
    and a: "\<And>c. mset (events_to c past) + mset (events_of (pg_reports p)) \<subseteq># mset (events_of (told past))"
    using assms(1) by (auto simp: accounted_def)
  have "mset (events_to c past) + mset (events_to c (map (\<lambda>(c, f). Frame c f) fs)) + mset (events_of (before @ after))
      \<subseteq># mset (events_of (told past))" for c
  proof -
    have "mset (events_of (pg_reports p)) = mset (events_of [x]) + mset (events_of (before @ after))"
      by (simp add: r)
    with report_frames [OF w assms(3), of c] a [of c] show ?thesis
      by (metis (no_types, lifting) add.assoc subset_mset.add_left_mono subset_mset.add_right_mono subset_mset.trans)
  qed
  with ws_step_sound [OF w, of is_closed fails "Ws_report x"] assms(3) show ?thesis
    by (simp add: accounted_def)
qed

lemma accounted_act:
  assumes "accounted past p" and "act_on m p = (r, p', os)" and "told os' = os" and "\<And>c. events_to c os' = []"
  shows "accounted (past @ os') p'"
proof -
  from assms(2) obtain s where p': "p' = leaving ((pg_daemon p)\<lparr>dm_mesh := s\<rparr>) os p" by (rule act_on_frame)
  have "ws_sound (dm_ws (pg_daemon p))" using assms(1) by (simp add: accounted_def)
  then show ?thesis unfolding p' by (intro accounted_leaving assms) simp
qed

lemma accounted_step:
  assumes a: "accounted past p" and "program_step lb p os p'"
  shows "accounted (past @ os) p'"
proof -
  have w: "ws_sound (dm_ws (pg_daemon p))" using a by (simp add: accounted_def)
  from assms(2) show ?thesis
  proof cases
    case (connect result r d os')
    then show ?thesis
      using accounted_leaving [OF a, of d "map Told os'"] connect_next_frame [of result "pg_daemon p"] w by simp
  next
    case (web i is_closed fails ws fs)
    then show ?thesis
      using a ws_step_sound [OF w, of is_closed fails i] client_frames [of i is_closed fails "dm_ws (pg_daemon p)" ws fs]
      by (simp add: accounted_def)
  next
    case (broadcast before x after is_closed fails ws fs)
    then show ?thesis using accounted_broadcast [OF a] by blast
  next
    case (stopping before t after redo ev is_closed r d os')
    then have "accounted (past @ os) (leaving d os' p)"
      using daemon_stop_ws [OF _ w] by (intro accounted_leaving [OF a]) auto
    then show ?thesis unfolding stopping by (rule accounted_same) simp_all
  next
    case signal
    show ?thesis unfolding signal using accounted_same [OF a] by simp
  next
    case mdns
    show ?thesis unfolding mdns
      using accounted_same [OF a] by (simp add: mdns_found_def case_prod_unfold)
  next
    case resume
    show ?thesis unfolding resume
      using accounted_same [OF a]
      by (simp add: start_resumed_def daemon_ready_def http_start_def case_prod_unfold split: option.split)
  next
    case finish
    show ?thesis unfolding finish using accounted_same [OF a] by simp
  qed (auto intro: accounted_act [OF a])
qed

interpretation accounts: monitored "program_step lb" accounted for lb
  by unfold_locales (rule accounted_step)

text \<open>
  C37: the WebSocket clients hear of what the node reports, and of nothing else, at most once. In
  every run of the daemon, the events that a client is sent are among the reports that the node has
  made so far, each counted as often as it was made: no event is invented, repeated or sent before
  the node reported it.
\<close>

theorem events_sent_once:
  assumes "dm_ws d = ws_init" and "runs (program_step lb) (run_forever bind mdns serve d) os p"
  shows "mset (events_to c os) \<subseteq># mset (events_of (told os))"
proof -
  have "accounted [] (run_forever bind mdns serve d)"
    using assms(1)
    by (simp add: accounted_def run_forever_def daemon_start_def daemon_ready_def http_start_def ws_init_def ws_sound_def
        case_prod_unfold Let_def split: option.split start_result.split)
  from accounts.run_from_start [OF assms(2) this] show ?thesis
    by (auto simp: accounted_def intro: mset_subset_eq_add_left [THEN subset_mset.trans])
qed

subsection \<open>Starting with mDNS\<close>

fun is_told :: "program_output \<Rightarrow> bool" where
  "is_told (Told x) = True"
| "is_told y = False"

text \<open>Until a shutdown has stopped the discovery, \<open>start\<close> waits and nobody is served.\<close>

definition unserved :: "program_output list \<Rightarrow> program \<Rightarrow> bool" where
  "unserved past p \<longleftrightarrow> (ds_running (dm_discovery (pg_daemon p)) \<longrightarrow>
     pg_phase p = Starting \<and> \<not> dm_serving (pg_daemon p) \<and>
     \<not> dm_wired (pg_daemon p) \<and> ws_clients (dm_ws (pg_daemon p)) = [] \<and> list_all is_told past)"

lemma list_all_Told [simp]: "list_all is_told (map Told os)"
  by (simp add: list_all_iff)

text \<open>A piece of a shutdown leaves the discovery, the server and its clients alone, or stops the discovery.\<close>

lemma daemon_stop_discovery:
  assumes "daemon_stop ev is_closed redo t d = (r, d', os)"
  shows "\<not> ds_running (dm_discovery d') \<or> dm_discovery d' = dm_discovery d \<and> dm_serving d' = dm_serving d \<and>
    dm_wired d' = dm_wired d \<and> (ws_clients (dm_ws d) = [] \<longrightarrow> ws_clients (dm_ws d') = [])"
  using assms
proof (cases rule: daemon_stop_pieces)
  case (early m ws)
  then show ?thesis by auto
qed (simp_all add: discovery_stop_def)

lemma unserved_act:
  "unserved past p \<Longrightarrow> act_on m p = (r, p', os) \<Longrightarrow> unserved (past @ map Told os) p'"
  by (erule act_on_frame) (auto simp: unserved_def leaving_def)

lemma on_mdns_change_running [simp]: "ds_running (fst (on_mdns_change added info d)) = ds_running d"
  by (simp add: on_mdns_change_def found_def split: option.split)

lemma unserved_step:
  assumes u: "unserved past p" and "program_step lb p os p'"
  shows "unserved (past @ os) p'"
  using assms(2)
proof cases
  case (connect result r d os')
  then show ?thesis using u connect_next_frame [of result "pg_daemon p"] by (auto simp: unserved_def leaving_def)
next
  case (request ev result meth path b h r os')
  then have "\<not> ds_running (dm_discovery (pg_daemon p))" using u by (auto simp: unserved_def)
  then show ?thesis using request(5) by (auto simp: unserved_def leaving_def elim!: act_on_frame)
next
  case (stopping before t after redo ev is_closed r d os')
  then show ?thesis using u daemon_stop_discovery [of ev is_closed redo t "pg_daemon p"]
    by (auto simp: unserved_def leaving_def)
next
  case mdns
  then show ?thesis using u by (auto simp: unserved_def mdns_found_def case_prod_unfold)
next
  case (broadcast before x after is_closed fails ws fs)
  then show ?thesis using u by (auto simp: unserved_def split: option.splits prod.splits)
next
  case resume
  then show ?thesis using u
    by (simp add: unserved_def start_resumed_def daemon_ready_def http_start_def case_prod_unfold split: option.split)
qed (use u unserved_act [OF u] in \<open>auto simp: unserved_def\<close>)

interpretation waiting: monitored "program_step lb" unserved for lb
  by unfold_locales (rule unserved_step)

lemma run_forever_waits:
  assumes "ds_mdns_enabled (dm_discovery d)"
  obtains disc hps where
    "run_forever None None serve d =
       \<lparr>pg_daemon = d\<lparr>dm_running := True,
          dm_mesh := (dm_mesh d)\<lparr>ms_transport := start_server (ms_transport (dm_mesh d))\<rparr>,
          dm_discovery := disc, dm_connecting := dm_connecting d @ hps\<rparr>,
        pg_phase = Starting, pg_stop = False, pg_stops = [], pg_reports = []\<rparr>"
    "ds_running disc" "ds_zeroconf disc"
proof -
  obtain ds os where c: "connect_all (ds_bootstrap (dm_discovery d)) ((dm_discovery d)\<lparr>ds_running := True\<rparr>) = (ds, os)"
    by (rule prod.exhaust)
  have k: "ds_mdns_enabled ds" "ds_running ds"
    using connect_all_keeps_mdns [of "ds_bootstrap (dm_discovery d)" "(dm_discovery d)\<lparr>ds_running := True\<rparr>"]
      connect_all_keeps_running [of "ds_bootstrap (dm_discovery d)" "(dm_discovery d)\<lparr>ds_running := True\<rparr>"] assms
    by (simp_all add: c)
  show thesis
    by (rule that [of os "ds\<lparr>ds_zeroconf := True\<rparr>"])
      (simp_all add: run_forever_def daemon_start_def discovery_start_def c k Let_def)
qed

text \<open>
  C39: with working mDNS nobody is served before the daemon is stopped. If mDNS is enabled and starts, then
  in every run, until a shutdown has stopped the discovery, \<open>Daemon.start\<close> has not returned: the HTTP server is
  closed, no REST request is answered and no WebSocket frame sent, and new connections do not make
  the node announce itself.
\<close>

theorem mdns_keeps_api_closed:
  assumes "ds_mdns_enabled (dm_discovery d)" and "\<not> dm_serving d" and "\<not> dm_wired d" and "dm_ws d = ws_init"
    and "runs (program_step lb) (run_forever None None serve d) os p" and "ds_running (dm_discovery (pg_daemon p))"
  shows "pg_phase p = Starting \<and> \<not> dm_serving (pg_daemon p) \<and> \<not> dm_wired (pg_daemon p) \<and> list_all is_told os"
proof -
  have "unserved [] (run_forever None None serve d)"
    by (rule run_forever_waits [OF assms(1), of serve]) (simp add: unserved_def assms(2-4) ws_init_def)
  from waiting.run_from_start [OF assms(5) this] assms(6) show ?thesis by (simp add: unserved_def)
qed

subsection \<open>Stopping\<close>















subsection \<open>Examples\<close>

definition example_mesh :: mesh where
  "example_mesh = mesh_init example_libs (Some [98]) (replicate 8 1) [7] default_state Absent transport_init"

definition example_start :: program where
  "example_start = run_forever None None None (daemon_init example_mesh (discovery_init None None))"

lemma example_start_waits:
  "pg_phase example_start = Starting" "dm_mesh (pg_daemon example_start) = example_mesh\<lparr>ms_transport := start_server transport_init\<rparr>"
  "ds_running (dm_discovery (pg_daemon example_start))" "ds_zeroconf (dm_discovery (pg_daemon example_start))"
  "dm_ws (pg_daemon example_start) = ws_init" "\<not> pg_stop example_start" "pg_stops example_start = []"
proof -
  let ?d = "daemon_init example_mesh (discovery_init None None)"
  have "ds_mdns_enabled (dm_discovery ?d)" by (simp add: daemon_init_def discovery_init_def)
  then obtain disc hps where "run_forever None None None ?d =
       \<lparr>pg_daemon = ?d\<lparr>dm_running := True,
          dm_mesh := (dm_mesh ?d)\<lparr>ms_transport := start_server (ms_transport (dm_mesh ?d))\<rparr>,
          dm_discovery := disc, dm_connecting := dm_connecting ?d @ hps\<rparr>,
        pg_phase = Starting, pg_stop = False, pg_stops = [], pg_reports = []\<rparr>" "ds_running disc" "ds_zeroconf disc"
    by (rule run_forever_waits)
  then show
    "pg_phase example_start = Starting" "dm_mesh (pg_daemon example_start) = example_mesh\<lparr>ms_transport := start_server transport_init\<rparr>"
    "ds_running (dm_discovery (pg_daemon example_start))" "ds_zeroconf (dm_discovery (pg_daemon example_start))"
    "dm_ws (pg_daemon example_start) = ws_init" "\<not> pg_stop example_start" "pg_stops example_start = []"
    by (simp_all add: example_start_def daemon_init_def example_mesh_def mesh_init_def)
qed

text \<open>mDNS announces a peer while the daemon starts.\<close>

definition example_found :: program where
  "example_found = example_start\<lparr>pg_daemon := mdns_found True True (Some ([97], 80)) (pg_daemon example_start)\<rparr>"

lemma example_mdns: "runs (program_step lb) example_start [] example_found"
  unfolding example_found_def
  by (rule program_one [OF program_step.mdns]) (simp_all add: example_start_waits)

theorem mdns_keeps_api_closed_witness:
  "pg_phase example_found = Starting \<and> \<not> dm_serving (pg_daemon example_found)"
proof -
  have "ds_running (dm_discovery (pg_daemon example_found))"
    by (simp add: example_found_def mdns_found_def case_prod_unfold example_start_waits)
  from mdns_keeps_api_closed [OF _ _ _ _ example_mdns [unfolded example_start_def [abs_def]] this]
  show ?thesis by (simp add: daemon_init_def discovery_init_def)
qed

lemma example_start_leave:
  "send_leave example_env (dm_mesh (pg_daemon example_start)) = (Inr (), dm_mesh (pg_daemon example_start), [])"
  by (rule lonely_leave)
    (simp_all add: example_start_waits example_mesh_def mesh_init_def node_nickname_def transport_init_def start_server_def)

lemma only_shutdown:
  assumes "active (pg_phase p)" and "pg_stops p = [t]" and "daemon_stop ev is_closed [] t (pg_daemon p) = (r, d, os)"
  shows "program_step lb p (map Told os) (shutdown r [] [] (leaving d os p))"
  using program_step.stopping [of p "[]" t "[]" "[]", OF _ _ _ assms(3)] assms(1,2) by simp

text \<open>
  A signal while \<open>start\<close> waits in mDNS. The shutdown stops the discovery; \<open>start\<close> goes on before the
  shutdown has set its event, and opens the HTTP server of the stopped daemon; then the program ends.
\<close>

lemma example_stopped:
  "\<exists>os p. runs (program_step lb) example_start os p \<and> pg_phase p = Done (Inr ()) \<and> dm_serving (pg_daemon p)"
proof -
  let ?d = "pg_daemon example_start"
  have nc: "ws_clients (dm_ws ?d) = []" by (simp add: example_start_waits ws_init_def)
  have p: "pg_phase example_start = Starting" "pg_stops example_start = []"
    by (simp_all add: example_start_waits)
  let ?p1 = "example_start\<lparr>pg_stops := [Announcing]\<rparr>"
  have 1: "program_step lb example_start [] ?p1"
    using program_step.signal [of example_start lb] p by simp
  have a: "daemon_stop example_env (\<lambda>ws. False) [] Announcing ?d = (Inr (Some Cleaning), ?d, [])"
    using http_stop_next_idle [OF nc] nc by (simp add: example_start_leave close_next_def closing_stage_def)
  let ?p2 = "shutdown (Inr (Some Cleaning)) [] [] (leaving ?d [] ?p1)"
  have 2: "program_step lb ?p1 [] ?p2"
    using only_shutdown [of ?p1 Announcing] p a by fastforce
  have q: "pg_phase ?p2 = Starting" "pg_stops ?p2 = [Cleaning]" "pg_daemon ?p2 = ?d" using p by (simp_all add: shutdown_def leaving_def)
  obtain d os where c: "daemon_stop example_env (\<lambda>ws. False) [] Cleaning ?d = (Inr (Some Waiting_closed), d, os)"
    "\<not> ds_running (dm_discovery d)"
    by (simp add: case_prod_unfold discovery_stop_def)
  let ?p3 = "shutdown (Inr (Some Waiting_closed)) [] [] (leaving d os ?p2)"
  have 3: "program_step lb ?p2 (map Told os) ?p3"
    using only_shutdown [of ?p2 Cleaning] q c(1) by fastforce
  let ?p4 = "start_resumed None ?p3"
  have 4: "program_step lb ?p3 [] ?p4"
    using q c(2) by (intro program_step.resume) (simp_all add: leaving_def)
  have r: "pg_phase ?p4 = Waiting_stop" "pg_stops ?p4 = [Waiting_closed]" "dm_serving (pg_daemon ?p4)"
    by (simp_all add: start_resumed_def daemon_ready_def http_start_def shutdown_def)
  let ?p5 = "shutdown (Inr None) [] [] (leaving ((pg_daemon ?p4)\<lparr>dm_running := False\<rparr>) [] ?p4)"
  have 5: "program_step lb ?p4 [] ?p5"
    using only_shutdown [of ?p4 Waiting_closed example_env "\<lambda>ws. False" "Inr None"] r by simp
  have f: "pg_phase ?p5 = Waiting_stop" "pg_stop ?p5" "dm_serving (pg_daemon ?p5)" using r by (simp_all add: shutdown_def leaving_def)
  have 6: "program_step lb ?p5 [] (?p5\<lparr>pg_phase := Done (Inr ())\<rparr>)" using f by (intro program_step.finish)
  show ?thesis
    by (intro exI conjI, rule program_and_then [OF 1 program_and_then [OF 2 program_and_then [OF 3 program_and_then [OF 4
          program_and_then [OF 5 program_one [OF 6]]]]]]) (simp_all add: f r)
qed

theorem api_opened_after_stop:
  "\<exists>os p. runs (program_step lb) example_start os p \<and> pg_phase p = Done (Inr ()) \<and> dm_serving (pg_daemon p)"
  by (rule example_stopped)


theorem daemon_implements_service_witness:
  "promised \<lparr>seen = {}, members = Map.empty\<rparr> [] (abs_node (dm_mesh (pg_daemon example_found))) \<and>
     wf_node (dm_mesh (pg_daemon example_found)) \<and> ms_id (dm_mesh (pg_daemon example_found)) = hex (replicate 8 1)"
  using daemon_implements_service [of default_state, OF _ _ _ refl
      example_mdns [unfolded example_start_def [abs_def] example_mesh_def]]
  by (simp add: default_state_def)

text \<open>A client listens while a peer's connection ends.\<close>

definition example_conn :: conn where
  "example_conn = \<lparr>cn_id = 4, cn_host = [97], cn_port = 80, cn_outgoing = True\<rparr>"

definition example_peered :: daemon where
  "example_peered = daemon_init
     (example_mesh\<lparr>ms_peers := [([5], Some [6])], ms_addresses := [([5], conn_address example_conn)]\<rparr>)
     (discovery_init (Some False) None)"

lemma example_ended:
  assumes "ms_peers s = [([5], Some [6])]" and "ms_addresses s = [([5], conn_address example_conn)]"
  shows "\<exists>s'. node_act lb (Ended example_conn) s =
    (Inr (), s', [Net (Close 4), Net (Fire_disconnected (Some example_conn)), Peer_left [5] [6]])"
  using assms
  by (simp add: transportA_def on_read_done_def on_peer_disconnected_def remove_peer_def act_defs Let_def
      example_conn_def)

lemma example_peer_left:
  "\<exists>os p. runs (program_step lb) (run_forever None None None example_peered) os p \<and>
     events_to 1 os = [Ev_peer_left [5] [6]] \<and> events_of (told os) = [Ev_peer_left [5] [6]]"
proof -
  let ?p0 = "run_forever None None None example_peered"
  let ?ws = "\<lparr>ws_clients = [1], ws_handlers = [1]\<rparr>"
  have p0: "pg_phase ?p0 = Waiting_stop" "dm_serving (pg_daemon ?p0)" "dm_ws (pg_daemon ?p0) = ws_init" "pg_reports ?p0 = []"
    "ms_peers (dm_mesh (pg_daemon ?p0)) = [([5], Some [6])]"
    "ms_addresses (dm_mesh (pg_daemon ?p0)) = [([5], conn_address example_conn)]"
    by (simp_all add: run_forever_def daemon_start_def discovery_start_def example_peered_def daemon_init_def discovery_init_def
        daemon_ready_def http_start_def)
  let ?p1 = "?p0\<lparr>pg_daemon := (pg_daemon ?p0)\<lparr>dm_ws := ?ws\<rparr>\<rparr>"
  have 1: "program_step lb ?p0 [] ?p1"
    using program_step.web [of ?p0 "Ws_open 1" "\<lambda>ws. False" "\<lambda>ws. None" ?ws "[]" lb] by (simp add: p0 ws_init_def)
  let ?os = "[Net (Close 4), Net (Fire_disconnected (Some example_conn)), Peer_left [5] [6]]"
  obtain s where s: "node_act lb (Ended example_conn) (dm_mesh (pg_daemon ?p1)) = (Inr (), s, ?os)"
    using example_ended [of "dm_mesh (pg_daemon ?p1)"] p0 by auto
  let ?p2 = "leaving ((pg_daemon ?p1)\<lparr>dm_mesh := s\<rparr>) ?os ?p1"
  have 2: "program_step lb ?p1 (map Told ?os) ?p2"
    using program_step.node [of ?p1 "Ended example_conn" lb "Inr ()" ?p2 ?os] s p0 by (simp add: act_on_def)
  have 3: "program_step lb ?p2 [Frame 1 (Event (Ev_peer_left [5] [6]))]
      (?p2\<lparr>pg_daemon := (pg_daemon ?p2)\<lparr>dm_ws := ?ws\<rparr>, pg_reports := []\<rparr>)"
    using program_step.broadcast [of ?p2 "[]" "Peer_left [5] [6]" "[]" "\<lambda>ws. False" "\<lambda>ws. None" ?ws
        "[(1, Event (Ev_peer_left [5] [6]))]" lb] p0
    by (simp add: leaving_def)
  show ?thesis
    by (rule exI, rule exI, rule conjI, rule program_and_then [OF 1 program_and_then [OF 2 program_one [OF 3]]]) simp
qed

theorem events_sent_once_witness:
  "\<exists>os p. runs (program_step example_libs) (run_forever None None None example_peered) os p \<and>
     events_to 1 os = [Ev_peer_left [5] [6]] \<and> mset (events_to 1 os) \<subseteq># mset (events_of (told os))"
proof -
  obtain os p where r: "runs (program_step example_libs) (run_forever None None None example_peered) os p"
    "events_to 1 os = [Ev_peer_left [5] [6]]"
    using example_peer_left by blast
  have "dm_ws example_peered = ws_init" by (simp add: example_peered_def daemon_init_def)
  from events_sent_once [OF this r(1), of 1] r show ?thesis by blast
qed

end
