(* ===== verification/Flooding.thy ===== *)
theory Flooding
  imports Handlers
begin

text \<open>
  How far a packet travels. A node that handles a packet schedules at most relays of that packet, with
  its TTL; a relay writes it with one hop less. Along any path through the mesh a packet is therefore
  relayed fewer times than its TTL says, whatever the nodes' states are.
\<close>

subsection \<open>What handling a packet schedules\<close>

text \<open>New tasks that are relays are relays of \<open>raw\<close> with \<open>ttl\<close>, and only if \<open>ttl\<close> allows it.\<close>

definition relays_only :: "bytes \<Rightarrow> nat \<Rightarrow> mesh \<Rightarrow> node_output list \<Rightarrow> mesh \<Rightarrow> bool" where
  "relays_only raw ttl s os s' \<longleftrightarrow>
     (\<forall>raw' ttl'. Relay raw' ttl' \<in> set (ms_tasks s') \<longrightarrow>
        Relay raw' ttl' \<in> set (ms_tasks s) \<or> (raw' = raw \<and> ttl' = ttl \<and> 1 < ttl))"

interpretation relaying: composing "relays_only raw ttl" for raw ttl
  by unfold_locales (auto simp: relays_only_def)

named_theorems relay_intros \<open>actions that schedule no other relays\<close>

lemmas relay_rules [relay_intros] =
  relaying.obeys_ret relaying.obeys_liftA relaying.obeys_bindA relaying.obeys_seqA relaying.obeys_tryA
  relaying.obeys_getA

lemma mod_relay: "(\<And>s. ms_tasks (f s) = ms_tasks s) \<Longrightarrow> obeys (relays_only raw ttl) (modA f)"
  by (rule relaying.obeys_modA) (simp add: relays_only_def)

lemma out_relay [relay_intros]: "obeys (relays_only raw ttl) (outA e)"
  by (rule relaying.obeys_outA) (simp add: relays_only_def)

lemma spawn_relay [relay_intros]:
  "obeys (relays_only raw ttl) (spawn (Start_pending p))"
  "obeys (relays_only raw ttl) (spawn (Send_pending p ms))"
  "1 < ttl \<Longrightarrow> obeys (relays_only raw ttl) (spawn (Relay raw ttl))"
  unfolding spawn_def by (rule relaying.obeys_modA; simp add: relays_only_def)+

lemma remove_peer_relay [relay_intros]: "obeys (relays_only raw ttl) (remove_peer p)"
  unfolding remove_peer_def Let_def
  by (auto intro!: relay_intros mod_relay split: option.split list.split)

lemma perform_relay [relay_intros]: "obeys (relays_only raw ttl) (perform es)"
  by (induction es rule: perform.induct)
    (auto intro!: relay_intros simp: on_peer_disconnected_def split: option.split list.split)

lemma transportA_relay [relay_intros]: "obeys (relays_only raw ttl) (transportA f)"
  unfolding transportA_def by (auto intro!: relay_intros mod_relay split: prod.split)

lemma send_relay [relay_intros]:
  "obeys (relays_only raw ttl) (raw_send ev pkt)" "obeys (relays_only raw ttl) (send_to_peer ev p pkt)"
  unfolding raw_send_def send_to_peer_def
  by (auto intro!: relay_intros split: option.split list.split)

lemma on_authenticated_relay [relay_intros]: "obeys (relays_only raw ttl) (on_authenticated es)"
  by (induction es rule: on_authenticated.induct) (auto intro!: relay_intros)

lemma service_relay [relay_intros]:
  "obeys (relays_only raw ttl) (process_handshake lb ev p m)"
  "obeys (relays_only raw ttl) (decryptA lb p d)" "obeys (relays_only raw ttl) (encryptA lb p d)"
  "obeys (relays_only raw ttl) (mesh_initiate_handshake lb ev p)"
  unfolding process_handshake_def decryptA_def encryptA_def mesh_initiate_handshake_def
  by (auto intro!: relay_intros mod_relay split: prod.split)

lemma announce_relay [relay_intros]:
  "obeys (relays_only raw ttl) (handle_announce pk)"
  "obeys (relays_only raw ttl) (handle_noise_identity_announce lb ev pk)"
  unfolding handle_announce_def handle_noise_identity_announce_def note_peer_def Let_def
  by (auto intro!: relay_intros mod_relay split: option.split)

lemma handshake_relay [relay_intros]:
  "obeys (relays_only raw ttl) (handle_handshake lb ev t pk)"
  "obeys (relays_only raw ttl) (handle_key_exchange lb ev pk)"
  unfolding handle_handshake_def handle_key_exchange_def send_pending_private_messages_def Let_def
  by (auto intro!: relay_intros mod_relay split: option.split list.split)

lemma ack_relay [relay_intros]: "obeys (relays_only raw ttl) (send_delivery_ack lb ev mid p pr)"
  unfolding send_delivery_ack_def Let_def by (auto intro!: relay_intros mod_relay split: prod.split)

lemma once_relay [relay_intros]: "obeys (relays_only raw ttl) k \<Longrightarrow> obeys (relays_only raw ttl) (once lb mid k)"
  unfolding once_def by (auto intro!: relay_intros mod_relay split: option.split)

lemma relay_if_relay [relay_intros]: "ttl = pkt_ttl pk \<Longrightarrow> obeys (relays_only raw ttl) (relay_if pk raw)"
  unfolding relay_if_def relay_def by (auto intro!: relay_intros)

lemma message_relay [relay_intros]:
  "obeys (relays_only raw (pkt_ttl pk)) (handle_message lb ev pk raw)"
  "obeys (relays_only raw (pkt_ttl pk)) (handle_noise_encrypted lb ev pk)"
  unfolding handle_message_def handle_noise_encrypted_def deliver_message_def Let_def
  by (auto intro!: relay_intros split: option.split list.split)

lemma other_relay [relay_intros]:
  "obeys (relays_only raw (pkt_ttl pk)) (handle_fragment pk raw)"
  "obeys (relays_only raw (pkt_ttl pk)) (handle_leave pk raw)"
  "obeys (relays_only raw (pkt_ttl pk)) (handle_channel_announce ev pk)"
  "obeys (relays_only raw (pkt_ttl pk)) (handle_delivery_ack lb pk raw)"
  unfolding handle_fragment_def handle_leave_def handle_channel_announce_def handle_delivery_ack_def
    mesh_save_state_def note_channel_def Let_def
  by (auto intro!: relay_intros mod_relay split: prod.split)

lemma handle_packet_relay: "obeys (relays_only raw (pkt_ttl pk)) (handle_packet lb ev pk raw)"
  unfolding handle_packet_def
  by (cases "pkt_type pk")
    (auto intro!: relay_intros simp: handle_noise_handshake_init_def handle_noise_handshake_resp_def)

subsection \<open>What a relay writes\<close>

definition frame :: "bytes \<Rightarrow> bytes" where
  "frame pkt = be_bytes 2 (length pkt) @ pkt"

lemma frame_inject: "frame p = frame q \<Longrightarrow> p = q"
  by (simp add: frame_def)

definition writes_only :: "bytes \<Rightarrow> effect \<Rightarrow> bool" where
  "writes_only data e \<longleftrightarrow> (\<forall>i d. e = Write i d \<longrightarrow> d = data)"

lemma send_packet_writes: "\<forall>e\<in>set (snd (snd (send_packet fails c pkt t))). writes_only (frame pkt) e"
  by (auto simp: send_packet_def frame_def pack_H_def on_read_done_def writes_only_def Let_def
      split: option.split sum.split prod.splits if_splits)

lemma broadcast_writes: "\<forall>e\<in>set (snd (snd (broadcast_to fails ex pkt cs t))). writes_only (frame pkt) e"
proof (induction fails ex pkt cs t rule: broadcast_to.induct)
  case (2 fails ex pkt addr c cs t)
  then show ?case
    using send_packet_writes [of fails c pkt t]
    by (auto split: prod.splits if_splits)
qed simp

text \<open>An action that writes nothing but \<open>data\<close>.\<close>

definition writing :: "bytes \<Rightarrow> mesh \<Rightarrow> node_output list \<Rightarrow> mesh \<Rightarrow> bool" where
  "writing data s os s' \<longleftrightarrow> (\<forall>e. Net e \<in> set os \<longrightarrow> writes_only data e)"

interpretation written_by: composing "writing data" for data
  by unfold_locales (auto simp: writing_def)

lemma perform_writing: "\<forall>e\<in>set es. writes_only data e \<Longrightarrow> obeys (writing data) (perform es)"
proof (induction es rule: perform.induct)
  case (3 c es)
  have "obeys (writing data) (outA (Peer_left p n))" "obeys (writing data) (modA f)" for p n f
    by (rule written_by.obeys_outA written_by.obeys_modA; simp add: writing_def)+
  then have "obeys (writing data) (remove_peer p)" for p
    unfolding remove_peer_def Let_def
    by (auto intro!: written_by.obeys_getA written_by.obeys_seqA written_by.obeys_ret split: option.split list.split)
  then have "obeys (writing data) (on_peer_disconnected c)"
    unfolding on_peer_disconnected_def
    by (auto intro!: written_by.obeys_getA written_by.obeys_ret split: option.split list.split)
  moreover have "obeys (writing data) (outA (Net (Fire_disconnected (Some c))))"
    by (rule written_by.obeys_outA) (simp add: writing_def writes_only_def)
  ultimately show ?case using 3 by (auto intro!: written_by.obeys_seqA)
qed (auto intro!: written_by.obeys_seqA written_by.obeys_ret written_by.obeys_liftA written_by.obeys_outA
      simp: writing_def writes_only_def)

lemma raw_send_writing: "writing (frame pkt) s (snd (snd (raw_send ev pkt s))) s'"
proof -
  obtain r t es where b: "broadcast_packet (ev_fails ev) pkt {} (ms_transport s) = (r, t, es)" by (rule prod_cases3)
  have "obeys (writing (frame pkt)) (seqA (perform es) (liftA r))"
    using broadcast_writes [of "ev_fails ev" "{}" pkt "tr_connections (ms_transport s)" "ms_transport s"] b
    by (intro written_by.obeys_seqA written_by.obeys_liftA perform_writing) (simp add: broadcast_packet_def)
  from obeys_run [OF this, of "s\<lparr>ms_transport := t\<rparr>"] b show ?thesis
    by (simp add: raw_send_def transportA_def getA_def seqA_modA writing_def)
qed

subsection \<open>Hops\<close>

text \<open>
  \<open>hop lb raw raw'\<close>: some node, in some state, that handles the packet \<open>raw\<close> schedules a relay,
  and that relay, run in some later state, writes the packet \<open>raw'\<close>.
\<close>

definition hop :: "libs \<Rightarrow> bytes \<Rightarrow> bytes \<Rightarrow> bool" where
  "hop lb raw raw' \<longleftrightarrow>
     (\<exists>pk c ev s r s' os x ttl ev2 s2 i.
        parse_bitchat_packet (lb_lz4 lb) raw = Inr pk \<and>
        run_task lb ev (Handle pk c raw) s = (r, s', os) \<and>
        Relay x ttl \<in> set (ms_tasks s') - set (ms_tasks s) \<and>
        Net (Write i (frame raw')) \<in> set (snd (snd (run_task lb ev2 (Relay x ttl) s2))))"

lemma hop_ttl:
  assumes "hop lb raw raw'" and "parse_bitchat_packet (lb_lz4 lb) raw = Inr pk"
  shows "1 < pkt_ttl pk \<and> parse_bitchat_packet (lb_lz4 lb) raw' = Inr (pk\<lparr>pkt_ttl := pkt_ttl pk - 1\<rparr>)"
proof -
  from assms obtain c ev s r s' os x ttl ev2 s2 i where
    h: "handle_packet lb ev pk raw s = (r, s', os)" "Relay x ttl \<in> set (ms_tasks s') - set (ms_tasks s)"
    and w: "Net (Write i (frame raw')) \<in> set (snd (snd (raw_send ev2 (set_ttl x (ttl - 1)) s2)))"
    by (auto simp: hop_def)
  have x: "x = raw" "ttl = pkt_ttl pk" "1 < pkt_ttl pk"
    using obeysD [OF handle_packet_relay h(1)] h(2) by (auto simp: relays_only_def)
  have "frame raw' = frame (set_ttl x (ttl - 1))"
    using raw_send_writing [of "set_ttl x (ttl - 1)" s2 ev2] w by (auto simp: writing_def writes_only_def)
  then have "raw' = set_ttl raw (pkt_ttl pk - 1)" using x by (metis frame_inject)
  moreover have "pkt_ttl pk < 256"
    using assms(2) unat_byte_less
    by (auto simp: parse_bitchat_packet_def Let_def bindE_eq_Inr split: if_splits)
  ultimately show ?thesis using x(3) parse_after_set_ttl [OF assms(2)] by simp
qed

text \<open>
  C12: flooding ends. There is no infinite path of hops through the mesh; a packet that was relayed
  \<open>k\<close> times arrives with its TTL reduced by \<open>k\<close> and otherwise as it was sent, and \<open>k\<close> is
  smaller than the TTL it was sent with.
\<close>

theorem flooding_ends:
  "wfp (\<lambda>raw' raw. hop lb raw raw') \<and>
   ((hop lb ^^ k) raw raw' \<longrightarrow> parse_bitchat_packet (lb_lz4 lb) raw = Inr pk \<longrightarrow>
      k \<le> pkt_ttl pk - 1 \<and> parse_bitchat_packet (lb_lz4 lb) raw' = Inr (pk\<lparr>pkt_ttl := pkt_ttl pk - k\<rparr>))"
proof (intro conjI impI)
  let ?ttl = "\<lambda>raw. case parse_bitchat_packet (lb_lz4 lb) raw of Inr pk \<Rightarrow> pkt_ttl pk | Inl e \<Rightarrow> 0"
  have "?ttl raw' < ?ttl raw" if "hop lb raw raw'" for raw raw'
  proof -
    obtain pk where "parse_bitchat_packet (lb_lz4 lb) raw = Inr pk" using \<open>hop lb raw raw'\<close> by (auto simp: hop_def)
    with hop_ttl [OF \<open>hop lb raw raw'\<close> this] show ?thesis by simp
  qed
  then show "wfp (\<lambda>raw' raw. hop lb raw raw')" by (rule wfp_if_convertible_to_nat)
  assume "(hop lb ^^ k) raw raw'" "parse_bitchat_packet (lb_lz4 lb) raw = Inr pk"
  then show "k \<le> pkt_ttl pk - 1"
    "parse_bitchat_packet (lb_lz4 lb) raw' = Inr (pk\<lparr>pkt_ttl := pkt_ttl pk - k\<rparr>)"
    by (induction k arbitrary: raw') (auto dest: hop_ttl)
qed

lemma example_hop:
  "hop example_libs ([1, 5, 7] @ replicate 19 0) (set_ttl ([1, 5, 7] @ replicate 19 0) 6)"
proof -
  let ?raw = "[1, 5, 7] @ replicate 19 0" and ?s = "example_node [1] [9] INITIATOR"
  let ?pk = "\<lparr>pkt_type = FRAGMENT_START, pkt_sender_id = [], pkt_sender_id_str = [], pkt_recipient_id = None,
      pkt_recipient_id_str = None, pkt_payload = [], pkt_ttl = 7\<rparr>"
  let ?s' = "?s\<lparr>ms_tasks := ms_tasks ?s @ [Relay ?raw 7]\<rparr>"
  have p: "parse_bitchat_packet (lb_lz4 example_libs) ?raw = Inr ?pk" by code_simp
  have h: "run_task example_libs example_env (Handle ?pk example_conn ?raw) ?s = (Inr (), ?s', [])"
    by (simp add: handle_packet_def handle_fragment_def relay_if_def relay_def act_defs)
  have t: "Relay ?raw 7 \<in> set (ms_tasks ?s') - set (ms_tasks ?s)" by (simp add: example_node_def mesh_init_def)
  have w: "Net (Write 4 (frame (set_ttl ?raw 6))) \<in>
      set (snd (snd (run_task example_libs example_env (Relay ?raw 7) ?s)))"
    using raw_send_all [of example_env "set_ttl ?raw 6" ?s]
    by (simp add: example_env_def frame_def set_ttl_def example_node_def mesh_init_def example_conn_def)
  show ?thesis unfolding hop_def
    by (intro exI conjI, rule p, rule h, rule t, rule w)
qed

theorem flooding_ends_witness:
  "(hop example_libs ^^ 1) ([1, 5, 7] @ replicate 19 0) (set_ttl ([1, 5, 7] @ replicate 19 0) 6) \<and>
   parse_bitchat_packet (lb_lz4 example_libs) (set_ttl ([1, 5, 7] @ replicate 19 0) 6) =
     Inr \<lparr>pkt_type = FRAGMENT_START, pkt_sender_id = [], pkt_sender_id_str = [], pkt_recipient_id = None,
       pkt_recipient_id_str = None, pkt_payload = [], pkt_ttl = 6\<rparr>"
proof -
  let ?pk = "\<lparr>pkt_type = FRAGMENT_START, pkt_sender_id = [], pkt_sender_id_str = [], pkt_recipient_id = None,
      pkt_recipient_id_str = None, pkt_payload = [], pkt_ttl = 7\<rparr>"
  have p: "parse_bitchat_packet (lb_lz4 example_libs) ([1, 5, 7] @ replicate 19 0) = Inr ?pk" by code_simp
  have h: "(hop example_libs ^^ 1) ([1, 5, 7] @ replicate 19 0) (set_ttl ([1, 5, 7] @ replicate 19 0) 6)"
    unfolding relpowp_1 by (rule example_hop)
  from flooding_ends [of example_libs 1 "[1, 5, 7] @ replicate 19 0" _ ?pk] h p show ?thesis by (simp del: relpowp_1 One_nat_def)
qed

end
