(* ===== verification/Rendezvous.thy ===== *)
theory Rendezvous
  imports Handlers
begin

text \<open>
  Two nodes that meet: the packets of a handshake and of the first private message, followed from the
  handler that writes a frame to the handler that reads it. A node receives a packet and runs the task
  for it (\<open>deliver\<close>); the frames it writes to a connection are what the other node receives.
\<close>

subsection \<open>Packets on the wire\<close>

text \<open>The readings of a run in which nothing fails.\<close>

definition working :: "env \<Rightarrow> bool" where
  "working ev \<longleftrightarrow> (\<forall>i. ev_fails ev i = None) \<and> (\<forall>i. ev_ts ev i < 2 ^ 64) \<and> (\<forall>i n. length (ev_rnd ev i n) = n)"

text \<open>An identifier that survives the packet header: eight bytes, the last not zero.\<close>

definition full_id :: "bytes \<Rightarrow> bool" where
  "full_id ia \<longleftrightarrow> length ia = 8 \<and> last ia \<noteq> 0"

definition letter :: "bytes \<Rightarrow> bytes \<Rightarrow> MessageType \<Rightarrow> bytes \<Rightarrow> nat \<Rightarrow> packet" where
  "letter ia ib t payload ttl =
     \<lparr>pkt_type = t, pkt_sender_id = ia, pkt_sender_id_str = hex ia, pkt_recipient_id = Some ib,
      pkt_recipient_id_str = Some (hex ib), pkt_payload = payload, pkt_ttl = ttl\<rparr>"

lemma letter_simps [simp]:
  "pkt_type (letter ia ib t m n) = t" "pkt_sender_id_str (letter ia ib t m n) = hex ia"
  "pkt_recipient_id_str (letter ia ib t m n) = Some (hex ib)" "pkt_payload (letter ia ib t m n) = m"
  by (simp_all add: letter_def)

lemma full_idD:
  assumes "full_id ia"
  shows "length ia = 8" "last ia \<noteq> 0" "ia \<noteq> []" "rstrip0 ia = ia" "pad8 ia = ia" "hex ia \<noteq> []"
  using assms by (auto simp: full_id_def rstrip0_def pad8_def intro!: rstrip_id)

lemma written_letter:
  assumes "ts < 2 ^ 64" and "\<And>k. length (rnd k) = k" and "full_id ia" and "full_id ib" and "length m < 65000" and "n < 256"
  shows "\<exists>raw. create_bitchat_packet_with_recipient ts rnd (hex ia) (Some (hex ib)) t m None = Inr raw \<and>
    length (set_ttl raw n) \<le> length m + 285 \<and> parse_bitchat_packet z (set_ttl raw n) = Inr (letter ia ib t m n)"
proof -
  have rb: "recipient_field (Some (hex ib)) = Inr ib"
    using recipient_field_hex [of ib] full_idD [OF assms(4)] by simp
  have m: "length m < 2 ^ 16" using assms(5) by simp
  obtain raw where c: "create_bitchat_packet_with_recipient ts rnd (hex ia) (Some (hex ib)) t m None = Inr raw"
    and l: "length raw \<le> length m + 285"
    using create_succeeds [OF fromhex_hex [of ia] assms(1) m rb assms(2), of t] by blast
  have "parse_bitchat_packet z raw = Inr (letter ia ib t m 7)"
    using parse_created [OF fromhex_hex [of ia] assms(1) m rb, of rnd t None z] c
    by (simp add: letter_def full_idD [OF assms(3)] full_idD [OF assms(4)])
  from parse_after_set_ttl [OF this assms(6)] have "parse_bitchat_packet z (set_ttl raw n) = Inr (letter ia ib t m n)"
    by (simp add: letter_def)
  with c l show ?thesis by (auto simp: set_ttl_def)
qed

lemma created_letter:
  assumes "working ev" and "full_id ia" and "full_id ib" and "length m < 65000" and "n < 256"
  shows "\<exists>raw. create_bitchat_packet_with_recipient (ev_ts ev i) (ev_rnd ev j) (hex ia) (Some (hex ib)) t m None = Inr raw \<and>
    length (set_ttl raw n) \<le> length m + 285 \<and> parse_bitchat_packet z (set_ttl raw n) = Inr (letter ia ib t m n)"
  using assms(1) by (intro written_letter [OF _ _ assms(2-5)]) (simp_all add: working_def)

definition sent_frame :: "conn \<Rightarrow> bytes \<Rightarrow> node_output" where
  "sent_frame c raw = Net (Write (cn_id c) (be_bytes 2 (length raw) @ raw))"

text \<open>The node has a live connection for the peer.\<close>

definition linked_to :: "mesh \<Rightarrow> pystr \<Rightarrow> conn \<Rightarrow> bool" where
  "linked_to s p c \<longleftrightarrow> dict_get (ms_addresses s) p = Some (conn_address c) \<and>
     dict_get (tr_connections (ms_transport s)) (conn_address c) = Some c"

lemma send_to_peer_frame:
  assumes "working ev" and "linked_to s p c" and "length raw < 65536"
  shows "send_to_peer ev p raw s = (Inr (), s, [sent_frame c raw])"
proof -
  obtain a as where a: "conn_address c = a # as"
    by (cases "conn_address c") (auto simp: conn_address_def address_def)
  have "send_packet (ev_fails ev) c raw t = (Inr (), t, [Write (cn_id c) (be_bytes 2 (length raw) @ raw)])" for t
    using send_packet_ok [of "ev_fails ev" c raw t] assms(1,3) by (simp add: working_def)
  with assms(2) a show ?thesis
    by (simp add: send_to_peer_def linked_to_def transportA_def act_defs sent_frame_def)
qed

lemma send_letter:
  assumes "working ev" and "full_id ia" and "full_id ib" and "length m < 65000" and "n < 256"
    and "linked_to s (hex ib) c"
  shows "\<exists>raw. bindA (liftA (create_bitchat_packet_with_recipient (ev_ts ev i) (ev_rnd ev j) (hex ia) (Some (hex ib)) t m None))
      (\<lambda>pkt. send_to_peer ev (hex ib) (set_ttl pkt n)) s = (Inr (), s, [sent_frame c raw]) \<and>
    parse_bitchat_packet z raw = Inr (letter ia ib t m n)"
proof -
  obtain raw where "create_bitchat_packet_with_recipient (ev_ts ev i) (ev_rnd ev j) (hex ia) (Some (hex ib)) t m None = Inr raw"
    "length (set_ttl raw n) \<le> length m + 285" "parse_bitchat_packet z (set_ttl raw n) = Inr (letter ia ib t m n)"
    using created_letter [OF assms(1-5)] by blast
  with send_to_peer_frame [OF assms(1,6), of "set_ttl raw n"] assms(4) show ?thesis
    by (intro exI [of _ "set_ttl raw n"]) (simp add: bindA_liftA)
qed

text \<open>A packet arrives and the task for it runs next.\<close>

definition deliver :: "libs \<Rightarrow> env \<Rightarrow> conn \<Rightarrow> bytes \<Rightarrow> unit act" where
  "deliver lb ev c raw s = node_act lb (Run ev (length (ms_tasks s))) (node_step lb (Receive c raw) s)"

definition heard_from :: "pystr \<Rightarrow> conn \<Rightarrow> mesh \<Rightarrow> mesh" where
  "heard_from p c s = s\<lparr>ms_addresses := dict_set (ms_addresses s) p (conn_address c)\<rparr>"

lemma heard_from_simps [simp]:
  "ms_id (heard_from p c s) = ms_id s" "ms_enc (heard_from p c s) = ms_enc s"
  "ms_transport (heard_from p c s) = ms_transport s" "ms_pending (heard_from p c s) = ms_pending s"
  "ms_blocked (heard_from p c s) = ms_blocked s" "ms_processed (heard_from p c s) = ms_processed s"
  "ms_bloom (heard_from p c s) = ms_bloom s"
  "ms_nickname (heard_from p c s) = ms_nickname s" "ms_tasks (heard_from p c s) = ms_tasks s"
  "ms_peers (heard_from p c s) = ms_peers s"
  "dict_get (ms_addresses (heard_from p c s)) q = (if q = p then Some (conn_address c) else dict_get (ms_addresses s) q)"
  by (simp_all add: heard_from_def)

lemma deliver_handle:
  assumes "parse_bitchat_packet (lb_lz4 lb) raw = Inr pk" and "pkt_sender_id_str pk \<noteq> ms_id s"
    and "pkt_type pk \<in> set [ANNOUNCE, MESSAGE, FRAGMENT_START, FRAGMENT_CONTINUE, FRAGMENT_END,
      KEY_EXCHANGE, NOISE_HANDSHAKE_INIT, NOISE_HANDSHAKE_RESP, NOISE_ENCRYPTED, LEAVE,
      CHANNEL_ANNOUNCE, NOISE_IDENTITY_ANNOUNCE, DELIVERY_ACK]"
  shows "deliver lb ev c raw s = handle_packet lb ev pk raw (heard_from (pkt_sender_id_str pk) c s)"
proof -
  have "node_step lb (Receive c raw) s =
      (heard_from (pkt_sender_id_str pk) c s)\<lparr>ms_tasks := ms_tasks s @ [Handle pk c raw]\<rparr>"
    using assms by (simp add: node_step_def on_packet_received_def act_defs heard_from_def)
  moreover have "(heard_from p c s)\<lparr>ms_tasks := ms_tasks s\<rparr> = heard_from p c s" for p
    by (simp add: heard_from_def)
  ultimately show ?thesis
    by (simp add: deliver_def getA_def seqA_modA del: heard_from_simps)
qed

subsection \<open>Handshake packets\<close>

text \<open>A silent part of an action only moves the state on.\<close>

lemma seqA_after: "m s = (Inr (), s1, os) \<Longrightarrow> n s1 = (Inr x, s2, []) \<Longrightarrow> seqA m n s = (Inr x, s2, os)"
  by (simp add: seqA_def bindA_def)

lemma tryA_succeeds: "m s = (Inr x, s', os) \<Longrightarrow> tryA m P h s = (Inr x, s', os)"
  by (simp add: tryA_def)

lemma on_authenticated_run:
  "on_authenticated es s = (Inr (), s\<lparr>ms_tasks := ms_tasks s @ map (\<lambda>(p, f). Start_pending p) es\<rparr>, [])"
proof (induction es arbitrary: s)
  case (Cons e es)
  then show ?case by (cases e) (simp add: spawn_def seqA_modA)
qed (simp add: ret_def)

text \<open>The node once the handshake part is done: tasks for the waiting messages, if there is a session.\<close>

definition settled :: "pystr \<Rightarrow> (pystr \<times> pystr) list \<Rightarrow> mesh \<Rightarrow> mesh" where
  "settled p es s =
     (let s1 = s\<lparr>ms_tasks := ms_tasks s @ map (\<lambda>(p, f). Start_pending p) es\<rparr> in
      if is_session_established p (ms_enc s) then
        (case dict_get (ms_pending s) p of
           None \<Rightarrow> s1\<lparr>ms_attempts := dict_del (ms_attempts s) p\<rparr>
         | Some q \<Rightarrow> s1\<lparr>ms_attempts := dict_del (ms_attempts s) p, ms_pending := dict_del (ms_pending s) p,
             ms_tasks := ms_tasks s1 @ [Send_pending p q]\<rparr>)
      else s1)"

lemma settled_simps [simp]:
  "ms_id (settled p es s) = ms_id s" "ms_enc (settled p es s) = ms_enc s"
  "ms_transport (settled p es s) = ms_transport s" "ms_addresses (settled p es s) = ms_addresses s"
  "ms_blocked (settled p es s) = ms_blocked s" "ms_processed (settled p es s) = ms_processed s"
  "ms_bloom (settled p es s) = ms_bloom s"
  "ms_nickname (settled p es s) = ms_nickname s"
  by (simp_all add: settled_def Let_def split: option.split)

lemma settle_run:
  "getA (\<lambda>s. if is_session_established p (ms_enc s) then
       seqA (modA (\<lambda>s. s\<lparr>ms_attempts := dict_del (ms_attempts s) p\<rparr>)) (send_pending_private_messages p)
     else ret ()) (s\<lparr>ms_tasks := ms_tasks s @ map (\<lambda>(p, f). Start_pending p) es\<rparr>) = (Inr (), settled p es s, [])"
  by (simp add: getA_def settled_def Let_def seqA_modA send_pending_private_messages_def ret_def spawn_def
      modA_def split: option.split)

lemma handle_handshake_run:
  assumes "working ev" and "full_id ia" and "full_id ib" and "ms_id s = hex ib" and "linked_to s (hex ia) c"
    and "process_handshake_message (lb_crypto lb) (ev_eph ev) (ev_now ev) (hex ia) m (ms_enc s) = (Inr r, enc, es)"
    and "r = None \<or> (\<exists>b bs. r = Some (b # bs) \<and> length (b # bs) < 65000)"
  shows "\<exists>raw. handle_handshake lb ev t (letter ia ib t0 m n) s =
      (Inr (), settled (hex ia) es (s\<lparr>ms_enc := enc\<rparr>), if r = None then [] else [sent_frame c raw]) \<and>
    (\<forall>x. r = Some x \<longrightarrow> parse_bitchat_packet z raw = Inr (letter ib ia t x 3))"
proof -
  let ?s1 = "s\<lparr>ms_enc := enc, ms_tasks := ms_tasks s @ map (\<lambda>(p, f). Start_pending p) es\<rparr>"
  have p: "process_handshake lb ev (hex ia) m s = (Inr r, ?s1, [])"
    using assms(6)
    by (simp add: process_handshake_def getA_def seqA_modA seqA_silent [OF on_authenticated_run] liftA_def)
  have l: "linked_to ?s1 (hex ia) c" using assms(5) by (simp add: linked_to_def)
  note rest = settle_run [of "hex ia" "s\<lparr>ms_enc := enc\<rparr>" es]
  obtain raw where snd: "(case r of Some (b # bs) \<Rightarrow>
        bindA (liftA (create_bitchat_packet_with_recipient (ev_ts ev 0) (ev_rnd ev 0) (hex ib)
                 (Some (hex ia)) t (b # bs) None)) (\<lambda>pkt. send_to_peer ev (hex ia) (set_ttl pkt 3))
      | _ \<Rightarrow> ret ()) ?s1 = (Inr (), ?s1, if r = None then [] else [sent_frame c raw])"
    and raw: "\<forall>x. r = Some x \<longrightarrow> parse_bitchat_packet z raw = Inr (letter ib ia t x 3)"
  proof (cases r)
    case None
    then show ?thesis by (intro that) (simp_all add: ret_def)
  next
    case (Some x)
    with assms(7) obtain b bs where x: "x = b # bs" "length x < 65000" by auto
    from send_letter [OF assms(1,3,2) x(2) _ l, of 3 0 0 t z] Some x(1) show ?thesis by (auto intro: that)
  qed
  show ?thesis
  proof (intro exI [of _ raw] conjI raw)
    show "handle_handshake lb ev t (letter ia ib t0 m n) s =
      (Inr (), settled (hex ia) es (s\<lparr>ms_enc := enc\<rparr>), if r = None then [] else [sent_frame c raw])"
      unfolding handle_handshake_def letter_simps Let_def getA_def assms(4)
      using p snd rest
      by (auto intro!: tryA_succeeds seqA_after simp: bindA_silent [where m = "process_handshake lb ev (hex ia) m" and s = s and x = r and ?s1.0 = ?s1] getA_def)
  qed
qed

lemma initiate_letter:
  assumes "working ev" and "full_id ia" and "full_id ib" and "ms_id s = hex ia" and "linked_to s (hex ib) c"
    and "initiate_handshake (lb_crypto lb) (ev_eph ev) (hex ib) (ms_enc s) = (Inr m, enc)" and "length m < 65000"
  shows "\<exists>raw. mesh_initiate_handshake lb ev (hex ib) s = (Inr (), s\<lparr>ms_enc := enc\<rparr>, [sent_frame c raw]) \<and>
    parse_bitchat_packet z raw = Inr (letter ia ib NOISE_HANDSHAKE_INIT m 3)"
proof -
  have l: "linked_to (s\<lparr>ms_enc := enc\<rparr>) (hex ib) c" using assms(5) by (simp add: linked_to_def)
  from send_letter [OF assms(1-3,7) _ l, of 3 0 0 NOISE_HANDSHAKE_INIT z] obtain raw where
    r: "bindA (liftA (create_bitchat_packet_with_recipient (ev_ts ev 0) (ev_rnd ev 0) (hex ia) (Some (hex ib))
        NOISE_HANDSHAKE_INIT m None)) (\<lambda>pkt. send_to_peer ev (hex ib) (set_ttl pkt 3)) (s\<lparr>ms_enc := enc\<rparr>) =
        (Inr (), s\<lparr>ms_enc := enc\<rparr>, [sent_frame c raw])"
      "parse_bitchat_packet z raw = Inr (letter ia ib NOISE_HANDSHAKE_INIT m 3)" by auto
  have "mesh_initiate_handshake lb ev (hex ib) s = (Inr (), s\<lparr>ms_enc := enc\<rparr>, [sent_frame c raw])"
    unfolding mesh_initiate_handshake_def
    by (rule tryA_succeeds) (simp add: getA_def assms(4,6) seqA_modA bindA_liftA r(1))
  with r(2) show ?thesis by blast
qed

text \<open>A node at one end of a connection: its identifier, and the connection in its table.\<close>

definition at_end :: "mesh \<Rightarrow> bytes \<Rightarrow> conn \<Rightarrow> bool" where
  "at_end s me c \<longleftrightarrow> full_id me \<and> ms_id s = hex me \<and>
     dict_get (tr_connections (ms_transport s)) (conn_address c) = Some c"

lemma deliver_handshake:
  assumes "working ev" and "at_end s ib c" and "full_id ia" and "ia \<noteq> ib" and "t0 = NOISE_HANDSHAKE_INIT \<or> t0 = NOISE_HANDSHAKE_RESP"
    and "parse_bitchat_packet (lb_lz4 lb) raw0 = Inr (letter ia ib t0 m 3)"
    and "process_handshake_message (lb_crypto lb) (ev_eph ev) (ev_now ev) (hex ia) m (ms_enc s) = (Inr r, enc, es)"
    and "r = None \<or> (\<exists>b bs. r = Some (b # bs) \<and> length (b # bs) < 65000)"
  shows "\<exists>raw. deliver lb ev c raw0 s = (Inr (), settled (hex ia) es ((heard_from (hex ia) c s)\<lparr>ms_enc := enc\<rparr>),
      if r = None then [] else [sent_frame c raw]) \<and>
    (\<forall>x. r = Some x \<longrightarrow> parse_bitchat_packet (lb_lz4 lb) raw = Inr (letter ib ia
      (if t0 = NOISE_HANDSHAKE_INIT then NOISE_HANDSHAKE_RESP else NOISE_HANDSHAKE_INIT) x 3))"
proof -
  let ?s = "heard_from (hex ia) c s"
  have ids: "full_id ib" "ms_id ?s = hex ib" "linked_to ?s (hex ia) c" "hex ia \<noteq> ms_id s"
    "process_handshake_message (lb_crypto lb) (ev_eph ev) (ev_now ev) (hex ia) m (ms_enc ?s) = (Inr r, enc, es)"
    using assms(2,4,7) by (auto simp: at_end_def linked_to_def)
  have "deliver lb ev c raw0 s = handle_handshake lb ev
      (if t0 = NOISE_HANDSHAKE_INIT then NOISE_HANDSHAKE_RESP else NOISE_HANDSHAKE_INIT) (letter ia ib t0 m 3) ?s"
    using deliver_handle [OF assms(6), of s ev c] ids(4) assms(5)
    by (auto simp: handle_packet_def handle_noise_handshake_init_def handle_noise_handshake_resp_def)
  with handle_handshake_run [OF assms(1,3) ids(1-3,5) assms(8)] show ?thesis by metis
qed

text \<open>The node after a handshake with a peer at the other end of a connection.\<close>

definition met :: "mesh \<Rightarrow> mesh \<Rightarrow> pystr \<Rightarrow> conn \<Rightarrow> session \<Rightarrow> bool" where
  "met s s' p c ses \<longleftrightarrow> ms_id s' = ms_id s \<and> ms_nickname s' = ms_nickname s \<and> ms_blocked s' = ms_blocked s \<and>
     ms_processed s' = ms_processed s \<and> ms_bloom s' = ms_bloom s \<and> ms_transport s' = ms_transport s \<and>
     dict_get (ms_addresses s') p = Some (conn_address c) \<and> dict_get (sv_sessions (ms_enc s')) p = Some ses"

lemma metI:
  assumes "met_state = settled p es ((heard_from p c s)\<lparr>ms_enc := enc\<rparr>)" and "dict_get (sv_sessions enc) p = Some ses"
  shows "met s met_state p c ses"
  using assms by (simp add: met_def)

text \<open>The three deliveries of a handshake that A has initiated.\<close>

lemma handshake_over_wire:
  assumes cr: "crypto_ok (lb_crypto lb)" and w: "working e2" "working e3" "working e4"
    and dh: "x_dh (lb_crypto lb) ea (x_pub (lb_crypto lb) (ev_eph e2)) = Some ee"
      "x_dh (lb_crypto lb) ea (x_pub (lb_crypto lb) (sv_static (ms_enc B))) = Some es"
      "x_dh (lb_crypto lb) (sv_static encA) (x_pub (lb_crypto lb) (ev_eph e2)) = Some se"
    and A: "at_end A ia ca" and B: "at_end B ib cb" and ne: "ia \<noteq> ib"
    and i: "initiate_handshake (lb_crypto lb) ea (hex ib) encA = (Inr m1, ms_enc A)"
    and raw1: "parse_bitchat_packet (lb_lz4 lb) raw1 = Inr (letter ia ib NOISE_HANDSHAKE_INIT m1 3)"
    and hB: "\<not> has_key (sv_handshakes (ms_enc B)) (hex ia)"
  shows "\<exists>raw2 raw3 B1 A2 B2 sa sb.
    deliver lb e2 cb raw1 B = (Inr (), B1, [sent_frame cb raw2]) \<and>
    deliver lb e3 ca raw2 A = (Inr (), A2, [sent_frame ca raw3]) \<and>
    deliver lb e4 cb raw3 B1 = (Inr (), B2, []) \<and>
    met A A2 (hex ib) ca sa \<and> met B B2 (hex ia) cb sb \<and> linked sa sb \<and>
    ses_remote_static sa = x_pub (lb_crypto lb) (sv_static (ms_enc B)) \<and>
    ses_remote_static sb = x_pub (lb_crypto lb) (sv_static encA) \<and>
    ms_tasks A2 = ms_tasks A @ Start_pending (hex ib) #
      (case dict_get (ms_pending A) (hex ib) of Some q \<Rightarrow> [Send_pending (hex ib) q] | None \<Rightarrow> [])"
proof -
  let ?cr = "lb_crypto lb"
  obtain m1' m2 m3 A1 a2 b1 b2 sa sb where
    h: "initiate_handshake ?cr ea (hex ib) encA = (Inr m1', A1)"
      "process_handshake_message ?cr (ev_eph e2) (ev_now e2) (hex ia) m1' (ms_enc B) = (Inr (Some m2), b1, [])"
      "process_handshake_message ?cr (ev_eph e3) (ev_now e3) (hex ib) m2 A1 =
        (Inr (Some m3), a2, [(hex ib, hex (sha256 ?cr (x_pub ?cr (sv_static (ms_enc B)))))])"
      "process_handshake_message ?cr (ev_eph e4) (ev_now e4) (hex ia) m3 b1 =
        (Inr None, b2, [(hex ia, hex (sha256 ?cr (x_pub ?cr (sv_static encA))))])"
    and ses: "dict_get (sv_sessions a2) (hex ib) = Some sa" "dict_get (sv_sessions b2) (hex ia) = Some sb" "linked sa sb"
      "ses_remote_static sa = x_pub ?cr (sv_static (ms_enc B))" "ses_remote_static sb = x_pub ?cr (sv_static encA)"
    and len: "length m2 = 96" "length m3 = 64"
    using handshake_run [OF cr dh hB, of "hex ib" "ev_now e2" "ev_eph e3" "ev_now e3" "ev_eph e4" "ev_now e4"] by blast
  from h(1) i have e: "m1' = m1" "A1 = ms_enc A" by simp_all
  have ids: "full_id ia" "full_id ib" using A B by (auto simp: at_end_def)
  have s2: "Some m2 = None \<or> (\<exists>b bs. Some m2 = Some (b # bs) \<and> length (b # bs) < 65000)"
    "Some m3 = None \<or> (\<exists>b bs. Some m3 = Some (b # bs) \<and> length (b # bs) < 65000)"
    using len by (cases m2; cases m3; simp)+
  let ?B1 = "settled (hex ia) [] ((heard_from (hex ia) cb B)\<lparr>ms_enc := b1\<rparr>)"
  define A2 where "A2 = settled (hex ib) [(hex ib, hex (sha256 ?cr (x_pub ?cr (sv_static (ms_enc B)))))]
      ((heard_from (hex ib) ca A)\<lparr>ms_enc := a2\<rparr>)"
  define B2 where "B2 = settled (hex ia) [(hex ia, hex (sha256 ?cr (x_pub ?cr (sv_static encA))))]
      ((heard_from (hex ia) cb ?B1)\<lparr>ms_enc := b2\<rparr>)"
  have B1: "at_end ?B1 ib cb" "ms_enc ?B1 = b1" using B by (simp_all add: at_end_def)
  obtain raw2 where 2: "deliver lb e2 cb raw1 B = (Inr (), ?B1, [sent_frame cb raw2])"
    "parse_bitchat_packet (lb_lz4 lb) raw2 = Inr (letter ib ia NOISE_HANDSHAKE_RESP m2 3)"
    using deliver_handshake [OF w(1) B ids(1) ne _ raw1 _ s2(1), of b1 "[]"] h(2) e(1) by auto
  obtain raw3 where 3: "deliver lb e3 ca raw2 A = (Inr (), A2, [sent_frame ca raw3])"
    "parse_bitchat_packet (lb_lz4 lb) raw3 = Inr (letter ia ib NOISE_HANDSHAKE_INIT m3 3)"
    using deliver_handshake [OF w(2) A ids(2) ne [symmetric] _ 2(2) _ s2(2), of a2] h(3) e(2) by (auto simp: A2_def)
  have 4: "deliver lb e4 cb raw3 ?B1 = (Inr (), B2, [])"
    using deliver_handshake [OF w(3) B1(1) ids(1) ne _ 3(2) _ disjI1 [OF refl], of b2] h(4) B1(2) by (auto simp: B2_def)
  have "met A A2 (hex ib) ca sa" by (rule metI [OF A2_def ses(1)])
  moreover have "met B B2 (hex ia) cb sb"
    using metI [OF B2_def ses(2)] by (simp add: met_def)
  moreover have "ms_tasks A2 = ms_tasks A @ Start_pending (hex ib) #
      (case dict_get (ms_pending A) (hex ib) of Some q \<Rightarrow> [Send_pending (hex ib) q] | None \<Rightarrow> [])"
    using ses(1) by (simp add: A2_def settled_def Let_def is_session_established_def has_key_def split: option.split)
  ultimately show ?thesis using 2(1) 3(1) 4 ses by blast
qed

subsection \<open>The first message\<close>

text \<open>The texts of a message have lengths that fit their fields.\<close>

definition fits :: "nat \<Rightarrow> pystr \<Rightarrow> bool" where
  "fits n t \<longleftrightarrow> (\<exists>b. utf8_encode t = Inr b \<and> length b \<le> n)"

lemma utf8_encode_hex: "\<exists>b. utf8_encode (hex bs) = Inr b \<and> length b = 2 * length bs"
proof (induction bs)
  case (Cons x bs)
  have d: "\<exists>e. utf8_enc1 (hexdigit k) = Inr [e]" if "k < 16" for k using that by (auto simp: hexdigit_def utf8_enc1_def)
  have "unat x div 16 < 16" using unat_byte_less [of x] by linarith
  with Cons d [of "unat x div 16"] d [of "unat x mod 16"] show ?case by (auto simp: hex_Cons)
qed simp

lemma written_payload:
  assumes "ts < 2 ^ 64" and "full_id ia" and "fits 255 u" and "fits 255 nickname" and "fits 60000 content"
  shows "\<exists>payload. create_bitchat_message_payload_full ts u nickname content None pr (hex ia) False None =
      Inr (payload, u) \<and> length payload < 60700"
proof -
  obtain v n b h where t: "utf8_encode u = Inr v" "length v \<le> 255" "utf8_encode nickname = Inr n"
    "length n \<le> 255" "utf8_encode content = Inr b" "length b \<le> 60000" "utf8_encode (hex ia) = Inr h" "length h = 16"
    using assms(3-5) utf8_encode_hex [of ia] full_idD(1) [OF assms(2)] by (auto simp: fits_def)
  from assms(1) t full_idD(6) [OF assms(2)] show ?thesis
    by (simp add: create_bitchat_message_payload_full_def pack_Q_def pack_H_def write_text8_def write_len8_def
        content_field_def byte_of_def)
qed

lemma sent_payload:
  assumes "working ev" and "full_id ia" and "fits 255 (ev_uuid ev)" and "fits 255 nickname" and "fits 60000 content"
  shows "\<exists>payload. create_bitchat_message_payload_full (ev_ts ev 0) (ev_uuid ev) nickname content None pr (hex ia) False None =
      Inr (payload, ev_uuid ev) \<and> length payload < 60700"
  using assms(1) by (intro written_payload [OF _ assms(2-5)]) (simp add: working_def)

lemma send_private_succeeds:
  assumes "working ev" and "crypto_ok (lb_crypto lb)" and "full_id ia" and "full_id ib" and "ms_id s = hex ia"
    and "linked_to s (hex ib) c" and "dict_get (sv_sessions (ms_enc s)) (hex ib) = Some sa" and "ready (ses_send sa)"
    and "fits 255 (ev_uuid ev)" and "fits 255 (ms_nickname s)" and "fits 60000 content"
  shows "\<exists>s' os. send_private_message lb ev content (hex ib) nick mid s = (Inr (ev_uuid ev), s', os)"
proof -
  obtain payload where p: "create_bitchat_message_payload_full (ev_ts ev 0) (ev_uuid ev) (ms_nickname s) content None True
      (hex ia) False None = Inr (payload, ev_uuid ev)" "length payload < 60700"
    using sent_payload [OF assms(1,3,9-11)] by blast
  obtain inner where i: "create_bitchat_packet_with_recipient (ev_ts ev 1) (ev_rnd ev 0) (hex ia) (Some (hex ib)) MESSAGE payload None =
      Inr inner" "length (set_ttl inner 7) \<le> length payload + 285"
    using created_letter [OF assms(1,3,4), of payload 7 1 0 MESSAGE] p(2) by auto
  let ?s = "s\<lparr>ms_tracker := track_message (ev_now ev) (ev_uuid ev) content True (ms_tracker s)\<rparr>"
  let ?d = "seal (lb_crypto lb) (ses_send sa) (set_ttl inner 7) []"
  obtain s2 where e: "encryptA lb (hex ib) (set_ttl inner 7) ?s = (Inr ?d, s2, [])"
    and s2: "ms_addresses s2 = ms_addresses s" "ms_transport s2 = ms_transport s"
    using encryptA_ready [of ?s "hex ib" sa lb "set_ttl inner 7"] assms(7,8) by simp
  have l: "linked_to s2 (hex ib) c" using assms(6) s2 by (simp add: linked_to_def)
  have d: "length ?d < 65000" using i(2) p(2) by (simp add: length_seal [OF assms(2)])
  obtain outer where o: "create_bitchat_packet_with_recipient (ev_ts ev 2) (ev_rnd ev 1) (hex ia) (Some (hex ib)) NOISE_ENCRYPTED ?d None =
      Inr outer" "length (set_ttl outer 7) \<le> length ?d + 285"
    using created_letter [OF assms(1,3,4) d, of 7 2 1 NOISE_ENCRYPTED] by auto
  have "length outer < 65536" using o(2) i(2) p(2) by (simp add: set_ttl_def length_seal [OF assms(2)])
  from send_to_peer_frame [OF assms(1) l this] have snd: "send_to_peer ev (hex ib) outer s2 = (Inr (), s2, [sent_frame c outer])" .
  have est: "is_session_established (hex ib) (ms_enc s)"
    using assms(7) by (simp add: is_session_established_def has_key_def)
  have "send_private_message lb ev content (hex ib) nick mid s =
      seqA (send_to_peer ev (hex ib) outer) (ret (ev_uuid ev)) s2"
    by (simp add: send_private_message_def getA_def est assms(5) p(1) i(1) o(1) bindA_liftA seqA_modA
        bindA_silent [where m = "encryptA lb (hex ib) (set_ttl inner 7)" and s = ?s, OF e] del: One_nat_def)
  then show ?thesis by (simp add: seqA_def bindA_def snd ret_def)
qed

lemma deliver_private:
  assumes "crypto_ok (lb_crypto lb)" and "parse_bitchat_packet (lb_lz4 lb) raw = Inr pk" and "pkt_type pk = NOISE_ENCRYPTED"
    and "pkt_sender_id_str pk \<noteq> ms_id s" and "\<not> is_blocked lb (pkt_sender_id_str pk) s"
    and "dict_get (sv_sessions (ms_enc s)) (pkt_sender_id_str pk) = Some ses" and "ready (ses_receive ses)"
    and "pkt_payload pk = seal (lb_crypto lb) (ses_receive ses) (1 # ds) []"
    and "\<exists>ipk. parse_bitchat_packet (lb_lz4 lb) (1 # ds) = Inr ipk \<and> pkt_type ipk = MESSAGE \<and>
      parse_bitchat_message_payload (pkt_payload ipk) = Inr m" and "new_to lb (msg_id m) s"
  shows "\<exists>s' os. deliver lb ev c raw s = (Inr (), s', Message_received m (pkt_sender_id_str pk) True # os)"
proof -
  let ?s = "heard_from (pkt_sender_id_str pk) c s"
  have "\<not> is_blocked lb (pkt_sender_id_str pk) ?s" using assms(5) unfolding is_blocked_def heard_from_simps .
  moreover have "deliver lb ev c raw s = handle_noise_encrypted lb ev pk ?s"
    using deliver_handle [OF assms(2,4), of ev c] assms(3) by (simp add: handle_packet_def)
  moreover obtain ipk where "parse_bitchat_packet (lb_lz4 lb) (1 # ds) = Inr ipk" "pkt_type ipk = MESSAGE"
    "parse_bitchat_message_payload (pkt_payload ipk) = Inr m" using assms(9) by blast
  ultimately show ?thesis
    using handle_noise_encrypted_run [OF assms(1), of pk ?s ses "1 # ds" ds ipk m ev] assms(6-8,10) by (simp add: new_to_def)
qed

lemma whisper_initiates:
  assumes "working ev" and "crypto_ok (lb_crypto lb)" and "at_end s ia c" and "full_id ib" and "linked_to s (hex ib) c"
    and "\<not> is_session_established (hex ib) (ms_enc s)" and "dict_get (ms_pending s) (hex ib) = None"
    and "dict_get (ms_attempts s) (hex ib) = None"
  shows "\<exists>m raw s'. initiate_handshake (lb_crypto lb) (ev_eph ev) (hex ib) (ms_enc s) = (Inr m, ms_enc s') \<and>
    send_private_message lb ev content (hex ib) nick None s = (Inr (ev_uuid ev), s', [sent_frame c raw]) \<and>
    parse_bitchat_packet z raw = Inr (letter ia ib NOISE_HANDSHAKE_INIT m 3) \<and>
    at_end s' ia c \<and> dict_get (ms_pending s') (hex ib) = Some [(content, nick, ev_uuid ev)] \<and>
    ms_tasks s' = ms_tasks s \<and> ms_nickname s' = ms_nickname s"
proof -
  obtain r enc where i: "initiate_handshake (lb_crypto lb) (ev_eph ev) (hex ib) (ms_enc s) = (r, enc)" by (rule prod.exhaust)
  obtain m where m: "r = Inr m" "length m < 65000" by (rule initiate_handshake_first [OF assms(2) i]) simp
  let ?s = "s\<lparr>ms_pending := dict_set (ms_pending s) (hex ib) [(content, nick, ev_uuid ev)],
      ms_attempts := dict_set (ms_attempts s) (hex ib) (ev_now ev)\<rparr>"
  have "full_id ia" "ms_id ?s = hex ia" "linked_to ?s (hex ib) c" using assms(3,5) by (simp_all add: at_end_def linked_to_def)
  from initiate_letter [OF assms(1) this(1) assms(4) this(2,3) _ m(2), of lb enc z] i m(1) obtain raw where
    raw: "mesh_initiate_handshake lb ev (hex ib) ?s = (Inr (), ?s\<lparr>ms_enc := enc\<rparr>, [sent_frame c raw])"
      "parse_bitchat_packet z raw = Inr (letter ia ib NOISE_HANDSHAKE_INIT m 3)" by auto
  have "send_private_message lb ev content (hex ib) nick None s =
      seqA (mesh_initiate_handshake lb ev (hex ib)) (ret (ev_uuid ev)) ?s"
    using assms(6-8) by (simp add: send_private_message_def queue_private_message_def getA_def seqA_modA Let_def)
  then have "send_private_message lb ev content (hex ib) nick None s = (Inr (ev_uuid ev), ?s\<lparr>ms_enc := enc\<rparr>, [sent_frame c raw])"
    by (simp add: seqA_def bindA_def ret_def raw(1))
  moreover have "at_end (?s\<lparr>ms_enc := enc\<rparr>) ia c" using assms(3) by (simp add: at_end_def)
  ultimately show ?thesis using i m(1) raw(2)
    by (intro exI [of _ m] exI [of _ raw] exI [of _ "?s\<lparr>ms_enc := enc\<rparr>"]) simp
qed

lemma run_pending:
  assumes "ms_tasks s ! k = Send_pending p [(content, nick, mid)]" and "k < length (ms_tasks s)"
    and "send_private_message lb ev content p nick (Some mid)
      (s\<lparr>ms_tasks := take k (ms_tasks s) @ drop (Suc k) (ms_tasks s)\<rparr>) = (Inr x, s', os)"
  shows "node_act lb (Run ev k) s = (Inr (), s', os)"
  using assms by (simp add: getA_def seqA_modA) (simp add: seqA_def bindA_def tryA_def ret_def)

text \<open>Once the sessions are there, the waiting message goes out and arrives.\<close>

lemma pending_message_arrives:
  assumes "crypto_ok (lb_crypto lb)" and "working e5" and "full_id ia" and "full_id ib" and "ia \<noteq> ib"
    and "ms_id A = hex ia" and "ms_id B = hex ib" and "linked_to A (hex ib) ca"
    and "dict_get (sv_sessions (ms_enc A)) (hex ib) = Some sa" and "dict_get (sv_sessions (ms_enc B)) (hex ia) = Some sb"
    and "linked sa sb" and "hex (sha256 (lb_crypto lb) (ses_remote_static sb)) \<notin> set (ms_blocked B)"
    and "fits 255 (ev_uuid e5)" and "fits 255 (ms_nickname A)" and "fits 60000 content" and "new_to lb (ev_uuid e5) B"
    and "k < length (ms_tasks A)" and "ms_tasks A ! k = Send_pending (hex ib) [(content, nick, mid)]"
  shows "\<exists>A3 raw4 B3 rest. node_act lb (Run e5 k) A = (Inr (), A3, [sent_frame ca raw4]) \<and>
    deliver lb e6 cb raw4 B = (Inr (), B3, Message_received
      \<lparr>msg_id = ev_uuid e5, msg_content = content, msg_channel = None, msg_is_encrypted = False,
       msg_encrypted_content = None\<rparr> (hex ia) True # rest)"
proof -
  let ?m = "\<lparr>msg_id = ev_uuid e5, msg_content = content, msg_channel = None, msg_is_encrypted = False,
    msg_encrypted_content = None\<rparr>"
  define A' where "A' = A\<lparr>ms_tasks := take k (ms_tasks A) @ drop (Suc k) (ms_tasks A)\<rparr>"
  have A': "ms_id A' = hex ia" "linked_to A' (hex ib) ca" "dict_get (sv_sessions (ms_enc A')) (hex ib) = Some sa"
    "ms_nickname A' = ms_nickname A" using assms(6,8,9) by (simp_all add: A'_def linked_to_def)
  have rdy: "ready (ses_send sa)" "ses_send sa = ses_receive sb" using assms(11) by (auto simp: linked_def)
  obtain A3 os where s5: "send_private_message lb e5 content (hex ib) nick (Some mid) A' = (Inr (ev_uuid e5), A3, os)"
    using send_private_succeeds [OF assms(2,1,3,4) A'(1-3) rdy(1) assms(13)] A'(4) assms(14,15) by metis
  have ne: "conn_address ca \<noteq> []" by (simp add: conn_address_def address_def)
  obtain raw4 pk inner where os: "os = [Net (Write (cn_id ca) (be_bytes 2 (length raw4) @ raw4))]"
    and pk: "parse_bitchat_packet (lb_lz4 lb) raw4 = Inr pk" "pkt_type pk = NOISE_ENCRYPTED" "pkt_sender_id_str pk = hex ia"
      "pkt_payload pk = seal (lb_crypto lb) (ses_send sa) ([1, mt_value MESSAGE, 7] @ inner) []"
    and m: "\<exists>ipk. parse_bitchat_packet (lb_lz4 lb) ([1, mt_value MESSAGE, 7] @ inner) = Inr ipk \<and> pkt_type ipk = MESSAGE \<and>
      parse_bitchat_message_payload (pkt_payload ipk) = Inr ?m"
    using A'(2) assms(2)
    by (auto simp: linked_to_def working_def
        intro: private_message_sealed [OF A'(3) rdy(1) A'(1) full_idD(1,2) [OF assms(3)] _ ne _ _ s5])
  have run: "node_act lb (Run e5 k) A = (Inr (), A3, [sent_frame ca raw4])"
    using run_pending [OF assms(18,17) s5 [unfolded A'_def]] os by (simp add: sent_frame_def)
  have b: "\<not> is_blocked lb (hex ia) B"
    using assms(10,12) by (simp add: is_blocked_def get_peer_fingerprint_def get_fingerprint_def)
  have "\<exists>B3 rest. deliver lb e6 cb raw4 B = (Inr (), B3, Message_received ?m (pkt_sender_id_str pk) True # rest)"
    by (rule deliver_private [OF assms(1) pk(1,2), where ses = sb and ds = "[mt_value MESSAGE, 7] @ inner"])
      (use assms(5,7,10,16) b m pk(3,4) rdy in simp_all)
  with run pk(3) show ?thesis by auto
qed

text \<open>
  C2: a private message reaches a peer without a session. A knows a connection to B, has neither a
  session nor waiting messages for it and has not tried a handshake with it; A's application sends a
  text to B. A writes one packet; when B has received it, A B's answer, and B the answer to that, each
  running the task for a packet at once, both have a session and A has a task with the waiting text;
  when that task runs next, A writes one packet that B, when it receives it and runs the task for it,
  reports to its application as a private message from A with exactly the text. The identifiers of A
  and B differ, have eight bytes and do not end in a zero byte; nothing fails on the way, the
  Diffie-Hellman secrets are not refused and the texts fit their fields; B has not blocked A's key, has
  no handshake with A in progress, has not seen the fresh message identifier, and has handled fewer
  than 5000 messages, so that its Bloom filter has room.
\<close>

theorem first_message_arrives:
  assumes "crypto_ok (lb_crypto lb)" and "\<forall>e\<in>{e1, e2, e3, e4, e5}. working e"
    and "x_dh (lb_crypto lb) (ev_eph e1) (x_pub (lb_crypto lb) (ev_eph e2)) = Some ee"
    and "x_dh (lb_crypto lb) (ev_eph e1) (x_pub (lb_crypto lb) (sv_static (ms_enc B))) = Some es"
    and "x_dh (lb_crypto lb) (sv_static (ms_enc A)) (x_pub (lb_crypto lb) (ev_eph e2)) = Some se"
    and "at_end A ia ca" and "at_end B ib cb" and "ia \<noteq> ib" and "linked_to A (hex ib) ca"
    and "\<not> is_session_established (hex ib) (ms_enc A)" and "dict_get (ms_pending A) (hex ib) = None"
    and "dict_get (ms_attempts A) (hex ib) = None" and "\<not> has_key (sv_handshakes (ms_enc B)) (hex ia)"
    and "hex (sha256 (lb_crypto lb) (x_pub (lb_crypto lb) (sv_static (ms_enc A)))) \<notin> set (ms_blocked B)"
    and "fits 255 (ev_uuid e5)" and "fits 255 (ms_nickname A)" and "fits 60000 content"
    and "new_to lb (ev_uuid e5) B"
  shows "\<exists>mid A1 raw1 B1 raw2 A2 raw3 B2 k A3 raw4 B3 rest.
    send_private_message lb e1 content (hex ib) nick None A = (Inr mid, A1, [sent_frame ca raw1]) \<and>
    deliver lb e2 cb raw1 B = (Inr (), B1, [sent_frame cb raw2]) \<and>
    deliver lb e3 ca raw2 A1 = (Inr (), A2, [sent_frame ca raw3]) \<and>
    deliver lb e4 cb raw3 B1 = (Inr (), B2, []) \<and>
    is_session_established (hex ib) (ms_enc A2) \<and> is_session_established (hex ia) (ms_enc B2) \<and>
    k < length (ms_tasks A2) \<and> ms_tasks A2 ! k = Send_pending (hex ib) [(content, nick, mid)] \<and>
    node_act lb (Run e5 k) A2 = (Inr (), A3, [sent_frame ca raw4]) \<and>
    deliver lb e6 cb raw4 B2 = (Inr (), B3, Message_received
      \<lparr>msg_id = ev_uuid e5, msg_content = content, msg_channel = None, msg_is_encrypted = False,
       msg_encrypted_content = None\<rparr> (hex ia) True # rest)"
proof -
  let ?cr = "lb_crypto lb"
  have w: "working e1" "working e2" "working e3" "working e4" "working e5" using assms(2) by simp_all
  have ids: "full_id ia" "full_id ib" using assms(6,7) by (auto simp: at_end_def)
  obtain m1 raw1 A1 where i: "initiate_handshake ?cr (ev_eph e1) (hex ib) (ms_enc A) = (Inr m1, ms_enc A1)"
    and s1: "send_private_message lb e1 content (hex ib) nick None A = (Inr (ev_uuid e1), A1, [sent_frame ca raw1])"
    and raw1: "parse_bitchat_packet (lb_lz4 lb) raw1 = Inr (letter ia ib NOISE_HANDSHAKE_INIT m1 3)"
    and A1: "at_end A1 ia ca" "dict_get (ms_pending A1) (hex ib) = Some [(content, nick, ev_uuid e1)]"
      "ms_tasks A1 = ms_tasks A" "ms_nickname A1 = ms_nickname A"
    using whisper_initiates [OF w(1) assms(1,6) ids(2) assms(9-12)] by blast
  obtain raw2 raw3 B1 A2 B2 sa sb where d: "deliver lb e2 cb raw1 B = (Inr (), B1, [sent_frame cb raw2])"
      "deliver lb e3 ca raw2 A1 = (Inr (), A2, [sent_frame ca raw3])" "deliver lb e4 cb raw3 B1 = (Inr (), B2, [])"
    and met: "met A1 A2 (hex ib) ca sa" "met B B2 (hex ia) cb sb" "linked sa sb"
      "ses_remote_static sb = x_pub ?cr (sv_static (ms_enc A))"
    and t: "ms_tasks A2 = ms_tasks A @ [Start_pending (hex ib), Send_pending (hex ib) [(content, nick, ev_uuid e1)]]"
    using handshake_over_wire [OF assms(1) w(2-4) assms(3-5) A1(1) assms(7,8) i raw1 assms(13)]
    unfolding A1(2,3) option.case by blast
  let ?k = "Suc (length (ms_tasks A))"
  have k: "?k < length (ms_tasks A2)" "ms_tasks A2 ! ?k = Send_pending (hex ib) [(content, nick, ev_uuid e1)]"
    by (simp_all add: t nth_append)
  have f: "ms_id A2 = hex ia" "ms_id B2 = hex ib" "linked_to A2 (hex ib) ca" "ms_nickname A2 = ms_nickname A"
    "dict_get (sv_sessions (ms_enc A2)) (hex ib) = Some sa" "dict_get (sv_sessions (ms_enc B2)) (hex ia) = Some sb"
    "ms_blocked B2 = ms_blocked B" "new_to lb (ev_uuid e5) B2 = new_to lb (ev_uuid e5) B"
    using met(1,2) A1(1,4) assms(7) by (simp_all add: met_def at_end_def linked_to_def new_to_def)
  obtain A3 raw4 B3 rest where r: "node_act lb (Run e5 ?k) A2 = (Inr (), A3, [sent_frame ca raw4])"
    "deliver lb e6 cb raw4 B2 = (Inr (), B3, Message_received
      \<lparr>msg_id = ev_uuid e5, msg_content = content, msg_channel = None, msg_is_encrypted = False,
       msg_encrypted_content = None\<rparr> (hex ia) True # rest)"
    using pending_message_arrives [OF assms(1) w(5) ids(1,2) assms(8) f(1-3,5,6) met(3) _ assms(15) _ assms(17) _ k]
      assms(14,16,18) f(4,7,8) met(4) by metis
  have "is_session_established (hex ib) (ms_enc A2)" "is_session_established (hex ia) (ms_enc B2)"
    using f(5,6) by (simp_all add: is_session_established_def has_key_def)
  with s1 d k r show ?thesis by blast
qed

subsection \<open>Meeting\<close>

lemma signed_packet:
  assumes "\<And>i. ev_ts ev i < 2 ^ 64" and "\<And>j k. length (ev_rnd ev j k) = k" and "full_id ia"
    and "length m < 60000" and "length sig < 1000"
  shows "\<exists>raw. create_bitchat_packet_with_signature (ev_ts ev i) (ev_rnd ev j) (hex ia) t m (Some sig) = Inr raw \<and>
    length raw \<le> 65535 \<and> (\<exists>pk. parse_bitchat_packet z raw = Inr pk \<and> pkt_type pk = t \<and>
      pkt_sender_id_str pk = hex ia \<and> pkt_payload pk = m)"
proof -
  have r: "recipient_field None = Inr BROADCAST_RECIPIENT" "length BROADCAST_RECIPIENT = 8"
    by (simp_all add: recipient_field_def BROADCAST_RECIPIENT_def)
  have m: "length m < 2 ^ 16" using assms(4) by simp
  obtain pk where pk: "create_bitchat_packet_with_recipient (ev_ts ev i) (ev_rnd ev j) (hex ia) None t m (Some sig) =
      Inr (pk @ padding (ev_rnd ev j) (length pk))"
    "pk = [1, mt_value t, 7] @ be_bytes 8 (ev_ts ev i) @ [packet_flags None t (Some sig)] @
       be_bytes 2 (length m) @ pad8 ia @
       (if packet_flags None t (Some sig) AND FLAG_HAS_RECIPIENT \<noteq> 0 then BROADCAST_RECIPIENT else []) @
       m @ (case Some sig of Some s \<Rightarrow> s | None \<Rightarrow> [])"
    by (rule create_layout [OF fromhex_hex assms(1) m r(1)])
  have "length (padding (ev_rnd ev j) (length pk)) \<le> 255" using assms(2) by (auto simp: padding_def Let_def)
  moreover have "length pk \<le> 61030" using r(2) assms(4,5) by (simp add: pk(2))
  ultimately have "length (pk @ padding (ev_rnd ev j) (length pk)) \<le> 65535" by simp
  with pk(1) parse_created [OF fromhex_hex [of ia] assms(1) m r(1), of i "ev_rnd ev j" t "Some sig" z] full_idD [OF assms(3)]
  show ?thesis by (auto simp: create_bitchat_packet_with_signature_def)
qed

lemma utf8_encode_dec: "\<exists>b. utf8_encode (dec n) = Inr b"
proof -
  have "\<exists>b. utf8_encode cs = Inr b" if "\<forall>c\<in>set cs. c < 128" for cs
    using that by (induction cs) (auto simp: utf8_enc1_def)
  moreover have "\<forall>c\<in>set (dec n). c < 128" using dec_digits by fastforce
  ultimately show ?thesis by blast
qed

lemma announcement_payload:
  assumes "full_id ia" and "length pub = 32" and "length sig = 32" and "fits 255 nick"
  shows "\<exists>data. encode_noise_identity_announcement_binary (hex ia) pub pub nick (int ts) sig None = Inr data \<and>
    length data < 1000 \<and> (\<exists>an. parse_noise_identity_announcement_binary data = Some an \<and>
      ann_peerID an = hex ia \<and> ann_nickname an = nick)"
proof -
  obtain nb where nb: "utf8_encode nick = Inr nb" "length nb \<le> 255" using assms(4) by (auto simp: fits_def)
  have f: "write_len8 pub = Inr (32 # pub)" "write_len8 sig = Inr (32 # sig)"
    "write_text8 nick = Inr (word_of_nat (length nb) # nb)"
    using assms(2,3) nb by (simp_all add: write_len8_def write_text8_def byte_of_def)
  note i = full_idD(1) [OF assms(1)]
  note enc = encode_identity_layout [OF i _ f(1) f(1) f(3) f(2), of None "int ts"]
  note dec = parse_identity_layout [OF i _ f(1) f(1) f(3) f(2) length_be_bytes refl, of None "nat (int ts * 1000)"]
  from enc have "encode_noise_identity_announcement_binary (hex ia) pub pub nick (int ts) sig None =
    Inr ([0] @ ia @ (32 # pub) @ (32 # pub) @ (word_of_nat (length nb) # nb) @ be_bytes 8 (nat (int ts * 1000)) @ 32 # sig)"
    (is "_ = Inr ?data") by simp
  moreover from dec have "\<exists>an. parse_noise_identity_announcement_binary ?data = Some an \<and>
      ann_peerID an = hex ia \<and> ann_nickname an = nick"
    by (simp add: parse_noise_identity_announcement_binary_def)
  moreover have "length ?data < 1000" using i assms(2,3) nb(2) by simp
  ultimately show ?thesis by blast
qed

text \<open>The identity announcement of a node, and what a receiver reads in it.\<close>

lemma announcement_packet:
  assumes "crypto_ok (lb_crypto lb)" and "\<forall>d. length (sha256 (lb_crypto lb) d) = 32" and "working ev"
    and "full_id ia" and "ms_id s = hex ia" and "fits 255 (ms_nickname s)"
  shows "\<exists>raw pk an. run_task lb ev Announce_identity s = (Inr (), s\<lparr>ms_tasks := ms_tasks s @ [Announce_name]\<rparr>,
      map (\<lambda>(addr, c). sent_frame c raw) (tr_connections (ms_transport s))) \<and>
    parse_bitchat_packet (lb_lz4 lb) raw = Inr pk \<and> pkt_type pk = NOISE_IDENTITY_ANNOUNCE \<and>
    pkt_sender_id_str pk = hex ia \<and> parse_noise_identity_announcement_binary (pkt_payload pk) = Some an \<and>
    ann_peerID an = hex ia \<and> ann_nickname an = ms_nickname s"
proof -
  let ?pub = "x_pub (lb_crypto lb) (sv_static (ms_enc s))"
  obtain h where h: "utf8_encode (hex ia) = Inr h" using utf8_encode_hex by blast
  obtain tb where tb: "utf8_encode (dec (ev_ts ev 0)) = Inr tb" using utf8_encode_dec by blast
  define sig where "sig = sign_data (lb_crypto lb) (h @ ?pub @ tb) (ms_enc s)"
  have l: "length ?pub = 32" "length sig = 32" using assms(1,2) by (simp_all add: crypto_okD sig_def sign_data_def)
  obtain data where enc: "encode_noise_identity_announcement_binary (hex ia) ?pub ?pub (ms_nickname s) (int (ev_ts ev 0)) sig None =
      Inr data" and dl: "length data < 1000"
    and an: "\<exists>an. parse_noise_identity_announcement_binary data = Some an \<and> ann_peerID an = hex ia \<and> ann_nickname an = ms_nickname s"
    using announcement_payload [OF assms(4) l assms(6), of "ev_ts ev 0"] by blast
  have w: "ev_ts ev i < 2 ^ 64" "length (ev_rnd ev j k) = k" "ev_fails ev i = None" for i j k
    using assms(3) by (simp_all add: working_def)
  obtain raw where raw: "create_bitchat_packet_with_signature (ev_ts ev 1) (ev_rnd ev 0) (hex ia) NOISE_IDENTITY_ANNOUNCE data (Some sig) = Inr raw"
    "length raw \<le> 65535" and pk: "\<exists>pk. parse_bitchat_packet (lb_lz4 lb) raw = Inr pk \<and> pkt_type pk = NOISE_IDENTITY_ANNOUNCE \<and>
      pkt_sender_id_str pk = hex ia \<and> pkt_payload pk = data"
    using signed_packet [OF w(1,2) assms(4), of data sig 1 0 NOISE_IDENTITY_ANNOUNCE "lb_lz4 lb"] dl l(2) by auto
  have "send_identity_announce lb ev s = raw_send ev raw s"
    by (simp add: send_identity_announce_def getA_def assms(5) h tb bindA_liftA Let_def get_public_key_bytes_def
        get_signing_public_key_bytes_def sig_def [unfolded get_public_key_bytes_def, symmetric] enc raw(1) del: One_nat_def)
  then have "send_identity_announce lb ev s = (Inr (), s, map (\<lambda>(addr, c). sent_frame c raw) (tr_connections (ms_transport s)))"
    using raw_send_all [of ev raw s] w(3) raw(2) by (simp add: sent_frame_def)
  then have "run_task lb ev Announce_identity s = (Inr (), s\<lparr>ms_tasks := ms_tasks s @ [Announce_name]\<rparr>,
      map (\<lambda>(addr, c). sent_frame c raw) (tr_connections (ms_transport s)))"
    by (simp add: tryA_def seqA_def bindA_def spawn_def modA_def)
  with pk an show ?thesis by metis
qed

text \<open>The node with the smaller identifier answers an announcement with a handshake.\<close>

lemma announcement_answered:
  assumes "crypto_ok (lb_crypto lb)" and "working ev" and "at_end s ib c" and "full_id ia" and "ia \<noteq> ib"
    and "parse_bitchat_packet (lb_lz4 lb) raw = Inr pk" and "pkt_type pk = NOISE_IDENTITY_ANNOUNCE"
    and "pkt_sender_id_str pk = hex ia" and "parse_noise_identity_announcement_binary (pkt_payload pk) = Some an"
    and "ann_peerID an = hex ia" and "str_less (hex ib) (hex ia)" and "\<not> is_session_established (hex ia) (ms_enc s)"
  shows "\<exists>m raw1 s'. initiate_handshake (lb_crypto lb) (ev_eph ev) (hex ia) (ms_enc s) = (Inr m, ms_enc s') \<and>
    deliver lb ev c raw s = (Inr (), s',
      (if has_key (ms_peers s) (hex ia) then [] else [Peer_joined (hex ia) (ann_nickname an)]) @ [sent_frame c raw1]) \<and>
    parse_bitchat_packet (lb_lz4 lb) raw1 = Inr (letter ib ia NOISE_HANDSHAKE_INIT m 3) \<and> at_end s' ib c"
proof -
  obtain r enc where i: "initiate_handshake (lb_crypto lb) (ev_eph ev) (hex ia) (ms_enc s) = (r, enc)" by (rule prod.exhaust)
  obtain m where m: "r = Inr m" "length m < 65000" by (rule initiate_handshake_first [OF assms(1) i]) simp
  let ?h = "heard_from (hex ia) c s"
  let ?s = "?h\<lparr>ms_peers := dict_set (ms_peers s) (hex ia) (Some (ann_nickname an))\<rparr>"
  have e: "full_id ib" "ms_id ?s = hex ib" "linked_to ?s (hex ia) c" "hex ia \<noteq> ms_id s" "hex ia \<noteq> hex ib"
    "at_end (?s\<lparr>ms_enc := enc\<rparr>) ib c"
    using assms(3,5) by (auto simp: at_end_def linked_to_def)
  from initiate_letter [OF assms(2) e(1) assms(4) e(2,3) _ m(2), of lb enc "lb_lz4 lb"] i m(1) obtain raw1 where
    raw1: "mesh_initiate_handshake lb ev (hex ia) ?s = (Inr (), ?s\<lparr>ms_enc := enc\<rparr>, [sent_frame c raw1])"
      "parse_bitchat_packet (lb_lz4 lb) raw1 = Inr (letter ib ia NOISE_HANDSHAKE_INIT m 3)" by auto
  have np: "note_peer (hex ia) (ann_nickname an) ?h = (Inr (), ?s,
      if has_key (ms_peers s) (hex ia) then [] else [Peer_joined (hex ia) (ann_nickname an)])"
    by (simp add: note_peer_def act_defs Let_def)
  have "deliver lb ev c raw s = handle_noise_identity_announce lb ev pk ?h"
    using deliver_handle [OF assms(6), of s ev c] assms(7,8) e(4) by (simp add: handle_packet_def)
  also have "\<dots> = seqA (note_peer (hex ia) (ann_nickname an)) (mesh_initiate_handshake lb ev (hex ia)) ?h"
    using e(2,5) assms(8-12) by (simp add: handle_noise_identity_announce_def getA_def Let_def)
  also have "\<dots> = (Inr (), ?s\<lparr>ms_enc := enc\<rparr>,
      (if has_key (ms_peers s) (hex ia) then [] else [Peer_joined (hex ia) (ann_nickname an)]) @ [sent_frame c raw1])"
    by (simp add: seqA_def bindA_def np raw1(1))
  finally show ?thesis using i m(1) raw1(2) e(6)
    by (intro exI [of _ m] exI [of _ raw1] exI [of _ "?s\<lparr>ms_enc := enc\<rparr>"]) simp
qed

text \<open>
  C5: nodes that connect establish a session. A, at one end of a connection, announces its identity to
  all its connections; B, at the other end, has the smaller identifier and no session with A. When B has
  received the announcement, reported A under the nickname A announced unless it knew it, and the three
  messages of the handshake have gone back and forth, each node has a session for the other: the two
  match, and each holds the other's true static key. Nothing fails on the way, the Diffie-Hellman
  secrets are not refused, SHA-256 has 32 bytes, A's nickname fits its field, A has no handshake with B
  in progress, and both identifiers have eight bytes and do not end in a zero byte.
\<close>

theorem connected_nodes_meet:
  assumes "crypto_ok (lb_crypto lb)" and "\<forall>d. length (sha256 (lb_crypto lb) d) = 32"
    and "\<forall>e\<in>{e0, e1, e2, e3, e4}. working e"
    and "x_dh (lb_crypto lb) (ev_eph e1) (x_pub (lb_crypto lb) (ev_eph e2)) = Some ee"
    and "x_dh (lb_crypto lb) (ev_eph e1) (x_pub (lb_crypto lb) (sv_static (ms_enc A))) = Some es"
    and "x_dh (lb_crypto lb) (sv_static (ms_enc B)) (x_pub (lb_crypto lb) (ev_eph e2)) = Some se"
    and "at_end A ia ca" and "at_end B ib cb" and "ia \<noteq> ib" and "str_less (hex ib) (hex ia)"
    and "\<not> is_session_established (hex ia) (ms_enc B)" and "\<not> has_key (sv_handshakes (ms_enc A)) (hex ib)"
    and "fits 255 (ms_nickname A)"
  shows "\<exists>raw0 A0 raw1 B1 raw2 A1 raw3 B2 A2 sa sb.
    run_task lb e0 Announce_identity A = (Inr (), A0, map (\<lambda>(addr, c). sent_frame c raw0) (tr_connections (ms_transport A))) \<and>
    deliver lb e1 cb raw0 B = (Inr (), B1,
      (if has_key (ms_peers B) (hex ia) then [] else [Peer_joined (hex ia) (ms_nickname A)]) @ [sent_frame cb raw1]) \<and>
    deliver lb e2 ca raw1 A0 = (Inr (), A1, [sent_frame ca raw2]) \<and>
    deliver lb e3 cb raw2 B1 = (Inr (), B2, [sent_frame cb raw3]) \<and>
    deliver lb e4 ca raw3 A1 = (Inr (), A2, []) \<and>
    dict_get (sv_sessions (ms_enc A2)) (hex ib) = Some sa \<and> dict_get (sv_sessions (ms_enc B2)) (hex ia) = Some sb \<and>
    linked sa sb \<and> ses_remote_static sa = x_pub (lb_crypto lb) (sv_static (ms_enc B)) \<and>
    ses_remote_static sb = x_pub (lb_crypto lb) (sv_static (ms_enc A))"
proof -
  have w: "working e0" "working e1" "working e2" "working e3" "working e4" using assms(3) by simp_all
  have ids: "full_id ia" "full_id ib" "ms_id A = hex ia" using assms(7,8) by (auto simp: at_end_def)
  let ?A0 = "A\<lparr>ms_tasks := ms_tasks A @ [Announce_name]\<rparr>"
  obtain raw0 pk an where r0: "run_task lb e0 Announce_identity A = (Inr (), ?A0,
      map (\<lambda>(addr, c). sent_frame c raw0) (tr_connections (ms_transport A)))"
    and pk: "parse_bitchat_packet (lb_lz4 lb) raw0 = Inr pk" "pkt_type pk = NOISE_IDENTITY_ANNOUNCE"
      "pkt_sender_id_str pk = hex ia" "parse_noise_identity_announcement_binary (pkt_payload pk) = Some an"
      "ann_peerID an = hex ia" "ann_nickname an = ms_nickname A"
    using announcement_packet [OF assms(1,2) w(1) ids(1,3) assms(13)] by blast
  obtain m raw1 B1 where i: "initiate_handshake (lb_crypto lb) (ev_eph e1) (hex ia) (ms_enc B) = (Inr m, ms_enc B1)"
    and r1: "deliver lb e1 cb raw0 B = (Inr (), B1,
      (if has_key (ms_peers B) (hex ia) then [] else [Peer_joined (hex ia) (ms_nickname A)]) @ [sent_frame cb raw1])"
    and raw1: "parse_bitchat_packet (lb_lz4 lb) raw1 = Inr (letter ib ia NOISE_HANDSHAKE_INIT m 3)" and B1: "at_end B1 ib cb"
    using announcement_answered [OF assms(1) w(2) assms(8) ids(1) assms(9) pk(1-5) assms(10,11)] pk(6) by metis
  have A0: "at_end ?A0 ia ca" "ms_enc ?A0 = ms_enc A" using assms(7) by (simp_all add: at_end_def)
  obtain raw2 raw3 A1 B2 A2 sb sa where "deliver lb e2 ca raw1 ?A0 = (Inr (), A1, [sent_frame ca raw2])"
    "deliver lb e3 cb raw2 B1 = (Inr (), B2, [sent_frame cb raw3])" "deliver lb e4 ca raw3 A1 = (Inr (), A2, [])"
    "met B1 B2 (hex ia) cb sb" "met ?A0 A2 (hex ib) ca sa" "linked sb sa"
    "ses_remote_static sb = x_pub (lb_crypto lb) (sv_static (ms_enc A))"
    "ses_remote_static sa = x_pub (lb_crypto lb) (sv_static (ms_enc B))"
    using handshake_over_wire [OF assms(1) w(3-5) assms(4) _ assms(6) B1 A0(1) assms(9) [symmetric] i raw1] assms(5,12)
    unfolding A0(2) by blast
  with r0 r1 show ?thesis using linked_sym [of sb sa] unfolding met_def by blast
qed

text \<open>Two nodes on one connection that have not met, for the examples.\<close>

definition example_stranger :: "bytes \<Rightarrow> bytes \<Rightarrow> mesh" where
  "example_stranger me peer =
     (mesh_init example_libs (Some [97]) me [7] default_state Absent
       \<lparr>tr_connections = [(conn_address example_conn, example_conn)], tr_listening = True\<rparr>)
     \<lparr>ms_addresses := [(hex peer, conn_address example_conn)]\<rparr>"

lemma example_stranger_simps:
  "ms_enc (example_stranger me peer) = service_init [7]" "ms_pending (example_stranger me peer) = []"
  "ms_attempts (example_stranger me peer) = []" "ms_blocked (example_stranger me peer) = []"
  "new_to example_libs i (example_stranger me peer)" "ms_nickname (example_stranger me peer) = [97]"
  "ms_peers (example_stranger me peer) = []"
  "ms_transport (example_stranger me peer) =
     \<lparr>tr_connections = [(conn_address example_conn, example_conn)], tr_listening = True\<rparr>"
  "full_id me \<Longrightarrow> at_end (example_stranger me peer) me example_conn"
  "linked_to (example_stranger me peer) (hex peer) example_conn"
  by (simp_all add: example_stranger_def mesh_init_def default_state_def at_end_def linked_to_def node_nickname_def
      new_to_empty)

lemma example_working: "working example_env" "crypto_ok (lb_crypto example_libs)"
  "x_dh (lb_crypto example_libs) k p = Some (map2 (+) (fit 32 k) p)"
  using crypto_ok_plain
  by (simp_all add: working_def example_env_def example_libs_def) (simp add: plain_crypto_def)

lemma example_ids: "full_id [1, 2, 3, 4, 5, 6, 7, 8]" "full_id [2, 2, 3, 4, 5, 6, 7, 8]"
  "([1, 2, 3, 4, 5, 6, 7, 8] :: bytes) \<noteq> [2, 2, 3, 4, 5, 6, 7, 8]"
  by (simp_all add: full_id_def)

theorem first_message_arrives_witness:
  "\<exists>mid A1 raw1 B1 raw2 A2 raw3 B2 k A3 raw4 B3 rest.
    send_private_message example_libs example_env (lit ''hi'') (hex [2, 2, 3, 4, 5, 6, 7, 8]) [] None
      (example_stranger [1, 2, 3, 4, 5, 6, 7, 8] [2, 2, 3, 4, 5, 6, 7, 8]) = (Inr mid, A1, [sent_frame example_conn raw1]) \<and>
    deliver example_libs example_env example_conn raw1
      (example_stranger [2, 2, 3, 4, 5, 6, 7, 8] [1, 2, 3, 4, 5, 6, 7, 8]) = (Inr (), B1, [sent_frame example_conn raw2]) \<and>
    deliver example_libs example_env example_conn raw2 A1 = (Inr (), A2, [sent_frame example_conn raw3]) \<and>
    deliver example_libs example_env example_conn raw3 B1 = (Inr (), B2, []) \<and>
    node_act example_libs (Run example_env k) A2 = (Inr (), A3, [sent_frame example_conn raw4]) \<and>
    deliver example_libs example_env example_conn raw4 B2 = (Inr (), B3, Message_received
      \<lparr>msg_id = lit ''m1'', msg_content = lit ''hi'', msg_channel = None, msg_is_encrypted = False,
       msg_encrypted_content = None\<rparr> (hex [1, 2, 3, 4, 5, 6, 7, 8]) True # rest)"
proof -
  have u: "ev_uuid example_env = lit ''m1''" by (simp add: example_env_def)
  have f: "fits 255 (lit ''m1'')" "fits 255 [97]" "fits 60000 (lit ''hi'')"
    by (simp_all add: fits_def lit_def utf8_enc1_def)
  have s: "\<not> is_session_established p (service_init [7])" "\<not> has_key (sv_handshakes (service_init [7])) p" for p
    by (simp_all add: is_session_established_def service_init_def)
  show ?thesis
    using first_message_arrives [OF example_working(2) _ example_working(3) example_working(3) example_working(3)
        example_stranger_simps(9) [OF example_ids(1), of "[2, 2, 3, 4, 5, 6, 7, 8]"]
        example_stranger_simps(9) [OF example_ids(2), of "[1, 2, 3, 4, 5, 6, 7, 8]"] example_ids(3)
        example_stranger_simps(10), where ?e1.0 = example_env and ?e2.0 = example_env and ?e3.0 = example_env and
        ?e4.0 = example_env and ?e5.0 = example_env and ?e6.0 = example_env and content = "lit ''hi''" and nick = "[]"]
      s f by (simp add: example_stranger_simps example_working(1) u del: node_act.simps) blast
qed

theorem connected_nodes_meet_witness:
  "\<exists>raw0 A0 raw1 B1 raw2 A1 raw3 B2 A2 sa sb.
    run_task example_libs example_env Announce_identity (example_stranger [2, 2, 3, 4, 5, 6, 7, 8] [1, 2, 3, 4, 5, 6, 7, 8]) =
      (Inr (), A0, [sent_frame example_conn raw0]) \<and>
    deliver example_libs example_env example_conn raw0 (example_stranger [1, 2, 3, 4, 5, 6, 7, 8] [2, 2, 3, 4, 5, 6, 7, 8]) =
      (Inr (), B1, [Peer_joined (hex [2, 2, 3, 4, 5, 6, 7, 8]) [97], sent_frame example_conn raw1]) \<and>
    deliver example_libs example_env example_conn raw1 A0 = (Inr (), A1, [sent_frame example_conn raw2]) \<and>
    deliver example_libs example_env example_conn raw2 B1 = (Inr (), B2, [sent_frame example_conn raw3]) \<and>
    deliver example_libs example_env example_conn raw3 A1 = (Inr (), A2, []) \<and>
    dict_get (sv_sessions (ms_enc A2)) (hex [1, 2, 3, 4, 5, 6, 7, 8]) = Some sa \<and>
    dict_get (sv_sessions (ms_enc B2)) (hex [2, 2, 3, 4, 5, 6, 7, 8]) = Some sb \<and> linked sa sb"
proof -
  have f: "fits 255 [97]" by (simp add: fits_def utf8_enc1_def)
  have s: "\<not> is_session_established p (service_init [7])" "\<not> has_key (sv_handshakes (service_init [7])) p" for p
    by (simp_all add: is_session_established_def service_init_def)
  have l: "str_less (hex [1, 2, 3, 4, 5, 6, 7, 8]) (hex [2, 2, 3, 4, 5, 6, 7, 8])" by code_simp
  have h: "\<forall>d. length (sha256 (lb_crypto example_libs) d) = 32" by (simp add: example_libs_def plain_crypto_def)
  show ?thesis
    using connected_nodes_meet [OF example_working(2) h _ example_working(3) example_working(3) example_working(3)
        example_stranger_simps(9) [OF example_ids(2), of "[1, 2, 3, 4, 5, 6, 7, 8]"]
        example_stranger_simps(9) [OF example_ids(1), of "[2, 2, 3, 4, 5, 6, 7, 8]"] example_ids(3) [symmetric] l,
        where ?e0.0 = example_env and ?e1.0 = example_env and ?e2.0 = example_env and ?e3.0 = example_env and ?e4.0 = example_env]
      s f by (simp add: example_stranger_simps example_working(1) has_key_def) blast
qed

end
