(* ===== verification/Reach.thy ===== *)
theory Reach
  imports Rendezvous
begin

text \<open>
  How far a public message gets: along any path of at most seven connections every node reports it. A
  hop of the path receives the packet, runs the task for it, and then the relay that this task left; the
  next hop receives what the relay wrote to the connection between them.
\<close>

subsection \<open>Paths\<close>

text \<open>What is written to a connection first, without the length prefix.\<close>

fun written_to :: "conn \<Rightarrow> node_output list \<Rightarrow> bytes option" where
  "written_to c [] = None"
| "written_to c (Net (Write cid bs) # os) = (if cid = cn_id c then Some (drop 2 bs) else written_to c os)"
| "written_to c (x # os) = written_to c os"

text \<open>A node on the path, the connections the packet comes and goes by, and the readings of the two tasks.\<close>

record hop =
  hp_node :: mesh
  hp_from :: conn
  hp_to :: conn
  hp_handle :: env
  hp_relay :: env

definition arrive :: "libs \<Rightarrow> hop \<Rightarrow> bytes \<Rightarrow> unit res \<times> mesh \<times> node_output list" where
  "arrive lb h raw = deliver lb (hp_handle h) (hp_from h) raw (hp_node h)"

definition pass_on :: "libs \<Rightarrow> hop \<Rightarrow> mesh \<Rightarrow> bytes option" where
  "pass_on lb h s =
     (case node_act lb (Run (hp_relay h) (length (ms_tasks s) - 1)) s of (r, s', os) \<Rightarrow> written_to (hp_to h) os)"

text \<open>What the nodes of a path report when \<open>raw\<close> comes in at its start.\<close>

fun travel :: "libs \<Rightarrow> hop list \<Rightarrow> bytes \<Rightarrow> node_output list list" where
  "travel lb [] raw = []"
| "travel lb (h # hs) raw =
     (case arrive lb h raw of (r, s, os) \<Rightarrow>
        os # (case pass_on lb h s of Some raw' \<Rightarrow> travel lb hs raw' | None \<Rightarrow> map (\<lambda>_. []) hs))"

lemma length_travel [simp]: "length (travel lb hs raw) = length hs"
  by (induction lb hs raw rule: travel.induct) (auto split: prod.split option.split)

lemma written_to_all:
  assumes "(addr, c) \<in> set cs"
  shows "written_to c (map (\<lambda>(addr, c). Net (Write (cn_id c) (be_bytes 2 (length raw) @ raw))) cs) = Some raw"
  using assms by (induction cs) auto

subsection \<open>One hop\<close>

text \<open>A node that will report a message of this sender: it is another node, has not blocked it, has not seen the message and has room in its filter.\<close>

definition open_to :: "libs \<Rightarrow> pystr \<Rightarrow> pystr \<Rightarrow> hop \<Rightarrow> bool" where
  "open_to lb sender mid h \<longleftrightarrow> ms_id (hp_node h) \<noteq> sender \<and> \<not> is_blocked lb sender (hp_node h) \<and>
     new_to lb mid (hp_node h) \<and> (\<forall>i. ev_fails (hp_relay h) i = None) \<and>
     (\<exists>addr. (addr, hp_to h) \<in> set (tr_connections (ms_transport (hp_node h))))"

lemma arrive_public:
  assumes "parse_bitchat_packet (lb_lz4 lb) raw = Inr pk" and "pkt_type pk = MESSAGE" and "is_broadcast pk"
    and "parse_bitchat_message_payload (pkt_payload pk) = Inr m" and "msg_channel m = None"
    and "open_to lb (pkt_sender_id_str pk) (msg_id m) h"
  shows "\<exists>s. arrive lb h raw = (Inr (), s, [Message_received m (pkt_sender_id_str pk) False]) \<and>
    ms_transport s = ms_transport (hp_node h) \<and>
    ms_tasks s = ms_tasks (hp_node h) @ (if 1 < pkt_ttl pk then [Relay raw (pkt_ttl pk)] else [])"
proof -
  let ?s = "heard_from (pkt_sender_id_str pk) (hp_from h) (hp_node h)"
  have b: "\<not> is_blocked lb (pkt_sender_id_str pk) ?s" "new_to lb (msg_id m) ?s" "pkt_sender_id_str pk \<noteq> ms_id (hp_node h)"
    using assms(6) unfolding open_to_def is_blocked_def new_to_def heard_from_simps by auto
  have "arrive lb h raw = handle_message lb (hp_handle h) pk raw ?s"
    using deliver_handle [OF assms(1) b(3), of "hp_handle h" "hp_from h"] assms(2)
    by (simp add: arrive_def handle_packet_def)
  also have "\<dots> = tryA (deliver_message lb (hp_handle h) pk raw False m) any_error (ret ()) ?s"
    using b(1) assms(3,4) by (simp add: handle_message_def getA_def bindA_liftA)
  finally have a: "arrive lb h raw = tryA (deliver_message lb (hp_handle h) pk raw False m) any_error (ret ()) ?s" .
  have "\<exists>s. deliver_message lb (hp_handle h) pk raw False m ?s = (Inr (), s, [Message_received m (pkt_sender_id_str pk) False]) \<and>
    ms_transport s = ms_transport (hp_node h) \<and>
    ms_tasks s = ms_tasks (hp_node h) @ (if 1 < pkt_ttl pk then [Relay raw (pkt_ttl pk)] else [])"
    using new_toD [OF b(2)] assms(5)
    by (simp add: deliver_message_def once_def getA_def seqA_modA should_send_ack_def relay_if_def relay_def spawn_def)
      (simp add: seqA_def bindA_def outA_def ret_def modA_def getA_def)
  with tryA_succeeds a show ?thesis by metis
qed

lemma pass_on_relay:
  assumes "parse_bitchat_packet z raw = Inr pk" and "length raw \<le> 65535" and "open_to lb p mid h"
    and "ms_transport s = ms_transport (hp_node h)" and "ms_tasks s = ts @ [Relay raw (pkt_ttl pk)]" and "1 < pkt_ttl pk"
  shows "\<exists>raw'. pass_on lb h s = Some raw' \<and> length raw' \<le> 65535 \<and>
    parse_bitchat_packet z raw' = Inr (pk\<lparr>pkt_ttl := pkt_ttl pk - 1\<rparr>)"
proof -
  let ?raw = "set_ttl raw (pkt_ttl pk - 1)"
  have "pkt_ttl pk < 256"
    using assms(1) unat_byte_less by (auto simp: parse_bitchat_packet_def Let_def bindE_eq_Inr split: if_splits)
  then have p: "parse_bitchat_packet z ?raw = Inr (pk\<lparr>pkt_ttl := pkt_ttl pk - 1\<rparr>)"
    by (intro parse_after_set_ttl [OF assms(1)]) simp
  have l: "length ?raw \<le> 65535" using assms(2) by (simp add: set_ttl_def)
  have f: "\<forall>i. ev_fails (hp_relay h) i = None" using assms(3) by (simp add: open_to_def)
  obtain addr where "(addr, hp_to h) \<in> set (tr_connections (ms_transport s))" using assms(3,4) by (auto simp: open_to_def)
  from written_to_all [OF this] have "written_to (hp_to h) (map (\<lambda>(addr, c). Net (Write (cn_id c) (be_bytes 2 (length ?raw) @ ?raw)))
      (tr_connections (ms_transport s))) = Some ?raw" .
  then have "pass_on lb h s = Some ?raw"
    by (simp add: pass_on_def assms(5) getA_def seqA_modA raw_send_all [OF f l] del: One_nat_def)
  with p l show ?thesis by blast
qed

subsection \<open>The whole path\<close>

lemma travel_reports:
  assumes "parse_bitchat_packet (lb_lz4 lb) raw = Inr pk" and "pkt_type pk = MESSAGE" and "is_broadcast pk"
    and "parse_bitchat_message_payload (pkt_payload pk) = Inr m" and "msg_channel m = None"
    and "length raw \<le> 65535" and "length hs \<le> pkt_ttl pk"
    and "\<forall>h\<in>set hs. open_to lb (pkt_sender_id_str pk) (msg_id m) h"
  shows "travel lb hs raw = map (\<lambda>h. [Message_received m (pkt_sender_id_str pk) False]) hs"
  using assms
proof (induction hs arbitrary: raw pk)
  case (Cons h hs)
  have o: "open_to lb (pkt_sender_id_str pk) (msg_id m) h" using Cons.prems(8) by simp
  obtain s where s: "arrive lb h raw = (Inr (), s, [Message_received m (pkt_sender_id_str pk) False])"
    "ms_transport s = ms_transport (hp_node h)"
    "ms_tasks s = ms_tasks (hp_node h) @ (if 1 < pkt_ttl pk then [Relay raw (pkt_ttl pk)] else [])"
    using arrive_public [OF Cons.prems(1-5) o] by blast
  show ?case
  proof (cases "hs = []")
    case True
    then show ?thesis by (simp add: s(1) split: option.split)
  next
    case False
    then have t: "1 < pkt_ttl pk" using Cons.prems(7) by (cases hs) auto
    obtain raw' where r: "pass_on lb h s = Some raw'" "length raw' \<le> 65535"
      "parse_bitchat_packet (lb_lz4 lb) raw' = Inr (pk\<lparr>pkt_ttl := pkt_ttl pk - 1\<rparr>)"
      using pass_on_relay [OF Cons.prems(1,6) o s(2) _ t] s(3) t by auto
    have "travel lb hs raw' = map (\<lambda>h. [Message_received m (pkt_sender_id_str pk) False]) hs"
      using Cons.IH [OF r(3)] r(2) Cons.prems(2-8) by (simp add: is_broadcast_def)
    then show ?thesis by (simp add: s(1) r(1))
  qed
qed simp

text \<open>
  C4: a public message reaches every node up to seven connections away. When A's application says
  something, not on a channel, and the texts fit their fields, A writes one packet to each of its
  connections. Along any path of at most seven nodes that starts at one of them, in which each node is
  not A, has not blocked it, has not seen the message, has handled fewer than 5000 messages, so that
  its Bloom filter has room, and has a working connection to the next, every node reports the text to
  its application, exactly once, as a public message from A. Each node runs the task for the packet and
  then its relay at once; A's identifier has eight bytes and does not end in a zero byte.
\<close>

theorem public_message_reaches:
  assumes "working ev" and "at_end A ia c" and "fits 255 (ev_uuid ev)" and "fits 255 (ms_nickname A)" and "fits 60000 content"
    and "length hs \<le> 7" and "\<forall>h\<in>set hs. open_to lb (ms_id A) (ev_uuid ev) h"
  shows "\<exists>A' os raw. send_public_message lb ev content None A = (Inr (ev_uuid ev), A', os) \<and> written_to c os = Some raw \<and>
    travel lb hs raw = map (\<lambda>h. [Message_received \<lparr>msg_id = ev_uuid ev, msg_content = content, msg_channel = None,
      msg_is_encrypted = False, msg_encrypted_content = None\<rparr> (ms_id A) False]) hs"
proof -
  have ids: "full_id ia" "ms_id A = hex ia" "length ia = 8" "last ia \<noteq> 0" using assms(2) by (auto simp: at_end_def full_id_def)
  obtain payload where p: "create_bitchat_message_payload_full (ev_ts ev 0) (ev_uuid ev) (ms_nickname A) content None False
      (hex ia) False None = Inr (payload, ev_uuid ev)" "length payload < 60700"
    using sent_payload [OF assms(1) ids(1) assms(3-5)] by blast
  have w: "ev_ts ev 1 < 2 ^ 64" "length (ev_rnd ev 1 k) = k" "\<forall>i. ev_fails ev i = None" for k
    using assms(1) by (simp_all add: working_def)
  obtain raw where r: "create_bitchat_packet_with_recipient (ev_ts ev 1) (ev_rnd ev 1) (hex ia) None MESSAGE payload None = Inr raw"
    "length raw \<le> length payload + 285"
    using create_succeeds [OF fromhex_hex [of ia] w(1) _ _ w(2), of payload None BROADCAST_RECIPIENT MESSAGE] p(2)
    by (auto simp: recipient_field_def)
  have l: "length raw \<le> 65535" using r(2) p(2) by simp
  let ?A' = "A\<lparr>ms_tracker := track_message (ev_now ev) (ev_uuid ev) content False (ms_tracker A)\<rparr>"
  let ?os = "map (\<lambda>(addr, c). Net (Write (cn_id c) (be_bytes 2 (length raw) @ raw))) (tr_connections (ms_transport ?A'))"
  have s: "send_public_message lb ev content None A = (Inr (ev_uuid ev), ?A', ?os)"
    using raw_send_all [OF w(3) l, of ?A'] p(1) r(1)
    by (simp add: send_public_message_def getA_def ids(2) bindA_liftA seqA_modA create_bitchat_packet_def del: One_nat_def)
      (simp add: seqA_def bindA_def ret_def)
  have "(conn_address c, c) \<in> set (tr_connections (ms_transport ?A'))"
    using assms(2) by (auto simp: at_end_def dest: map_of_SomeD)
  from written_to_all [OF this] have wr: "written_to c ?os = Some raw" .
  have c: "create_bitchat_packet_with_signature (ev_ts ev 1) (ev_rnd ev 1) (hex ia) MESSAGE payload None = Inr raw"
    using r(1) by (simp add: create_bitchat_packet_with_signature_def)
  have m: "parse_bitchat_message_payload payload = Inr \<lparr>msg_id = ev_uuid ev, msg_content = content, msg_channel = None,
      msg_is_encrypted = False, msg_encrypted_content = None\<rparr>"
    using payload_read_back [OF p(1)] by auto
  have "travel lb hs raw = map (\<lambda>h. [Message_received \<lparr>msg_id = ev_uuid ev, msg_content = content, msg_channel = None,
      msg_is_encrypted = False, msg_encrypted_content = None\<rparr> (ms_id A) False]) hs"
    using travel_reports [OF parse_public [OF c ids(3,4)], where hs = hs and lb = lb, OF _ _ _ _ l] m assms(6,7) ids(2)
    by (simp add: is_broadcast_def split: list.split)
  with s wr show ?thesis by blast
qed

definition example_hop :: "bytes \<Rightarrow> hop" where
  "example_hop me = \<lparr>hp_node = example_stranger me [9], hp_from = example_conn, hp_to = example_conn,
     hp_handle = example_env, hp_relay = example_env\<rparr>"

theorem public_message_reaches_witness:
  "\<exists>A' os raw. send_public_message example_libs example_env (lit ''hi'') None (example_stranger [1, 2, 3, 4, 5, 6, 7, 8] [9]) =
      (Inr (lit ''m1''), A', os) \<and> written_to example_conn os = Some raw \<and>
    travel example_libs [example_hop [2], example_hop [3]] raw = replicate 2 [Message_received
      \<lparr>msg_id = lit ''m1'', msg_content = lit ''hi'', msg_channel = None, msg_is_encrypted = False,
       msg_encrypted_content = None\<rparr> (hex [1, 2, 3, 4, 5, 6, 7, 8]) False]"
proof -
  have u: "ev_uuid example_env = lit ''m1''" "\<forall>i. ev_fails example_env i = None" by (simp_all add: example_env_def)
  have f: "fits 255 (lit ''m1'')" "fits 255 [97]" "fits 60000 (lit ''hi'')"
    by (simp_all add: fits_def lit_def utf8_enc1_def)
  have id: "ms_id (example_stranger me p) = hex me" for me p by (simp add: example_stranger_def mesh_init_def)
  have o: "open_to example_libs (hex [1, 2, 3, 4, 5, 6, 7, 8]) mid (example_hop [b])" for b mid
    using u(2) by (simp add: open_to_def example_hop_def id example_stranger_simps is_blocked_def
        get_peer_fingerprint_def service_init_def)
  show ?thesis
    using public_message_reaches [OF example_working(1) example_stranger_simps(9) [OF example_ids(1), of "[9]"],
        of "lit ''hi''" "[example_hop [2], example_hop [3]]" example_libs] f o
    by (simp add: u(1) id example_stranger_simps numeral_2_eq_2 del: travel.simps)
qed

end
