(* ===== verification/Terminal.thy ===== *)
theory Terminal
  imports Decimal
begin

text \<open>
  \<^verbatim>\<open>bitchat/terminal_ux.py\<close>: the conversations of the terminal client, the numbers under
  which they are listed and selected, and the text of a displayed message. What the methods only
  print to confirm a switch is left out. Box-drawing characters and colours are written by their
  code points.
\<close>

subsection \<open>State\<close>

datatype chat_mode =
  Public
| Channel pystr
| PrivateDM pystr pystr

record chat_context =
  cc_mode :: chat_mode
  cc_channels :: "pystr list"
  cc_dms :: "(pystr, pystr) dict"
  cc_last :: "(pystr \<times> pystr) option"

definition chat_init :: chat_context where
  "chat_init = \<lparr>cc_mode = Public, cc_channels = [], cc_dms = [], cc_last = None\<rparr>"

fun is_dm :: "chat_mode \<Rightarrow> bool" where
  "is_dm (PrivateDM n p) = True"
| "is_dm m = False"

subsection \<open>Operations\<close>

text \<open>\<open>xs[i]\<close> for an index of either sign: a negative one counts from the end.\<close>

definition py_index :: "'a list \<Rightarrow> int \<Rightarrow> 'a res" where
  "py_index xs i =
     (if 0 \<le> i \<and> i < int (length xs) then Inr (xs ! nat i)
      else if i < 0 \<and> - int (length xs) \<le> i then Inr (xs ! nat (int (length xs) + i))
      else Inl IndexError)"

definition switch_to_number :: "int \<Rightarrow> chat_context \<Rightarrow> bool res \<times> chat_context" where
  "switch_to_number num c =
     (if num = 1 then (Inr True, c\<lparr>cc_mode := Public\<rparr>)
      else
        let channel_end = 1 + int (length (cc_channels c)) in
        if 1 < num \<and> num \<le> channel_end \<and> num - 2 < int (length (cc_channels c)) then
          (Inr True, c\<lparr>cc_mode := Channel (cc_channels c ! nat (num - 2))\<rparr>)
        else
          let dm_idx = num - (channel_end + 1) in
          if dm_idx < int (length (cc_dms c)) then
            (case py_index (cc_dms c) dm_idx of
               Inl e \<Rightarrow> (Inl e, c)
             | Inr (nick, peer_id) \<Rightarrow> (Inr True, c\<lparr>cc_mode := PrivateDM nick peer_id\<rparr>))
          else (Inr False, c))"

definition add_channel :: "pystr \<Rightarrow> chat_context \<Rightarrow> chat_context" where
  "add_channel channel c =
     (if channel \<in> set (cc_channels c) then c else c\<lparr>cc_channels := cc_channels c @ [channel]\<rparr>)"

definition add_dm :: "pystr \<Rightarrow> pystr \<Rightarrow> chat_context \<Rightarrow> chat_context" where
  "add_dm nickname peer_id c = c\<lparr>cc_dms := dict_set (cc_dms c) nickname peer_id\<rparr>"

definition enter_dm_mode :: "pystr \<Rightarrow> pystr \<Rightarrow> chat_context \<Rightarrow> chat_context" where
  "enter_dm_mode nickname peer_id c = (add_dm nickname peer_id c)\<lparr>cc_mode := PrivateDM nickname peer_id\<rparr>"

definition switch_to_channel :: "pystr \<Rightarrow> chat_context \<Rightarrow> chat_context" where
  "switch_to_channel channel c = (add_channel channel c)\<lparr>cc_mode := Channel channel\<rparr>"

definition switch_to_public :: "chat_context \<Rightarrow> chat_context" where
  "switch_to_public c = c\<lparr>cc_mode := Public\<rparr>"

definition remove_channel :: "pystr \<Rightarrow> chat_context \<Rightarrow> chat_context" where
  "remove_channel channel c = c\<lparr>cc_channels := remove1 channel (cc_channels c)\<rparr>"

subsection \<open>Lists of conversations\<close>

fun format_prompt :: "chat_mode \<Rightarrow> pystr" where
  "format_prompt Public = lit ''[Public]''"
| "format_prompt (Channel name) = lit ''['' @ name @ lit '']''"
| "format_prompt (PrivateDM nickname peer_id) = lit ''[DM: '' @ nickname @ lit '']''"

fun join :: "pystr \<Rightarrow> pystr list \<Rightarrow> pystr" where
  "join sep [] = []"
| "join sep [x] = x"
| "join sep (x # y # ys) = x @ sep @ join sep (y # ys)"

text \<open>The loops number what they list; \<open>numbered i xs\<close> pairs \<open>xs\<close> with \<open>i\<close>, \<open>i + 1\<close>, \<dots>\<close>

fun numbered :: "nat \<Rightarrow> 'a list \<Rightarrow> (nat \<times> 'a) list" where
  "numbered i [] = []"
| "numbered i (x # xs) = (i, x) # numbered (Suc i) xs"

definition get_status_line :: "chat_context \<Rightarrow> pystr" where
  "get_status_line c =
     (let dm_start = 2 + length (cc_channels c) in
      lit ''Active: '' @ join (lit '' '')
        ([lit ''[1] Public''] @
         map (\<lambda>(i, channel). lit ''['' @ dec i @ lit ''] '' @ channel) (numbered 2 (cc_channels c)) @
         map (\<lambda>(i, nick, _). lit ''['' @ dec i @ lit ''] DM:'' @ nick) (numbered dm_start (cc_dms c))))"

definition spaces :: "int \<Rightarrow> pystr" where
  "spaces n = replicate (nat n) 32"

definition bar :: pystr where
  "bar = [9474]"

definition indicator :: "bool \<Rightarrow> pystr" where
  "indicator current = (if current then [8594] else [32])"

text \<open>The lines \<open>show_conversation_list\<close> prints between the two lines at either end.\<close>

definition show_conversation_list :: "chat_context \<Rightarrow> pystr list" where
  "show_conversation_list c =
     [bar @ lit '' '' @ indicator (cc_mode c = Public) @ lit '' [1] Public              '' @ bar] @
     map (\<lambda>(num, channel).
       bar @ lit '' '' @ indicator (cc_mode c = Channel channel) @ lit '' ['' @ dec num @ lit ''] '' @ channel @
       spaces (18 - int (length channel)) @ bar) (numbered 2 (cc_channels c)) @
     map (\<lambda>(num, nick, _).
       let current = (case cc_mode c of PrivateDM n p \<Rightarrow> n = nick | _ \<Rightarrow> False);
           dm_text = lit ''DM: '' @ nick
       in bar @ lit '' '' @ indicator current @ lit '' ['' @ dec num @ lit ''] '' @ dm_text @
          spaces (18 - int (length dm_text)) @ bar) (numbered (2 + length (cc_channels c)) (cc_dms c))"

text \<open>The lines of \<open>get_conversation_list_with_numbers\<close> between its frame.\<close>

definition conversation_lines :: "chat_context \<Rightarrow> pystr list" where
  "conversation_lines c =
     [bar @ lit ''  1. Public                '' @ bar] @
     map (\<lambda>(num, channel). bar @ lit ''  '' @ dec num @ lit ''. '' @ channel @
       spaces (20 - int (length channel)) @ bar) (numbered 2 (cc_channels c)) @
     map (\<lambda>(num, nick, _). let dm_text = lit ''DM: '' @ nick in
       bar @ lit ''  '' @ dec num @ lit ''. '' @ dm_text @ spaces (20 - int (length dm_text)) @ bar)
       (numbered (2 + length (cc_channels c)) (cc_dms c))"

definition get_conversation_list_with_numbers :: "chat_context \<Rightarrow> pystr" where
  "get_conversation_list_with_numbers c =
     [9581, 9472, 9472, 9472] @ lit '' Select Conversation '' @ [9472, 9472, 9472, 9582, 10] @
     concat (map (\<lambda>l. l @ [10]) (conversation_lines c)) @
     [9584] @ replicate 27 9472 @ [9583]"

subsection \<open>Displayed messages\<close>

text \<open>An ANSI colour sequence.\<close>

definition esc :: "string \<Rightarrow> pystr" where
  "esc code = 27 # lit (''['' @ code @ ''m'')"

definition arrow :: pystr where
  "arrow = [32, 8594, 32]"

definition format_message_display ::
  "pystr \<Rightarrow> pystr \<Rightarrow> pystr \<Rightarrow> bool \<Rightarrow> bool \<Rightarrow> pystr option \<Rightarrow> pystr option \<Rightarrow> pystr \<Rightarrow> pystr" where
  "format_message_display time_str sender content is_private is_channel channel_name recipient my_nickname =
     (if is_private then
        if sender = my_nickname then
          esc ''2;38;5;208'' @ lit ''['' @ time_str @ lit ''|DM]'' @ esc ''0'' @ lit '' '' @ esc ''38;5;214'' @
          lit ''<you'' @ arrow @ (case recipient of Some (c # cs) \<Rightarrow> c # cs | _ \<Rightarrow> lit ''???'') @ lit ''>'' @
          esc ''0'' @ lit '' '' @ content
        else
          esc ''2;38;5;208'' @ lit ''['' @ time_str @ lit ''|DM]'' @ esc ''0'' @ lit '' '' @ esc ''38;5;208'' @
          lit ''<'' @ sender @ arrow @ lit ''you>'' @ esc ''0'' @ lit '' '' @ content
      else if is_channel then
        let (tag, name) = (case channel_name of Some (c # cs) \<Rightarrow> (c # cs, c # cs) | _ \<Rightarrow> (lit ''Ch'', lit ''???''))
        in esc ''2;34'' @ lit ''['' @ time_str @ lit ''|'' @ tag @ lit '']'' @ esc ''0'' @ lit '' '' @
           (if sender = my_nickname then esc ''38;5;117'' else esc ''34'') @
           lit ''<'' @ sender @ lit '' @ '' @ name @ lit ''>'' @ esc ''0'' @ lit '' '' @ content
      else
        esc ''2;32'' @ lit ''['' @ time_str @ lit '']'' @ esc ''0'' @ lit '' '' @
        (if sender = my_nickname then esc ''38;5;120'' else esc ''32'') @
        lit ''<'' @ sender @ lit ''>'' @ esc ''0'' @ lit '' '' @ content)"

subsection \<open>The numbers that are listed are the numbers that select\<close>

text \<open>The abstract view: one list of conversations, numbered from 1, each with a label.\<close>

definition conversations :: "chat_context \<Rightarrow> chat_mode list" where
  "conversations c =
     Public # map Channel (cc_channels c) @ map (\<lambda>(nick, peer_id). PrivateDM nick peer_id) (cc_dms c)"

fun label :: "string \<Rightarrow> chat_mode \<Rightarrow> pystr" where
  "label dm Public = lit ''Public''"
| "label dm (Channel name) = name"
| "label dm (PrivateDM nick peer_id) = lit dm @ nick"

lemma numbered_append: "numbered i (xs @ ys) = numbered i xs @ numbered (i + length xs) ys"
  by (induction xs arbitrary: i) auto

lemma numbered_map: "numbered i (map f xs) = map (\<lambda>(j, x). (j, f x)) (numbered i xs)"
  by (induction xs arbitrary: i) auto

lemma numbered_conversations:
  "numbered 1 (conversations c) = (1, Public) # map (\<lambda>(i, ch). (i, Channel ch)) (numbered 2 (cc_channels c)) @
     map (\<lambda>(i, n, p). (i, PrivateDM n p)) (numbered (2 + length (cc_channels c)) (cc_dms c))"
  by (simp add: conversations_def numbered_append numbered_map numeral_2_eq_2 case_prod_unfold)

lemma status_line_conversations:
  "get_status_line c = lit ''Active: '' @ join (lit '' '')
     (map (\<lambda>(i, m). lit ''['' @ dec i @ lit ''] '' @ label ''DM:'' m) (numbered 1 (conversations c)))"
  unfolding numbered_conversations
  by (simp add: get_status_line_def Let_def case_prod_unfold comp_def) (simp add: lit_def dec.simps)

lemma switch_to_number_conversations:
  assumes "0 < num"
  shows "switch_to_number (int num) c =
    (if num \<le> length (conversations c) then (Inr True, c\<lparr>cc_mode := conversations c ! (num - 1)\<rparr>)
     else (Inr False, c))"
proof -
  let ?k = "length (cc_channels c)"
  consider "num = 1" | "1 < num" "num \<le> 1 + ?k" | "1 + ?k < num" using assms by linarith
  then show ?thesis
  proof cases
    case 1
    then show ?thesis by (simp add: switch_to_number_def conversations_def)
  next
    case 2
    then have "num - 1 = Suc (num - 2)" "num - 2 < ?k" "nat (int num - 2) = num - 2" by linarith+
    with 2 show ?thesis by (simp add: switch_to_number_def conversations_def nth_append)
  next
    case 3
    then obtain j where j: "num = j + (2 + ?k)" by (metis add.commute le_add_diff_inverse less_iff_Suc_add plus_1_eq_Suc Suc_1 add_Suc)
    show ?thesis
      by (cases "cc_dms c ! j")
        (simp add: j switch_to_number_def conversations_def nth_append py_index_def Let_def)
  qed
qed

text \<open>
  C35: the numbers that are listed are the numbers that select. The status line numbers one list of
  conversations (public, the channels, the private chats) from 1, and for every positive number the
  switch selects the conversation listed under it, or refuses and changes nothing if there is none.
\<close>

theorem listed_numbers_select:
  assumes "0 < num"
  shows "get_status_line c = lit ''Active: '' @ join (lit '' '')
      (map (\<lambda>(i, m). lit ''['' @ dec i @ lit ''] '' @ label ''DM:'' m) (numbered 1 (conversations c))) \<and>
    switch_to_number (int num) c =
      (if num \<le> length (conversations c) then (Inr True, c\<lparr>cc_mode := conversations c ! (num - 1)\<rparr>)
       else (Inr False, c))"
  using status_line_conversations switch_to_number_conversations [OF assms] by blast

theorem listed_numbers_select_witness:
  "switch_to_number (int 2) (add_dm [98] [99] (add_channel [35] chat_init)) =
    (Inr True, (add_dm [98] [99] (add_channel [35] chat_init))\<lparr>cc_mode := Channel [35]\<rparr>)"
  using listed_numbers_select [of 2 "add_dm [98] [99] (add_channel [35] chat_init)"]
  by (simp add: conversations_def add_dm_def add_channel_def chat_init_def)

text \<open>
  The number 0, which a single typed digit can give, is not refused: it counts back from the end of
  the private chats, and selects one of them or raises \<open>IndexError\<close>.
\<close>

theorem zero_selects_from_the_end:
  "switch_to_number 0 c =
    (let k = length (cc_channels c); n = length (cc_dms c) in
     if k + 2 \<le> n then
       (case cc_dms c ! (n - (k + 2)) of (nick, peer_id) \<Rightarrow> (Inr True, c\<lparr>cc_mode := PrivateDM nick peer_id\<rparr>))
     else (Inl IndexError, c))"
proof -
  have "nat (int (length (cc_dms c)) + (- 2 - int (length (cc_channels c)))) =
    length (cc_dms c) - (length (cc_channels c) + 2)" by linarith
  then show ?thesis
    by (auto simp: switch_to_number_def py_index_def Let_def split: prod.split)
qed

subsection \<open>The invariant\<close>

text \<open>Channels are listed once, nicknames too, and the current channel is a listed one.\<close>

definition wf_chat :: "chat_context \<Rightarrow> bool" where
  "wf_chat c \<longleftrightarrow> distinct (cc_channels c) \<and> wf_dict (cc_dms c) \<and>
     (\<forall>ch. cc_mode c = Channel ch \<longrightarrow> ch \<in> set (cc_channels c))"

lemma wf_chat_init [simp]: "wf_chat chat_init"
  by (simp add: wf_chat_def chat_init_def)

lemma wf_chat_ops [simp]:
  assumes "wf_chat c"
  shows "wf_chat (add_channel ch c)" "wf_chat (add_dm n p c)" "wf_chat (enter_dm_mode n p c)"
    "wf_chat (switch_to_channel ch c)" "wf_chat (switch_to_public c)"
    "wf_chat (switch_to_public (remove_channel ch c))" "wf_chat (c\<lparr>cc_last := l\<rparr>)"
    "wf_chat (c\<lparr>cc_dms := dict_del (cc_dms c) n\<rparr>)" "wf_chat (c\<lparr>cc_dms := []\<rparr>)"
  using assms
  by (auto simp: wf_chat_def add_channel_def add_dm_def enter_dm_mode_def switch_to_channel_def
      switch_to_public_def remove_channel_def)

lemma wf_chat_switch: "wf_chat c \<Longrightarrow> wf_chat (snd (switch_to_number num c))"
  by (auto simp: wf_chat_def switch_to_number_def Let_def split: sum.split prod.split)

end
