(* ===== verification/Client.thy ===== *)
theory Client
  imports Mesh Terminal
begin

text \<open>
  The terminal client (\<open>BitchatClient\<close> of \<^verbatim>\<open>bitchat.py\<close>): its state, its Bluetooth link and
  the operations that send. A handler runs to its end before the next one starts: the pauses inside
  the coroutines, which are there to slow the radio down, are not points of interleaving in this
  model. What the code prints is an output: \<open>Note key args\<close> stands for the message with that
  wording. \<^verbatim>\<open>bitchat.py\<close> has its own copies of the formats of \<^verbatim>\<open>bitchat/protocol.py\<close>,
  which do the same; the theories \<open>Packet\<close>, \<open>Message\<close>, \<open>Identity\<close> and \<open>Fragmentation\<close> are
  used for both. The Bloom filter is only written and is left out, as are debug messages.
\<close>

subsection \<open>The outside\<close>

datatype open_result =
  Open_failed py_error
| Open_characteristic bool
| Notify_failed py_error

text \<open>
  Every reading of the outside takes the next number: \<open>wd_ts w i\<close> is the clock in milliseconds if
  the \<open>i\<close>-th reading asks for it, \<open>wd_write w i\<close> the exception of a write, if any, and so on.
  \<open>wd_open\<close> is how connecting to a device ends: with an exception, with the services read and the
  characteristic found or not, or with an exception of subscribing. \<open>wd_alnum\<close> is
  \<open>str.isalnum\<close> of a character.
\<close>

record world =
  wd_ts :: "nat \<Rightarrow> nat"
  wd_rnd :: "nat \<Rightarrow> nat \<Rightarrow> bytes"
  wd_uuid :: "nat \<Rightarrow> pystr"
  wd_eph :: "nat \<Rightarrow> bytes"
  wd_now :: "nat \<Rightarrow> time"
  wd_hhmm :: "nat \<Rightarrow> pystr"
  wd_connected :: "nat \<Rightarrow> bool"
  wd_write :: "nat \<Rightarrow> py_error option"
  wd_save :: "nat \<Rightarrow> py_error option"
  wd_key :: "nat \<Rightarrow> int list"
  wd_input :: "nat \<Rightarrow> pystr"
  wd_device :: "nat \<Rightarrow> bool"
  wd_open :: "nat \<Rightarrow> open_result"
  wd_alnum :: "nat \<Rightarrow> bool"

subsection \<open>The client\<close>

text \<open>
  \<open>cl_client\<close> and \<open>cl_characteristic\<close> say whether the fields are set, \<open>cl_scanner\<close> whether
  \<open>background_scanner_task\<close> runs; \<open>cl_tasks\<close> are the peers for which
  \<open>_on_peer_authenticated\<close> has scheduled \<open>send_pending_private_messages\<close>; \<open>cl_tick\<close> counts
  the readings of the outside.
\<close>

record client =
  cl_id :: pystr
  cl_nickname :: pystr
  cl_peers :: "(pystr, pystr option) dict"
  cl_bloom :: "pystr list"
  cl_processed :: "pystr set"
  cl_collector :: collector
  cl_tracker :: delivery_tracker
  cl_chat :: chat_context
  cl_channel_keys :: "(pystr, bytes) dict"
  cl_app :: app_state
  cl_file :: state_file
  cl_blocked :: "pystr list"
  cl_creators :: "(pystr, pystr) dict"
  cl_protected :: "pystr list"
  cl_commitments :: "(pystr, pystr) dict"
  cl_discovered :: "pystr list"
  cl_enc :: service
  cl_client :: bool
  cl_characteristic :: bool
  cl_running :: bool
  cl_scanner :: bool
  cl_attempts :: "(pystr, time) dict"
  cl_pending :: "(pystr, (pystr \<times> pystr \<times> pystr) list) dict"
  cl_tasks :: "pystr list"
  cl_tick :: nat

definition client_init :: "bytes \<Rightarrow> bytes \<Rightarrow> state_file \<Rightarrow> client" where
  "client_init rnd8 static file =
     \<lparr>cl_id = hex rnd8, cl_nickname = lit ''my-python-client'', cl_peers = [], cl_bloom = [], cl_processed = {},
      cl_collector = collector_init, cl_tracker = tracker_init, cl_chat = chat_init,
      cl_channel_keys = [], cl_app = default_state, cl_file = file, cl_blocked = [], cl_creators = [],
      cl_protected = [], cl_commitments = [], cl_discovered = [], cl_enc = service_init static,
      cl_client = False, cl_characteristic = False, cl_running = True, cl_scanner = False,
      cl_attempts = [], cl_pending = [], cl_tasks = [], cl_tick = 0\<rparr>"

datatype client_output =
  Wrote bytes bool
| Shown message pystr
| Own_shown pystr
| Note string "pystr list"

type_synonym 'a cact = "(client, client_output, 'a) action"

definition ask :: "(nat \<Rightarrow> 'a) \<Rightarrow> 'a cact" where
  "ask f = getA (\<lambda>s. seqA (modA (\<lambda>s. s\<lparr>cl_tick := Suc (cl_tick s)\<rparr>)) (ret (f (cl_tick s))))"

definition noteA :: "string \<Rightarrow> pystr list \<Rightarrow> unit cact" where
  "noteA key args = outA (Note key args)"

subsection \<open>The link\<close>

text \<open>\<open>handle_disconnect\<close>\<close>

definition client_disconnect :: "unit cact" where
  "client_disconnect =
     seqA (noteA ''disconnected from the network'' [])
     (modA (\<lambda>s.
        s\<lparr>cl_client := False, cl_characteristic := False, cl_peers := [],
          cl_enc := (cl_enc s)\<lparr>sv_sessions := [], sv_handshakes := []\<rparr>, cl_pending := [],
          cl_chat := (let c = (cl_chat s)\<lparr>cc_dms := []\<rparr> in if is_dm (cc_mode c) then switch_to_public c else c),
          cl_scanner := True\<rparr>))"

text \<open>\<open>self.client.write_gatt_char(self.characteristic, packet, response=\<dots>)\<close>\<close>

definition writeA :: "world \<Rightarrow> bytes \<Rightarrow> bool \<Rightarrow> unit cact" where
  "writeA w pkt response =
     bindA (ask (wd_write w)) (\<lambda>r. case r of None \<Rightarrow> outA (Wrote pkt response) | Some e \<Rightarrow> liftA (Inl e))"

text \<open>\<open>create_bitchat_packet\<close> and \<open>create_bitchat_packet_with_recipient\<close> with our identifier.\<close>

definition packetA :: "world \<Rightarrow> MessageType \<Rightarrow> bytes \<Rightarrow> bytes option \<Rightarrow> bytes cact" where
  "packetA w t payload signature =
     bindA (ask (wd_ts w)) (\<lambda>ts. bindA (ask (wd_rnd w)) (\<lambda>rnd.
     getA (\<lambda>s. liftA (create_bitchat_packet_with_signature ts rnd (cl_id s) t payload signature))))"

definition packet_toA :: "world \<Rightarrow> pystr \<Rightarrow> MessageType \<Rightarrow> bytes \<Rightarrow> bytes option \<Rightarrow> bytes cact" where
  "packet_toA w recipient t payload signature =
     bindA (ask (wd_ts w)) (\<lambda>ts. bindA (ask (wd_rnd w)) (\<lambda>rnd.
     getA (\<lambda>s. liftA (create_bitchat_packet_with_recipient ts rnd (cl_id s) (Some recipient) t payload
       signature))))"

subsection \<open>Fragments and packets on the link\<close>

definition fragment_size :: nat where
  "fragment_size = 150"

definition ble_chunks :: "bytes \<Rightarrow> bytes list" where
  "ble_chunks pkt =
     map (\<lambda>j. slice (j * fragment_size) (j * fragment_size + fragment_size) pkt)
       [0..<(length pkt + fragment_size - 1) div fragment_size]"

definition ble_fragment_type :: "nat \<Rightarrow> nat \<Rightarrow> MessageType" where
  "ble_fragment_type index n =
     (if index = 0 then FRAGMENT_START else if index = n - 1 then FRAGMENT_END else FRAGMENT_CONTINUE)"

definition ble_fragment_payload :: "bytes \<Rightarrow> nat \<Rightarrow> nat \<Rightarrow> bytes \<Rightarrow> bytes res" where
  "ble_fragment_payload fid index n chunk =
     bindE (pack_H index) (\<lambda>i. bindE (pack_H n) (\<lambda>t. Inr (fid @ i @ t @ [mt_value MESSAGE] @ chunk)))"

text \<open>The loop over the chunks, from \<open>index\<close> on. A lost connection ends it quietly.\<close>

fun send_fragments :: "world \<Rightarrow> bytes \<Rightarrow> nat \<Rightarrow> nat \<Rightarrow> bytes list \<Rightarrow> unit cact" where
  "send_fragments w fid n index [] = ret ()"
| "send_fragments w fid n index (chunk # cs) =
     bindA (liftA (ble_fragment_payload fid index n chunk)) (\<lambda>payload.
     bindA (packetA w (ble_fragment_type index n) payload None) (\<lambda>pkt.
     bindA (catchA (writeA w pkt False)) (\<lambda>r.
     (case r of
        Inr _ \<Rightarrow> send_fragments w fid n (Suc index) cs
      | Inl e \<Rightarrow> if e = BleakNotConnected then client_disconnect else liftA (Inl e)))))"

definition send_packet_with_fragmentation :: "world \<Rightarrow> bytes \<Rightarrow> unit cact" where
  "send_packet_with_fragmentation w pkt =
     getA (\<lambda>s.
     if \<not> cl_client s \<or> \<not> cl_characteristic s then ret ()
     else
       bindA (ask (wd_connected w)) (\<lambda>connected.
       if \<not> connected then client_disconnect
       else
         bindA (ask (wd_rnd w)) (\<lambda>rnd.
         let cs = ble_chunks pkt in send_fragments w (rnd 8) (length cs) 0 cs)))"

definition client_send_packet :: "world \<Rightarrow> bytes \<Rightarrow> unit cact" where
  "client_send_packet w pkt =
     getA (\<lambda>s.
     if \<not> cl_client s \<or> \<not> cl_characteristic s then ret ()
     else
       bindA (ask (wd_connected w)) (\<lambda>connected.
       if \<not> connected then client_disconnect
       else if should_fragment pkt then send_packet_with_fragmentation w pkt
       else
         let write_with_response = (512 < length pkt) in
         bindA (catchA (writeA w pkt write_with_response)) (\<lambda>r.
         (case r of
            Inr _ \<Rightarrow> ret ()
          | Inl e \<Rightarrow>
              if e = BleakNotConnected then client_disconnect
              else if e = BleakBlocked \<or> write_with_response then
                bindA (catchA (writeA w pkt False)) (\<lambda>r2.
                (case r2 of
                   Inr _ \<Rightarrow> ret ()
                 | Inl e2 \<Rightarrow>
                     if e2 = BleakNotConnected then client_disconnect
                     else if e2 = BleakBlocked then ret ()
                     else liftA (Inl e2)))
              else liftA (Inl e)))))"

text \<open>\<open>data = bytearray(packet); data[2] = ttl; await self.send_packet(bytes(data))\<close>\<close>

definition send_with_ttl :: "world \<Rightarrow> nat \<Rightarrow> bytes \<Rightarrow> unit cact" where
  "send_with_ttl w ttl pkt = client_send_packet w (set_ttl pkt ttl)"

definition client_relay :: "world \<Rightarrow> packet \<Rightarrow> bytes \<Rightarrow> unit cact" where
  "client_relay w pk raw = (if pkt_ttl pk > 1 then send_with_ttl w (pkt_ttl pk - 1) raw else ret ())"

subsection \<open>What holds of sending\<close>

text \<open>
  A relation that composes, and that allows the clock to tick, a frame to be written and the link to be
  lost, holds of everything the client does to send a packet.
\<close>

locale sending = composing Q for Q :: "client \<Rightarrow> client_output list \<Rightarrow> client \<Rightarrow> bool" +
  assumes Q_tick: "Q s [] (s\<lparr>cl_tick := n\<rparr>)"
    and Q_wrote: "Q s [Wrote pkt response] s"
    and Q_disconnect: "obeys Q client_disconnect"
begin

lemmas sends_rules = obeys_ret obeys_liftA obeys_bindA obeys_seqA obeys_tryA obeys_catchA obeys_getA Q_disconnect

lemma sends_ask: "obeys Q (ask f)"
  unfolding ask_def by (intro sends_rules obeys_modA Q_tick)

lemma sends_write: "obeys Q (writeA w pkt response)"
  unfolding writeA_def by (auto intro!: sends_rules sends_ask obeys_outA Q_wrote split: option.split)

lemma sends_create: "obeys Q (packetA w t payload sig)" "obeys Q (packet_toA w pid t payload sig)"
  unfolding packetA_def packet_toA_def by (intro sends_rules sends_ask)+

lemma sends_fragments: "obeys Q (send_fragments w fid n i cs)"
  by (induction w fid n i cs rule: send_fragments.induct)
    (auto intro!: sends_rules sends_write sends_create split: sum.split)

lemma sends_packet:
  "obeys Q (client_send_packet w pkt)" "obeys Q (send_with_ttl w k pkt)" "obeys Q (client_relay w pk pkt)"
  unfolding client_relay_def send_with_ttl_def client_send_packet_def send_packet_with_fragmentation_def Let_def
  by (auto intro!: sends_rules sends_ask sends_write sends_fragments split: sum.split)

end

subsection \<open>Saving\<close>

definition save_app_state :: "world \<Rightarrow> unit cact" where
  "save_app_state w =
     bindA (ask (wd_save w)) (\<lambda>wr.
     modA (\<lambda>s.
       let app = (cl_app s)\<lparr>st_nickname := Some (cl_nickname s), st_blocked_peers := cl_blocked s,
             st_channel_creators := cl_creators s, st_joined_channels := cc_channels (cl_chat s),
             st_password_protected_channels := cl_protected s,
             st_channel_key_commitments := cl_commitments s\<rparr>
       in s\<lparr>cl_app := app, cl_file := snd (save_state wr app (cl_file s))\<rparr>))"

subsection \<open>The encryption service, as actions\<close>

definition client_decrypt :: "libs \<Rightarrow> pystr \<Rightarrow> bytes \<Rightarrow> bytes cact" where
  "client_decrypt lb pid data =
     getA (\<lambda>s.
     (case decrypt_from_peer (lb_crypto lb) pid data (cl_enc s) of
        (r, enc) \<Rightarrow> seqA (modA (\<lambda>s. s\<lparr>cl_enc := enc\<rparr>)) (liftA r)))"

definition client_encrypt :: "libs \<Rightarrow> pystr \<Rightarrow> bytes \<Rightarrow> bytes cact" where
  "client_encrypt lb pid data =
     getA (\<lambda>s.
     (case encrypt_for_peer (lb_crypto lb) pid data (cl_enc s) of
        (r, enc) \<Rightarrow> seqA (modA (\<lambda>s. s\<lparr>cl_enc := enc\<rparr>)) (liftA r)))"

definition client_initiate :: "libs \<Rightarrow> world \<Rightarrow> pystr \<Rightarrow> bytes cact" where
  "client_initiate lb w pid =
     bindA (ask (wd_eph w)) (\<lambda>eph.
     getA (\<lambda>s.
     (case initiate_handshake (lb_crypto lb) eph pid (cl_enc s) of
        (r, enc) \<Rightarrow> seqA (modA (\<lambda>s. s\<lparr>cl_enc := enc\<rparr>)) (liftA r))))"

text \<open>\<open>process_handshake_message\<close>; each peer it reports as authenticated gets a task.\<close>

definition client_process :: "libs \<Rightarrow> world \<Rightarrow> pystr \<Rightarrow> bytes \<Rightarrow> bytes option cact" where
  "client_process lb w pid msg =
     bindA (ask (wd_eph w)) (\<lambda>eph. bindA (ask (wd_now w)) (\<lambda>now.
     getA (\<lambda>s.
     (case process_handshake_message (lb_crypto lb) eph now pid msg (cl_enc s) of
        (r, enc, events) \<Rightarrow>
          seqA (modA (\<lambda>s. s\<lparr>cl_enc := enc, cl_tasks := cl_tasks s @ map fst events\<rparr>)) (liftA r)))))"

text \<open>Start a handshake and send its first message with TTL 3.\<close>

definition send_handshake_init :: "libs \<Rightarrow> world \<Rightarrow> pystr \<Rightarrow> unit cact" where
  "send_handshake_init lb w pid =
     bindA (client_initiate lb w pid) (\<lambda>msg.
     bindA (packet_toA w pid NOISE_HANDSHAKE_INIT msg None) (send_with_ttl w 3))"

text \<open>The payload and the signature of an identity announcement.\<close>

definition identity_payload :: "libs \<Rightarrow> world \<Rightarrow> (bytes \<times> bytes) cact" where
  "identity_payload lb w =
     bindA (ask (wd_ts w)) (\<lambda>timestamp_ms.
     getA (\<lambda>s.
     let pub_key = get_public_key_bytes (lb_crypto lb) (cl_enc s);
         signing_pub_key = get_signing_public_key_bytes (lb_crypto lb) (cl_enc s)
     in
     bindA (liftA (utf8_encode (dec timestamp_ms))) (\<lambda>tsb.
     bindA (liftA (utf8_encode (cl_id s))) (\<lambda>idb.
     let signature = sign_data (lb_crypto lb) (idb @ pub_key @ tsb) (cl_enc s) in
     bindA (liftA (encode_noise_identity_announcement_binary (cl_id s) pub_key signing_pub_key
              (cl_nickname s) (int timestamp_ms) signature None)) (\<lambda>payload.
     ret (payload, signature))))))"

subsection \<open>Private messages\<close>

text \<open>The first branch of \<open>send_private_message\<close>: queue the message and see to a handshake.\<close>

definition client_queue_private ::
  "libs \<Rightarrow> world \<Rightarrow> pystr \<Rightarrow> pystr \<Rightarrow> pystr \<Rightarrow> pystr option \<Rightarrow> unit cact" where
  "client_queue_private lb w content target nickname message_id =
     bindA (case message_id of Some (c # cs) \<Rightarrow> ret (c # cs) | _ \<Rightarrow> ask (wd_uuid w)) (\<lambda>mid.
     seqA (modA (\<lambda>s. s\<lparr>cl_pending := dict_set (cl_pending s) target
       ((case dict_get (cl_pending s) target of Some q \<Rightarrow> q | None \<Rightarrow> []) @ [(content, nickname, mid)])\<rparr>))
     (bindA (ask (wd_now w)) (\<lambda>now.
      getA (\<lambda>s.
      if (case dict_get (cl_attempts s) target of
            Some prev \<Rightarrow> now - prev < handshake_timeout | None \<Rightarrow> False)
      then noteA ''handshake already in progress'' [nickname]
      else
        seqA (modA (\<lambda>s. s\<lparr>cl_attempts := dict_set (cl_attempts s) target now\<rparr>))
        (bindA (catchA (send_handshake_init lb w target)) (\<lambda>r.
         (case r of
            Inl e \<Rightarrow>
              seqA (modA (\<lambda>s. s\<lparr>cl_attempts := dict_del (cl_attempts s) target\<rparr>))
                (noteA ''failed to initiate a secure connection'' [nickname])
          | Inr _ \<Rightarrow> noteA ''initiating a secure handshake'' [nickname])))))))"

definition show_own :: "world \<Rightarrow> pystr \<Rightarrow> bool \<Rightarrow> pystr option \<Rightarrow> pystr option \<Rightarrow> unit cact" where
  "show_own w content is_private channel recipient =
     bindA (ask (wd_hhmm w)) (\<lambda>hhmm.
     getA (\<lambda>s. outA (Own_shown (format_message_display hhmm (cl_nickname s) content is_private
       (channel \<noteq> None \<and> channel \<noteq> Some []) channel recipient (cl_nickname s)))))"

definition client_send_private ::
  "libs \<Rightarrow> world \<Rightarrow> pystr \<Rightarrow> pystr \<Rightarrow> pystr \<Rightarrow> pystr option \<Rightarrow> unit cact" where
  "client_send_private lb w content target nickname message_id =
     getA (\<lambda>s.
     if \<not> cl_client s \<or> \<not> cl_characteristic s then noteA ''not connected'' []
     else if \<not> is_session_established target (cl_enc s) then
       client_queue_private lb w content target nickname message_id
     else
       bindA (ask (wd_uuid w)) (\<lambda>uuid. bindA (ask (wd_ts w)) (\<lambda>ts.
       bindA (liftA (create_bitchat_message_payload_full ts uuid (cl_nickname s) content None True
                (cl_id s) False None)) (\<lambda>(payload, mid).
       bindA (ask (wd_now w)) (\<lambda>now.
       seqA (modA (\<lambda>s. s\<lparr>cl_tracker := track_message now mid content True (cl_tracker s)\<rparr>))
       (bindA (packet_toA w target MESSAGE payload None) (\<lambda>inner.
        tryA
          (bindA (client_encrypt lb target (set_ttl inner 7)) (\<lambda>encrypted.
           bindA (packet_toA w target NOISE_ENCRYPTED encrypted None) (\<lambda>pkt.
           bindA (catchA (client_send_packet w pkt)) (\<lambda>r.
           (case r of
              Inr _ \<Rightarrow> show_own w content True None (Some nickname)
            | Inl e \<Rightarrow>
                if e = BleakBlocked then
                  seqA (noteA ''message queued'' [])
                  (bindA (catchA (client_send_packet w pkt)) (\<lambda>r2.
                   (case r2 of
                      Inr _ \<Rightarrow> show_own w content True None (Some nickname)
                    | Inl e2 \<Rightarrow> noteA ''failed to send message'' [])))
                else liftA (Inl e))))))
          any_error (noteA ''failed to send encrypted message'' [nickname]))))))))"

text \<open>The loop of \<open>send_pending_private_messages\<close>; a blocked write puts the message back.\<close>

fun send_pending_loop :: "libs \<Rightarrow> world \<Rightarrow> pystr \<Rightarrow> (pystr \<times> pystr \<times> pystr) list \<Rightarrow> unit cact" where
  "send_pending_loop lb w pid [] = ret ()"
| "send_pending_loop lb w pid ((content, nickname, mid) # ms) =
     bindA (catchA (client_send_private lb w content pid nickname (Some mid))) (\<lambda>r.
     if r = Inl BleakBlocked then
       modA (\<lambda>s. s\<lparr>cl_pending := dict_set (cl_pending s) pid
         ((case dict_get (cl_pending s) pid of Some q \<Rightarrow> q | None \<Rightarrow> []) @ [(content, nickname, mid)])\<rparr>)
     else send_pending_loop lb w pid ms)"

definition client_send_pending :: "libs \<Rightarrow> world \<Rightarrow> pystr \<Rightarrow> unit cact" where
  "client_send_pending lb w pid =
     getA (\<lambda>s.
     (case dict_get (cl_pending s) pid of
        None \<Rightarrow> ret ()
      | Some messages \<Rightarrow>
          seqA (modA (\<lambda>s. s\<lparr>cl_pending := dict_del (cl_pending s) pid\<rparr>))
            (send_pending_loop lb w pid messages)))"

end
