(* ===== verification/Reception.thy ===== *)
theory Reception
  imports Client
begin

text \<open>
  What the terminal client does with packets (\<^verbatim>\<open>bitchat.py\<close>): the handlers in the order of the
  file and \<open>notification_handler\<close>. A reassembled or decrypted packet is handled in turn, so
  \<open>handle_packet\<close> calls itself; the number of such calls within each other that the interpreter's
  stack allows is an argument, and beyond it \<open>RecursionError\<close> is raised, as Python does.
\<close>

subsection \<open>Announcements\<close>

definition send_identity_to :: "libs \<Rightarrow> world \<Rightarrow> pystr \<Rightarrow> unit cact" where
  "send_identity_to lb w pid =
     bindA (identity_payload lb w) (\<lambda>(payload, signature).
     bindA (packet_toA w pid NOISE_IDENTITY_ANNOUNCE payload (Some signature)) (client_send_packet w))"

definition client_handle_announce :: "libs \<Rightarrow> world \<Rightarrow> packet \<Rightarrow> unit cact" where
  "client_handle_announce lb w pk =
     (let nickname = strip is_space (utf8_decode_ignore (pkt_payload pk)); pid = pkt_sender_id_str pk in
      getA (\<lambda>s.
      let is_new = \<not> has_key (cl_peers s) pid in
      seqA (modA (\<lambda>s. s\<lparr>cl_peers := dict_set (cl_peers s) pid (Some nickname)\<rparr>))
      (if \<not> is_new then ret ()
       else
         seqA (noteA ''connected'' [nickname])
         (if str_less (cl_id s) pid then
            tryA (send_handshake_init lb w pid) any_error
              (bindA (packetA w KEY_EXCHANGE (get_public_key_bytes (lb_crypto lb) (cl_enc s)) None)
                (client_send_packet w))
          else tryA (send_identity_to lb w pid) any_error (ret ())))))"

definition client_handle_identity :: "libs \<Rightarrow> world \<Rightarrow> packet \<Rightarrow> unit cact" where
  "client_handle_identity lb w pk =
     getA (\<lambda>s.
     if pkt_sender_id_str pk = cl_id s then ret ()
     else
       (case parse_noise_identity_announcement_binary (pkt_payload pk) of
          None \<Rightarrow> ret ()
        | Some announcement \<Rightarrow>
            let pid = ann_peerID announcement; nickname = ann_nickname announcement;
                is_new = \<not> has_key (cl_peers s) pid
            in
            seqA (modA (\<lambda>s. s\<lparr>cl_peers := dict_set (cl_peers s) pid (Some nickname)\<rparr>))
            (seqA (if is_new then noteA ''connected'' [nickname] else ret ())
              (if str_less (cl_id s) pid \<and> \<not> is_session_established pid (cl_enc s)
               then tryA (send_handshake_init lb w pid) any_error (ret ()) else ret ()))))"

subsection \<open>Displaying and acknowledging\<close>

definition peer_name :: "pystr \<Rightarrow> client \<Rightarrow> pystr" where
  "peer_name pid s = (case dict_get (cl_peers s) pid of Some (Some (c # cs)) \<Rightarrow> c # cs | _ \<Rightarrow> pid)"

definition COVER_TRAFFIC_PREFIX :: pystr where
  "COVER_TRAFFIC_PREFIX = 9730 # lit ''DUMMY'' @ [9730]"

definition starts_with :: "'a list \<Rightarrow> 'a list \<Rightarrow> bool" where
  "starts_with p xs \<longleftrightarrow> take (length p) xs = p"

text \<open>The text that is shown for a message: decrypted if we have the channel's key.\<close>

definition shown_content :: "libs \<Rightarrow> message \<Rightarrow> client \<Rightarrow> pystr" where
  "shown_content lb m s =
     (if \<not> msg_is_encrypted m then msg_content m
      else
        (case (case msg_channel m of Some (c # cs) \<Rightarrow> dict_get (cl_channel_keys s) (c # cs) | _ \<Rightarrow> None) of
           Some key \<Rightarrow>
             (case msg_encrypted_content m of
                None \<Rightarrow> lit ''[Encrypted message - decryption failed]''
              | Some data \<Rightarrow>
                  (case decrypt_from_channel (lb_crypto lb) data (the (msg_channel m)) key
                          (case dict_get (cl_creators s) (the (msg_channel m)) of Some f \<Rightarrow> f | None \<Rightarrow> []) of
                     Inr text \<Rightarrow> text
                   | Inl e \<Rightarrow> lit ''[Encrypted message - decryption failed]''))
         | None \<Rightarrow> lit ''[Encrypted message - join channel with password]''))"

definition display_message :: "libs \<Rightarrow> world \<Rightarrow> message \<Rightarrow> pystr \<Rightarrow> bool \<Rightarrow> unit cact" where
  "display_message lb w m pid is_private =
     getA (\<lambda>s.
     let sender_nick = peer_name pid s; in_channel = (msg_channel m \<noteq> None \<and> msg_channel m \<noteq> Some []) in
     seqA (modA (\<lambda>s.
       if in_channel then
         s\<lparr>cl_discovered := set_add (the (msg_channel m)) (cl_discovered s),
           cl_protected := (if msg_is_encrypted m then set_add (the (msg_channel m)) (cl_protected s)
                            else cl_protected s)\<rparr>
       else s))
     (let content = shown_content lb m s in
      if is_private \<and> starts_with COVER_TRAFFIC_PREFIX content then ret ()
      else
        seqA (modA (\<lambda>s.
          if is_private then
            s\<lparr>cl_chat := add_dm sender_nick pid ((cl_chat s)\<lparr>cc_last := Some (pid, sender_nick)\<rparr>)\<rparr>
          else s))
        (bindA (ask (wd_hhmm w)) (\<lambda>hhmm.
         seqA (outA (Shown m (format_message_display hhmm sender_nick content is_private in_channel
                 (msg_channel m) (if is_private then Some (cl_nickname s) else None) (cl_nickname s))))
         (getA (\<lambda>s. if is_private \<and> \<not> is_dm (cc_mode (cl_chat s)) then noteA ''reply to respond'' [] else ret ()))))))"

definition client_send_ack :: "libs \<Rightarrow> world \<Rightarrow> pystr \<Rightarrow> pystr \<Rightarrow> bool \<Rightarrow> unit cact" where
  "client_send_ack lb w message_id sender is_private =
     getA (\<lambda>s.
     (case tracker_should_send_ack (message_id @ 45 # cl_id s) (cl_tracker s) of (ok, tracker) \<Rightarrow>
     seqA (modA (\<lambda>s. s\<lparr>cl_tracker := tracker\<rparr>))
     (if \<not> ok then ret ()
      else
        bindA (ask (wd_uuid w)) (\<lambda>uuid. bindA (ask (wd_ts w)) (\<lambda>ts.
        let ack_payload = lb_ack_dumps lb
              \<lparr>ack_original_message_id = message_id, ack_id = uuid, ack_recipient_id = cl_id s,
               ack_recipient_nickname = cl_nickname s, ack_timestamp = int ts, ack_hop_count = 1\<rparr>
        in
        bindA (if is_private then tryA (client_encrypt lb sender ack_payload) any_error (ret ack_payload)
               else ret ack_payload) (\<lambda>ack_payload.
        bindA (packet_toA w sender DELIVERY_ACK ack_payload None) (send_with_ttl w 3)))))))"

text \<open>
  The first handling of a message identifier. It is added to the Bloom filter before it is marked as
  processed; \<open>add\<close> may raise, and then the message is not handled.
\<close>

definition client_bloom_capacity :: nat where
  "client_bloom_capacity = 500"

definition client_once :: "libs \<Rightarrow> pystr \<Rightarrow> unit cact \<Rightarrow> unit cact" where
  "client_once lb message_id k =
     getA (\<lambda>s.
     if message_id \<in> cl_processed s then ret ()
     else
       (case lb_bloom lb client_bloom_capacity (cl_bloom s) message_id of
          Some e \<Rightarrow> liftA (Inl e)
        | None \<Rightarrow>
            seqA (modA (\<lambda>s. s\<lparr>cl_bloom := cl_bloom s @ [message_id],
                              cl_processed := insert message_id (cl_processed s)\<rparr>)) k))"

subsection \<open>Messages\<close>

definition client_is_blocked :: "libs \<Rightarrow> pystr \<Rightarrow> client \<Rightarrow> bool" where
  "client_is_blocked lb pid s =
     (case get_peer_fingerprint (lb_crypto lb) pid (cl_enc s) of
        Some fingerprint \<Rightarrow> fingerprint \<noteq> [] \<and> fingerprint \<in> set (cl_blocked s)
      | None \<Rightarrow> False)"

definition client_deliver :: "libs \<Rightarrow> world \<Rightarrow> packet \<Rightarrow> bytes \<Rightarrow> bool \<Rightarrow> message \<Rightarrow> unit cact" where
  "client_deliver lb w pk raw is_private m =
     client_once lb (msg_id m)
       (seqA (display_message lb w m (pkt_sender_id_str pk) is_private)
       (getA (\<lambda>s.
        seqA
          (if should_send_ack is_private (msg_channel m) None (cl_nickname s) (length (cl_peers s))
           then client_send_ack lb w (msg_id m) (pkt_sender_id_str pk) is_private else ret ())
          (client_relay w pk raw))))"

definition client_handle_message :: "libs \<Rightarrow> world \<Rightarrow> packet \<Rightarrow> bytes \<Rightarrow> unit cact" where
  "client_handle_message lb w pk raw =
     getA (\<lambda>s.
     if client_is_blocked lb (pkt_sender_id_str pk) s then ret ()
     else
       let is_for_us = (is_broadcast pk \<or> pkt_recipient_id_str pk = Some (cl_id s)) in
       if \<not> is_for_us then client_relay w pk raw
       else
         let is_private = \<not> is_broadcast pk in
         if is_private then
           bindA (tryA (bindA (client_decrypt lb (pkt_sender_id_str pk) (pkt_payload pk)) (\<lambda>d. ret (Some d)))
                   (\<lambda>e. e = NoiseError) (ret None)) (\<lambda>decrypted.
           (case decrypted of
              None \<Rightarrow> ret ()
            | Some d \<Rightarrow>
                tryA (bindA (liftA (parse_bitchat_message_payload
                              (if d \<noteq> [] then unpad_message d else pkt_payload pk)))
                       (client_deliver lb w pk raw True))
                  any_error (ret ())))
         else
           tryA (bindA (liftA (parse_bitchat_message_payload (pkt_payload pk)))
                  (client_deliver lb w pk raw False))
             any_error (ret ()))"

text \<open>
  \<open>handle\<close> is \<open>handle_packet\<close> for the packet inside. What is not a packet is read as a JSON
  receipt and only logged.
\<close>

definition client_handle_encrypted ::
  "libs \<Rightarrow> world \<Rightarrow> (packet \<Rightarrow> bytes \<Rightarrow> unit cact) \<Rightarrow> packet \<Rightarrow> unit cact" where
  "client_handle_encrypted lb w handle pk =
     getA (\<lambda>s.
     if client_is_blocked lb (pkt_sender_id_str pk) s then ret ()
     else
       tryA
         (bindA (client_decrypt lb (pkt_sender_id_str pk) (pkt_payload pk)) (\<lambda>decrypted.
          tryA
            (if take 1 decrypted = [1] then
               bindA (liftA (parse_bitchat_packet (lb_lz4 lb) decrypted)) (\<lambda>inner.
               if pkt_type inner = MESSAGE then
                 tryA
                   (bindA (liftA (parse_bitchat_message_payload (pkt_payload inner))) (\<lambda>m.
                    client_once lb (msg_id m)
                      (seqA (display_message lb w m (pkt_sender_id_str pk) True)
                        (client_send_ack lb w (msg_id m) (pkt_sender_id_str pk) True))))
                   any_error (ret ())
               else handle inner decrypted)
             else ret ())
            any_error (ret ())))
         any_error (ret ()))"

subsection \<open>Fragments\<close>

definition client_handle_fragment ::
  "libs \<Rightarrow> world \<Rightarrow> (packet \<Rightarrow> bytes \<Rightarrow> unit cact) \<Rightarrow> packet \<Rightarrow> bytes \<Rightarrow> unit cact" where
  "client_handle_fragment lb w handle pk raw =
     seqA
       (if 13 \<le> length (pkt_payload pk) then
          bindA (liftA (unpack_H (slice 8 10 (pkt_payload pk)))) (\<lambda>index.
          bindA (liftA (unpack_H (slice 10 12 (pkt_payload pk)))) (\<lambda>ntotal.
          bindA (liftA (py_nth (pkt_payload pk) 12)) (\<lambda>original_type.
          getA (\<lambda>s.
          (case add_fragment (cl_collector s) (slice 0 8 (pkt_payload pk)) index ntotal (unat original_type)
                  (drop 13 (pkt_payload pk)) (pkt_sender_id_str pk) of
             (result, collector) \<Rightarrow>
               seqA (modA (\<lambda>s. s\<lparr>cl_collector := collector\<rparr>))
               (case result of
                  None \<Rightarrow> ret ()
                | Some (complete_data, _) \<Rightarrow>
                    bindA (liftA (parse_bitchat_packet (lb_lz4 lb) complete_data)) (\<lambda>reassembled.
                    handle reassembled complete_data)))))))
        else ret ())
       (client_relay w pk raw)"

subsection \<open>Handshakes\<close>

definition client_handle_key_exchange :: "libs \<Rightarrow> world \<Rightarrow> packet \<Rightarrow> unit cact" where
  "client_handle_key_exchange lb w pk =
     (let pid = pkt_sender_id_str pk in
      tryA
        (bindA (client_process lb w pid (pkt_payload pk)) (\<lambda>response.
         seqA
           (case response of
              Some (b # bs) \<Rightarrow> bindA (packetA w KEY_EXCHANGE (b # bs) None) (client_send_packet w)
            | _ \<Rightarrow> ret ())
           (getA (\<lambda>s.
            if is_session_established pid (cl_enc s) \<and> \<not> has_key (cl_peers s) pid then
              bindA (client_initiate lb w pid) (\<lambda>msg.
              bindA (packetA w KEY_EXCHANGE msg None) (client_send_packet w))
            else ret ()))))
        any_error (ret ()))"

text \<open>
  The two Noise handlers differ in the type of the answer only. Unlike the daemon, the client sends
  the waiting messages before it returns.
\<close>

definition client_handle_handshake :: "libs \<Rightarrow> world \<Rightarrow> MessageType \<Rightarrow> packet \<Rightarrow> unit cact" where
  "client_handle_handshake lb w reply_type pk =
     getA (\<lambda>s.
     if pkt_recipient_id_str pk \<noteq> None \<and> pkt_recipient_id_str pk \<noteq> Some [] \<and>
        pkt_recipient_id_str pk \<noteq> Some (cl_id s) then ret ()
     else
       let pid = pkt_sender_id_str pk in
       tryA
         (bindA (client_process lb w pid (pkt_payload pk)) (\<lambda>response.
          seqA
            (case response of
               Some (b # bs) \<Rightarrow> bindA (packet_toA w pid reply_type (b # bs) None) (send_with_ttl w 3)
             | _ \<Rightarrow> ret ())
            (getA (\<lambda>s.
             if is_session_established pid (cl_enc s) then
               seqA (modA (\<lambda>s. s\<lparr>cl_attempts := dict_del (cl_attempts s) pid\<rparr>))
               (seqA (noteA ''secure session established'' [peer_name pid s])
                 (client_send_pending lb w pid))
             else ret ()))))
         any_error
         (modA (\<lambda>s. s\<lparr>cl_enc := clear_handshake_state pid (cl_enc s)\<rparr>)))"

definition client_handle_handshake_init :: "libs \<Rightarrow> world \<Rightarrow> packet \<Rightarrow> unit cact" where
  "client_handle_handshake_init lb w = client_handle_handshake lb w NOISE_HANDSHAKE_RESP"

definition client_handle_handshake_resp :: "libs \<Rightarrow> world \<Rightarrow> packet \<Rightarrow> unit cact" where
  "client_handle_handshake_resp lb w = client_handle_handshake lb w NOISE_HANDSHAKE_INIT"

subsection \<open>Leaving, channels and acknowledgments\<close>

text \<open>What is forgotten when a peer with a nickname leaves.\<close>

definition forget_peer :: "pystr \<Rightarrow> pystr \<Rightarrow> client \<Rightarrow> client" where
  "forget_peer pid nickname s =
     (let c = (cl_chat s)\<lparr>cc_dms := dict_del (cc_dms (cl_chat s)) nickname\<rparr> in
      s\<lparr>cl_pending := dict_del (cl_pending s) pid, cl_enc := remove_session pid (cl_enc s),
        cl_chat := (case cc_mode c of PrivateDM n p \<Rightarrow> if p = pid then switch_to_public c else c | _ \<Rightarrow> c)\<rparr>)"

definition client_handle_leave :: "packet \<Rightarrow> unit cact" where
  "client_handle_leave pk =
     (let payload = strip is_space (utf8_decode_ignore (pkt_payload pk)); pid = pkt_sender_id_str pk in
      getA (\<lambda>s.
      if take 1 payload = [35] then
        if cc_mode (cl_chat s) = Channel payload
        then noteA ''left the channel'' [peer_name pid s, payload] else ret ()
      else
        seqA (modA (\<lambda>s. s\<lparr>cl_peers := dict_del (cl_peers s) pid\<rparr>))
        (seqA
          (case dict_get (cl_peers s) pid of
             Some (Some (c # cs)) \<Rightarrow>
               seqA (noteA ''disconnected'' [c # cs]) (modA (forget_peer pid (c # cs)))
           | _ \<Rightarrow> ret ())
          (getA (\<lambda>s. if cl_peers s = [] then noteA ''alone in the network'' [] else ret ())))))"

definition client_note_channel :: "pystr \<Rightarrow> bool \<Rightarrow> pystr \<Rightarrow> pystr \<Rightarrow> client \<Rightarrow> client" where
  "client_note_channel channel is_protected creator_id key_commitment s =
     s\<lparr>cl_creators := (if creator_id \<noteq> [] then dict_set (cl_creators s) channel creator_id else cl_creators s),
       cl_protected := (if is_protected then set_add channel (cl_protected s)
                        else removeAll channel (cl_protected s)),
       cl_channel_keys := (if is_protected then cl_channel_keys s else dict_del (cl_channel_keys s) channel),
       cl_commitments :=
         (if \<not> is_protected then dict_del (cl_commitments s) channel
          else if key_commitment \<noteq> [] then dict_set (cl_commitments s) channel key_commitment
          else cl_commitments s),
       cl_chat := add_channel channel (cl_chat s)\<rparr>"

definition client_handle_channel_announce :: "world \<Rightarrow> packet \<Rightarrow> unit cact" where
  "client_handle_channel_announce w pk =
     (let parts = split_on 124 (utf8_decode_ignore (pkt_payload pk)) in
      if 3 \<le> length parts then
        seqA (modA (client_note_channel (parts ! 0) (parts ! 1 = [49]) (parts ! 2)
                (if 3 < length parts then parts ! 3 else [])))
          (save_app_state w)
      else ret ())"

text \<open>\<open>handle_delivery_ack\<close>, which \<open>handle_packet\<close> does not call.\<close>

definition client_handle_ack :: "libs \<Rightarrow> world \<Rightarrow> packet \<Rightarrow> bytes \<Rightarrow> unit cact" where
  "client_handle_ack lb w pk raw =
     getA (\<lambda>s.
     if pkt_recipient_id_str pk = Some (cl_id s) \<and> cl_id s \<noteq> [] then
       bindA (if pkt_ttl pk = 3 \<and> is_session_established (pkt_sender_id_str pk) (cl_enc s)
              then tryA (client_decrypt lb (pkt_sender_id_str pk) (pkt_payload pk)) any_error
                     (ret (pkt_payload pk))
              else ret (pkt_payload pk)) (\<lambda>ack_payload.
       tryA
         (bindA (liftA (lb_ack_loads lb ack_payload)) (\<lambda>ack.
          getA (\<lambda>s.
          (case mark_delivered (ack_original_message_id ack) (cl_tracker s) of (hit, tracker) \<Rightarrow>
             seqA (modA (\<lambda>s. s\<lparr>cl_tracker := tracker\<rparr>))
             (if hit then noteA ''delivered'' [ack_recipient_nickname ack] else ret ())))))
         any_error (ret ()))
     else client_relay w pk raw)"

subsection \<open>Dispatch\<close>

fun client_dispatch ::
  "libs \<Rightarrow> world \<Rightarrow> (packet \<Rightarrow> bytes \<Rightarrow> unit cact) \<Rightarrow> MessageType \<Rightarrow> packet \<Rightarrow> bytes \<Rightarrow> unit cact" where
  "client_dispatch lb w handle ANNOUNCE pk raw = client_handle_announce lb w pk"
| "client_dispatch lb w handle MESSAGE pk raw = client_handle_message lb w pk raw"
| "client_dispatch lb w handle FRAGMENT_START pk raw = client_handle_fragment lb w handle pk raw"
| "client_dispatch lb w handle FRAGMENT_CONTINUE pk raw = client_handle_fragment lb w handle pk raw"
| "client_dispatch lb w handle FRAGMENT_END pk raw = client_handle_fragment lb w handle pk raw"
| "client_dispatch lb w handle KEY_EXCHANGE pk raw = client_handle_key_exchange lb w pk"
| "client_dispatch lb w handle NOISE_HANDSHAKE_INIT pk raw = client_handle_handshake_init lb w pk"
| "client_dispatch lb w handle NOISE_HANDSHAKE_RESP pk raw = client_handle_handshake_resp lb w pk"
| "client_dispatch lb w handle NOISE_ENCRYPTED pk raw = client_handle_encrypted lb w handle pk"
| "client_dispatch lb w handle LEAVE pk raw = client_handle_leave pk"
| "client_dispatch lb w handle CHANNEL_ANNOUNCE pk raw = client_handle_channel_announce w pk"
| "client_dispatch lb w handle NOISE_IDENTITY_ANNOUNCE pk raw = client_handle_identity lb w pk"
| "client_dispatch lb w handle t pk raw = ret ()"

fun client_handle_packet :: "libs \<Rightarrow> world \<Rightarrow> nat \<Rightarrow> packet \<Rightarrow> bytes \<Rightarrow> unit cact" where
  "client_handle_packet lb w 0 pk raw = liftA (Inl RecursionError)"
| "client_handle_packet lb w (Suc depth) pk raw =
     client_dispatch lb w (client_handle_packet lb w depth) (pkt_type pk) pk raw"

definition notification_handler :: "libs \<Rightarrow> world \<Rightarrow> nat \<Rightarrow> bytes \<Rightarrow> unit cact" where
  "notification_handler lb w depth data =
     tryA
       (bindA (liftA (parse_bitchat_packet (lb_lz4 lb) data)) (\<lambda>pk.
        getA (\<lambda>s.
        if pkt_sender_id_str pk = cl_id s then ret () else client_handle_packet lb w depth pk data)))
       any_error (ret ())"

end
