(* ===== verification/Commands.thy ===== *)
theory Commands
  imports Reception
begin

text \<open>
  What the user of the terminal client can do (\<^verbatim>\<open>bitchat.py\<close>): the command line, the commands,
  sending, connecting and scanning. Of the digits of Unicode only the ASCII ones are digits here.
\<close>

subsection \<open>Words of a line\<close>

text \<open>\<open>line.split(maxsplit=n)\<close> and \<open>line.split()\<close> at white space.\<close>

fun split_max :: "nat \<Rightarrow> pystr \<Rightarrow> pystr list" where
  "split_max 0 line = (let rest = dropWhile is_space line in if rest = [] then [] else [rest])"
| "split_max (Suc n) line =
     (let rest = dropWhile is_space line in
      if rest = [] then []
      else takeWhile (\<lambda>c. \<not> is_space c) rest # split_max n (dropWhile (\<lambda>c. \<not> is_space c) rest))"

definition words :: "pystr \<Rightarrow> pystr list" where
  "words line = split_max (length line) line"

definition is_digits :: "pystr \<Rightarrow> bool" where
  "is_digits line \<longleftrightarrow> line \<noteq> [] \<and> (\<forall>c\<in>set line. 48 \<le> c \<and> c \<le> 57)"

definition name_ok :: "world \<Rightarrow> pystr \<Rightarrow> bool" where
  "name_ok w name \<longleftrightarrow> (\<forall>c\<in>set name. wd_alnum w c \<or> c = 45 \<or> c = 95)"

fun str_insert :: "pystr \<Rightarrow> pystr list \<Rightarrow> pystr list" where
  "str_insert x [] = [x]"
| "str_insert x (y # ys) = (if str_less y x then y # str_insert x ys else x # y # ys)"

definition str_sort :: "pystr list \<Rightarrow> pystr list" where
  "str_sort xs = foldr str_insert xs []"

subsection \<open>Small steps of the commands\<close>

definition chatA :: "(chat_context \<Rightarrow> chat_context) \<Rightarrow> unit cact" where
  "chatA f = modA (\<lambda>s. s\<lparr>cl_chat := f (cl_chat s)\<rparr>)"

definition switchA :: "int \<Rightarrow> bool cact" where
  "switchA num =
     getA (\<lambda>s.
     (case switch_to_number num (cl_chat s) of (r, c) \<Rightarrow> seqA (chatA (\<lambda>_. c)) (liftA r)))"

text \<open>\<open>self.client and self.client.is_connected\<close>\<close>

definition connectedA :: "world \<Rightarrow> bool cact" where
  "connectedA w = getA (\<lambda>s. if cl_client s then ask (wd_connected w) else ret False)"

text \<open>The first peer with a nickname; an empty identifier counts as none.\<close>

definition find_peer :: "pystr \<Rightarrow> client \<Rightarrow> pystr option" where
  "find_peer nickname s =
     (case find (\<lambda>(pid, nick). nick = Some nickname) (cl_peers s) of
        Some (p # ps, _) \<Rightarrow> Some (p # ps)
      | _ \<Rightarrow> None)"

definition sha256_hex :: "libs \<Rightarrow> bytes \<Rightarrow> pystr" where
  "sha256_hex lb key = hex (sha256 (lb_crypto lb) key)"

definition send_announcement :: "world \<Rightarrow> MessageType \<Rightarrow> unit cact" where
  "send_announcement w t =
     getA (\<lambda>s. bindA (liftA (utf8_encode (cl_nickname s))) (\<lambda>name.
     bindA (packetA w t name None) (client_send_packet w)))"

definition client_send_channel_announce :: "world \<Rightarrow> pystr \<Rightarrow> bool \<Rightarrow> pystr option \<Rightarrow> unit cact" where
  "client_send_channel_announce w channel is_protected key_commitment =
     getA (\<lambda>s.
     let payload = channel @ [124] @ (if is_protected then [49] else [48]) @ [124] @ cl_id s @ [124] @
           (case key_commitment of Some k \<Rightarrow> k | None \<Rightarrow> [])
     in
     bindA (liftA (utf8_encode payload)) (\<lambda>bs.
     bindA (packetA w CHANNEL_ANNOUNCE bs None) (send_with_ttl w 5)))"

definition payloadA :: "world \<Rightarrow> pystr \<Rightarrow> pystr option \<Rightarrow> bytes option \<Rightarrow> (bytes \<times> pystr) cact" where
  "payloadA w content channel encrypted =
     bindA (ask (wd_uuid w)) (\<lambda>uuid. bindA (ask (wd_ts w)) (\<lambda>ts.
     getA (\<lambda>s. liftA (create_bitchat_message_payload_full ts uuid (cl_nickname s) content channel False
       (cl_id s) (encrypted \<noteq> None) encrypted))))"

definition create_encrypted_channel_message_payload ::
  "libs \<Rightarrow> world \<Rightarrow> pystr \<Rightarrow> pystr \<Rightarrow> bytes \<Rightarrow> (bytes \<times> pystr) cact" where
  "create_encrypted_channel_message_payload lb w content channel key =
     bindA (liftA (utf8_encode content)) (\<lambda>plain.
     bindA (ask (wd_rnd w)) (\<lambda>rnd.
     bindA (liftA (encrypt_with_key (lb_crypto lb) (rnd 12) plain key)) (\<lambda>encrypted.
     payloadA w content (Some channel) (Some encrypted))))"

text \<open>Remember a channel's password under the identity key; a failure is only logged.\<close>

definition save_password :: "libs \<Rightarrow> world \<Rightarrow> pystr \<Rightarrow> pystr \<Rightarrow> bool \<Rightarrow> unit cact" where
  "save_password lb w channel password and_save =
     getA (\<lambda>s.
     (case st_identity_key (cl_app s) of
        Some (k # ks) \<Rightarrow>
          tryA
            (bindA (ask (wd_rnd w)) (\<lambda>rnd.
             bindA (liftA (encrypt_password (lb_crypto lb) (lb_gcm lb) (rnd 12) password (k # ks))) (\<lambda>encrypted.
             seqA (modA (\<lambda>s. s\<lparr>cl_app := (cl_app s)\<lparr>st_encrypted_channel_passwords :=
                dict_set (st_encrypted_channel_passwords (cl_app s)) channel encrypted\<rparr>\<rparr>))
               (if and_save then save_app_state w else ret ()))))
            any_error (ret ())
      | _ \<Rightarrow> ret ()))"

subsection \<open>Channels\<close>

text \<open>\<open>/j\<close> on a channel that is protected and whose key we do not have.\<close>

definition join_protected :: "libs \<Rightarrow> world \<Rightarrow> pystr \<Rightarrow> pystr option \<Rightarrow> unit cact" where
  "join_protected lb w channel password =
     (case password of
        None \<Rightarrow> noteA ''channel is password-protected'' [channel]
      | Some pw \<Rightarrow>
          if length pw < 4 then noteA ''password too short'' []
          else
            bindA (liftA (derive_channel_key (lb_crypto lb) pw channel)) (\<lambda>key.
            getA (\<lambda>s.
            if (case dict_get (cl_commitments s) channel of Some c \<Rightarrow> sha256_hex lb key \<noteq> c | None \<Rightarrow> False)
            then noteA ''wrong password'' [channel]
            else
              seqA (modA (\<lambda>s. s\<lparr>cl_channel_keys := dict_set (cl_channel_keys s) channel key,
                                cl_discovered := set_add channel (cl_discovered s)\<rparr>))
              (seqA (save_password lb w channel pw True)
              (seqA (chatA (switch_to_channel channel))
              (seqA (noteA ''joined password-protected channel'' [channel])
              (getA (\<lambda>s.
               if has_key (cl_creators s) channel
               then client_send_channel_announce w channel True (Some (sha256_hex lb key))
               else ret ()))))))))"

definition join_open :: "libs \<Rightarrow> world \<Rightarrow> pystr \<Rightarrow> pystr option \<Rightarrow> unit cact" where
  "join_open lb w channel password =
     (case password of
        Some pw \<Rightarrow>
          bindA (liftA (derive_channel_key (lb_crypto lb) pw channel)) (\<lambda>key.
          seqA (modA (\<lambda>s. s\<lparr>cl_channel_keys := dict_set (cl_channel_keys s) channel key,
                            cl_discovered := set_add channel (cl_discovered s)\<rparr>))
          (seqA (chatA (switch_to_channel channel))
          (seqA (noteA ''joined password-protected channel'' [channel])
          (getA (\<lambda>s.
           if has_key (cl_creators s) channel
           then client_send_channel_announce w channel True (Some (sha256_hex lb key))
           else ret ())))))
      | None \<Rightarrow>
          seqA (modA (\<lambda>s. s\<lparr>cl_discovered := set_add channel (cl_discovered s)\<rparr>))
          (seqA (chatA (switch_to_channel channel))
            (modA (\<lambda>s. s\<lparr>cl_channel_keys := dict_del (cl_channel_keys s) channel\<rparr>))))"

definition handle_join_channel :: "libs \<Rightarrow> world \<Rightarrow> pystr \<Rightarrow> unit cact" where
  "handle_join_channel lb w line =
     (case words line of
        _ # channel # rest \<Rightarrow>
          if take 1 channel \<noteq> [35] then noteA ''channel names must start with #'' [channel]
          else if length channel > 25 then noteA ''channel name too long'' []
          else if \<not> name_ok w (drop 1 channel) then noteA ''invalid channel name'' []
          else
            getA (\<lambda>s.
            let password = (case rest of pw # _ \<Rightarrow> Some pw | [] \<Rightarrow> None) in
            if channel \<in> set (cl_protected s) then
              if has_key (cl_channel_keys s) channel then
                seqA (modA (\<lambda>s. s\<lparr>cl_discovered := set_add channel (cl_discovered s)\<rparr>))
                  (chatA (switch_to_channel channel))
              else join_protected lb w channel password
            else join_open lb w channel password)
      | _ \<Rightarrow> noteA ''usage of /j'' [])"

definition handle_leave_command :: "world \<Rightarrow> unit cact" where
  "handle_leave_command w =
     getA (\<lambda>s.
     (case cc_mode (cl_chat s) of
        Channel channel \<Rightarrow>
          bindA (liftA (utf8_encode channel)) (\<lambda>payload.
          bindA (packetA w LEAVE payload None) (\<lambda>pkt.
          seqA (send_with_ttl w 3 pkt)
          (seqA (modA (\<lambda>s.
             s\<lparr>cl_channel_keys := dict_del (cl_channel_keys s) channel,
               cl_protected := removeAll channel (cl_protected s),
               cl_creators := dict_del (cl_creators s) channel,
               cl_commitments := dict_del (cl_commitments s) channel,
               cl_app := (cl_app s)\<lparr>st_encrypted_channel_passwords :=
                 dict_del (st_encrypted_channel_passwords (cl_app s)) channel\<rparr>,
               cl_chat := switch_to_public (remove_channel channel (cl_chat s))\<rparr>))
          (seqA (save_app_state w) (noteA ''left the channel'' [channel])))))
      | _ \<Rightarrow> noteA ''not in a channel'' []))"

definition notify_msg :: pystr where
  "notify_msg = 128272 # lit '' Password changed by channel owner. Please update your password.''"

definition init_msg :: "bool \<Rightarrow> pystr \<Rightarrow> pystr \<Rightarrow> bytes \<Rightarrow> pystr" where
  "init_msg had_key channel nickname idb =
     128273 # lit '' Password '' @ (if had_key then lit ''changed'' else lit ''set'') @ lit '' | Channel '' @
     channel @ lit '' password '' @ (if had_key then lit ''updated'' else lit ''protected'') @ lit '' by '' @
     nickname @ lit '' | Metadata: '' @ hex idb"

text \<open>The announcements that follow a new password: to holders of the old key, and with the new one.\<close>

definition announce_password :: "libs \<Rightarrow> world \<Rightarrow> pystr \<Rightarrow> bytes option \<Rightarrow> bytes \<Rightarrow> unit cact" where
  "announce_password lb w channel old_key new_key =
     (let had_key = (old_key \<noteq> None \<and> old_key \<noteq> Some []) in
      seqA
        (if had_key then
           tryA
             (bindA (liftA (utf8_encode notify_msg)) (\<lambda>plain.
              bindA (ask (wd_rnd w)) (\<lambda>rnd.
              bindA (liftA (encrypt_with_key (lb_crypto lb) (rnd 12) plain (the old_key))) (\<lambda>_.
              bindA (create_encrypted_channel_message_payload lb w notify_msg channel (the old_key)) (\<lambda>(payload, _).
              bindA (packetA w MESSAGE payload None) (client_send_packet w))))))
             any_error (ret ())
         else ret ())
      (seqA (client_send_channel_announce w channel True (Some (sha256_hex lb new_key)))
      (getA (\<lambda>s.
       bindA (liftA (utf8_encode (cl_id s))) (\<lambda>idb.
       bindA (create_encrypted_channel_message_payload lb w (init_msg had_key channel (cl_nickname s) idb)
                channel new_key) (\<lambda>(payload, _).
       bindA (packetA w MESSAGE payload None) (\<lambda>pkt.
       seqA (client_send_packet w pkt)
       (seqA (save_app_state w)
         (noteA (if had_key then ''password changed'' else ''password set'') [channel])))))))))"

definition handle_pass_command :: "libs \<Rightarrow> world \<Rightarrow> pystr \<Rightarrow> unit cact" where
  "handle_pass_command lb w line =
     getA (\<lambda>s.
     (case cc_mode (cl_chat s) of
        Channel channel \<Rightarrow>
          (case split_max 1 line of
             _ # new_password # _ \<Rightarrow>
               if length new_password < 4 then noteA ''password too short'' []
               else
                 let owner = (case dict_get (cl_creators s) channel of Some (c # cs) \<Rightarrow> Some (c # cs) | _ \<Rightarrow> None) in
                 if owner \<noteq> None \<and> owner \<noteq> Some (cl_id s) then noteA ''only the owner can change the password'' []
                 else
                   seqA (if owner = None
                         then modA (\<lambda>s. s\<lparr>cl_creators := dict_set (cl_creators s) channel (cl_id s)\<rparr>) else ret ())
                   (bindA (liftA (derive_channel_key (lb_crypto lb) new_password channel)) (\<lambda>new_key.
                    seqA (modA (\<lambda>s. s\<lparr>cl_channel_keys := dict_set (cl_channel_keys s) channel new_key,
                                      cl_protected := set_add channel (cl_protected s)\<rparr>))
                    (seqA (save_password lb w channel new_password False)
                    (seqA (modA (\<lambda>s. s\<lparr>cl_commitments :=
                             dict_set (cl_commitments s) channel (sha256_hex lb new_key)\<rparr>))
                      (announce_password lb w channel (dict_get (cl_channel_keys s) channel) new_key)))))
           | _ \<Rightarrow> noteA ''usage of /pass'' [])
      | _ \<Rightarrow> noteA ''not in a channel'' []))"

definition handle_transfer_command :: "libs \<Rightarrow> world \<Rightarrow> pystr \<Rightarrow> unit cact" where
  "handle_transfer_command lb w line =
     getA (\<lambda>s.
     (case cc_mode (cl_chat s) of
        Channel channel \<Rightarrow>
          (case words line of
             [_, target] \<Rightarrow>
               if dict_get (cl_creators s) channel \<noteq> Some (cl_id s)
               then noteA ''only the owner can transfer ownership'' []
               else
                 (case find_peer (dropWhile (\<lambda>c. c = 64) target) s of
                    None \<Rightarrow> noteA ''user not found'' [dropWhile (\<lambda>c. c = 64) target]
                  | Some new_owner \<Rightarrow>
                      seqA (modA (\<lambda>s. s\<lparr>cl_creators := dict_set (cl_creators s) channel new_owner\<rparr>))
                      (seqA (save_app_state w)
                      (getA (\<lambda>s.
                       let is_protected = (channel \<in> set (cl_protected s)) in
                       seqA (client_send_channel_announce w channel is_protected
                              (if is_protected
                               then map_option (sha256_hex lb) (dict_get (cl_channel_keys s) channel) else None))
                         (noteA ''transferred ownership'' [channel, dropWhile (\<lambda>c. c = 64) target])))))
           | _ \<Rightarrow> noteA ''usage of /transfer'' [])
      | _ \<Rightarrow> noteA ''not in a channel'' []))"

subsection \<open>Peers\<close>

definition handle_dm_command :: "libs \<Rightarrow> world \<Rightarrow> pystr \<Rightarrow> unit cact" where
  "handle_dm_command lb w line =
     bindA (connectedA w) (\<lambda>connected.
     if \<not> connected then noteA ''not connected'' []
     else
       (case split_max 2 line of
          _ # nickname # rest \<Rightarrow>
            getA (\<lambda>s.
            (case find_peer nickname s of
               None \<Rightarrow> noteA ''user not found'' [nickname]
             | Some pid \<Rightarrow>
                 (case rest of
                    message # _ \<Rightarrow> client_send_private lb w message pid nickname None
                  | [] \<Rightarrow> chatA (enter_dm_mode nickname pid))))
        | _ \<Rightarrow> noteA ''usage of /dm'' []))"

definition handle_block_command :: "libs \<Rightarrow> world \<Rightarrow> pystr \<Rightarrow> unit cact" where
  "handle_block_command lb w line =
     getA (\<lambda>s.
     (case words line of
        [_] \<Rightarrow>
          if cl_blocked s = [] then noteA ''no blocked peers'' []
          else
            let nicks = List.map_filter (\<lambda>(pid, nick).
                  case nick of Some (c # cs) \<Rightarrow> if client_is_blocked lb pid s then Some (c # cs) else None
                  | _ \<Rightarrow> None) (cl_peers s)
            in if nicks \<noteq> [] then noteA ''blocked peers'' nicks
               else noteA ''blocked peers, not online'' [dec (length (cl_blocked s))]
      | [_, who] \<Rightarrow>
          let target = dropWhile (\<lambda>c. c = 64) who in
          (case find_peer target s of
             None \<Rightarrow> noteA ''user not found'' [target]
           | Some pid \<Rightarrow>
               (case get_peer_fingerprint (lb_crypto lb) pid (cl_enc s) of
                  Some (f # fs) \<Rightarrow>
                    if f # fs \<in> set (cl_blocked s) then noteA ''already blocked'' [target]
                    else
                      seqA (modA (\<lambda>s. s\<lparr>cl_blocked := set_add (f # fs) (cl_blocked s)\<rparr>))
                      (seqA (save_app_state w) (noteA ''blocked'' [target]))
                | _ \<Rightarrow> noteA ''cannot block: no identity key'' [target]))
      | _ \<Rightarrow> noteA ''usage of /block'' []))"

definition handle_unblock_command :: "libs \<Rightarrow> world \<Rightarrow> pystr \<Rightarrow> unit cact" where
  "handle_unblock_command lb w line =
     getA (\<lambda>s.
     (case words line of
        [_, who] \<Rightarrow>
          let target = dropWhile (\<lambda>c. c = 64) who in
          (case find_peer target s of
             None \<Rightarrow> noteA ''user not found'' [target]
           | Some pid \<Rightarrow>
               (case get_peer_fingerprint (lb_crypto lb) pid (cl_enc s) of
                  Some (f # fs) \<Rightarrow>
                    if f # fs \<in> set (cl_blocked s) then
                      seqA (modA (\<lambda>s. s\<lparr>cl_blocked := removeAll (f # fs) (cl_blocked s)\<rparr>))
                      (seqA (save_app_state w) (noteA ''unblocked'' [target]))
                    else noteA ''not blocked'' [target]
                | _ \<Rightarrow> noteA ''cannot unblock: no identity key'' [target]))
      | _ \<Rightarrow> noteA ''usage of /unblock'' []))"

end
