(* ===== verification/Console.thy ===== *)
theory Console
  imports Commands
begin

text \<open>
  The terminal client as a whole (\<^verbatim>\<open>bitchat.py\<close>): the command line, starting, scanning, and
  what can happen to a client. An exception that escapes a command, a task or a notification is
  logged and dropped, as \<open>input_loop\<close>, \<open>asyncio\<close> and \<open>notification_handler\<close> do.
\<close>

subsection \<open>Public messages\<close>

definition client_send_public :: "libs \<Rightarrow> world \<Rightarrow> pystr \<Rightarrow> unit cact" where
  "client_send_public lb w content =
     getA (\<lambda>s.
     if \<not> cl_client s \<or> \<not> cl_characteristic s then noteA ''not connected'' []
     else
       let channel = (case cc_mode (cl_chat s) of Channel c \<Rightarrow> Some c | _ \<Rightarrow> None) in
       if (case channel of Some c \<Rightarrow> c \<in> set (cl_protected s) \<and> \<not> has_key (cl_channel_keys s) c | None \<Rightarrow> False)
       then noteA ''cannot send to password-protected channel'' [the channel]
       else
         bindA
           (case (case channel of Some (c # cs) \<Rightarrow> dict_get (cl_channel_keys s) (c # cs) | _ \<Rightarrow> None) of
              Some key \<Rightarrow>
                bindA (ask (wd_rnd w)) (\<lambda>rnd.
                bindA (liftA (encrypt_for_channel (lb_crypto lb) (rnd 12) content (the channel) key
                         (case dict_get (cl_creators s) (the channel) of Some f \<Rightarrow> f | None \<Rightarrow> []))) (\<lambda>encrypted.
                payloadA w content channel (Some encrypted)))
            | None \<Rightarrow> payloadA w content channel None) (\<lambda>(payload, mid).
         bindA (ask (wd_now w)) (\<lambda>now.
         seqA (modA (\<lambda>s. s\<lparr>cl_tracker := track_message now mid content False (cl_tracker s)\<rparr>))
         (bindA (packetA w MESSAGE payload None) (\<lambda>pkt.
          seqA (client_send_packet w pkt) (show_own w content False channel None))))))"

subsection \<open>The command line\<close>

definition change_name :: "world \<Rightarrow> pystr \<Rightarrow> unit cact" where
  "change_name w new_name =
     (if new_name = [] then noteA ''usage of /name'' []
      else if length new_name > 20 then noteA ''nickname too long'' []
      else if \<not> name_ok w new_name then noteA ''invalid nickname'' []
      else if new_name \<in> {lit ''system'', lit ''all''} then noteA ''reserved nickname'' []
      else
        seqA (modA (\<lambda>s. s\<lparr>cl_nickname := new_name\<rparr>))
        (seqA (send_announcement w ANNOUNCE)
        (seqA (noteA ''nickname changed'' [new_name]) (save_app_state w))))"

definition switch_number :: "pystr \<Rightarrow> string \<Rightarrow> unit cact" where
  "switch_number line refusal =
     bindA (liftA (py_int line)) (\<lambda>num.
     bindA (switchA num) (\<lambda>ok. if ok then ret () else noteA refusal []))"

definition show_online :: "world \<Rightarrow> unit cact" where
  "show_online w =
     bindA (connectedA w) (\<lambda>connected.
     if \<not> connected then noteA ''not connected'' []
     else
       getA (\<lambda>s.
       let online = List.map_filter (\<lambda>(pid, nick). case nick of Some (c # cs) \<Rightarrow> Some (c # cs) | _ \<Rightarrow> None)
             (cl_peers s)
       in if online \<noteq> [] then noteA ''online users'' (str_sort online) else noteA ''no one else is online'' []))"

definition channel_status :: "client \<Rightarrow> pystr \<Rightarrow> pystr" where
  "channel_status s channel =
     channel @ (if channel \<in> set (cc_channels (cl_chat s)) then [32, 10003] else []) @
     (if channel \<in> set (cl_protected s) then
        [32, 128274] @ (if has_key (cl_channel_keys s) channel then [32, 128273] else [])
      else [])"

definition show_channels :: "unit cact" where
  "show_channels =
     getA (\<lambda>s.
     let all = remdups (cc_channels (cl_chat s) @ map fst (cl_channel_keys s)) in
     if all \<noteq> [] then noteA ''discovered channels'' (map (channel_status s) (str_sort all))
     else noteA ''no channels discovered'' [])"

definition short_name :: "pystr \<Rightarrow> client \<Rightarrow> pystr" where
  "short_name pid s =
     (case dict_get (cl_peers s) pid of Some (Some (c # cs)) \<Rightarrow> c # cs | _ \<Rightarrow> take 8 pid @ lit ''...'')"

definition show_status :: "libs \<Rightarrow> world \<Rightarrow> unit cact" where
  "show_status lb w =
     bindA (connectedA w) (\<lambda>connected.
     getA (\<lambda>s.
     let pending = sum_list (map (\<lambda>(pid, ms). length ms) (cl_pending s)) in
     seqA (noteA ''connection status''
       [if connected then lit ''Connected'' else lit ''Offline'', dec (length (cl_peers s)),
        dec (length (cc_channels (cl_chat s))), dec (length (cc_dms (cl_chat s))),
        dec (get_session_count (cl_enc s)), dec (length (sv_handshakes (cl_enc s))), dec pending,
        take 11 (cl_nickname s), take 8 (cl_id s)])
     (seqA (if get_session_count (cl_enc s) > 0 then
              noteA ''secure sessions'' (map (\<lambda>pid. short_name pid s @ lit '' ('' @
                (case get_peer_fingerprint (lb_crypto lb) pid (cl_enc s) of
                   Some (f # fs) \<Rightarrow> take 8 (f # fs) | _ \<Rightarrow> lit ''Unknown'') @ lit ''...)'')
                (get_active_peers (cl_enc s)))
            else ret ())
     (seqA (if sv_handshakes (cl_enc s) \<noteq> [] then
              noteA ''pending handshakes'' (map (\<lambda>(pid, hs). short_name pid s) (sv_handshakes (cl_enc s)))
            else ret ())
       (if pending > 0 then
          noteA ''queued messages'' (map (\<lambda>(pid, ms). dec (length ms) @ lit '' message(s) for '' @ short_name pid s)
            (cl_pending s))
        else ret ())))))"

text \<open>
  \<open>/clear\<close> looks \<open>Public\<close> up in the class \<open>ChatMode\<close>, which has no such attribute, after it
  has cleared the screen.
\<close>

definition clear_command :: "unit cact" where
  "clear_command = seqA (noteA ''cleared'' []) (liftA (Inl AttributeError))"

definition exit_command :: "world \<Rightarrow> unit cact" where
  "exit_command w =
     bindA (connectedA w) (\<lambda>connected.
     seqA (if connected then send_announcement w LEAVE else ret ())
     (seqA (save_app_state w) (modA (\<lambda>s. s\<lparr>cl_running := False\<rparr>))))"

definition reply_command :: "unit cact" where
  "reply_command =
     getA (\<lambda>s.
     (case cc_last (cl_chat s) of
        Some (pid, nickname) \<Rightarrow> chatA (enter_dm_mode nickname pid)
      | None \<Rightarrow> noteA ''no private messages received yet'' []))"

definition send_line :: "libs \<Rightarrow> world \<Rightarrow> pystr \<Rightarrow> unit cact" where
  "send_line lb w line =
     getA (\<lambda>s.
     (case cc_mode (cl_chat s) of
        PrivateDM nickname pid \<Rightarrow> client_send_private lb w line pid nickname None
      | _ \<Rightarrow>
          bindA (connectedA w) (\<lambda>connected.
          if \<not> connected then noteA ''not connected'' [] else client_send_public lb w line)))"

definition handle_user_input :: "libs \<Rightarrow> world \<Rightarrow> pystr \<Rightarrow> unit cact" where
  "handle_user_input lb w line =
     (if length line = 1 \<and> is_digits line then switch_number line ''invalid conversation number''
      else if line = lit ''/help'' then noteA ''help'' []
      else if line = lit ''/exit'' then exit_command w
      else if starts_with (lit ''/name '') line then change_name w (strip is_space (drop 6 line))
      else if line = lit ''/list'' then getA (\<lambda>s. noteA ''conversations'' (show_conversation_list (cl_chat s)))
      else if line = lit ''/switch'' then
        seqA (getA (\<lambda>s. noteA ''select'' [get_conversation_list_with_numbers (cl_chat s)]))
        (bindA (ask (wd_input w)) (\<lambda>inp.
         if is_digits (strip is_space inp) then switch_number (strip is_space inp) ''invalid selection''
         else ret ()))
      else if starts_with (lit ''/j '') line then handle_join_channel lb w line
      else if line = lit ''/public'' then chatA switch_to_public
      else if line = lit ''/online'' \<or> line = lit ''/w'' then show_online w
      else if line = lit ''/channels'' then show_channels
      else if line = lit ''/status'' then show_status lb w
      else if line = lit ''/clear'' then clear_command
      else if starts_with (lit ''/dm '') line then handle_dm_command lb w line
      else if line = lit ''/reply'' then reply_command
      else if starts_with (lit ''/block'') line then handle_block_command lb w line
      else if starts_with (lit ''/unblock '') line then handle_unblock_command lb w line
      else if line = lit ''/leave'' then handle_leave_command w
      else if starts_with (lit ''/pass '') line then handle_pass_command lb w line
      else if starts_with (lit ''/transfer '') line then handle_transfer_command lb w line
      else if starts_with (lit ''/'') line then noteA ''unknown command'' (take 1 (words line))
      else send_line lb w line)"

subsection \<open>Starting\<close>

text \<open>
  The part of \<open>connect\<close> and of the scanner that opens a link: the exception that ends it, if any.
  \<open>self.client\<close> is set first; without a characteristic the code goes on in the scanner and
  raises in \<open>connect\<close>.
\<close>

definition open_link :: "world \<Rightarrow> unit cact" where
  "open_link w =
     seqA (modA (\<lambda>s. s\<lparr>cl_client := True\<rparr>))
     (bindA (ask (wd_open w)) (\<lambda>r.
      (case r of
         Open_failed e \<Rightarrow> liftA (Inl e)
       | Open_characteristic yes \<Rightarrow> modA (\<lambda>s. if yes then s\<lparr>cl_characteristic := True\<rparr> else s)
       | Notify_failed e \<Rightarrow> seqA (modA (\<lambda>s. s\<lparr>cl_characteristic := True\<rparr>)) (liftA (Inl e)))))"

text \<open>\<open>connect\<close> with \<open>n\<close> attempts left; it returns whether the client goes on.\<close>

fun client_connect :: "world \<Rightarrow> nat \<Rightarrow> bool cact" where
  "client_connect w 0 = seqA (noteA ''no devices found yet'' []) (ret True)"
| "client_connect w (Suc n) =
     getA (\<lambda>s.
     if \<not> cl_running s then ret False
     else
     bindA (ask (wd_device w)) (\<lambda>device.
     if \<not> device then client_connect w n
     else
       bindA (catchA (seqA (open_link w)
         (getA (\<lambda>s. if cl_characteristic s then ret () else liftA (Inl BleakError))))) (\<lambda>r.
       (case r of
          Inr _ \<Rightarrow> ret True
        | Inl e \<Rightarrow> seqA (noteA ''connection failed'' []) (ret False)))))"

definition max_initial_attempts :: nat where
  "max_initial_attempts = 10"

text \<open>The announcements of \<open>handshake\<close> and of the scanner, with their different fallbacks.\<close>

definition announce_identity :: "libs \<Rightarrow> world \<Rightarrow> unit cact \<Rightarrow> unit cact" where
  "announce_identity lb w fallback =
     seqA
       (tryA
         (bindA (identity_payload lb w) (\<lambda>(payload, signature).
          bindA (packetA w NOISE_IDENTITY_ANNOUNCE payload (Some signature)) (client_send_packet w)))
         any_error fallback)
       (send_announcement w ANNOUNCE)"

definition client_handshake :: "libs \<Rightarrow> world \<Rightarrow> unit cact" where
  "client_handshake lb w =
     bindA (ask (wd_key w)) (\<lambda>fresh. bindA (ask (wd_save w)) (\<lambda>wr.
     getA (\<lambda>s.
     (case load_state fresh wr (cl_file s) of (r, file) \<Rightarrow>
        seqA (modA (\<lambda>s. s\<lparr>cl_file := file\<rparr>))
        (bindA (liftA r) (\<lambda>app.
         seqA (modA (\<lambda>s. s\<lparr>cl_app := app, cl_nickname :=
           (case st_nickname app of Some (c # cs) \<Rightarrow> c # cs | _ \<Rightarrow> cl_nickname s)\<rparr>))
         (getA (\<lambda>s.
          seqA
            (if cl_client s \<and> cl_characteristic s then
               announce_identity lb w
                 (bindA (client_initiate lb w (cl_id s)) (\<lambda>msg.
                  bindA (packetA w KEY_EXCHANGE msg None) (client_send_packet w)))
             else noteA ''offline mode'' [])
            (modA (\<lambda>s. let app = cl_app s in
               s\<lparr>cl_blocked := st_blocked_peers app, cl_creators := st_channel_creators app,
                 cl_protected := st_password_protected_channels app,
                 cl_commitments := st_channel_key_commitments app,
                 cl_channel_keys := fold (\<lambda>(c, k) d. dict_set d c k) (restore_channel_keys lb app)
                   (cl_channel_keys s)\<rparr>))))))))))"

text \<open>One round of \<open>background_scanner\<close>; \<open>cleanup\<close> says whether five minutes have passed.\<close>

definition scan_round :: "libs \<Rightarrow> world \<Rightarrow> bool \<Rightarrow> unit cact" where
  "scan_round lb w cleanup =
     seqA
       (if cleanup then
          bindA (ask (wd_now w)) (\<lambda>now. modA (\<lambda>s. s\<lparr>cl_enc := cleanup_old_sessions now 3600 (cl_enc s)\<rparr>))
        else ret ())
     (bindA (connectedA w) (\<lambda>connected.
      if connected then ret ()
      else
        bindA (ask (wd_device w)) (\<lambda>device.
        if \<not> device then ret ()
        else
          tryA
            (seqA (noteA ''found a device'' [])
            (seqA (open_link w)
            (getA (\<lambda>s.
             if \<not> cl_characteristic s then ret ()
             else
               seqA (noteA ''connected to the network'' [])
               (seqA (modA (\<lambda>s. s\<lparr>cl_peers := []\<rparr>))
                 (announce_identity lb w
                   (bindA (packetA w KEY_EXCHANGE (get_public_key_bytes (lb_crypto lb) (cl_enc s)) None)
                     (client_send_packet w))))))))
            any_error
            (modA (\<lambda>s. s\<lparr>cl_client := False, cl_characteristic := False\<rparr>)))))"

subsection \<open>Events\<close>

text \<open>
  \<open>run\<close> up to the input loop: connect, then load and announce. A failed connection does not end
  the program; the rounds of the scanner are events of their own.
\<close>

definition client_start :: "libs \<Rightarrow> world \<Rightarrow> unit cact" where
  "client_start lb w =
     bindA (client_connect w max_initial_attempts) (\<lambda>connected.
     client_handshake lb w)"

text \<open>
  The end of \<open>run\<close>. The link is closed last, which the Bluetooth library reports as \<open>Lost\<close>.
\<close>

definition client_finish :: "world \<Rightarrow> unit cact" where
  "client_finish w =
     seqA (modA (\<lambda>s. s\<lparr>cl_running := False\<rparr>))
     (bindA (connectedA w) (\<lambda>connected.
      if connected then tryA (send_announcement w LEAVE) any_error (ret ()) else ret ()))"

datatype client_event =
  Start
| Notification nat bytes
| Line pystr
| Task nat
| Lost
| Scan bool
| Finish

fun client_act :: "libs \<Rightarrow> world \<Rightarrow> client_event \<Rightarrow> unit cact" where
  "client_act lb w Start = client_start lb w"
| "client_act lb w (Notification depth data) = notification_handler lb w depth data"
| "client_act lb w (Line line) = handle_user_input lb w line"
| "client_act lb w (Task i) =
     getA (\<lambda>s.
     if i < length (cl_tasks s) then
       seqA (modA (\<lambda>s. s\<lparr>cl_tasks := take i (cl_tasks s) @ drop (Suc i) (cl_tasks s)\<rparr>))
         (client_send_pending lb w (cl_tasks s ! i))
     else ret ())"
| "client_act lb w Lost = client_disconnect"
| "client_act lb w (Scan cleanup) = scan_round lb w cleanup"
| "client_act lb w Finish = client_finish w"

definition client_step :: "libs \<Rightarrow> world \<Rightarrow> client_event \<Rightarrow> client \<Rightarrow> client" where
  "client_step lb w e s = fst (snd (client_act lb w e s))"

fun client_trace :: "libs \<Rightarrow> world \<Rightarrow> client_event list \<Rightarrow> client \<Rightarrow> client_output list" where
  "client_trace lb w [] s = []"
| "client_trace lb w (e # es) s =
     snd (snd (client_act lb w e s)) @ client_trace lb w es (client_step lb w e s)"

end
