(* ===== verification/Conduct.thy ===== *)
theory Conduct
  imports Console Delivery
begin

text \<open>
  Invariants of the terminal client over any sequence of events. \<open>conduct\<close> is what every action
  of the client keeps: its identity, the well-formedness of its tables, and that a message is shown
  only when its identifier is new. The rules for composed actions come from the locale
  \<open>composing\<close>.
\<close>

subsection \<open>Well-formed clients\<close>

text \<open>A JSON object that was read repeats no key.\<close>

fun wf_member :: "json_member \<Rightarrow> bool" where
  "wf_member (M_channel_creators v) = wf_dict v"
| "wf_member (M_channel_key_commitments v) = wf_dict v"
| "wf_member m = True"

fun wf_file :: "state_file \<Rightarrow> bool" where
  "wf_file (Members ms) = (\<forall>m\<in>set ms. wf_member m)"
| "wf_file f = True"

definition wf_app :: "app_state \<Rightarrow> bool" where
  "wf_app a \<longleftrightarrow> wf_state a \<and> wf_dict (st_channel_creators a) \<and> wf_dict (st_channel_key_commitments a)"

lemma wf_app_default: "wf_app default_state"
  by (simp add: wf_app_def wf_state_def default_state_def)

lemma wf_app_members: "wf_app a \<Longrightarrow> wf_file (Members (state_members a))"
  by (simp add: wf_app_def state_members_def)

lemma apply_members_wf_app:
  "apply_members ms a = Inr b \<Longrightarrow> \<forall>m\<in>set ms. wf_member m \<Longrightarrow> wf_app a \<Longrightarrow> wf_app b"
proof (induction ms arbitrary: a)
  case (Cons m ms)
  from Cons.prems(1) obtain c where c: "apply_member m a = Inr c" "apply_members ms c = Inr b"
    by (auto simp: res_simps)
  have "wf_state c" using apply_members_wf [of "[m]" a c] c(1) Cons.prems(3) by (simp add: wf_app_def)
  with c(1) Cons.prems(2,3) have "wf_app c" by (cases m) (auto simp: wf_app_def res_simps)
  with c(2) Cons.prems(2) show ?case by (intro Cons.IH) auto
qed simp

lemma load_state_wf:
  assumes "wf_file file" and "load_state fresh wr file = (r, file')"
  shows "wf_file file' \<and> (\<forall>a. r = Inr a \<longrightarrow> wf_app a)"
proof -
  define a where "a = (case file of
      Members ms \<Rightarrow> (case apply_members ms default_state of Inr s \<Rightarrow> s | Inl e \<Rightarrow> default_state)
    | _ \<Rightarrow> default_state)"
  have "wf_app a"
    using assms(1) apply_members_wf_app [OF _ _ wf_app_default]
    by (auto simp: a_def wf_app_default split: state_file.split sum.split)
  then have w: "wf_app a" "wf_app (a\<lparr>st_identity_key := Some fresh\<rparr>)" by (simp_all add: wf_app_def wf_state_def)
  show ?thesis
    using assms w wf_app_members [OF w(2)]
    by (auto simp: load_state_def a_def [symmetric] Let_def save_state_def split: if_splits option.splits)
qed

definition wf_client :: "client \<Rightarrow> bool" where
  "wf_client s \<longleftrightarrow>
     wf_chat (cl_chat s) \<and> wf_service (cl_enc s) \<and> wf_file (cl_file s) \<and>
     wf_dict (cl_peers s) \<and> wf_dict (cl_channel_keys s) \<and> wf_dict (cl_creators s) \<and>
     wf_dict (cl_commitments s) \<and> wf_dict (cl_attempts s) \<and> wf_dict (cl_pending s) \<and>
     distinct (cl_protected s) \<and> distinct (cl_discovered s) \<and> distinct (cl_blocked s) \<and>
     wf_app (cl_app s)"

lemma wf_client_init: "wf_file file \<Longrightarrow> wf_client (client_init rnd8 static file)"
  by (simp add: wf_client_def client_init_def wf_service_init wf_app_default)

subsection \<open>What every action keeps\<close>

fun shown_ids :: "client_output list \<Rightarrow> pystr list" where
  "shown_ids [] = []"
| "shown_ids (Shown m d # os) = msg_id m # shown_ids os"
| "shown_ids (x # os) = shown_ids os"

lemma shown_ids_append [simp]: "shown_ids (os @ os') = shown_ids os @ shown_ids os'"
  by (induction os rule: shown_ids.induct) auto

text \<open>
  \<open>sane\<close> holds of everything the client does; \<open>conduct\<close> adds, for all but the start, which loads
  the state file, that a blocked key stays blocked unless the client reports that it unblocked a peer.
\<close>

definition sane :: "client \<Rightarrow> client_output list \<Rightarrow> client \<Rightarrow> bool" where
  "sane s os s' \<longleftrightarrow>
     cl_id s' = cl_id s \<and> (wf_client s \<longrightarrow> wf_client s') \<and>
     distinct (shown_ids os) \<and> set (shown_ids os) \<inter> cl_processed s = {} \<and>
     cl_processed s \<union> set (shown_ids os) \<subseteq> cl_processed s'"

definition unblocked :: "client_output list \<Rightarrow> bool" where
  "unblocked os \<longleftrightarrow> (\<exists>nick. Note ''unblocked'' [nick] \<in> set os)"

lemma unblocked_append [simp]: "unblocked (os @ os') \<longleftrightarrow> unblocked os \<or> unblocked os'"
  by (auto simp: unblocked_def)

lemma unblocked_simps [simp]: "\<not> unblocked []" "\<not> unblocked [Shown m d]"
  by (simp_all add: unblocked_def)

definition conduct :: "client \<Rightarrow> client_output list \<Rightarrow> client \<Rightarrow> bool" where
  "conduct s os s' \<longleftrightarrow> sane s os s' \<and> (set (cl_blocked s) \<subseteq> set (cl_blocked s') \<or> unblocked os)"

lemma obeys_sane: "obeys conduct m \<Longrightarrow> obeys sane m"
  by (auto simp: obeys_def conduct_def split: prod.splits)

interpretation starting: composing sane
  by unfold_locales (auto simp: sane_def)

interpretation client: composing conduct
  by unfold_locales (auto simp: conduct_def sane_def)

named_theorems conduct_intros \<open>actions of the client that keep its conduct\<close>

lemmas client_rules [conduct_intros] =
  client.obeys_ret client.obeys_liftA client.obeys_bindA client.obeys_seqA client.obeys_tryA
  client.obeys_catchA client.obeys_getA

text \<open>A change of fields other than the identity and the processed identifiers.\<close>

lemma modA_conduct:
  assumes "\<And>s. cl_id (f s) = cl_id s" and "\<And>s. cl_processed (f s) = cl_processed s"
    and "\<And>s. wf_client s \<Longrightarrow> wf_client (f s)" and "\<And>s. set (cl_blocked s) \<subseteq> set (cl_blocked (f s))"
  shows "obeys conduct (modA f)"
  by (rule client.obeys_modA) (simp add: conduct_def sane_def assms)

lemma outA_conduct [conduct_intros]:
  "obeys conduct (outA (Wrote p r))" "obeys conduct (outA (Own_shown d))" "obeys conduct (outA (Note k args))"
  by (auto intro!: client.obeys_outA simp: conduct_def sane_def)

lemma if_obeys: "obeys Q a \<Longrightarrow> obeys Q b \<Longrightarrow> obeys Q (if c then a else b)"
  by simp

lemma noteA_conduct [conduct_intros]: "obeys conduct (noteA k args)"
  unfolding noteA_def by (rule outA_conduct)

lemma plain_updates_conduct [conduct_intros]:
  "obeys conduct (modA (\<lambda>s. s\<lparr>cl_tracker := t s\<rparr>))"
  "obeys conduct (modA (\<lambda>s. s\<lparr>cl_collector := c s\<rparr>))"
  "obeys conduct (modA (\<lambda>s. s\<lparr>cl_tasks := ts s\<rparr>))"
  "obeys conduct (modA (\<lambda>s. s\<lparr>cl_nickname := n s\<rparr>))"
  "obeys conduct (modA (\<lambda>s. s\<lparr>cl_running := b s\<rparr>))"
  "obeys conduct (modA (\<lambda>s. s\<lparr>cl_client := b s\<rparr>))"
  "obeys conduct (modA (\<lambda>s. s\<lparr>cl_characteristic := b s\<rparr>))"
  "obeys conduct (modA (\<lambda>s. if yes then s\<lparr>cl_characteristic := True\<rparr> else s))"
  "obeys conduct (modA (\<lambda>s. s\<lparr>cl_client := False, cl_characteristic := False\<rparr>))"
  by (intro modA_conduct; simp add: wf_client_def)+

lemma dict_updates_conduct [conduct_intros]:
  "obeys conduct (modA (\<lambda>s. s\<lparr>cl_peers := dict_set (cl_peers s) p nick\<rparr>))"
  "obeys conduct (modA (\<lambda>s. s\<lparr>cl_peers := dict_del (cl_peers s) p\<rparr>))"
  "obeys conduct (modA (\<lambda>s. s\<lparr>cl_peers := []\<rparr>))"
  "obeys conduct (modA (\<lambda>s. s\<lparr>cl_pending := dict_set (cl_pending s) p (q s)\<rparr>))"
  "obeys conduct (modA (\<lambda>s. s\<lparr>cl_pending := dict_del (cl_pending s) p\<rparr>))"
  "obeys conduct (modA (\<lambda>s. s\<lparr>cl_attempts := dict_set (cl_attempts s) p t\<rparr>))"
  "obeys conduct (modA (\<lambda>s. s\<lparr>cl_attempts := dict_del (cl_attempts s) p\<rparr>))"
  "obeys conduct (modA (\<lambda>s. s\<lparr>cl_creators := dict_set (cl_creators s) c (v s)\<rparr>))"
  "obeys conduct (modA (\<lambda>s. s\<lparr>cl_commitments := dict_set (cl_commitments s) c h\<rparr>))"
  "obeys conduct (modA (\<lambda>s. s\<lparr>cl_channel_keys := dict_del (cl_channel_keys s) c\<rparr>))"
  by (intro modA_conduct; simp add: wf_client_def)+

lemma list_updates_conduct [conduct_intros]:
  "obeys conduct (modA (\<lambda>s. s\<lparr>cl_discovered := set_add c (cl_discovered s)\<rparr>))"
  "obeys conduct (modA (\<lambda>s. s\<lparr>cl_blocked := set_add f (cl_blocked s)\<rparr>))"
  "obeys conduct (modA (\<lambda>s. s\<lparr>cl_channel_keys := dict_set (cl_channel_keys s) c k,
     cl_discovered := set_add c (cl_discovered s)\<rparr>))"
  "obeys conduct (modA (\<lambda>s. s\<lparr>cl_channel_keys := dict_set (cl_channel_keys s) c k,
     cl_protected := set_add c (cl_protected s)\<rparr>))"
  by (intro modA_conduct; auto simp add: wf_client_def distinct_set_add distinct_removeAll set_add_def)+

lemma chatA_conduct: "(\<And>c. wf_chat c \<Longrightarrow> wf_chat (f c)) \<Longrightarrow> obeys conduct (chatA f)"
  unfolding chatA_def by (intro modA_conduct) (simp_all add: wf_client_def)

lemma switchA_conduct [conduct_intros]: "obeys conduct (switchA num)"
proof (rule obeysI)
  fix s r s' os
  assume "switchA num s = (r, s', os)"
  then show "conduct s os s'"
    using wf_chat_switch [of "cl_chat s" num]
    by (cases "switch_to_number num (cl_chat s)")
      (auto simp: switchA_def chatA_def action_defs conduct_def sane_def wf_client_def)
qed

lemma disconnect_conduct [conduct_intros]: "obeys conduct client_disconnect"
  unfolding client_disconnect_def
  by (intro conduct_intros modA_conduct) (simp_all add: wf_client_def wf_service_def Let_def)

interpretation client: sending conduct
  by unfold_locales (auto simp: disconnect_conduct, auto simp: conduct_def sane_def wf_client_def)

lemmas sending_conduct [conduct_intros] =
  client.sends_ask client.sends_write client.sends_create client.sends_fragments client.sends_packet

lemma save_conduct [conduct_intros]: "obeys conduct (save_app_state w)"
proof -
  have "obeys conduct (modA (\<lambda>s.
       let app = (cl_app s)\<lparr>st_nickname := Some (cl_nickname s), st_blocked_peers := cl_blocked s,
             st_channel_creators := cl_creators s, st_joined_channels := cc_channels (cl_chat s),
             st_password_protected_channels := cl_protected s,
             st_channel_key_commitments := cl_commitments s\<rparr>
       in s\<lparr>cl_app := app, cl_file := snd (save_state wr app (cl_file s))\<rparr>))" for wr
    by (intro modA_conduct)
      (auto simp: Let_def wf_client_def wf_state_def save_state_def wf_app_def state_members_def split: option.split)
  then show ?thesis unfolding save_app_state_def by (intro conduct_intros)
qed

text \<open>A change computed from the state it is applied to, such as one of the encryption service.\<close>

lemma get_mod_conduct:
  assumes "\<And>s. conduct s [] (f s s)" and "\<And>s. obeys conduct (k s)"
  shows "obeys conduct (getA (\<lambda>s. seqA (modA (f s)) (k s)))"
proof (rule obeysI)
  fix s r s' os
  assume "getA (\<lambda>s. seqA (modA (f s)) (k s)) s = (r, s', os)"
  then have "k s (f s s) = (r, s', os)" by (simp add: getA_def seqA_def bindA_def modA_def split: prod.splits)
  from client.Q_trans [OF assms(1) obeysD [OF assms(2) this]] show "conduct s os s'" by simp
qed

lemma service_conduct:
  "conduct s [] (s\<lparr>cl_enc := service_step cr op (cl_enc s)\<rparr>)"
  "conduct s [] (s\<lparr>cl_enc := service_step cr op (cl_enc s), cl_tasks := ts\<rparr>)"
  by (simp_all add: conduct_def sane_def wf_client_def wf_service_step)

lemma encryption_conduct [conduct_intros]:
  "obeys conduct (client_decrypt lb p d)" "obeys conduct (client_encrypt lb p d)"
  "obeys conduct (client_initiate lb w p)" "obeys conduct (client_process lb w p m)"
proof -
  show "obeys conduct (client_decrypt lb p d)"
    unfolding client_decrypt_def case_prod_unfold
    using service_conduct(1) [of _ "lb_crypto lb" "Op_decrypt p d"] by (intro get_mod_conduct conduct_intros) simp
  show "obeys conduct (client_encrypt lb p d)"
    unfolding client_encrypt_def case_prod_unfold
    using service_conduct(1) [of _ "lb_crypto lb" "Op_encrypt p d"] by (intro get_mod_conduct conduct_intros) simp
  have "conduct s [] (s\<lparr>cl_enc := snd (initiate_handshake (lb_crypto lb) eph p (cl_enc s))\<rparr>)" for s eph
    using service_conduct(1) [of s "lb_crypto lb" "Op_initiate eph p"] by simp
  then show "obeys conduct (client_initiate lb w p)"
    unfolding client_initiate_def case_prod_unfold
    by (intro client.obeys_bindA client.sends_ask get_mod_conduct client.obeys_liftA)
  have "conduct s [] (s\<lparr>cl_enc := fst (snd (process_handshake_message (lb_crypto lb) eph now p m (cl_enc s))),
      cl_tasks := ts\<rparr>)" for s eph now ts
    using service_conduct(2) [where cr = "lb_crypto lb" and op = "Op_process eph now p m" and s = s and ts = ts] by simp
  then show "obeys conduct (client_process lb w p m)"
    unfolding client_process_def case_prod_unfold
    by (intro client.obeys_bindA client.sends_ask get_mod_conduct client.obeys_liftA)
qed

lemma service_updates_conduct [conduct_intros]:
  "obeys conduct (modA (\<lambda>s. s\<lparr>cl_enc := clear_handshake_state p (cl_enc s)\<rparr>))"
  "obeys conduct (modA (\<lambda>s. s\<lparr>cl_enc := cleanup_old_sessions now a (cl_enc s)\<rparr>))"
  using life.step_keeps [of _ cr "Peer_op (Op_clear p)" for cr] life.step_keeps [of _ cr "Cleanup now a" for cr]
  by (intro modA_conduct; simp add: wf_client_def)+

subsection \<open>Sending\<close>

lemma handshake_init_conduct [conduct_intros]: "obeys conduct (send_handshake_init lb w p)"
  unfolding send_handshake_init_def by (intro conduct_intros)

lemma identity_payload_conduct [conduct_intros]: "obeys conduct (identity_payload lb w)"
  unfolding identity_payload_def Let_def by (intro conduct_intros)

lemma show_own_conduct [conduct_intros]: "obeys conduct (show_own w c pr ch r)"
  unfolding show_own_def by (intro conduct_intros)

lemma queue_private_conduct [conduct_intros]: "obeys conduct (client_queue_private lb w c t n m)"
  unfolding client_queue_private_def
  by (auto intro!: conduct_intros split: option.split list.split sum.split)

lemma send_private_conduct [conduct_intros]: "obeys conduct (client_send_private lb w c t n m)"
  unfolding client_send_private_def
  by (auto intro!: conduct_intros split: sum.split)

lemma send_pending_loop_conduct [conduct_intros]: "obeys conduct (send_pending_loop lb w p ms)"
  by (induction lb w p ms rule: send_pending_loop.induct) (auto intro!: conduct_intros)

lemma send_pending_conduct [conduct_intros]: "obeys conduct (client_send_pending lb w p)"
  unfolding client_send_pending_def by (auto intro!: conduct_intros split: option.split)

lemma send_ack_conduct [conduct_intros]: "obeys conduct (client_send_ack lb w m p pr)"
  unfolding client_send_ack_def Let_def by (auto intro!: conduct_intros split: prod.split)

subsection \<open>Receiving\<close>

lemma announce_conduct [conduct_intros]:
  "obeys conduct (client_handle_announce lb w pk)" "obeys conduct (client_handle_identity lb w pk)"
  unfolding client_handle_announce_def client_handle_identity_def send_identity_to_def Let_def
  by (auto intro!: conduct_intros split: option.split)

text \<open>
  Showing a message is guarded by \<open>client_once\<close>. Without its guard, \<open>display_message\<close> is
  \<open>calm\<close>, that is, shows nothing and marks nothing, but for the one message.
\<close>

definition calm :: "client \<Rightarrow> client_output list \<Rightarrow> client \<Rightarrow> bool" where
  "calm s os s' \<longleftrightarrow> cl_id s' = cl_id s \<and> cl_processed s' = cl_processed s \<and> cl_blocked s' = cl_blocked s \<and>
     (wf_client s \<longrightarrow> wf_client s') \<and> shown_ids os = []"

interpretation quiet: composing calm
  by unfold_locales (auto simp: calm_def)

definition shows_one :: "pystr \<Rightarrow> client \<Rightarrow> client_output list \<Rightarrow> client \<Rightarrow> bool" where
  "shows_one i s os s' \<longleftrightarrow> cl_id s' = cl_id s \<and> cl_processed s' = cl_processed s \<and> cl_blocked s' = cl_blocked s \<and>
     (wf_client s \<longrightarrow> wf_client s') \<and> (shown_ids os = [] \<or> shown_ids os = [i])"

lemma shows_calm: "obeys calm m \<Longrightarrow> obeys (shows_one i) m"
  by (auto simp: obeys_def calm_def shows_one_def split: prod.splits)

lemma shows_after_calm:
  assumes "obeys calm m" and "\<And>x. obeys (shows_one i) (f x)"
  shows "obeys (shows_one i) (bindA m f)"
proof (rule obeysI)
  fix s r s' os
  assume b: "bindA m f s = (r, s', os)"
  obtain r1 s1 os1 where m: "m s = (r1, s1, os1)" by (rule prod_cases3)
  note q = obeysD [OF assms(1) m]
  show "shows_one i s os s'"
  proof (cases r1)
    case (Inl e)
    with b m q show ?thesis by (simp add: bindA_def calm_def shows_one_def)
  next
    case (Inr x)
    obtain r2 s2 os2 where f: "f x s1 = (r2, s2, os2)" by (rule prod_cases3)
    with q obeysD [OF assms(2) f] b m Inr show ?thesis
      by (auto simp: bindA_def calm_def shows_one_def)
  qed
qed

lemma shows_then_calm:
  assumes "obeys calm n"
  shows "obeys (shows_one (msg_id m)) (seqA (outA (Shown m d)) n)"
proof (rule obeysI)
  fix s r s' os
  assume "seqA (outA (Shown m d)) n s = (r, s', os)"
  then obtain os' where "n s = (r, s', os')" "os = Shown m d # os'"
    by (auto simp: seqA_def bindA_def outA_def split: prod.splits)
  with obeysD [OF assms] show "shows_one (msg_id m) s os s'" by (auto simp: calm_def shows_one_def)
qed

lemma display_shows_one: "obeys (shows_one (msg_id m)) (display_message lb w m p pr)"
proof -
  have mod: "obeys calm (modA f)" if "\<And>s. cl_id (f s) = cl_id s" "\<And>s. cl_processed (f s) = cl_processed s"
    "\<And>s. cl_blocked (f s) = cl_blocked s" "\<And>s. wf_client s \<Longrightarrow> wf_client (f s)" for f
    using that by (intro quiet.obeys_modA) (simp add: calm_def)
  have "obeys calm (noteA k as)" for k as
    unfolding noteA_def by (rule quiet.obeys_outA) (simp add: calm_def)
  then have reply: "obeys calm (getA (\<lambda>s. if pr \<and> \<not> is_dm (cc_mode (cl_chat s)) then noteA k as else ret ()))" for k as
    by (intro quiet.obeys_getA) (simp add: quiet.obeys_ret)
  have ask: "obeys calm (ask f)" for f
    unfolding ask_def by (intro quiet.obeys_getA quiet.obeys_seqA quiet.obeys_ret mod) (simp_all add: wf_client_def)
  have get: "obeys (shows_one (msg_id m)) (getA f)" if "\<And>s. obeys (shows_one (msg_id m)) (f s)" for f
    using that by (simp add: obeys_def getA_def)
  have seq: "obeys (shows_one (msg_id m)) (seqA a b)" if "obeys calm a" "obeys (shows_one (msg_id m)) b" for a b
    unfolding seqA_def using that by (intro shows_after_calm)
  show ?thesis
    unfolding display_message_def Let_def
  proof (intro get seq, goal_cases)
    case 1
    show ?case by (rule mod) (simp_all add: wf_client_def distinct_set_add)
  next
    case (2 s)
    show ?case
    proof (cases "pr \<and> starts_with COVER_TRAFFIC_PREFIX (shown_content lb m s)")
      case True
      then show ?thesis by (simp add: shows_calm quiet.obeys_ret)
    next
      case False
      show ?thesis unfolding if_not_P [OF False]
        by (intro seq shows_after_calm shows_then_calm ask reply) (rule mod; simp add: wf_client_def)
    qed
  qed
qed

text \<open>A message is shown only when its identifier is new, and then it is marked.\<close>

lemma once_conduct:
  assumes "obeys conduct k"
  shows "obeys conduct (client_once lb (msg_id m) (seqA (display_message lb w m p pr) k))"
proof (rule obeysI)
  fix s r s' os
  assume run: "client_once lb (msg_id m) (seqA (display_message lb w m p pr) k) s = (r, s', os)"
  show "conduct s os s'"
  proof (cases "msg_id m \<in> cl_processed s")
    case True
    with run show ?thesis by (simp add: client_once_def action_defs conduct_def sane_def)
  next
    case False
    show ?thesis
    proof (cases "lb_bloom lb client_bloom_capacity (cl_bloom s) (msg_id m)")
      case (Some e)
      with run False show ?thesis by (simp add: client_once_def action_defs conduct_def sane_def)
    next
      case None
      let ?s = "s\<lparr>cl_bloom := cl_bloom s @ [msg_id m], cl_processed := insert (msg_id m) (cl_processed s)\<rparr>"
      obtain r1 s1 os1 where d: "display_message lb w m p pr ?s = (r1, s1, os1)" by (rule prod_cases3)
      obtain r2 s2 os2 where k: "k s1 = (r2, s2, os2)" by (rule prod_cases3)
      have wf: "wf_client s \<Longrightarrow> wf_client ?s" by (simp add: wf_client_def)
      have "shows_one (msg_id m) ?s os1 s1" by (rule obeysD [OF display_shows_one d])
      then have "cl_id s1 = cl_id s" "cl_processed s1 = insert (msg_id m) (cl_processed s)" "cl_blocked s1 = cl_blocked s"
        "wf_client s \<Longrightarrow> wf_client s1" "shown_ids os1 = [] \<or> shown_ids os1 = [msg_id m]"
        using wf by (simp_all add: shows_one_def)
      then have "conduct s os1 s1" using False unfolding conduct_def sane_def
        by (elim disjE) (simp_all add: subset_insertI)
      moreover from this obeysD [OF assms k] have "conduct s (os1 @ os2) s2" by (rule client.Q_trans)
      moreover have "(s', os) = (s1, os1) \<or> (s', os) = (s2, os1 @ os2)"
      proof -
        have "seqA (display_message lb w m p pr) k ?s = (r, s', os)"
          using run False None by (simp add: client_once_def getA_def seqA_def [of "modA _"] bindA_def [of "modA _"]
              modA_def split: prod.splits)
        with d k show ?thesis by (cases r1) (simp_all add: seqA_def bindA_def)
      qed
      ultimately show ?thesis by auto
    qed
  qed
qed

lemma message_conduct [conduct_intros]:
  "obeys conduct (client_deliver lb w pk raw pr m)" "obeys conduct (client_handle_message lb w pk raw)"
proof -
  show d: "obeys conduct (client_deliver lb w pk raw pr m)" for pr m
    unfolding client_deliver_def by (intro once_conduct) (auto intro!: conduct_intros)
  show "obeys conduct (client_handle_message lb w pk raw)"
    unfolding client_handle_message_def Let_def by (auto intro!: conduct_intros d split: option.split)
qed

lemma leave_conduct [conduct_intros]: "obeys conduct (client_handle_leave pk)"
proof -
  have "obeys conduct (modA (forget_peer p n))" for p n
    by (intro modA_conduct)
      (auto simp: forget_peer_def Let_def wf_client_def remove_session_def wf_service_def split: chat_mode.split)
  then show ?thesis
    unfolding client_handle_leave_def Let_def
    by (auto intro!: conduct_intros split: option.split list.split)
qed

lemma channel_announce_conduct [conduct_intros]: "obeys conduct (client_handle_channel_announce w pk)"
proof -
  have "obeys conduct (modA (client_note_channel c pr cr km))" for c pr cr km
    by (intro modA_conduct) (simp_all add: client_note_channel_def wf_client_def distinct_set_add distinct_removeAll)
  then show ?thesis
    unfolding client_handle_channel_announce_def Let_def by (auto intro!: conduct_intros)
qed

lemma handshake_conduct [conduct_intros]:
  "obeys conduct (client_handle_key_exchange lb w pk)" "obeys conduct (client_handle_handshake lb w t pk)"
  unfolding client_handle_key_exchange_def client_handle_handshake_def Let_def
  by (auto intro!: conduct_intros split: option.split list.split)

lemma nested_conduct:
  assumes "\<And>pk raw. obeys conduct (h pk raw)"
  shows "obeys conduct (client_handle_encrypted lb w h pk)" "obeys conduct (client_handle_fragment lb w h pk raw)"
  unfolding client_handle_encrypted_def client_handle_fragment_def
  by (auto intro!: conduct_intros once_conduct assms split: option.split prod.split)

lemma handle_packet_conduct: "obeys conduct (client_handle_packet lb w depth pk raw)"
proof (induction depth arbitrary: pk raw)
  case (Suc depth)
  then show ?case
    by (cases "pkt_type pk")
      (auto intro!: conduct_intros nested_conduct simp: client_handle_handshake_init_def client_handle_handshake_resp_def)
qed (auto intro: conduct_intros)

lemma notification_conduct [conduct_intros]: "obeys conduct (notification_handler lb w depth data)"
  unfolding notification_handler_def by (auto intro!: conduct_intros handle_packet_conduct)

subsection \<open>Commands\<close>

lemma small_steps_conduct [conduct_intros]:
  "obeys conduct (connectedA w)" "obeys conduct (send_announcement w t)"
  "obeys conduct (client_send_channel_announce w c pr km)" "obeys conduct (payloadA w content ch e)"
  "obeys conduct (create_encrypted_channel_message_payload lb w content c k)"
  unfolding connectedA_def send_announcement_def client_send_channel_announce_def payloadA_def
    create_encrypted_channel_message_payload_def Let_def
  by (auto intro!: conduct_intros)

lemma save_password_conduct [conduct_intros]: "obeys conduct (save_password lb w c pw b)"
proof -
  have "obeys conduct (modA (\<lambda>s. s\<lparr>cl_app := (cl_app s)\<lparr>st_encrypted_channel_passwords :=
      dict_set (st_encrypted_channel_passwords (cl_app s)) c e\<rparr>\<rparr>))" for e
    by (intro modA_conduct) (simp_all add: wf_client_def wf_app_def wf_state_def)
  then show ?thesis
    unfolding save_password_def by (auto intro!: conduct_intros split: option.split list.split)
qed

lemma chat_steps_conduct [conduct_intros]:
  "obeys conduct (chatA (switch_to_channel c))" "obeys conduct (chatA (enter_dm_mode n p))"
  "obeys conduct (chatA switch_to_public)"
  by (intro chatA_conduct wf_chat_ops; assumption)+

lemma join_conduct [conduct_intros]: "obeys conduct (handle_join_channel lb w line)"
  unfolding handle_join_channel_def join_protected_def join_open_def Let_def
  by (auto intro!: conduct_intros split: option.split list.split)

lemma leave_command_conduct [conduct_intros]: "obeys conduct (handle_leave_command w)"
proof -
  have "obeys conduct (modA (\<lambda>s.
     s\<lparr>cl_channel_keys := dict_del (cl_channel_keys s) channel,
       cl_protected := removeAll channel (cl_protected s),
       cl_creators := dict_del (cl_creators s) channel,
       cl_commitments := dict_del (cl_commitments s) channel,
       cl_app := (cl_app s)\<lparr>st_encrypted_channel_passwords :=
         dict_del (st_encrypted_channel_passwords (cl_app s)) channel\<rparr>,
       cl_chat := switch_to_public (remove_channel channel (cl_chat s))\<rparr>))" for channel
    by (intro modA_conduct) (simp_all add: wf_client_def wf_app_def wf_state_def distinct_removeAll)
  then show ?thesis
    unfolding handle_leave_command_def by (auto intro!: conduct_intros split: chat_mode.split)
qed

lemma announce_password_conduct [conduct_intros]: "obeys conduct (announce_password lb w c old new)"
  unfolding announce_password_def Let_def by (auto intro!: conduct_intros)

lemma pass_conduct [conduct_intros]: "obeys conduct (handle_pass_command lb w line)"
  unfolding handle_pass_command_def Let_def
  by (auto intro!: conduct_intros split: chat_mode.split list.split)

lemma transfer_conduct [conduct_intros]: "obeys conduct (handle_transfer_command lb w line)"
  unfolding handle_transfer_command_def Let_def
  by (auto intro!: conduct_intros split: chat_mode.split list.split option.split)

lemma peer_commands_conduct [conduct_intros]:
  "obeys conduct (handle_dm_command lb w line)" "obeys conduct (handle_block_command lb w line)"
  unfolding handle_dm_command_def handle_block_command_def Let_def
  by (auto intro!: conduct_intros split: list.split option.split)

text \<open>\<open>/unblock\<close> takes a key off the list, and says so.\<close>

lemma unblock_conduct [conduct_intros]: "obeys conduct (handle_unblock_command lb w line)"
proof -
  have "obeys conduct (seqA (modA (\<lambda>s. s\<lparr>cl_blocked := removeAll f (cl_blocked s)\<rparr>))
      (seqA (save_app_state w) (noteA ''unblocked'' [n])))" for f n
  proof (rule obeysI)
    fix s r s' os
    assume run: "seqA (modA (\<lambda>s. s\<lparr>cl_blocked := removeAll f (cl_blocked s)\<rparr>))
      (seqA (save_app_state w) (noteA ''unblocked'' [n])) s = (r, s', os)"
    let ?s = "s\<lparr>cl_blocked := removeAll f (cl_blocked s)\<rparr>"
    obtain r1 s1 os1 where a: "save_app_state w ?s = (r1, s1, os1)" by (rule prod_cases3)
    then have "r1 = Inr ()" by (auto simp: save_app_state_def ask_def action_defs)
    with run a have os: "s' = s1" "os = os1 @ [Note ''unblocked'' [n]]"
      by (auto simp: seqA_def [of "save_app_state w"] seqA_modA bindA_def noteA_def outA_def)
    have "sane ?s os1 s1" using obeysD [OF save_conduct a] by (simp add: conduct_def)
    then have "sane s os s'" by (auto simp: sane_def os wf_client_def distinct_removeAll)
    then show "conduct s os s'" by (auto simp: conduct_def os unblocked_def)
  qed
  then show ?thesis
    unfolding handle_unblock_command_def Let_def by (auto intro!: conduct_intros split: list.split option.split)
qed

subsection \<open>The whole client\<close>

lemma send_public_conduct [conduct_intros]: "obeys conduct (client_send_public lb w content)"
  unfolding client_send_public_def Let_def
  by (auto intro!: conduct_intros split: option.split list.split)

lemma line_parts_conduct [conduct_intros]:
  "obeys conduct (change_name w n)" "obeys conduct (switch_number line ref)" "obeys conduct (show_online w)"
  "obeys conduct show_channels" "obeys conduct (show_status lb w)" "obeys conduct clear_command"
  "obeys conduct (exit_command w)" "obeys conduct reply_command" "obeys conduct (send_line lb w line)"
  unfolding change_name_def switch_number_def show_online_def show_channels_def show_status_def clear_command_def
    exit_command_def reply_command_def send_line_def Let_def
  by (auto intro!: conduct_intros split: option.split chat_mode.split)

lemma user_input_conduct [conduct_intros]: "obeys conduct (handle_user_input lb w line)"
  unfolding handle_user_input_def by (intro if_obeys conduct_intros)

lemma open_link_conduct [conduct_intros]: "obeys conduct (open_link w)"
  unfolding open_link_def by (auto intro!: conduct_intros split: open_result.split)

lemma connect_conduct [conduct_intros]: "obeys conduct (client_connect w n)"
  by (induction n) (auto intro!: conduct_intros split: sum.split)

lemma announce_identity_conduct: "obeys conduct f \<Longrightarrow> obeys conduct (announce_identity lb w f)"
  unfolding announce_identity_def by (auto intro!: conduct_intros)

lemma scan_conduct [conduct_intros]: "obeys conduct (scan_round lb w c)"
  unfolding scan_round_def by (auto intro!: conduct_intros announce_identity_conduct)

lemma wf_dict_fold_set: "wf_dict d \<Longrightarrow> wf_dict (fold (\<lambda>(c, k) d. dict_set d c k) xs d)"
  by (induction xs arbitrary: d) auto

lemma restored_sane:
  "obeys sane (modA (\<lambda>s. let app = cl_app s in
     s\<lparr>cl_blocked := st_blocked_peers app, cl_creators := st_channel_creators app,
       cl_protected := st_password_protected_channels app, cl_commitments := st_channel_key_commitments app,
       cl_channel_keys := fold (\<lambda>(c, k) d. dict_set d c k) (restore_channel_keys lb app) (cl_channel_keys s)\<rparr>))"
  by (rule starting.obeys_modA) (simp add: sane_def Let_def wf_client_def wf_app_def wf_state_def wf_dict_fold_set)

lemma loading_sane:
  assumes "obeys sane k"
  shows "obeys sane (getA (\<lambda>s. (case load_state fresh wr (cl_file s) of (r, file) \<Rightarrow>
      seqA (modA (\<lambda>s. s\<lparr>cl_file := file\<rparr>)) (bindA (liftA r) (\<lambda>app.
      seqA (modA (\<lambda>s. s\<lparr>cl_app := app, cl_nickname := n app s\<rparr>)) k)))))"
proof (rule obeysI)
  fix s r s' os
  assume run: "getA (\<lambda>s. (case load_state fresh wr (cl_file s) of (r, file) \<Rightarrow>
      seqA (modA (\<lambda>s. s\<lparr>cl_file := file\<rparr>)) (bindA (liftA r) (\<lambda>app.
      seqA (modA (\<lambda>s. s\<lparr>cl_app := app, cl_nickname := n app s\<rparr>)) k)))) s = (r, s', os)"
  obtain r1 f where l: "load_state fresh wr (cl_file s) = (r1, f)" by (rule prod.exhaust)
  show "sane s os s'"
  proof (cases r1)
    case (Inl e)
    with run l have "s' = s\<lparr>cl_file := f\<rparr>" "os = []" by (simp_all add: action_defs)
    then show ?thesis using load_state_wf [OF _ l] by (simp add: sane_def wf_client_def)
  next
    case (Inr app)
    let ?s = "s\<lparr>cl_file := f, cl_app := app, cl_nickname := n app (s\<lparr>cl_file := f\<rparr>)\<rparr>"
    have "k ?s = (r, s', os)" using run l Inr by (simp add: action_defs split: prod.splits)
    moreover have "sane s [] ?s" using load_state_wf [OF _ l] Inr by (simp add: sane_def wf_client_def)
    ultimately show ?thesis using starting.Q_trans obeysD [OF assms] by (metis append_Nil)
  qed
qed

lemma client_handshake_sane: "obeys sane (client_handshake lb w)"
  unfolding client_handshake_def
  by (intro starting.obeys_bindA obeys_sane [OF client.sends_ask] loading_sane starting.obeys_getA starting.obeys_seqA
      restored_sane obeys_sane [OF if_obeys])
    (auto intro!: conduct_intros announce_identity_conduct)

lemma client_act_conduct: "e \<noteq> Start \<Longrightarrow> obeys conduct (client_act lb w e)"
  by (cases e) (auto intro!: conduct_intros simp: client_finish_def)

lemma client_act_sane: "obeys sane (client_act lb w e)"
proof (cases "e = Start")
  case True
  then show ?thesis
    by (simp add: client_start_def starting.obeys_bindA client_handshake_sane obeys_sane [OF connect_conduct])
qed (rule obeys_sane [OF client_act_conduct])

lemma client_step_conduct: "e \<noteq> Start \<Longrightarrow> conduct s (snd (snd (client_act lb w e s))) (client_step lb w e s)"
  using client_act_conduct [of e lb w] by (cases "client_act lb w e s") (simp add: client_step_def obeysD)

lemma client_step_sane: "sane s (snd (snd (client_act lb w e s))) (client_step lb w e s)"
  using client_act_sane [of lb w e] by (cases "client_act lb w e s") (simp add: client_step_def obeysD)

lemma client_trace_conduct: "Start \<notin> set es \<Longrightarrow> conduct s (client_trace lb w es s) (fold (client_step lb w) es s)"
  by (induction es arbitrary: s)
    (auto intro: client.Q_trans [OF client_step_conduct] simp: client.Q_refl simp del: client_act.simps)

lemma client_trace_sane: "sane s (client_trace lb w es s) (fold (client_step lb w) es s)"
  by (induction es arbitrary: s)
    (auto intro: starting.Q_trans [OF client_step_sane] simp: starting.Q_refl simp del: client_act.simps)

interpretation terminal: keeps wf_client "client_step lb w" for lb w
  using client_step_sane by unfold_locales (simp add: sane_def)

text \<open>
  C18: the terminal client shows each message once. Over any sequence of notifications, typed lines,
  scheduled tasks, scans and losses of the link, with any outcome of each write, the identifiers of
  the messages it shows are distinct and were new, and it keeps its own identifier.
\<close>

theorem client_shows_once:
  "distinct (shown_ids (client_trace lb w es s)) \<and>
   set (shown_ids (client_trace lb w es s)) \<inter> cl_processed s = {} \<and>
   cl_id (fold (client_step lb w) es s) = cl_id s"
  using client_trace_sane [of s lb w es] by (simp add: sane_def)

text \<open>
  C16: the terminal client stays well formed. From its start on any readable state file, whatever
  happens: channels are listed once and the current channel is a listed one, every table has one entry
  per key, the handshakes are in progress, and what it saves can be loaded again as such.
\<close>

theorem client_invariant:
  assumes "wf_file file"
  shows "wf_client (fold (client_step lb w) es (client_init rnd8 static file))"
  by (rule terminal.run_keeps [OF wf_client_init [OF assms]])

text \<open>An outside in which nothing fails, for the examples.\<close>

definition example_world :: world where
  "example_world =
     \<lparr>wd_ts = \<lambda>i. 5, wd_rnd = \<lambda>i n. replicate n 0, wd_uuid = \<lambda>i. lit ''m'' @ [i + 48], wd_eph = \<lambda>i. [3],
      wd_now = \<lambda>i. 10, wd_hhmm = \<lambda>i. lit ''12:00'', wd_connected = \<lambda>i. True, wd_write = \<lambda>i. None,
      wd_save = \<lambda>i. None, wd_key = \<lambda>i. [1], wd_input = \<lambda>i. [], wd_device = \<lambda>i. True,
      wd_open = \<lambda>i. Open_characteristic True, wd_alnum = \<lambda>c. True\<rparr>"

theorem client_invariant_witness:
  "wf_client (fold (client_step example_libs example_world) [Start, Line (lit ''/j #a''), Lost]
     (client_init [1, 2, 3, 4, 5, 6, 7, 8] [9] Absent))"
  by (rule client_invariant) simp

subsection \<open>Sorted listings\<close>

lemma str_insert_insort: "str_insert x ys = str.insort x ys"
  by (induction ys) (auto simp: str.not_less)

text \<open>The names and channels that are listed are sorted, and each is listed as often as it occurs.\<close>

lemma str_sort_sorts: "str.sorted (str_sort xs)" "mset (str_sort xs) = mset xs"
proof -
  have "str_insert = str.insort" by (intro ext) (rule str_insert_insort)
  then have "str_sort xs = str.sort xs" by (simp add: str_sort_def str.sort_key_def)
  then show "str.sorted (str_sort xs)" "mset (str_sort xs) = mset xs" by simp_all
qed

end
