(* ===== verification/Radio.thy ===== *)
theory Radio
  imports Conduct
begin

text \<open>
  Packets between two terminal clients. A packet of more than 500 bytes travels as fragments; the
  theory follows the fragments from \<open>send_packet\<close> of one client to \<open>notification_handler\<close> of
  another, where the last one is handled as the packet itself.
\<close>

subsection \<open>What sending leaves alone\<close>

text \<open>
  Sending may lose the link, and with it the peers and the sessions, but it shows nothing, enters no
  channel and does not touch the fragments collected so far, the channels or the blocked peers.
\<close>

definition link_only :: "client \<Rightarrow> client_output list \<Rightarrow> client \<Rightarrow> bool" where
  "link_only s os s' \<longleftrightarrow>
     cl_id s' = cl_id s \<and> cl_collector s' = cl_collector s \<and> cl_processed s' = cl_processed s \<and> cl_bloom s' = cl_bloom s \<and>
     cl_nickname s' = cl_nickname s \<and> cl_blocked s' = cl_blocked s \<and> cl_channel_keys s' = cl_channel_keys s \<and>
     cl_creators s' = cl_creators s \<and> cl_protected s' = cl_protected s \<and> cl_commitments s' = cl_commitments s \<and>
     (\<forall>c. cc_mode (cl_chat s') = Channel c \<longrightarrow> cc_mode (cl_chat s) = Channel c) \<and> shown_ids os = []"

interpretation linking: composing link_only
  by unfold_locales (auto simp: link_only_def)

named_theorems link_intros \<open>actions that only use the link\<close>

lemmas link_rules [link_intros] =
  linking.obeys_ret linking.obeys_liftA linking.obeys_bindA linking.obeys_seqA linking.obeys_tryA
  linking.obeys_catchA linking.obeys_getA

lemma disconnect_link [link_intros]: "obeys link_only client_disconnect"
  unfolding client_disconnect_def noteA_def
  by (intro link_intros linking.obeys_modA linking.obeys_outA)
    (simp_all add: link_only_def Let_def switch_to_public_def)

interpretation linking: sending link_only
  by unfold_locales (auto simp: disconnect_link, auto simp: link_only_def)

lemmas sending_link [link_intros] =
  linking.sends_ask linking.sends_write linking.sends_create linking.sends_fragments linking.sends_packet

text \<open>The client handles a message as new: it has not marked it, and its Bloom filter has room for it.\<close>

definition client_new_to :: "libs \<Rightarrow> pystr \<Rightarrow> client \<Rightarrow> bool" where
  "client_new_to lb mid s \<longleftrightarrow> mid \<notin> cl_processed s \<and> bloom_ok lb \<and> length (cl_bloom s) < client_bloom_capacity"

lemma client_new_toD:
  "client_new_to lb mid s \<Longrightarrow> mid \<notin> cl_processed s \<and> lb_bloom lb client_bloom_capacity (cl_bloom s) mid = None"
  by (simp add: client_new_to_def bloom_ok_def)

lemma client_new_to_empty: "cl_processed s = {} \<Longrightarrow> cl_bloom s = [] \<Longrightarrow> client_new_to example_libs mid s"
  by (simp add: client_new_to_def example_bloom client_bloom_capacity_def)

text \<open>A filter that refuses every identifier silences the client: the first handling of any message does nothing.\<close>

theorem full_client_filter:
  assumes "\<forall>key. lb_bloom lb client_bloom_capacity (cl_bloom s) key \<noteq> None"
  shows "\<exists>r. client_once lb mid k s = (r, s, [])"
proof -
  obtain e where "lb_bloom lb client_bloom_capacity (cl_bloom s) mid = Some e" using assms by blast
  then show ?thesis by (simp add: client_once_def action_defs)
qed

subsection \<open>Fragments on the air\<close>

text \<open>A link that stays up, and a clock and a random source within their ranges.\<close>

definition reliable :: "world \<Rightarrow> bool" where
  "reliable w \<longleftrightarrow>
     (\<forall>i. wd_connected w i \<and> wd_write w i = None \<and> wd_ts w i < 2 ^ 64 \<and> (\<forall>k. length (wd_rnd w i k) = k))"

lemma ask_run: "ask f s = (Inr (f (cl_tick s)), s\<lparr>cl_tick := Suc (cl_tick s)\<rparr>, [])"
  by (simp add: ask_def action_defs)

lemma send_short:
  assumes "reliable w" and "cl_client s" and "cl_characteristic s" and "length pkt \<le> 500"
  shows "client_send_packet w pkt s = (Inr (), s\<lparr>cl_tick := Suc (Suc (cl_tick s))\<rparr>, [Wrote pkt False])"
  using assms
  by (simp add: client_send_packet_def getA_def ask_run bindA_def catchA_def writeA_def should_fragment_def
      reliable_def outA_def ret_def Let_def)

text \<open>With such a link, passing a short packet on changes nothing but the readings of the outside.\<close>

definition still :: "world \<Rightarrow> client \<Rightarrow> client \<Rightarrow> bool" where
  "still w s s' \<longleftrightarrow> (reliable w \<longrightarrow> (\<exists>k. s' = s\<lparr>cl_tick := k\<rparr>))"

lemma still_refl: "still w s s"
  by (auto simp: still_def intro: exI [of _ "cl_tick s"])

lemma still_trans: "still w s t \<Longrightarrow> still w t u \<Longrightarrow> still w s u"
  by (force simp: still_def)

lemma still_collector: "still w s t \<Longrightarrow> still w (s\<lparr>cl_collector := c\<rparr>) (t\<lparr>cl_collector := c\<rparr>)"
  unfolding still_def by clarsimp (intro exI client.equality, simp_all)

lemma relay_still:
  assumes "length f \<le> 500"
  shows "still w s (fst (snd (client_relay w pk f s)))"
proof -
  have "still w s (fst (snd (client_send_packet w g s)))" if "length g \<le> 500" for g
  proof (cases "cl_client s \<and> cl_characteristic s")
    case True
    then show ?thesis using send_short [OF _ _ _ that, of w s] by (auto simp: still_def)
  next
    case False
    then show ?thesis by (auto simp: client_send_packet_def getA_def ret_def still_refl)
  qed
  with assms show ?thesis by (simp add: client_relay_def send_with_ttl_def ret_def still_refl set_ttl_def)
qed

text \<open>The packet that carries one chunk, as the receiver parses it.\<close>

definition fragment_packet :: "bytes \<Rightarrow> bytes \<Rightarrow> nat \<Rightarrow> nat \<Rightarrow> bytes \<Rightarrow> packet" where
  "fragment_packet ia fid n i chunk =
     \<lparr>pkt_type = ble_fragment_type i n, pkt_sender_id = ia, pkt_sender_id_str = hex ia,
      pkt_recipient_id = None, pkt_recipient_id_str = None,
      pkt_payload = fid @ be_bytes 2 i @ be_bytes 2 n @ [mt_value MESSAGE] @ chunk, pkt_ttl = 7\<rparr>"

lemma ble_fragment_type_excluded: "ble_fragment_type i n \<in> set exclude_recipient_types"
  by (simp add: ble_fragment_type_def exclude_recipient_types_def)

lemma length_ble_chunks: "length (ble_chunks pkt) = (length pkt + 149) div 150"
  by (simp add: ble_chunks_def fragment_size_def)

lemma concat_ble_chunks: "concat (ble_chunks pkt) = pkt"
proof -
  have "length pkt \<le> (length pkt + 149) div 150 * 150" by linarith
  then show ?thesis by (simp add: ble_chunks_def fragment_size_def concat_slices)
qed

lemma ble_chunk_size: "c \<in> set (ble_chunks pkt) \<Longrightarrow> length c \<le> 150"
  by (auto simp: ble_chunks_def fragment_size_def)

lemma created_fragment:
  assumes "ts < 2 ^ 64" and "\<And>k. length (rnd k) = k" and "length ia = 8" and "last ia \<noteq> 0"
    and "t \<in> set exclude_recipient_types" and "length payload \<le> 218"
  obtains data where "create_bitchat_packet_with_signature ts rnd (hex ia) t payload None = Inr data"
    and "length data = 256"
    and "\<And>z. parse_bitchat_packet z data = Inr \<lparr>pkt_type = t, pkt_sender_id = ia, pkt_sender_id_str = hex ia,
      pkt_recipient_id = None, pkt_recipient_id_str = None, pkt_payload = payload, pkt_ttl = 7\<rparr>"
proof -
  have h: "fromhex (hex ia) = Inr ia" "length payload < 2 ^ 16" "recipient_field None = Inr BROADCAST_RECIPIENT"
    using assms(6) by (simp_all add: fromhex_hex recipient_field_def)
  have r: "rstrip0 ia = ia" using assms(3,4) by (simp add: rstrip0_def rstrip_id)
  obtain pk where pk: "create_bitchat_packet_with_recipient ts rnd (hex ia) None t payload None =
      Inr (pk @ padding rnd (length pk))"
    "pk = [1, mt_value t, 7] @ be_bytes 8 ts @ [packet_flags None t None] @ be_bytes 2 (length payload) @
      pad8 ia @ (if packet_flags None t None AND FLAG_HAS_RECIPIENT \<noteq> 0 then BROADCAST_RECIPIENT else []) @
      payload @ (case None of Some s \<Rightarrow> s | None \<Rightarrow> [])"
    by (rule create_layout [OF h(1) assms(1) h(2,3)])
  have l: "length pk = 22 + length payload" unfolding pk(2) using assms(5) by (simp add: flag_values(2))
  have "length (pk @ padding rnd (length pk)) = 256"
    using length_padding [of rnd "length pk", OF assms(2)] assms(6) l by (simp add: wire_size_def)
  with parse_created [OF h(1) assms(1) h(2,3), of rnd t None] pk(1) r assms(3,5)
  show thesis by (intro that) (auto simp: create_bitchat_packet_with_signature_def)
qed

text \<open>The frames \<open>fs\<close> carry the chunks from index \<open>i\<close> on.\<close>

definition carries :: "bytes \<Rightarrow> bytes \<Rightarrow> nat \<Rightarrow> nat \<Rightarrow> bytes list \<Rightarrow> bytes list \<Rightarrow> bool" where
  "carries ia fid n i cs fs \<longleftrightarrow>
     length fs = length cs \<and>
     (\<forall>j < length cs. length (fs ! j) = 256 \<and>
        (\<forall>z. parse_bitchat_packet z (fs ! j) = Inr (fragment_packet ia fid n (i + j) (cs ! j))))"

lemma carries_Cons:
  "carries ia fid n i (c # cs) (f # fs) \<longleftrightarrow>
     length f = 256 \<and> (\<forall>z. parse_bitchat_packet z f = Inr (fragment_packet ia fid n i c)) \<and>
     carries ia fid n (Suc i) cs fs"
  by (auto simp: carries_def less_Suc_eq_0_disj)

lemma send_fragments_run:
  assumes "reliable w" and "length ia = 8" and "last ia \<noteq> 0" and "length fid = 8" and "n < 65536"
  shows "\<forall>c\<in>set cs. length c \<le> 150 \<Longrightarrow> i + length cs \<le> n \<Longrightarrow> cl_id s = hex ia \<Longrightarrow>
    \<exists>s' fs. send_fragments w fid n i cs s = (Inr (), s', map (\<lambda>f. Wrote f False) fs) \<and>
      carries ia fid n i cs fs"
proof (induction cs arbitrary: i s)
  case (Cons c cs)
  let ?p = "fid @ be_bytes 2 i @ be_bytes 2 n @ [mt_value MESSAGE] @ c"
  have p: "ble_fragment_payload fid i n c = Inr ?p"
    using Cons.prems(2) assms(5) by (simp add: ble_fragment_payload_def pack_H_def)
  have w: "wd_ts w (cl_tick s) < 2 ^ 64" "\<And>k. length (wd_rnd w (Suc (cl_tick s)) k) = k" "\<And>k. wd_write w k = None"
    using assms(1) by (simp_all add: reliable_def)
  obtain f where f: "create_bitchat_packet_with_signature (wd_ts w (cl_tick s)) (wd_rnd w (Suc (cl_tick s)))
        (hex ia) (ble_fragment_type i n) ?p None = Inr f"
    and g: "length f = 256" "\<And>z. parse_bitchat_packet z f = Inr (fragment_packet ia fid n i c)"
    by (rule created_fragment [OF w(1,2) assms(2,3) ble_fragment_type_excluded [of i n], where payload = ?p])
      (use Cons.prems(1) assms(4) in \<open>simp_all add: fragment_packet_def\<close>)
  let ?s = "s\<lparr>cl_tick := Suc (Suc (Suc (cl_tick s)))\<rparr>"
  obtain s' fs where r: "send_fragments w fid n (Suc i) cs ?s = (Inr (), s', map (\<lambda>f. Wrote f False) fs)"
    "carries ia fid n (Suc i) cs fs"
    using Cons.IH [of "Suc i" ?s] Cons.prems by auto
  have "send_fragments w fid n i (c # cs) s = (Inr (), s', map (\<lambda>f. Wrote f False) (f # fs))"
    using p f r(1) Cons.prems(3) w(3) by (simp add: packetA_def writeA_def ask_def action_defs)
  with r(2) g show ?case by (intro exI [of _ s'] exI [of _ "f # fs"]) (simp add: carries_Cons)
qed (simp add: ret_def carries_def)

subsection \<open>Reception\<close>

lemma receive_fragment:
  assumes "parse_bitchat_packet (lb_lz4 lb) f = Inr (fragment_packet ia fid n i c)" and "hex ia \<noteq> cl_id s"
    and "length fid = 8" and "i < 65536" and "n < 65536"
    and "add_fragment (cl_collector s) fid i n 4 c (hex ia) = (result, col)"
  shows "notification_handler lb w (Suc d) f s =
    tryA (seqA
        (case result of
           None \<Rightarrow> ret ()
         | Some (raw, who) \<Rightarrow>
             bindA (liftA (parse_bitchat_packet (lb_lz4 lb) raw)) (\<lambda>pk. client_handle_packet lb w d pk raw))
        (client_relay w (fragment_packet ia fid n i c) f)) any_error (ret ()) (s\<lparr>cl_collector := col\<rparr>)"
proof -
  have u: "unpack_H (be_bytes 2 i) = Inr i" "unpack_H (be_bytes 2 n) = Inr n"
    using assms(4,5) by (simp_all add: unpack_H_def be_nat_bytes)
  have p: "slice 8 10 (pkt_payload (fragment_packet ia fid n i c)) = be_bytes 2 i"
    "slice 10 12 (pkt_payload (fragment_packet ia fid n i c)) = be_bytes 2 n"
    "py_nth (pkt_payload (fragment_packet ia fid n i c)) 12 = Inr 4"
    "slice 0 8 (pkt_payload (fragment_packet ia fid n i c)) = fid"
    "drop 13 (pkt_payload (fragment_packet ia fid n i c)) = c"
    "13 \<le> length (pkt_payload (fragment_packet ia fid n i c))"
    using assms(3) by (simp_all add: fragment_packet_def slice_def py_nth_def nth_append)
  have t: "pkt_type (fragment_packet ia fid n i c) \<in> {FRAGMENT_START, FRAGMENT_CONTINUE, FRAGMENT_END}"
    "pkt_sender_id_str (fragment_packet ia fid n i c) = hex ia"
    by (simp_all add: fragment_packet_def ble_fragment_type_def)
  have d: "client_handle_packet lb w (Suc d) (fragment_packet ia fid n i c) f =
      client_handle_fragment lb w (client_handle_packet lb w d) (fragment_packet ia fid n i c) f"
    using t(1) by auto
  let ?k = "case result of
      None \<Rightarrow> ret ()
    | Some (raw, who) \<Rightarrow>
        bindA (liftA (parse_bitchat_packet (lb_lz4 lb) raw)) (\<lambda>pk. client_handle_packet lb w d pk raw)"
  have "client_handle_fragment lb w (client_handle_packet lb w d) (fragment_packet ia fid n i c) f s =
      seqA ?k (client_relay w (fragment_packet ia fid n i c) f) (s\<lparr>cl_collector := col\<rparr>)"
    unfolding client_handle_fragment_def using p(6)
    by (intro seqA_from)
      (simp add: p u t(2) bindA_liftA getA_def assms(6) seqA_modA del: One_nat_def)
  then show ?thesis
    unfolding notification_handler_def
    by (intro tryA_from) (simp only: assms(1) bindA_liftA getA_def t(2) assms(2) if_False d)
qed

lemma quiet_fragment:
  assumes "notification_handler lb w (Suc d) f s =
    tryA (seqA (ret ()) (client_relay w pk f)) any_error (ret ()) (s\<lparr>cl_collector := col\<rparr>)" and "length f = 256"
  shows "still w (s\<lparr>cl_collector := col\<rparr>) (client_step lb w (Notification (Suc d) f) s)"
    "link_only (s\<lparr>cl_collector := col\<rparr>) (snd (snd (client_act lb w (Notification (Suc d) f) s)))
    (client_step lb w (Notification (Suc d) f) s)"
proof -
  have "obeys link_only (tryA (seqA (ret ()) (client_relay w pk f)) any_error (ret ()))"
    by (intro link_intros)
  from obeys_run [OF this] show "link_only (s\<lparr>cl_collector := col\<rparr>) (snd (snd (client_act lb w (Notification (Suc d) f) s)))
    (client_step lb w (Notification (Suc d) f) s)" by (simp only: client_step_def client_act.simps assms)
  show "still w (s\<lparr>cl_collector := col\<rparr>) (client_step lb w (Notification (Suc d) f) s)"
    using relay_still [of f w "s\<lparr>cl_collector := col\<rparr>" pk] assms(2)
    by (auto simp: client_step_def assms(1) seqA_ret tryA_def any_error_def ret_def split: prod.split sum.split)
qed

text \<open>
  The fragments in their order: those before the last are collected and relayed, the last one closes
  the collection and the packet is handled.
\<close>

definition notified :: "libs \<Rightarrow> world \<Rightarrow> nat \<Rightarrow> bytes list \<Rightarrow> client \<Rightarrow> client" where
  "notified lb w d fs s = fold (\<lambda>f. client_step lb w (Notification d f)) fs s"

lemma last_fragment_completes:
  assumes "collecting c0 (hex fid) m (n, 4, hex ia) col" and "\<not> has_key m i"
    and "\<forall>j. dict_get (dict_set m i c) j = (if j < Suc i then Some (all ! j) else None)"
    and "n = Suc i" and "length m = i" and "length all = n"
  shows "add_fragment col fid i n 4 c (hex ia) = (Some (concat all, hex ia), c0)"
proof -
  have "reassemble (dict_set m i c) [0..<n] = Some (concat (map ((!) all) [0..<n]))"
    using assms(3,4) by (intro reassemble_all) auto
  also have "map ((!) all) [0..<n] = all" using assms(6) by (simp add: map_nth flip: assms(6))
  finally show ?thesis using assms(4,5) by (intro add_fragment_last [OF assms(1,2)]) auto
qed

lemma receive_fragments:
  assumes "length fid = 8" and "n < 65536" and "length all = n"
    and "parse_bitchat_packet (lb_lz4 lb) (concat all) = Inr pk"
  shows "carries ia fid n i cs fs \<Longrightarrow> cs \<noteq> [] \<Longrightarrow> cs = drop i all \<Longrightarrow> hex ia \<noteq> cl_id s \<Longrightarrow>
    collecting c0 (hex fid) m (n, 4, hex ia) col \<Longrightarrow>
    add_fragment (cl_collector s) fid i n 4 (hd cs) (hex ia) = add_fragment col fid i n 4 (hd cs) (hex ia) \<Longrightarrow>
    (\<forall>j. dict_get m j = (if j < i then Some (all ! j) else None)) \<Longrightarrow> length m = i \<Longrightarrow>
    \<exists>s'. notified lb w (Suc d) (butlast fs) s = s' \<and> still w (s\<lparr>cl_collector := cl_collector s'\<rparr>) s' \<and>
      link_only (s\<lparr>cl_collector := cl_collector s'\<rparr>)
        (client_trace lb w (map (Notification (Suc d)) (butlast fs)) s) s' \<and>
      client_act lb w (Notification (Suc d) (last fs)) s' =
        tryA (seqA (client_handle_packet lb w d pk (concat all))
            (client_relay w (fragment_packet ia fid n (n - 1) (last all)) (last fs))) any_error (ret ())
          (s'\<lparr>cl_collector := c0\<rparr>)"
proof (induction cs arbitrary: i fs s m col)
  case (Cons c cs)
  obtain f fs' where fs: "fs = f # fs'" using Cons.prems(1) by (cases fs) (auto simp: carries_def)
  have i: "i < n" "all ! i = c" using Cons.prems(3) assms(3)
    by (metis drop_all list.distinct(1) not_le, metis hd_drop_conv_nth drop_all list.sel(1) list.distinct(1) not_le)
  have p: "parse_bitchat_packet (lb_lz4 lb) f = Inr (fragment_packet ia fid n i c)"
    and cr: "carries ia fid n (Suc i) cs fs'" using Cons.prems(1) by (auto simp: fs carries_Cons)
  have k: "\<not> has_key m i" using Cons.prems(7) by (simp add: has_key_def)
  have m': "\<forall>j. dict_get (dict_set m i c) j = (if j < Suc i then Some (all ! j) else None)"
    using Cons.prems(7) i(2) by (auto simp: less_Suc_eq)
  have tl: "cs = drop (Suc i) all" using Cons.prems(3) by (metis drop_Suc list.sel(3) tl_drop)
  show ?case
  proof (cases "cs = []")
    case True
    then have n: "n = Suc i" "fs' = []" using tl i(1) assms(3) cr by (auto simp: carries_def)
    have "add_fragment col fid i n 4 c (hex ia) = (Some (concat all, hex ia), c0)"
      using last_fragment_completes [OF Cons.prems(5) k] m' n(1) Cons.prems(8) assms(3) by blast
    with Cons.prems(6) have "add_fragment (cl_collector s) fid i n 4 c (hex ia) = (Some (concat all, hex ia), c0)"
      by simp
    moreover have "last all = c" using i n(1) assms(3) by (metis diff_Suc_1 last_conv_nth length_0_conv nat.distinct(1))
    ultimately show ?thesis
      using receive_fragment [OF p Cons.prems(4) assms(1) _ assms(2), of _ c0 w d] i n assms(2,4)
      by (simp add: fs notified_def bindA_liftA linking.Q_refl still_refl)
  next
    case False
    have "Suc (length m) \<noteq> n" using Cons.prems(8) False tl assms(3) by auto
    from add_fragment_more [OF Cons.prems(5) k this, of 4 c "hex ia"] Cons.prems(6) obtain col' where
      a: "add_fragment (cl_collector s) fid i n 4 c (hex ia) = (None, col')"
      and c': "collecting c0 (hex fid) (dict_set m i c) (n, 4, hex ia) col'" by auto
    let ?s1 = "client_step lb w (Notification (Suc d) f) s"
    have nf: "notification_handler lb w (Suc d) f s = tryA (seqA (ret ()) (client_relay w (fragment_packet ia fid n i c) f))
        any_error (ret ()) (s\<lparr>cl_collector := col'\<rparr>)"
      using receive_fragment [OF p Cons.prems(4) assms(1) _ assms(2) a, of w d] i(1) assms(2) by simp
    have "length f = 256" using Cons.prems(1) by (simp add: fs carries_Cons)
    note st = quiet_fragment(1) [OF nf this] and q = quiet_fragment(2) [OF nf this]
    have s1: "hex ia \<noteq> cl_id ?s1" "cl_collector ?s1 = col'" using q Cons.prems(4) by (simp_all add: link_only_def)
    obtain s' where s': "notified lb w (Suc d) (butlast fs') ?s1 = s'" "still w (?s1\<lparr>cl_collector := cl_collector s'\<rparr>) s'"
      "link_only (?s1\<lparr>cl_collector := cl_collector s'\<rparr>)
        (client_trace lb w (map (Notification (Suc d)) (butlast fs')) ?s1) s'"
      "client_act lb w (Notification (Suc d) (last fs')) s' =
        tryA (seqA (client_handle_packet lb w d pk (concat all))
            (client_relay w (fragment_packet ia fid n (n - 1) (last all)) (last fs'))) any_error (ret ())
          (s'\<lparr>cl_collector := c0\<rparr>)"
      using Cons.IH [OF cr False tl s1(1) c' _ m'] k Cons.prems(8) s1(2) by (auto simp: length_dict_set)
    have "fs' \<noteq> []" using cr False by (auto simp: carries_def)
    moreover have "still w (s\<lparr>cl_collector := cl_collector s'\<rparr>) s'"
      using still_collector [OF st, of "cl_collector s'"] still_trans [OF _ s'(2)] by simp
    ultimately show ?thesis using s'(1,3,4) q
      by (intro exI [of _ s']) (auto simp: fs notified_def link_only_def simp del: client_act.simps)
  qed
qed simp

lemma long_packet_flow:
  assumes "reliable w" and "cl_client A" and "cl_characteristic A" and "cl_id A = hex ia"
    and "length ia = 8" and "last ia \<noteq> 0"
    and "500 < length raw" and "length raw \<le> 150 * 65535"
    and "parse_bitchat_packet (lb_lz4 lb) raw = Inr pk" and "cl_id B \<noteq> cl_id A"
    and "\<not> has_key (fc_fragments (cl_collector B)) (hex (wd_rnd w (cl_tick A + 2) 8))"
    and "\<not> has_key (fc_metadata (cl_collector B)) (hex (wd_rnd w (cl_tick A + 2) 8))"
  shows "\<exists>A' fs f B' fragment.
    client_send_packet w raw A = (Inr (), A', map (\<lambda>g. Wrote g False) (fs @ [f])) \<and>
    (\<forall>g\<in>set (fs @ [f]). length g = 256) \<and>
    notified lb w' (Suc d) fs B = B' \<and> still w' B (B'\<lparr>cl_collector := cl_collector B\<rparr>) \<and> cl_processed B' = cl_processed B \<and>
    shown_ids (client_trace lb w' (map (Notification (Suc d)) fs) B) = [] \<and>
    client_act lb w' (Notification (Suc d) f) B' =
      tryA (seqA (client_handle_packet lb w' d pk raw) (client_relay w' fragment f)) any_error (ret ())
        (B'\<lparr>cl_collector := cl_collector B\<rparr>)"
proof -
  let ?fid = "wd_rnd w (cl_tick A + 2) 8" and ?cs = "ble_chunks raw" and ?n = "length (ble_chunks raw)"
  let ?A = "A\<lparr>cl_tick := Suc (Suc (Suc (cl_tick A)))\<rparr>"
  have n: "?n < 65536" "?cs \<noteq> []" using assms(7,8) by (auto simp: length_ble_chunks simp flip: length_greater_0_conv)
  have fid: "length ?fid = 8" using assms(1) by (simp add: reliable_def)
  obtain A' fs where snd: "send_fragments w ?fid ?n 0 ?cs ?A = (Inr (), A', map (\<lambda>g. Wrote g False) fs)"
    and fs: "carries ia ?fid ?n 0 ?cs fs"
    using send_fragments_run [OF assms(1,5,6) fid n(1), of ?cs 0 ?A] assms(4) ble_chunk_size by auto
  have send: "client_send_packet w raw A = (Inr (), A', map (\<lambda>g. Wrote g False) fs)"
    using snd assms(1,2,3,7)
    by (simp add: client_send_packet_def send_packet_with_fragmentation_def should_fragment_def reliable_def
        Let_def ask_def action_defs)
  have ne: "fs \<noteq> []" using fs n(2) by (auto simp: carries_def)
  have size: "\<forall>g\<in>set fs. length g = 256" using fs by (auto simp: carries_def in_set_conv_nth)
  have p: "parse_bitchat_packet (lb_lz4 lb) (concat ?cs) = Inr pk" using assms(9) by (simp add: concat_ble_chunks)
  have id: "hex ia \<noteq> cl_id B" using assms(4,10) by simp
  have r: "\<exists>s'. notified lb w' (Suc d) (butlast fs) B = s' \<and> still w' (B\<lparr>cl_collector := cl_collector s'\<rparr>) s' \<and>
      link_only (B\<lparr>cl_collector := cl_collector s'\<rparr>)
        (client_trace lb w' (map (Notification (Suc d)) (butlast fs)) B) s' \<and>
      client_act lb w' (Notification (Suc d) (last fs)) s' =
        tryA (seqA (client_handle_packet lb w' d pk (concat ?cs))
            (client_relay w' (fragment_packet ia ?fid ?n (?n - 1) (last ?cs)) (last fs))) any_error (ret ())
          (s'\<lparr>cl_collector := cl_collector B\<rparr>)"
    by (rule receive_fragments [OF fid n(1) refl p fs n(2) _ id collecting_opened [OF assms(11,12)]])
      (rule add_fragment_opened [OF assms(11)] | simp)+
  then obtain B' where B': "notified lb w' (Suc d) (butlast fs) B = B'"
    "still w' (B\<lparr>cl_collector := cl_collector B'\<rparr>) B'"
    "link_only (B\<lparr>cl_collector := cl_collector B'\<rparr>)
      (client_trace lb w' (map (Notification (Suc d)) (butlast fs)) B) B'"
    "client_act lb w' (Notification (Suc d) (last fs)) B' =
      tryA (seqA (client_handle_packet lb w' d pk raw)
          (client_relay w' (fragment_packet ia ?fid ?n (?n - 1) (last ?cs)) (last fs))) any_error (ret ())
        (B'\<lparr>cl_collector := cl_collector B\<rparr>)"
    unfolding concat_ble_chunks by blast
  have q: "cl_processed B' = cl_processed B"
    "shown_ids (client_trace lb w' (map (Notification (Suc d)) (butlast fs)) B) = []"
    using B'(3) by (simp_all add: link_only_def)
  have st: "still w' B (B'\<lparr>cl_collector := cl_collector B\<rparr>)"
    using still_collector [OF B'(2), of "cl_collector B"] by simp
  show ?thesis
    by (rule exI [of _ A'], rule exI [of _ "butlast fs"], rule exI [of _ "last fs"], rule exI [of _ B'],
        rule exI [of _ "fragment_packet ia ?fid ?n (?n - 1) (last ?cs)"])
      (intro conjI B'(1,4) st q; use send ne size in simp)
qed

text \<open>
  C8: a long packet arrives. When a client with a working link sends a packet of more than 500 bytes,
  it writes fragments of exactly 256 bytes; another client that receives them in order shows nothing
  before the last one, and handles the last one as the packet itself: it runs \<open>handle_packet\<close> on the
  original bytes, with its collector as it was before the first fragment, and then relays the fragment.
  The sender's identifier has eight bytes of which the last is not zero and is not the receiver's, the bytes
  parse as a packet and fit in 65535 fragments,
  and the random identifier of the fragments is fresh: the receiver is not collecting fragments under it.
\<close>

theorem fragmented_packet_arrives:
  assumes "reliable w" and "cl_client A" and "cl_characteristic A" and "cl_id A = hex ia"
    and "length ia = 8" and "last ia \<noteq> 0"
    and "500 < length raw" and "length raw \<le> 150 * 65535"
    and "parse_bitchat_packet (lb_lz4 lb) raw = Inr pk" and "cl_id B \<noteq> cl_id A"
    and "\<not> has_key (fc_fragments (cl_collector B)) (hex (wd_rnd w (cl_tick A + 2) 8))"
    and "\<not> has_key (fc_metadata (cl_collector B)) (hex (wd_rnd w (cl_tick A + 2) 8))"
  shows "\<exists>A' fs f B' fragment.
    client_send_packet w raw A = (Inr (), A', map (\<lambda>g. Wrote g False) (fs @ [f])) \<and>
    (\<forall>g\<in>set (fs @ [f]). length g = 256) \<and>
    notified lb w' (Suc d) fs B = B' \<and> cl_processed B' = cl_processed B \<and>
    shown_ids (client_trace lb w' (map (Notification (Suc d)) fs) B) = [] \<and>
    client_act lb w' (Notification (Suc d) f) B' =
      tryA (seqA (client_handle_packet lb w' d pk raw) (client_relay w' fragment f)) any_error (ret ())
        (B'\<lparr>cl_collector := cl_collector B\<rparr>)"
  using long_packet_flow [OF assms, of w' d] by blast

theorem fragmented_packet_arrives_witness:
  "\<exists>A' fs f B' fragment pk.
    client_send_packet example_world ([1, 3, 7] @ replicate 600 0)
      (client_init [1, 2, 3, 4, 5, 6, 7, 8] [9] Absent\<lparr>cl_client := True, cl_characteristic := True\<rparr>) =
      (Inr (), A', map (\<lambda>g. Wrote g False) (fs @ [f])) \<and>
    client_act example_libs example_world (Notification (Suc 5) f) B' =
      tryA (seqA (client_handle_packet example_libs example_world 5 pk ([1, 3, 7] @ replicate 600 0))
          (client_relay example_world fragment f)) any_error (ret ())
        (B'\<lparr>cl_collector := cl_collector (client_init [9] [9] Absent)\<rparr>)"
proof -
  let ?A = "client_init [1, 2, 3, 4, 5, 6, 7, 8] [9] Absent\<lparr>cl_client := True, cl_characteristic := True\<rparr>"
  let ?B = "client_init [9] [9] Absent" and ?raw = "[1, 3, 7] @ replicate 600 0"
  have r: "reliable example_world" by (simp add: reliable_def example_world_def)
  have p: "parse_bitchat_packet (lb_lz4 example_libs) ?raw = Inr
      \<lparr>pkt_type = LEAVE, pkt_sender_id = [], pkt_sender_id_str = [], pkt_recipient_id = None,
       pkt_recipient_id_str = None, pkt_payload = [], pkt_ttl = 7\<rparr>"
    by code_simp
  have h: "hex [9] \<noteq> hex [1, 2, 3, 4, 5, 6, 7, 8]" by code_simp
  show ?thesis
    using fragmented_packet_arrives [of example_world ?A "[1, 2, 3, 4, 5, 6, 7, 8]" ?raw example_libs _ ?B example_world 5,
        OF r _ _ _ _ _ _ _ p] h
    by (force simp: client_init_def collector_init_def simp del: client_act.simps)
qed

end
