(* ===== verification/Channels.thy ===== *)
theory Channels
  imports Radio
begin

text \<open>
  Channels and blocking in the terminal client: a protected channel opens only to the password behind
  its commitment, only its owner changes the password, a message on a channel is shown to those who
  hold its key, and a blocked peer is not heard.
\<close>

subsection \<open>Commands that only use the link\<close>

lemma note_link [link_intros]: "obeys link_only (noteA k args)"
  unfolding noteA_def by (rule linking.obeys_outA) (simp add: link_only_def)

lemma save_link [link_intros]: "obeys link_only (save_app_state w)"
  unfolding save_app_state_def Let_def
  by (intro link_intros linking.obeys_modA) (simp add: link_only_def)

lemma save_password_link [link_intros]: "obeys link_only (save_password lb w c pw b)"
proof -
  have "obeys link_only (modA (\<lambda>s. s\<lparr>cl_app := f s\<rparr>))" for f
    by (rule linking.obeys_modA) (simp add: link_only_def)
  then show ?thesis
    unfolding save_password_def by (auto intro!: link_intros split: option.split list.split)
qed

lemma channel_announce_link [link_intros]: "obeys link_only (client_send_channel_announce w c pr k)"
  unfolding client_send_channel_announce_def Let_def by (intro link_intros)

lemma payload_link [link_intros]:
  "obeys link_only (payloadA w c ch e)" "obeys link_only (create_encrypted_channel_message_payload lb w c ch' k)"
  unfolding payloadA_def create_encrypted_channel_message_payload_def by (intro link_intros)+

lemma announce_password_link [link_intros]: "obeys link_only (announce_password lb w c k k')"
  unfolding announce_password_def Let_def by (auto intro!: link_intros)

subsection \<open>Joining a protected channel\<close>

text \<open>
  What joining may do to a channel \<open>c\<close> whose key must hash to \<open>h\<close>: it may only get a key that
  does, and it is entered only with one.
\<close>

definition guarded :: "libs \<Rightarrow> pystr \<Rightarrow> pystr \<Rightarrow> client \<Rightarrow> client \<Rightarrow> bool" where
  "guarded lb c h s s' \<longleftrightarrow>
     (\<forall>key. dict_get (cl_channel_keys s') c = Some key \<longrightarrow>
        sha256_hex lb key = h \<and> (\<exists>pw. 4 \<le> length pw \<and> derive_channel_key (lb_crypto lb) pw c = Inr key)) \<and>
     (cc_mode (cl_chat s') = Channel c \<longrightarrow>
        cc_mode (cl_chat s) = Channel c \<or> has_key (cl_channel_keys s') c)"

text \<open>An action on other channels, and one after which the keys are as before.\<close>

definition aside :: "pystr \<Rightarrow> client \<Rightarrow> client_output list \<Rightarrow> client \<Rightarrow> bool" where
  "aside c s os s' \<longleftrightarrow>
     dict_get (cl_channel_keys s') c = dict_get (cl_channel_keys s) c \<and>
     dict_get (cl_commitments s') c = dict_get (cl_commitments s) c \<and>
     dict_get (cl_creators s') c = dict_get (cl_creators s) c \<and>
     (cc_mode (cl_chat s') = Channel c \<longrightarrow> cc_mode (cl_chat s) = Channel c)"

definition same_keys :: "client \<Rightarrow> client_output list \<Rightarrow> client \<Rightarrow> bool" where
  "same_keys s os s' \<longleftrightarrow> cl_channel_keys s' = cl_channel_keys s"

interpretation elsewhere: composing "aside c" for c
  by unfold_locales (auto simp: aside_def)

interpretation keys_kept: composing same_keys
  by unfold_locales (auto simp: same_keys_def)

lemma link_aside: "obeys link_only m \<Longrightarrow> obeys (aside c) m"
  by (auto simp: obeys_def link_only_def aside_def split: prod.splits)

lemma link_same_keys: "obeys link_only m \<Longrightarrow> obeys same_keys m"
  by (auto simp: obeys_def link_only_def same_keys_def split: prod.splits)

lemma chat_same_keys: "obeys same_keys (chatA f)"
  unfolding chatA_def by (rule keys_kept.obeys_modA) (simp add: same_keys_def)

lemma chat_aside: "c' \<noteq> c \<Longrightarrow> obeys (aside c) (chatA (switch_to_channel c'))"
  unfolding chatA_def
  by (rule elsewhere.obeys_modA) (simp add: aside_def switch_to_channel_def)

lemmas elsewhere_rules = elsewhere.obeys_ret elsewhere.obeys_liftA elsewhere.obeys_bindA elsewhere.obeys_seqA
  elsewhere.obeys_getA link_aside [OF save_password_link] link_aside [OF note_link]
  link_aside [OF channel_announce_link] link_aside [OF announce_password_link] chat_aside

lemma mod_aside:
  "c' \<noteq> c \<Longrightarrow> obeys (aside c) (modA (\<lambda>s. s\<lparr>cl_channel_keys := dict_set (cl_channel_keys s) c' k,
     cl_discovered := set_add c' (cl_discovered s)\<rparr>))"
  "c' \<noteq> c \<Longrightarrow> obeys (aside c) (modA (\<lambda>s. s\<lparr>cl_channel_keys := dict_del (cl_channel_keys s) c'\<rparr>))"
  "obeys (aside c) (modA (\<lambda>s. s\<lparr>cl_discovered := d s\<rparr>))"
  by (rule elsewhere.obeys_modA; simp add: aside_def)+

lemma join_aside:
  assumes "c' \<noteq> c"
  shows "obeys (aside c) (join_protected lb w c' pw)" and "obeys (aside c) (join_open lb w c' pw)"
  unfolding join_protected_def join_open_def
  by (auto intro!: elsewhere_rules mod_aside assms split: option.split)

lemma join_protected_guarded:
  assumes "join_protected lb w c pw s = (r, s', os)" and "dict_get (cl_commitments s) c = Some h"
    and "\<not> has_key (cl_channel_keys s) c"
  shows "guarded lb c h s s'"
proof -
  have idle: "guarded lb c h s s1" if "link_only s os1 s1" for s1 os1
    using that assms(3) by (auto simp: guarded_def link_only_def has_key_def)
  have noted: "guarded lb c h s s1" if "noteA k args s = (r1, s1, os1)" for k args r1 s1 os1
    using idle [OF obeysD [OF note_link that]] .
  show ?thesis
  proof (cases "\<exists>p key. pw = Some p \<and> 4 \<le> length p \<and> derive_channel_key (lb_crypto lb) p c = Inr key \<and>
      sha256_hex lb key = h")
    case False
    then have "(\<exists>k args. join_protected lb w c pw s = noteA k args s) \<or> (\<exists>e. join_protected lb w c pw s = (Inl e, s, []))"
      using assms(2)
      by (cases pw; cases "derive_channel_key (lb_crypto lb) (the pw) c")
        (auto simp: join_protected_def bindA_liftA getA_def bindA_def liftA_def)
    then consider k args where "noteA k args s = (r, s', os)" | "s' = s" using assms(1) by fastforce
    then show ?thesis using noted idle [OF linking.Q_refl] by cases auto
  next
    case True
    then obtain p key where p: "pw = Some p" "4 \<le> length p" "derive_channel_key (lb_crypto lb) p c = Inr key"
      "sha256_hex lb key = h" by blast
    let ?f = "\<lambda>s. s\<lparr>cl_channel_keys := dict_set (cl_channel_keys s) c key, cl_discovered := set_add c (cl_discovered s)\<rparr>"
    let ?k = "seqA (save_password lb w c p True) (seqA (chatA (switch_to_channel c))
      (seqA (noteA ''joined password-protected channel'' [c]) (getA (\<lambda>s.
        if has_key (cl_creators s) c then client_send_channel_announce w c True (Some (sha256_hex lb key))
        else ret ()))))"
    have "join_protected lb w c pw s = seqA (modA ?f) ?k s"
      using p assms(2) by (simp add: join_protected_def bindA_liftA getA_def)
    then have "?k (?f s) = (r, s', os)" using assms(1) by (simp add: seqA_modA)
    moreover have "obeys same_keys ?k"
      by (intro keys_kept.obeys_seqA keys_kept.obeys_getA chat_same_keys link_same_keys link_intros)
        (simp add: link_intros)
    ultimately have "same_keys (?f s) os s'" by (blast dest: obeysD)
    then show ?thesis using p by (auto simp: same_keys_def guarded_def has_key_def)
  qed
qed

text \<open>The last step of \<open>/j\<close>, after the checks of the name.\<close>

definition join_named :: "libs \<Rightarrow> world \<Rightarrow> pystr \<Rightarrow> pystr option \<Rightarrow> unit cact" where
  "join_named lb w ch pw =
     getA (\<lambda>s.
     if ch \<in> set (cl_protected s) then
       if has_key (cl_channel_keys s) ch then
         seqA (modA (\<lambda>s. s\<lparr>cl_discovered := set_add ch (cl_discovered s)\<rparr>)) (chatA (switch_to_channel ch))
       else join_protected lb w ch pw
     else join_open lb w ch pw)"

lemma join_named_aside: "ch \<noteq> c \<Longrightarrow> obeys (aside c) (join_named lb w ch pw)"
  unfolding join_named_def by (auto intro!: elsewhere_rules mod_aside join_aside)

lemma join_channel_cases:
  obtains k args where "handle_join_channel lb w line s = noteA k args s"
  | ch pw where "handle_join_channel lb w line s = join_named lb w ch pw s"
proof (cases "\<exists>cmd ch rest. words line = cmd # ch # rest")
  case False
  then have "handle_join_channel lb w line s = noteA ''usage of /j'' [] s"
    by (auto simp: handle_join_channel_def split: list.split)
  then show ?thesis by (rule that(1))
next
  case True
  then obtain cmd ch rest where l: "words line = cmd # ch # rest" by blast
  show ?thesis
  proof (cases "take 1 ch = [35] \<and> length ch \<le> 25 \<and> name_ok w (drop 1 ch)")
    case True
    then have "handle_join_channel lb w line s =
        join_named lb w ch (case rest of pw # _ \<Rightarrow> Some pw | [] \<Rightarrow> None) s"
      by (simp add: handle_join_channel_def l join_named_def Let_def)
    then show ?thesis by (rule that(2))
  next
    case False
    then have "\<exists>k args. handle_join_channel lb w line s = noteA k args s"
      by (cases "take 1 ch = [35]"; cases "length ch \<le> 25") (auto simp: handle_join_channel_def l)
    with that(1) show ?thesis by blast
  qed
qed

text \<open>
  C20: a protected channel opens only to its password. When the client knows a commitment for a
  protected channel and has no key for it, then whatever is typed after \<open>/j\<close>, the channel gets a
  key only if that key is derived from a password of at least four characters and hashes to the
  commitment, and the channel becomes the current one only with such a key.
\<close>

theorem join_needs_password:
  assumes "c \<in> set (cl_protected s)" and "dict_get (cl_commitments s) c = Some h"
    and "\<not> has_key (cl_channel_keys s) c" and "handle_join_channel lb w line s = (r, s', os)"
  shows "guarded lb c h s s'"
proof -
  have other: "guarded lb c h s s'" if "aside c s os s'"
    using that assms(3) by (auto simp: aside_def guarded_def has_key_def)
  consider (noted) k args where "handle_join_channel lb w line s = noteA k args s"
    | (named) ch pw where "handle_join_channel lb w line s = join_named lb w ch pw s"
    by (rule join_channel_cases)
  then show ?thesis
  proof cases
    case noted
    with assms(4) show ?thesis by (metis other obeysD link_aside note_link)
  next
    case named
    show ?thesis
    proof (cases "ch = c")
      case True
      with named assms(1,3,4) have "join_protected lb w c pw s = (r, s', os)" by (simp add: join_named_def getA_def)
      then show ?thesis using assms(2,3) by (rule join_protected_guarded)
    next
      case False
      with named assms(4) show ?thesis by (metis other obeysD join_named_aside)
    qed
  qed
qed

text \<open>A channel \<open>#a\<close> that is protected by the password \<open>good\<close>, for the example.\<close>

definition example_member :: client where
  "example_member =
     (client_init [9] [9] Absent)
     \<lparr>cl_protected := [lit ''#a''], cl_commitments := [(lit ''#a'', lit ''00'')]\<rparr>"

theorem join_needs_password_witness:
  "guarded example_libs (lit ''#a'') (lit ''00'') example_member
     (client_step example_libs example_world (Line (lit ''/j #a''))  example_member)"
proof -
  obtain r s' os where j: "handle_join_channel example_libs example_world (lit ''/j #a'') example_member = (r, s', os)"
    by (rule prod_cases3)
  have "handle_user_input example_libs example_world (lit ''/j #a'') =
      handle_join_channel example_libs example_world (lit ''/j #a'')"
    by (simp add: handle_user_input_def lit_def starts_with_def is_digits_def)
  then have "client_step example_libs example_world (Line (lit ''/j #a'')) example_member = s'"
    using j by (simp add: client_step_def)
  then show ?thesis
    using join_needs_password [of "lit ''#a''" example_member "lit ''00''", OF _ _ _ j]
    by (simp add: example_member_def client_init_def)
qed

subsection \<open>Changing the password\<close>

lemma owner_updates:
  "c' \<noteq> c \<Longrightarrow> obeys (aside c) (modA (\<lambda>s. s\<lparr>cl_creators := dict_set (cl_creators s) c' (v s)\<rparr>))"
  "c' \<noteq> c \<Longrightarrow> obeys (aside c) (modA (\<lambda>s. s\<lparr>cl_channel_keys := dict_set (cl_channel_keys s) c' k,
     cl_protected := p s\<rparr>))"
  "c' \<noteq> c \<Longrightarrow> obeys (aside c) (modA (\<lambda>s. s\<lparr>cl_commitments := dict_set (cl_commitments s) c' h\<rparr>))"
  by (rule elsewhere.obeys_modA; simp add: aside_def)+

text \<open>
  C23: only the owner manages a channel. When a channel is known to belong to someone else, neither
  \<open>/pass\<close> nor \<open>/transfer\<close>, with whatever text and wherever they are typed, changes its key, its
  commitment or its owner.
\<close>

theorem only_owner_manages:
  assumes "dict_get (cl_creators s) c = Some ow" and "ow \<noteq> []" and "ow \<noteq> cl_id s"
    and "handle_pass_command lb w line s = (r, s', os) \<or> handle_transfer_command lb w line s = (r, s', os)"
  shows "dict_get (cl_channel_keys s') c = dict_get (cl_channel_keys s) c \<and>
    dict_get (cl_commitments s') c = dict_get (cl_commitments s) c \<and> dict_get (cl_creators s') c = Some ow"
proof -
  have "aside c s os s'" if "handle_pass_command lb w line s = (r, s', os)"
    using that unfolding handle_pass_command_def
  proof (rule getA_obeysD, goal_cases)
    case 1
    show ?case
    proof (cases "cc_mode (cl_chat s)")
      case (Channel ch)
      show ?thesis
      proof (cases "ch = c")
        case True
        obtain o1 ot where "ow = o1 # ot" using assms(2) by (cases ow) auto
        then have own: "(case dict_get (cl_creators s) c of Some (a # as) \<Rightarrow> Some (a # as) | _ \<Rightarrow> None) = Some ow"
          using assms(1) by simp
        have refused: "Some ow \<noteq> None \<and> Some ow \<noteq> Some (cl_id s) \<longleftrightarrow> True" using assms(3) by simp
        show ?thesis
          unfolding Channel True chat_mode.case Let_def own refused if_True
          by (cases "split_max 1 line"; cases "tl (split_max 1 line)") (simp_all add: link_aside [OF note_link])
      next
        case False
        then show ?thesis
          unfolding Channel chat_mode.case Let_def
          by (auto intro!: elsewhere_rules owner_updates split: list.split)
      qed
    qed (simp_all add: link_aside [OF note_link])
  qed
  moreover have "aside c s os s'" if "handle_transfer_command lb w line s = (r, s', os)"
    using that unfolding handle_transfer_command_def
  proof (rule getA_obeysD, goal_cases)
    case 1
    show ?case
      using assms(1,3)
      by (auto intro!: elsewhere_rules owner_updates link_aside [OF save_link] simp: Let_def
          split: chat_mode.split list.split option.split)
  qed
  ultimately show ?thesis using assms(1,4) by (auto simp: aside_def)
qed

theorem only_owner_manages_witness:
  "dict_get (cl_creators (client_step example_libs example_world (Line (lit ''/pass secret''))
     (example_member\<lparr>cl_creators := [(lit ''#a'', lit ''07'')], cl_chat := switch_to_channel (lit ''#a'') chat_init\<rparr>)))
     (lit ''#a'') = Some (lit ''07'')"
proof -
  let ?s = "example_member\<lparr>cl_creators := [(lit ''#a'', lit ''07'')], cl_chat := switch_to_channel (lit ''#a'') chat_init\<rparr>"
  let ?l = "lit ''/pass secret''"
  obtain r s' os where j: "handle_pass_command example_libs example_world ?l ?s = (r, s', os)" by (rule prod_cases3)
  have "handle_user_input example_libs example_world ?l = handle_pass_command example_libs example_world ?l"
    by (simp add: handle_user_input_def lit_def starts_with_def is_digits_def)
  then have "client_step example_libs example_world (Line ?l) ?s = s'" using j by (simp add: client_step_def)
  moreover have "lit ''07'' \<noteq> cl_id ?s" by (simp add: example_member_def client_init_def) code_simp
  ultimately show ?thesis
    using only_owner_manages [of ?s "lit ''#a''" "lit ''07''", OF _ _ _ disjI1 [OF j]] by (simp add: lit_def)
qed

subsection \<open>Blocking\<close>

lemma find_in: "find P xs = Some x \<Longrightarrow> P x \<and> x \<in> set xs"
  by (induction xs) (auto split: if_splits)

lemma find_peer_in:
  assumes "find_peer nick s = Some pid"
  shows "(pid, Some nick) \<in> set (cl_peers s)"
proof -
  obtain nk where "find (\<lambda>(pid, n). n = Some nick) (cl_peers s) = Some (pid, nk)"
  proof (cases "find (\<lambda>(pid, n). n = Some nick) (cl_peers s)")
    case (Some x)
    with assms that show thesis by (cases x; cases "fst x") (auto simp: find_peer_def)
  qed (use assms in \<open>simp add: find_peer_def\<close>)
  from find_in [OF this] show ?thesis by auto
qed

lemma blocked_is_ignored:
  assumes "client_is_blocked lb (pkt_sender_id_str pk) s" and "pkt_type pk = MESSAGE \<or> pkt_type pk = NOISE_ENCRYPTED"
  shows "client_handle_packet lb w (Suc d) pk raw s = (Inr (), s, [])"
  using assms by (auto simp: client_handle_message_def client_handle_encrypted_def getA_def ret_def)

text \<open>A blocked key stays blocked; but a peer is looked up by its session, and without one it is not blocked.\<close>

lemma still_blocked:
  assumes "Start \<notin> set es" and "\<not> unblocked (client_trace lb v es s)" and "f # fs \<in> set (cl_blocked s)"
    and "get_peer_fingerprint (lb_crypto lb) pid (cl_enc (fold (client_step lb v) es s)) = Some (f # fs)"
  shows "client_is_blocked lb pid (fold (client_step lb v) es s)"
  using client_trace_conduct [OF assms(1), of s lb v] assms(2-4) by (auto simp: conduct_def client_is_blocked_def)

theorem block_needs_session:
  "\<not> has_key (sv_sessions (cl_enc s)) pid \<Longrightarrow> \<not> client_is_blocked lb pid s"
  "\<not> client_is_blocked lb pid (client_step lb w Lost s)"
proof -
  show *: "\<not> client_is_blocked lb pid s" if "\<not> has_key (sv_sessions (cl_enc s)) pid" for s
    using that by (simp add: client_is_blocked_def get_peer_fingerprint_def has_key_def)
  show "\<not> client_is_blocked lb pid (client_step lb w Lost s)"
    by (rule *) (simp add: client_step_def client_disconnect_def action_defs noteA_def Let_def has_key_def)
qed

text \<open>
  C24: blocking silences a peer while its session lasts. When \<open>/block\<close> reports success, there is a peer
  with the given nickname, and the fingerprint of the key of the session with it is now blocked, both in
  memory and, if it could be written, in the state file. Whatever happens next, short of a restart and as
  long as no peer is reported unblocked: in every state in which there is a session with a key of that
  fingerprint, under whatever peer identifier, the client ignores every message and every encrypted packet
  from that identifier: nothing is shown, acknowledged, relayed or changed. (A peer without a session has
  no fingerprint and is heard again, see \<open>block_needs_session\<close>.)
\<close>

theorem block_silences_peer:
  assumes "handle_block_command lb w line s = (r, s', os)" and "Note ''blocked'' [nick] \<in> set os"
  shows "\<exists>pid fp. (pid, Some nick) \<in> set (cl_peers s) \<and>
    get_peer_fingerprint (lb_crypto lb) pid (cl_enc s') = Some fp \<and> fp \<in> set (cl_blocked s') \<and>
    (wd_save w (cl_tick s) = None \<longrightarrow>
       (\<exists>ms. cl_file s' = Members ms \<and> M_blocked_peers (cl_blocked s') \<in> set ms)) \<and>
    (\<forall>v es t pk raw w' d. Start \<notin> set es \<and> \<not> unblocked (client_trace lb v es s') \<and>
       t = fold (client_step lb v) es s' \<and> (pkt_type pk = MESSAGE \<or> pkt_type pk = NOISE_ENCRYPTED) \<and>
       get_peer_fingerprint (lb_crypto lb) (pkt_sender_id_str pk) (cl_enc t) = Some fp \<longrightarrow>
       client_handle_packet lb w' (Suc d) pk raw t = (Inr (), t, []))"
proof -
  from assms obtain cmd who pid f fs where l: "words line = [cmd, who]"
    and t: "nick = dropWhile (\<lambda>c. c = 64) who" "find_peer nick s = Some pid"
    and fp: "get_peer_fingerprint (lb_crypto lb) pid (cl_enc s) = Some (f # fs)"
    and new: "f # fs \<notin> set (cl_blocked s)"
    by (auto simp: handle_block_command_def getA_def noteA_def outA_def Let_def seqA_modA seqA_def bindA_def
        save_app_state_def ask_def modA_def ret_def split: list.splits option.splits if_splits)
  have s': "s' = fst (snd (save_app_state w (s\<lparr>cl_blocked := set_add (f # fs) (cl_blocked s)\<rparr>)))"
    using assms(1) l t fp new
    by (auto simp: handle_block_command_def getA_def Let_def action_defs save_app_state_def noteA_def ask_def
        split: prod.splits)
  then have b: "cl_blocked s' = set_add (f # fs) (cl_blocked s)" "cl_enc s' = cl_enc s"
    "wd_save w (cl_tick s) = None \<longrightarrow> (\<exists>ms. cl_file s' = Members ms \<and> M_blocked_peers (cl_blocked s') \<in> set ms)"
    by (simp_all add: save_app_state_def ask_def action_defs Let_def save_state_def state_members_def)
  have f: "get_peer_fingerprint (lb_crypto lb) pid (cl_enc s') = Some (f # fs)" "f # fs \<in> set (cl_blocked s')"
    using b fp by (simp_all add: set_add_def)
  have "client_handle_packet lb w' (Suc d) pk raw (fold (client_step lb v) es s') = (Inr (), fold (client_step lb v) es s', [])"
    if "Start \<notin> set es" "\<not> unblocked (client_trace lb v es s')" "pkt_type pk = MESSAGE \<or> pkt_type pk = NOISE_ENCRYPTED"
      "get_peer_fingerprint (lb_crypto lb) (pkt_sender_id_str pk) (cl_enc (fold (client_step lb v) es s')) = Some (f # fs)"
    for v es pk raw w' d
    using still_blocked [OF that(1,2) f(2) that(4)] that(3) by (intro blocked_is_ignored) simp_all
  moreover have "(pid, Some nick) \<in> set (cl_peers s)"
    using t(2) by (rule find_peer_in)
  ultimately show ?thesis using b(3) f by (intro exI [of _ pid] exI [of _ "f # fs"]) blast
qed

text \<open>A client with one peer, whose session key has a fingerprint.\<close>

definition example_friend :: client where
  "example_friend =
     (client_init [9] [9] Absent)
     \<lparr>cl_peers := [(lit ''07'', Some (lit ''eve''))],
      cl_enc := (service_init [9])\<lparr>sv_sessions := [(lit ''07'', session_of plain_crypto 0 (lit ''07'') [7] INITIATOR [])]\<rparr>\<rparr>"

theorem block_silences_peer_witness:
  "client_handle_packet example_libs example_world 1
     \<lparr>pkt_type = MESSAGE, pkt_sender_id = [7], pkt_sender_id_str = lit ''07'', pkt_recipient_id = None,
      pkt_recipient_id_str = None, pkt_payload = [], pkt_ttl = 6\<rparr> []
     (client_step example_libs example_world (Line (lit ''/block @eve'')) example_friend) =
   (Inr (), client_step example_libs example_world (Line (lit ''/block @eve'')) example_friend, [])"
proof -
  let ?l = "lit ''/block @eve''"
  obtain r s' os where j: "handle_block_command example_libs example_world ?l example_friend = (r, s', os)"
    by (rule prod_cases3)
  have u: "handle_user_input example_libs example_world ?l = handle_block_command example_libs example_world ?l"
    by (simp add: handle_user_input_def lit_def starts_with_def is_digits_def)
  have s': "client_step example_libs example_world (Line ?l) example_friend = s'" using j u by (simp add: client_step_def)
  have w: "words ?l = [lit ''/block'', lit ''@eve'']"
    by (simp add: words_def lit_def is_space_def)
  have "length (sha256 plain_crypto []) = 32" by (simp add: plain_crypto_def)
  then have "hex (sha256 plain_crypto []) \<noteq> []" by auto
  then obtain a as where h: "hex (sha256 plain_crypto []) = a # as" by (cases "hex (sha256 plain_crypto [])") auto
  have f: "find_peer (lit ''eve'') example_friend = Some (lit ''07'')"
    by (simp add: find_peer_def example_friend_def lit_def)
  have g: "get_peer_fingerprint (lb_crypto example_libs) (lit ''07'') (cl_enc example_friend) =
      Some (hex (sha256 plain_crypto []))"
    by (simp add: get_peer_fingerprint_def example_friend_def example_libs_def)
  have t: "dropWhile (\<lambda>c. c = 64) (lit ''@eve'') = lit ''eve''" "cl_blocked example_friend = []"
    by (simp_all add: lit_def example_friend_def client_init_def)
  have "Note ''blocked'' [lit ''eve''] \<in>
      set (snd (snd (handle_block_command example_libs example_world ?l example_friend)))"
    by (simp add: handle_block_command_def w getA_def Let_def t f g h seqA_modA seqA_def bindA_def
        save_app_state_def ask_def modA_def ret_def noteA_def outA_def)
  then have "Note ''blocked'' [lit ''eve''] \<in> set os" by (simp add: j)
  from block_silences_peer [OF j this] obtain pid fp where p: "(pid, Some (lit ''eve'')) \<in> set (cl_peers example_friend)"
    "get_peer_fingerprint (lb_crypto example_libs) pid (cl_enc s') = Some fp"
    and q: "\<And>pk raw. pkt_type pk = MESSAGE \<Longrightarrow>
       get_peer_fingerprint (lb_crypto example_libs) (pkt_sender_id_str pk) (cl_enc s') = Some fp \<Longrightarrow>
       client_handle_packet example_libs example_world (Suc 0) pk raw s' = (Inr (), s', [])"
    by (elim exE conjE) (drule spec [of _ example_world], drule spec [of _ "[]"], fastforce simp del: client_handle_packet.simps)
  have "pid = lit ''07''" using p(1) by (simp add: example_friend_def)
  with p(2) show ?thesis unfolding s' by (simp add: q del: client_handle_packet.simps)
qed

end
