(* ===== verification/Chat.thy ===== *)
theory Chat
  imports Channels
begin

text \<open>
  A line typed at one terminal client and shown at another: public messages and messages on a channel,
  in the clear or under the channel's key.
\<close>

subsection \<open>Runs\<close>

definition current_channel :: "client \<Rightarrow> pystr option" where
  "current_channel s = (case cc_mode (cl_chat s) of Channel c \<Rightarrow> Some c | _ \<Rightarrow> None)"

definition channel_key :: "client \<Rightarrow> pystr option \<Rightarrow> bytes option" where
  "channel_key s ch = (case ch of Some c \<Rightarrow> dict_get (cl_channel_keys s) c | None \<Rightarrow> None)"

text \<open>The payload of a typed line, encrypted if there is a key.\<close>

definition line_payload :: "libs \<Rightarrow> world \<Rightarrow> pystr \<Rightarrow> client \<Rightarrow> (bytes \<times> pystr) cact" where
  "line_payload lb w content s =
     (case channel_key s (current_channel s) of
        Some key \<Rightarrow>
          bindA (ask (wd_rnd w)) (\<lambda>rnd.
          bindA (liftA (encrypt_for_channel (lb_crypto lb) (rnd 12) content (the (current_channel s)) key
                   (case dict_get (cl_creators s) (the (current_channel s)) of Some f \<Rightarrow> f | None \<Rightarrow> []))) (\<lambda>encrypted.
          payloadA w content (current_channel s) (Some encrypted)))
      | None \<Rightarrow> payloadA w content (current_channel s) None)"

lemma line_payload_run:
  assumes "line_payload lb w content s s = (Inr (payload, mid), s', os)"
  obtains i j fp enc where "os = []" and "s' = s\<lparr>cl_tick := j\<rparr>"
    and "\<forall>key. channel_key s (current_channel s) = Some key \<longrightarrow>
      encrypt_for_channel (lb_crypto lb) (wd_rnd w (cl_tick s) 12) content (the (current_channel s)) key fp = Inr enc"
    and "create_bitchat_message_payload_full (wd_ts w (Suc i)) (wd_uuid w i) (cl_nickname s) content
       (current_channel s) False (cl_id s) (channel_key s (current_channel s) \<noteq> None)
       (if channel_key s (current_channel s) = None then None else Some enc) = Inr (payload, mid)"
proof (cases "channel_key s (current_channel s)")
  case None
  then show thesis
    using assms that [where j = "Suc (Suc (cl_tick s))" and i = "cl_tick s"]
    by (auto simp: line_payload_def payloadA_def ask_run run_simps)
next
  case (Some key)
  then show thesis
    using assms that [where j = "Suc (Suc (Suc (cl_tick s)))" and i = "Suc (cl_tick s)"]
    by (auto simp: line_payload_def payloadA_def ask_run run_simps)
qed

lemma send_public_run:
  assumes "client_send_public lb w content s = (Inr (), s', os)" and "cl_client s" and "cl_characteristic s"
    and "current_channel s \<noteq> Some []"
    and "\<And>c. current_channel s = Some c \<Longrightarrow> c \<in> set (cl_protected s) \<Longrightarrow> has_key (cl_channel_keys s) c"
  obtains i j fp enc payload raw mid sa sb osa own where
    "\<forall>key. channel_key s (current_channel s) = Some key \<longrightarrow>
      encrypt_for_channel (lb_crypto lb) (wd_rnd w (cl_tick s) 12) content (the (current_channel s)) key fp = Inr enc"
    and "create_bitchat_message_payload_full (wd_ts w (Suc i)) (wd_uuid w i) (cl_nickname s) content
       (current_channel s) False (cl_id s) (channel_key s (current_channel s) \<noteq> None)
       (if channel_key s (current_channel s) = None then None else Some enc) = Inr (payload, mid)"
    and "create_bitchat_packet_with_signature (wd_ts w (Suc j)) (wd_rnd w (Suc (Suc j))) (cl_id s) MESSAGE
       payload None = Inr raw"
    and "cl_client sa" and "cl_characteristic sa" and "cl_id sa = cl_id s"
    and "client_send_packet w raw sa = (Inr (), sb, osa)" and "os = osa @ [Own_shown own]"
proof -
  have k: "(case current_channel s of Some (c # cs) \<Rightarrow> dict_get (cl_channel_keys s) (c # cs) | _ \<Rightarrow> None) =
      channel_key s (current_channel s)"
    using assms(4) by (auto simp: channel_key_def split: option.split list.split)
  have g: "\<not> (case current_channel s of Some c \<Rightarrow> c \<in> set (cl_protected s) \<and> \<not> has_key (cl_channel_keys s) c | None \<Rightarrow> False)"
    using assms(5) by (auto split: option.split)
  have e: "client_send_public lb w content s =
      bindA (line_payload lb w content s) (\<lambda>(payload, mid).
       bindA (ask (wd_now w)) (\<lambda>now.
       seqA (modA (\<lambda>s. s\<lparr>cl_tracker := track_message now mid content False (cl_tracker s)\<rparr>))
       (bindA (packetA w MESSAGE payload None) (\<lambda>pkt.
        seqA (client_send_packet w pkt) (show_own w content False (current_channel s) None))))) s"
    using assms(2,3)
    by (simp only: client_send_public_def getA_def Let_def current_channel_def [symmetric] k g
        line_payload_def [symmetric] simp_thms if_False)
  obtain payload mid s0 os0 j where p: "line_payload lb w content s s = (Inr (payload, mid), s0, os0)"
    and t: "bindA (ask (wd_now w)) (\<lambda>now.
       seqA (modA (\<lambda>s. s\<lparr>cl_tracker := track_message now mid content False (cl_tracker s)\<rparr>))
       (bindA (packetA w MESSAGE payload None) (\<lambda>pkt.
        seqA (client_send_packet w pkt) (show_own w content False (current_channel s) None)))) s0 = (Inr (), s', j)"
    "os = os0 @ j"
    using assms(1) unfolding e by (rule bindA_Inr [THEN iffD1, elim_format]) auto
  obtain i m fp enc where l: "os0 = []" "s0 = s\<lparr>cl_tick := m\<rparr>"
    "\<forall>key. channel_key s (current_channel s) = Some key \<longrightarrow>
      encrypt_for_channel (lb_crypto lb) (wd_rnd w (cl_tick s) 12) content (the (current_channel s)) key fp = Inr enc"
    "create_bitchat_message_payload_full (wd_ts w (Suc i)) (wd_uuid w i) (cl_nickname s) content
       (current_channel s) False (cl_id s) (channel_key s (current_channel s) \<noteq> None)
       (if channel_key s (current_channel s) = None then None else Some enc) = Inr (payload, mid)"
    by (rule line_payload_run [OF p])
  let ?s1 = "s\<lparr>cl_tracker := track_message (wd_now w m) mid content False (cl_tracker s), cl_tick := Suc (Suc (Suc m))\<rparr>"
  from t l(1,2) obtain raw s2 os1 own where
    "create_bitchat_packet_with_signature (wd_ts w (Suc m)) (wd_rnd w (Suc (Suc m))) (cl_id s) MESSAGE
       payload None = Inr raw"
    "client_send_packet w raw ?s1 = (Inr (), s2, os1)" "os = os1 @ [Own_shown own]"
    by (auto simp: bindA_Inr seqA_Inr ask_run modA_def packetA_def liftA_Inr getA_def show_own_def outA_def)
  with l(3,4) assms(2,3) show thesis by (intro that [where i = i and j = m and sa = ?s1]) simp_all
qed

subsection \<open>Showing\<close>

lemma display_public:
  "\<exists>s' os. display_message lb w m pid False s =
    (Inr (), s', [Shown m (format_message_display (wd_hhmm w (cl_tick s)) (peer_name pid s) (shown_content lb m s)
       False (msg_channel m \<noteq> None \<and> msg_channel m \<noteq> Some []) (msg_channel m) None (cl_nickname s))])"
  by (simp add: display_message_def getA_def Let_def seqA_modA ask_run bindA_def seqA_def outA_def ret_def modA_def)

lemma first_output:
  assumes "n s = seqA m k t" and "m t = (Inr (), s1, [x])"
  shows "\<exists>s' rest. tryA n any_error (ret ()) s = (Inr (), s', x # rest)"
proof -
  obtain r s2 os where "k s1 = (r, s2, os)" by (rule prod_cases3)
  with assms show ?thesis
    by (cases r) (simp_all add: tryA_def seqA_def bindA_def any_error_def ret_def)
qed

lemma handle_public:
  assumes "parse_bitchat_message_payload payload = Inr m" and "client_new_to lb (msg_id m) s"
    and "\<not> client_is_blocked lb (hex ia) s"
  shows "\<exists>s' rest. client_handle_packet lb w (Suc d)
      \<lparr>pkt_type = MESSAGE, pkt_sender_id = ia, pkt_sender_id_str = hex ia,
       pkt_recipient_id = Some BROADCAST_RECIPIENT, pkt_recipient_id_str = Some (hex BROADCAST_RECIPIENT),
       pkt_payload = payload, pkt_ttl = 7\<rparr> raw s =
    (Inr (), s', Shown m (format_message_display (wd_hhmm w (cl_tick s)) (peer_name (hex ia) s) (shown_content lb m s)
       False (msg_channel m \<noteq> None \<and> msg_channel m \<noteq> Some []) (msg_channel m) None (cl_nickname s)) # rest)"
proof -
  let ?pk = "\<lparr>pkt_type = MESSAGE, pkt_sender_id = ia, pkt_sender_id_str = hex ia,
       pkt_recipient_id = Some BROADCAST_RECIPIENT, pkt_recipient_id_str = Some (hex BROADCAST_RECIPIENT),
       pkt_payload = payload, pkt_ttl = 7\<rparr>"
  let ?s = "s\<lparr>cl_bloom := cl_bloom s @ [msg_id m], cl_processed := insert (msg_id m) (cl_processed s)\<rparr>"
  have same: "shown_content lb m ?s = shown_content lb m s" "peer_name (hex ia) ?s = peer_name (hex ia) s"
    by (simp_all add: shown_content_def peer_name_def cong: option.case_cong list.case_cong sum.case_cong)
  obtain s1 where d: "display_message lb w m (hex ia) False ?s = (Inr (), s1,
      [Shown m (format_message_display (wd_hhmm w (cl_tick s)) (peer_name (hex ia) s) (shown_content lb m s)
       False (msg_channel m \<noteq> None \<and> msg_channel m \<noteq> Some []) (msg_channel m) None (cl_nickname s))])"
    using display_public [of lb w m "hex ia" ?s] unfolding same by auto
  have "client_deliver lb w ?pk raw False m s = seqA (display_message lb w m (hex ia) False)
      (getA (\<lambda>s. seqA
          (if should_send_ack False (msg_channel m) None (cl_nickname s) (length (cl_peers s))
           then client_send_ack lb w (msg_id m) (pkt_sender_id_str ?pk) False else ret ())
          (client_relay w ?pk raw))) ?s"
    using client_new_toD [OF assms(2)] by (simp add: client_deliver_def client_once_def getA_def [of _ s] seqA_modA)
  then have "\<exists>s' rest. tryA (client_deliver lb w ?pk raw False m) any_error (ret ()) s =
    (Inr (), s', Shown m (format_message_display (wd_hhmm w (cl_tick s)) (peer_name (hex ia) s) (shown_content lb m s)
       False (msg_channel m \<noteq> None \<and> msg_channel m \<noteq> Some []) (msg_channel m) None (cl_nickname s)) # rest)"
    by (rule first_output [where m = "display_message lb w m (hex ia) False" and t = ?s, OF _ d])
  moreover have "is_broadcast ?pk"
    by (simp add: is_broadcast_def BROADCAST_RECIPIENT_def split: list.split)
  then have "client_handle_packet lb w (Suc d) ?pk raw s = tryA (client_deliver lb w ?pk raw False m) any_error (ret ()) s"
    using assms(1,3)
    by (simp add: client_handle_message_def getA_def Let_def bindA_liftA)
  ultimately show ?thesis by simp
qed

text \<open>The client \<open>B\<close> can read what \<open>A\<close> says on its current channel: it has the key \<open>A\<close> has.\<close>

definition same_channel_key :: "client \<Rightarrow> client \<Rightarrow> bool" where
  "same_channel_key A B \<longleftrightarrow> channel_key B (current_channel A) = channel_key A (current_channel A)"

lemma shown_content_sent:
  assumes "crypto_ok (lb_crypto lb)" and "length rnd = 12" and "ch \<noteq> Some []"
    and "\<forall>key. channel_key s ch = Some key \<longrightarrow> encrypt_for_channel (lb_crypto lb) rnd content (the ch) key fp = Inr enc"
  shows "shown_content lb \<lparr>msg_id = mid, msg_content = (if channel_key s ch \<noteq> None then [] else content),
      msg_channel = ch, msg_is_encrypted = (channel_key s ch \<noteq> None),
      msg_encrypted_content = (if channel_key s ch \<noteq> None then Some enc else None)\<rparr> s = content"
proof (cases "channel_key s ch")
  case (Some key)
  then obtain c cs where ch: "ch = Some (c # cs)" "dict_get (cl_channel_keys s) (c # cs) = Some key"
    using assms(3) by (cases ch; cases "the ch") (auto simp: channel_key_def)
  have e: "encrypt_for_channel (lb_crypto lb) rnd content (c # cs) key fp = Inr enc" using assms(4) Some ch(1) by simp
  then obtain plain where k: "check_key key = Inr ()" "utf8_encode content = Inr plain"
    "enc = rnd @ aead_enc (lb_crypto lb) key rnd plain []"
    by (auto simp: encrypt_for_channel_def bindE_eq_Inr)
  then have "decrypt_from_channel (lb_crypto lb) enc (c # cs) key g = Inr content" for g
    using assms(1,2) utf8_decode_encode by (simp add: decrypt_from_channel_def crypto_okD check_key_def split: if_splits)
  with Some ch show ?thesis by (simp add: shown_content_def)
qed (simp add: shown_content_def)

text \<open>The payload of a line, in the clear or encrypted with the key \<open>k\<close> of the channel.\<close>

lemma line_read_back:
  assumes "length nonce = 12"
    and "\<forall>key. k = Some key \<longrightarrow> encrypt_for_channel cr nonce content c key fp = Inr enc"
    and p: "create_bitchat_message_payload_full ts u nick content channel False me (k \<noteq> None)
       (if k = None then None else Some enc) = Inr (payload, mid)"
    and "channel \<noteq> Some []"
  shows "parse_bitchat_message_payload payload = Inr \<lparr>msg_id = u, msg_content = (if k \<noteq> None then [] else content),
    msg_channel = channel, msg_is_encrypted = (k \<noteq> None), msg_encrypted_content = (if k \<noteq> None then Some enc else None)\<rparr>"
proof (cases k)
  case None
  then show ?thesis using payload_read_back [OF p] assms(4) by simp
next
  case (Some key)
  with assms(2) have "encrypt_for_channel cr nonce content c key fp = Inr enc" by blast
  then have "12 \<le> length enc" using assms(1) by (auto simp: encrypt_for_channel_def bindE_eq_Inr)
  then obtain b bs where "enc = b # bs" by (cases enc) auto
  with Some show ?thesis using payload_read_back [OF p] assms(4) by (simp add: content_field_def)
qed

text \<open>
  C17: what is said is shown. When the send of a line on the public chat or on the current channel of a connected
  client returns, the bytes it hands to its link are one packet; another client that handles that packet, does
  not block the sender, handles the message as new (it has not processed it, and its Bloom filter of 500
  entries has room) and holds the same key for the channel, if there is one, shows exactly the line, under
  the nickname it knows the sender by. The sender's identifier has eight bytes of which the last is not
  zero, it holds the key of its channel if the channel is protected, and its link works. On a channel with
  a key the message has no clear content; its encrypted content is the line encrypted with the channel's key.
\<close>

theorem public_message_shown:
  assumes "crypto_ok (lb_crypto lb)" and "reliable w" and "cl_client A" and "cl_characteristic A"
    and "cl_id A = hex ia" and "length ia = 8" and "last ia \<noteq> 0" and "current_channel A \<noteq> Some []"
    and "\<forall>c. current_channel A = Some c \<longrightarrow> c \<in> set (cl_protected A) \<longrightarrow> has_key (cl_channel_keys A) c"
    and "client_send_public lb w content A = (Inr (), A', os)"
    and "\<not> client_is_blocked lb (cl_id A) B" and "\<forall>i. client_new_to lb (wd_uuid w i) B" and "same_channel_key A B"
  shows "\<exists>raw pk m A1 A2 osa own B' rest.
    client_send_packet w raw A1 = (Inr (), A2, osa) \<and> cl_client A1 \<and> cl_characteristic A1 \<and> cl_id A1 = cl_id A \<and>
    os = osa @ [Own_shown own] \<and> parse_bitchat_packet (lb_lz4 lb) raw = Inr pk \<and>
    parse_bitchat_message_payload (pkt_payload pk) = Inr m \<and>
    (\<forall>key. channel_key A (current_channel A) = Some key \<longrightarrow> msg_content m = [] \<and>
      (\<exists>enc fp. msg_encrypted_content m = Some enc \<and> encrypt_for_channel (lb_crypto lb) (wd_rnd w (cl_tick A) 12)
        content (the (current_channel A)) key fp = Inr enc)) \<and>
    client_handle_packet lb w' (Suc d) pk raw B = (Inr (), B', Shown m (format_message_display
      (wd_hhmm w' (cl_tick B)) (peer_name (cl_id A) B) content False (current_channel A \<noteq> None)
      (current_channel A) None (cl_nickname B)) # rest)"
proof -
  obtain i j fp enc payload raw mid A1 A2 osa own where
    e: "\<forall>key. channel_key A (current_channel A) = Some key \<longrightarrow>
      encrypt_for_channel (lb_crypto lb) (wd_rnd w (cl_tick A) 12) content (the (current_channel A)) key fp = Inr enc"
    and p: "create_bitchat_message_payload_full (wd_ts w (Suc i)) (wd_uuid w i) (cl_nickname A) content
       (current_channel A) False (cl_id A) (channel_key A (current_channel A) \<noteq> None)
       (if channel_key A (current_channel A) = None then None else Some enc) = Inr (payload, mid)"
    and r: "create_bitchat_packet_with_signature (wd_ts w (Suc j)) (wd_rnd w (Suc (Suc j))) (cl_id A) MESSAGE
       payload None = Inr raw"
    and snd: "cl_client A1" "cl_characteristic A1" "cl_id A1 = cl_id A"
      "client_send_packet w raw A1 = (Inr (), A2, osa)" "os = osa @ [Own_shown own]"
    by (rule send_public_run [OF assms(10,3,4,8)]) (use assms(9) in blast)+
  let ?k = "channel_key A (current_channel A)"
  let ?m = "\<lparr>msg_id = wd_uuid w i, msg_content = (if ?k \<noteq> None then [] else content), msg_channel = current_channel A,
     msg_is_encrypted = (?k \<noteq> None), msg_encrypted_content = (if ?k \<noteq> None then Some enc else None)\<rparr>"
  have l: "length (wd_rnd w (cl_tick A) 12) = 12" using assms(2) by (simp add: reliable_def)
  have m: "parse_bitchat_message_payload payload = Inr ?m" using line_read_back [OF l e p assms(8)] .
  have pk: "parse_bitchat_packet (lb_lz4 lb) raw = Inr \<lparr>pkt_type = MESSAGE, pkt_sender_id = ia, pkt_sender_id_str = hex ia,
    pkt_recipient_id = Some BROADCAST_RECIPIENT, pkt_recipient_id_str = Some (hex BROADCAST_RECIPIENT),
    pkt_payload = payload, pkt_ttl = 7\<rparr>"
    using parse_public [OF r [unfolded assms(5)] assms(6,7)] .
  have c: "shown_content lb ?m B = content"
    using shown_content_sent [OF assms(1) _ assms(8), of "wd_rnd w (cl_tick A) 12" B content fp enc "wd_uuid w i"]
      l assms(13) e by (simp add: same_channel_key_def)
  have ch: "(current_channel A \<noteq> None \<and> current_channel A \<noteq> Some []) = (current_channel A \<noteq> None)"
    using assms(8) by blast
  have b0: "client_new_to lb (msg_id ?m) B" "\<not> client_is_blocked lb (hex ia) B" using assms(5,11,12) by simp_all
  obtain B' rest where b: "client_handle_packet lb w' (Suc d) \<lparr>pkt_type = MESSAGE, pkt_sender_id = ia, pkt_sender_id_str = hex ia,
    pkt_recipient_id = Some BROADCAST_RECIPIENT, pkt_recipient_id_str = Some (hex BROADCAST_RECIPIENT),
    pkt_payload = payload, pkt_ttl = 7\<rparr> raw B = (Inr (), B', Shown ?m (format_message_display
      (wd_hhmm w' (cl_tick B)) (peer_name (cl_id A) B) content False (current_channel A \<noteq> None)
      (current_channel A) None (cl_nickname B)) # rest)"
    using handle_public [OF m b0, of w' d raw] unfolding c message.select_convs ch assms(5) by blast
  have k: "\<forall>key. ?k = Some key \<longrightarrow> msg_content ?m = [] \<and> (\<exists>enc fp. msg_encrypted_content ?m = Some enc \<and>
      encrypt_for_channel (lb_crypto lb) (wd_rnd w (cl_tick A) 12) content (the (current_channel A)) key fp = Inr enc)"
    using e by auto
  show ?thesis
    by (intro exI conjI, rule snd(4), rule snd(1), rule snd(2), rule snd(3), rule snd(5), rule pk)
      (simp only: packet.select_convs m, rule k, rule b)
qed

text \<open>Two clients in the channel \<open>#a\<close> with the same key.\<close>

definition example_talker :: "bytes \<Rightarrow> client" where
  "example_talker me =
     (client_init me [9] Absent)
     \<lparr>cl_client := True, cl_characteristic := True, cl_chat := switch_to_channel (lit ''#a'') chat_init,
      cl_protected := [lit ''#a''], cl_channel_keys := [(lit ''#a'', replicate 32 7)]\<rparr>"

lemma example_payload_channel:
  assumes "length enc = 30"
  shows "\<exists>payload. create_bitchat_message_payload_full 5 (lit ''m'' @ [49]) (lit ''my-python-client'') (lit ''hi'')
      (Some (lit ''#a'')) False (hex [1, 2, 3, 4, 5, 6, 7, 8]) True (Some enc) =
      Inr (payload, lit ''m'' @ [49]) \<and> length payload < 100"
proof -
  have h: "hex [1, 2, 3, 4, 5, 6, 7, 8] = [48,49,48,50,48,51,48,52,48,53,48,54,48,55,48,56]" by code_simp
  obtain b bs where "enc = b # bs" using assms by (cases enc) auto
  with assms show ?thesis unfolding h
    by (simp add: create_bitchat_message_payload_full_def pack_Q_def pack_H_def write_text8_def
        write_len8_def content_field_def utf8_enc1_def lit_def byte_of_def)
qed

lemma example_said:
  "\<exists>s' os. client_send_public example_libs example_world (lit ''hi'') (example_talker [1, 2, 3, 4, 5, 6, 7, 8]) =
     (Inr (), s', os)"
proof -
  let ?s = "example_talker [1, 2, 3, 4, 5, 6, 7, 8]" and ?me = "hex [1, 2, 3, 4, 5, 6, 7, 8]"
  define enc where "enc = replicate 12 0 @ [104, 105] @ fit 16 (replicate 12 0 :: bytes)"
  have e: "encrypt_for_channel (lb_crypto example_libs) (wd_rnd example_world 0 12) (lit ''hi'') (lit ''#a'')
      (replicate 32 7) [] = Inr enc"
    by (simp add: encrypt_for_channel_def check_key_def example_libs_def example_world_def plain_crypto_def
        lit_def utf8_enc1_def enc_def)
  have "length enc = 30" by (simp add: enc_def)
  then obtain payload where p: "create_bitchat_message_payload_full 5 (lit ''m'' @ [49]) (lit ''my-python-client'') (lit ''hi'')
      (Some (lit ''#a'')) False ?me True (Some enc) = Inr (payload, lit ''m'' @ [49])" "length payload < 100"
    using example_payload_channel by blast
  have r: "recipient_field None = Inr BROADCAST_RECIPIENT" by (simp add: recipient_field_def)
  obtain raw where raw: "create_bitchat_packet_with_recipient 5 (\<lambda>n. replicate n 0) ?me None MESSAGE payload None = Inr raw"
    "length raw \<le> length payload + 285"
    using create_succeeds [OF fromhex_hex _ _ r, of 5 payload "\<lambda>n. replicate n 0"] p(2) by fastforce
  have w: "reliable example_world" by (simp add: reliable_def example_world_def)
  have f: "cl_id ?s = ?me" "cl_nickname ?s = lit ''my-python-client''" "cl_tick ?s = 0" "cc_mode (cl_chat ?s) = Channel (lit ''#a'')"
    "cl_client ?s" "cl_characteristic ?s" "cl_protected ?s = [lit ''#a'']" "cl_creators ?s = []"
    "cl_channel_keys ?s = [(lit ''#a'', replicate 32 7)]" "lit ''#a'' = 35 # [97]"
    by (simp_all add: example_talker_def client_init_def switch_to_channel_def lit_def)
  have q: "wd_ts example_world i = 5" "wd_rnd example_world i = (\<lambda>n. replicate n 0)" "wd_uuid example_world i = lit ''m'' @ [i + 48]" for i
    by (simp_all add: example_world_def)
  show ?thesis
    using e p raw send_short [OF w]
    by (simp add: client_send_public_def getA_def f q Let_def has_key_def bindA_def ask_run liftA_def payloadA_def
        seqA_def modA_def packetA_def create_bitchat_packet_with_signature_def show_own_def outA_def)
qed

theorem public_message_shown_witness:
  "\<exists>raw pk m B' rest text.
    parse_bitchat_packet (lb_lz4 example_libs) raw = Inr pk \<and>
    parse_bitchat_message_payload (pkt_payload pk) = Inr m \<and> msg_content m = [] \<and>
    client_handle_packet example_libs example_world 1 pk raw (example_talker [9]) =
      (Inr (), B', Shown m (format_message_display (lit ''12:00'') text (lit ''hi'') False True (Some (lit ''#a'')) None
        (lit ''my-python-client'')) # rest)"
proof -
  let ?A = "example_talker [1, 2, 3, 4, 5, 6, 7, 8]" and ?B = "example_talker [9]"
  obtain A' os where s: "client_send_public example_libs example_world (lit ''hi'') ?A = (Inr (), A', os)"
    using example_said by blast
  have f: "cl_id ?A = hex [1, 2, 3, 4, 5, 6, 7, 8]" "current_channel ?A = Some (lit ''#a'')" "cl_client ?A"
    "cl_characteristic ?A" "lit ''#a'' \<noteq> []" "channel_key ?A (Some (lit ''#a'')) = Some (replicate 32 7)"
    "channel_key ?B (Some (lit ''#a'')) = Some (replicate 32 7)" "cl_processed ?B = {}" "cl_bloom ?B = []" "cl_tick ?B = 0"
    "cl_nickname ?B = lit ''my-python-client''" "has_key (cl_channel_keys ?A) (lit ''#a'')"
    by (simp_all add: example_talker_def client_init_def switch_to_channel_def lit_def current_channel_def
        channel_key_def has_key_def)
  have r: "reliable example_world" "crypto_ok (lb_crypto example_libs)" "wd_hhmm example_world 0 = lit ''12:00''"
    by (simp_all add: reliable_def example_world_def example_libs_def crypto_ok_plain)
  have b: "\<not> client_is_blocked example_libs p ?B" for p
    by (simp add: client_is_blocked_def example_talker_def client_init_def get_peer_fingerprint_def service_init_def)
  have n: "client_new_to example_libs i ?B" for i by (rule client_new_to_empty [OF f(8,9)])
  have k: "same_channel_key ?A ?B" by (simp add: same_channel_key_def f)
  show ?thesis
    using public_message_shown [OF r(2,1) f(3,4,1), of "lit ''hi''" A' os ?B example_world 0] s b k n f r(3)
    by (fastforce simp del: client_handle_packet.simps)
qed

subsection \<open>What the client does not do\<close>

text \<open>
  \<open>/clear\<close> always ends with an \<open>AttributeError\<close>, whatever is on the screen; and an acknowledgment that
  arrives as a packet of its own, as \<open>send_delivery_ack\<close> of the other client sends it, changes nothing and
  is not reported.
\<close>

lemma clear_fails: "fst (handle_user_input lb w (lit ''/clear'') s) = Inl AttributeError"
  by (simp add: handle_user_input_def clear_command_def lit_def starts_with_def is_digits_def action_defs noteA_def)

lemma acknowledgment_ignored:
  "pkt_type pk = DELIVERY_ACK \<Longrightarrow> client_handle_packet lb w (Suc d) pk raw s = (Inr (), s, [])"
  by (simp add: ret_def)

text \<open>
  A key exchange with a peer that has not announced itself never leaves a session: when the message
  that completes it has been processed, the client starts another handshake, which removes the
  session.
\<close>

definition no_session_gained :: "pystr \<Rightarrow> client \<Rightarrow> client_output list \<Rightarrow> client \<Rightarrow> bool" where
  "no_session_gained pid s os s' \<longleftrightarrow>
     (is_session_established pid (cl_enc s') \<longrightarrow> is_session_established pid (cl_enc s))"

interpretation keyless: composing "no_session_gained pid" for pid
  by unfold_locales (auto simp: no_session_gained_def)

interpretation keyless: sending "no_session_gained pid" for pid
proof unfold_locales
  show "obeys (no_session_gained pid) client_disconnect"
    unfolding client_disconnect_def noteA_def
    by (intro keyless.obeys_seqA keyless.obeys_modA keyless.obeys_outA)
      (simp_all add: no_session_gained_def is_session_established_def has_key_def)
qed (simp_all add: no_session_gained_def)

lemma initiate_removes_session: "\<not> is_session_established pid (snd (initiate_handshake cr eph pid enc))"
  by (simp add: initiate_handshake_def is_session_established_def has_key_def Let_def split: sum.split prod.split)

lemma client_initiate_removes_session:
  "client_initiate lb w pid s = (r, s', os) \<Longrightarrow> \<not> is_session_established pid (cl_enc s')"
  using initiate_removes_session [of pid "lb_crypto lb" "wd_eph w (cl_tick s)" "cl_enc s"]
  by (auto simp: client_initiate_def bindA_def ask_run getA_def seqA_def modA_def liftA_def split: prod.splits)

theorem key_exchange_discards_session:
  assumes "client_process lb w (pkt_sender_id_str pk) (pkt_payload pk) s = (Inr None, s1, os1)"
    and "\<not> has_key (cl_peers s1) (pkt_sender_id_str pk)"
  shows "\<not> is_session_established (pkt_sender_id_str pk)
    (cl_enc (fst (snd (client_handle_key_exchange lb w pk s))))"
proof (cases "is_session_established (pkt_sender_id_str pk) (cl_enc s1)")
  case True
  let ?p = "pkt_sender_id_str pk"
  obtain r s2 os2 where i: "client_initiate lb w ?p s1 = (r, s2, os2)" by (rule prod_cases3)
  note gone = client_initiate_removes_session [OF i]
  have create: "\<not> is_session_established ?p (cl_enc s3)" if "packetA w KEY_EXCHANGE msg None s2 = (q, s3, os3)" for msg q s3 os3
    using obeysD [OF keyless.sends_create(1) that, of ?p] gone by (simp add: no_session_gained_def)
  have send: "\<not> is_session_established ?p (cl_enc s4)"
    if "client_send_packet w raw s3 = (q, s4, os4)" and "\<not> is_session_established ?p (cl_enc s3)" for raw q s3 s4 os4
    using obeysD [OF keyless.sends_packet(1) that(1), of ?p] that(2) by (simp add: no_session_gained_def)
  from True assms i gone show ?thesis
    by (auto simp: client_handle_key_exchange_def Let_def tryA_def any_error_def bindA_def seqA_def ret_def getA_def
        split: prod.split sum.split dest: create send)
next
  case False
  with assms show ?thesis
    by (auto simp: client_handle_key_exchange_def Let_def tryA_def bindA_def seqA_def ret_def getA_def)
qed

end
