(* ===== verification/Interop.thy ===== *)
theory Interop
  imports Chat
begin

text \<open>
  The daemon and the terminal client speak the same protocol: a private message that a daemon sends
  over a Noise session is shown by a terminal client at the other end of the session.
\<close>

subsection \<open>Actions that begin with an output\<close>

definition begins :: "'o \<Rightarrow> ('s, 'o, 'a) action \<Rightarrow> 's \<Rightarrow> bool" where
  "begins x m s \<longleftrightarrow> (\<exists>r s' rest. m s = (r, s', x # rest))"

lemma begins_bindA: "m s = (Inr y, s1, []) \<Longrightarrow> begins x (f y) s1 \<Longrightarrow> begins x (bindA m f) s"
  by (auto simp: begins_def bindA_def)

lemma begins_seqA: "begins x m s \<Longrightarrow> begins x (seqA m n) s"
  by (auto simp: begins_def seqA_def bindA_def split: sum.split prod.split)

lemma begins_modA: "begins x (seqA (modA f) n) s \<longleftrightarrow> begins x n (f s)"
  by (simp add: begins_def seqA_modA)

lemma begins_getA: "begins x (getA f) s \<longleftrightarrow> begins x (f s) s"
  by (simp add: begins_def getA_def)

lemma begins_ask: "begins x (bindA (ask g) f) s \<longleftrightarrow> begins x (f (g (cl_tick s))) (s\<lparr>cl_tick := Suc (cl_tick s)\<rparr>)"
  by (simp add: begins_def ask_run bindA_def split: prod.split)

lemma begins_outA: "begins x (outA x) s"
  by (simp add: begins_def outA_def)

lemma begins_tryA: "begins x m s \<Longrightarrow> begins x (tryA m P h) s"
  by (auto simp: begins_def tryA_def split: sum.split prod.split)

lemma begins_caught: "begins x m s \<Longrightarrow> \<exists>s' rest. tryA m any_error (ret ()) s = (Inr (), s', x # rest)"
  by (auto simp: begins_def tryA_def any_error_def ret_def split: sum.split)

subsection \<open>The client opens a private message\<close>

lemma client_decrypt_seal:
  assumes "crypto_ok (lb_crypto lb)" and "dict_get (sv_sessions (cl_enc s)) p = Some ses" and "ready (ses_receive ses)"
  shows "client_decrypt lb p (seal (lb_crypto lb) (ses_receive ses) d []) s = (Inr d,
    s\<lparr>cl_enc := (cl_enc s)\<lparr>sv_sessions := dict_set (sv_sessions (cl_enc s)) p
      (ses\<lparr>ses_receive := next_nonce (ses_receive ses)\<rparr>)\<rparr>\<rparr>, [])"
  using assms by (simp add: client_decrypt_def decrypt_from_peer_def session_decrypt_seal action_defs)

text \<open>What a client shows for a private message with a plain text.\<close>

definition private_display :: "world \<Rightarrow> client \<Rightarrow> pystr \<Rightarrow> pystr \<Rightarrow> pystr" where
  "private_display w s pid content =
     format_message_display (wd_hhmm w (cl_tick s)) (peer_name pid s) content True False None
       (Some (cl_nickname s)) (cl_nickname s)"

lemma display_private:
  assumes "\<not> msg_is_encrypted m" and "msg_channel m = None" and "\<not> starts_with COVER_TRAFFIC_PREFIX (msg_content m)"
  shows "begins (Shown m (private_display w s pid (msg_content m))) (display_message lb w m pid True) s"
proof -
  have "shown_content lb m s = msg_content m" using assms(1) by (simp add: shown_content_def)
  then show ?thesis
    using assms(2,3)
    by (simp add: display_message_def Let_def begins_getA begins_modA begins_ask private_display_def
        begins_seqA [OF begins_outA])
qed

lemma encrypted_message_shown:
  assumes "crypto_ok (lb_crypto lb)" and "\<not> client_is_blocked lb (pkt_sender_id_str pk) s"
    and "dict_get (sv_sessions (cl_enc s)) (pkt_sender_id_str pk) = Some ses" and "ready (ses_receive ses)"
    and "pkt_payload pk = seal (lb_crypto lb) (ses_receive ses) d []" and "take 1 d = [1]"
    and "parse_bitchat_packet (lb_lz4 lb) d = Inr inner" and "pkt_type inner = MESSAGE"
    and "parse_bitchat_message_payload (pkt_payload inner) = Inr m" and "client_new_to lb (msg_id m) s"
    and "\<not> msg_is_encrypted m" and "msg_channel m = None" and "\<not> starts_with COVER_TRAFFIC_PREFIX (msg_content m)"
  shows "\<exists>s' rest. client_handle_encrypted lb w handle pk s =
    (Inr (), s', Shown m (private_display w s (pkt_sender_id_str pk) (msg_content m)) # rest)"
proof -
  let ?x = "Shown m (private_display w s (pkt_sender_id_str pk) (msg_content m))"
  let ?s1 = "s\<lparr>cl_enc := (cl_enc s)\<lparr>sv_sessions := dict_set (sv_sessions (cl_enc s)) (pkt_sender_id_str pk)
      (ses\<lparr>ses_receive := next_nonce (ses_receive ses)\<rparr>)\<rparr>\<rparr>"
  have once: "begins ?x (client_once lb (msg_id m) (seqA (display_message lb w m (pkt_sender_id_str pk) True) k)) ?s1" for k
    using display_private [OF assms(11-13), where w = w and pid = "pkt_sender_id_str pk" and lb = lb and
        s = "?s1\<lparr>cl_bloom := cl_bloom ?s1 @ [msg_id m], cl_processed := insert (msg_id m) (cl_processed ?s1)\<rparr>"]
      client_new_toD [OF assms(10)]
    by (simp add: client_once_def begins_getA begins_modA begins_seqA private_display_def peer_name_def)
  have "client_decrypt lb (pkt_sender_id_str pk) (pkt_payload pk) s = (Inr d, ?s1, [])"
    unfolding assms(5) by (rule client_decrypt_seal [OF assms(1,3,4)])
  then have "begins ?x (bindA (client_decrypt lb (pkt_sender_id_str pk) (pkt_payload pk)) (\<lambda>decrypted.
      tryA (if take 1 decrypted = [1] then
         bindA (liftA (parse_bitchat_packet (lb_lz4 lb) decrypted)) (\<lambda>inner.
         if pkt_type inner = MESSAGE then
           tryA
             (bindA (liftA (parse_bitchat_message_payload (pkt_payload inner))) (\<lambda>m.
              client_once lb (msg_id m)
                (seqA (display_message lb w m (pkt_sender_id_str pk) True)
                  (client_send_ack lb w (msg_id m) (pkt_sender_id_str pk) True))))
             any_error (ret ())
         else handle inner decrypted)
       else ret ()) any_error (ret ()))) s"
    by (rule begins_bindA) (simp only: assms(6-9) bindA_liftA if_True simp_thms once begins_tryA)
  from begins_caught [OF this] assms(2) show ?thesis
    by (simp only: client_handle_encrypted_def getA_def if_False)
qed

text \<open>The same for the notification that brings the packet.\<close>

lemma private_notification_shown:
  assumes "parse_bitchat_packet (lb_lz4 lb) raw = Inr pk" and "pkt_type pk = NOISE_ENCRYPTED"
    and "pkt_sender_id_str pk \<noteq> cl_id s"
    and "crypto_ok (lb_crypto lb)" and "\<not> client_is_blocked lb (pkt_sender_id_str pk) s"
    and "dict_get (sv_sessions (cl_enc s)) (pkt_sender_id_str pk) = Some ses" and "ready (ses_receive ses)"
    and "pkt_payload pk = seal (lb_crypto lb) (ses_receive ses) d []" and "take 1 d = [1]"
    and "parse_bitchat_packet (lb_lz4 lb) d = Inr inner" and "pkt_type inner = MESSAGE"
    and "parse_bitchat_message_payload (pkt_payload inner) = Inr m" and "client_new_to lb (msg_id m) s"
    and "\<not> msg_is_encrypted m" and "msg_channel m = None" and "\<not> starts_with COVER_TRAFFIC_PREFIX (msg_content m)"
  shows "\<exists>s' rest. notification_handler lb w (Suc n) raw s =
    (Inr (), s', Shown m (private_display w s (pkt_sender_id_str pk) (msg_content m)) # rest)"
proof -
  obtain s' rest where "client_handle_packet lb w (Suc n) pk raw s =
      (Inr (), s', Shown m (private_display w s (pkt_sender_id_str pk) (msg_content m)) # rest)"
    using encrypted_message_shown [OF assms(4-16), of w "client_handle_packet lb w n"] assms(2) by auto
  then have "notification_handler lb w (Suc n) raw s =
      (Inr (), s', Shown m (private_display w s (pkt_sender_id_str pk) (msg_content m)) # rest)"
    by (simp only: notification_handler_def assms(1,3) bindA_liftA getA_def if_False tryA_def case_prod_conv sum.case simp_thms)
  then show ?thesis by blast
qed

text \<open>
  C9: a daemon's private message reaches a terminal client. When the node A and the client B hold the
  two ends of a session and A's send returns, the one frame that A writes is a packet which B, given its
  bytes as a notification, opens and shows as a private message with exactly A's text, under the
  nickname it knows A by. A's identifier has eight bytes of which the last is not zero and differs from
  B's; A has a connection for B whose write succeeds; B must not have blocked A, the message must be new to
  B, whose Bloom filter of 500 entries has room, and not marked as cover traffic.
\<close>

theorem daemon_message_shown_by_client:
  assumes "crypto_ok (lb_crypto lb)"
    and "dict_get (sv_sessions (ms_enc A)) (cl_id B) = Some sa"
    and "dict_get (sv_sessions (cl_enc B)) (ms_id A) = Some sb"
    and "ses_send sa = ses_receive sb" and "ready (ses_send sa)"
    and "ms_id A = hex ia" and "length ia = 8" and "last ia \<noteq> 0" and "ms_id A \<noteq> cl_id B"
    and "\<not> client_is_blocked lb (ms_id A) B"
    and "dict_get (ms_addresses A) (cl_id B) = Some addr" and "addr \<noteq> []"
    and "dict_get (tr_connections (ms_transport A)) addr = Some c" and "ev_fails ev (cn_id c) = None"
    and "send_private_message lb ev content (cl_id B) nick mid A = (Inr mid', A', os)"
    and "client_new_to lb mid' B" and "\<not> starts_with COVER_TRAFFIC_PREFIX content"
  shows "\<exists>raw m B' rest.
    os = [Net (Write (cn_id c) (be_bytes 2 (length raw) @ raw))] \<and> msg_id m = mid' \<and>
    notification_handler lb w (Suc d) raw B =
      (Inr (), B', Shown m (private_display w B (ms_id A) content) # rest)"
proof -
  let ?m = "\<lparr>msg_id = mid', msg_content = content, msg_channel = None, msg_is_encrypted = False, msg_encrypted_content = None\<rparr>"
  obtain raw pk inner where os: "os = [Net (Write (cn_id c) (be_bytes 2 (length raw) @ raw))]"
    and pk: "parse_bitchat_packet (lb_lz4 lb) raw = Inr pk" "pkt_type pk = NOISE_ENCRYPTED" "pkt_sender_id_str pk = hex ia"
      "pkt_payload pk = seal (lb_crypto lb) (ses_send sa) ([1, mt_value MESSAGE, 7] @ inner) []"
    and "\<exists>ipk. parse_bitchat_packet (lb_lz4 lb) ([1, mt_value MESSAGE, 7] @ inner) = Inr ipk \<and> pkt_type ipk = MESSAGE \<and>
      parse_bitchat_message_payload (pkt_payload ipk) = Inr ?m"
    by (rule private_message_sealed [OF assms(2,5-8,11-15)])
  then obtain ipk where ip: "parse_bitchat_packet (lb_lz4 lb) ([1, mt_value MESSAGE, 7] @ inner) = Inr ipk"
    "pkt_type ipk = MESSAGE" "parse_bitchat_message_payload (pkt_payload ipk) = Inr ?m" by blast
  have "\<exists>B' rest. notification_handler lb w (Suc d) raw B =
      (Inr (), B', Shown ?m (private_display w B (pkt_sender_id_str pk) (msg_content ?m)) # rest)"
    by (rule private_notification_shown [OF pk(1,2) _ assms(1) _ _ _ pk(4) [unfolded assms(4)] _ ip])
      (use assms(3-6,9,10,16,17) pk(3) in simp_all)
  with os pk(3) assms(6) show ?thesis by auto
qed

theorem daemon_message_shown_by_client_witness:
  "\<exists>A' raw m B' rest.
    send_private_message example_libs example_env (lit ''hi'') (hex [9]) [] None
      (example_node [1, 2, 3, 4, 5, 6, 7, 8] [9] INITIATOR) =
      (Inr (lit ''m1''), A', [Net (Write 4 (be_bytes 2 (length raw) @ raw))]) \<and>
    notification_handler example_libs example_world 1 raw
      ((client_init [9] [9] Absent)\<lparr>cl_enc := (service_init [9])\<lparr>sv_sessions :=
        [(hex [1, 2, 3, 4, 5, 6, 7, 8], session_of plain_crypto 0 (hex [1, 2, 3, 4, 5, 6, 7, 8]) [9] RESPONDER [])]\<rparr>\<rparr>) =
      (Inr (), B', Shown m (format_message_display (lit ''12:00'') (hex [1, 2, 3, 4, 5, 6, 7, 8]) (lit ''hi'') True False None
        (Some (lit ''my-python-client'')) (lit ''my-python-client'')) # rest)"
proof -
  let ?A = "example_node [1, 2, 3, 4, 5, 6, 7, 8] [9] INITIATOR" and ?me = "hex [1, 2, 3, 4, 5, 6, 7, 8]"
  let ?B = "(client_init [9] [9] Absent)\<lparr>cl_enc := (service_init [9])\<lparr>sv_sessions :=
        [(?me, session_of plain_crypto 0 ?me [9] RESPONDER [])]\<rparr>\<rparr>"
  let ?sa = "session_of plain_crypto 0 (hex [9]) [9] INITIATOR []" and ?sb = "session_of plain_crypto 0 ?me [9] RESPONDER []"
  obtain A' os where send: "send_private_message example_libs example_env (lit ''hi'') (hex [9]) [] None ?A =
      (Inr (lit ''m1''), A', os)" using example_send by blast
  have f: "ms_id ?A = ?me" "cl_id ?B = hex [9]"
    "ms_addresses ?A = [(hex [9], conn_address example_conn)]"
    "tr_connections (ms_transport ?A) = [(conn_address example_conn, example_conn)]"
    "dict_get (sv_sessions (ms_enc ?A)) (hex [9]) = Some ?sa" "dict_get (sv_sessions (cl_enc ?B)) ?me = Some ?sb"
    "cl_processed ?B = {}" "cl_bloom ?B = []"
    by (simp_all add: example_node_def mesh_init_def client_init_def)
  have n: "client_new_to example_libs i ?B" for i by (rule client_new_to_empty [OF f(7,8)])
  have l: "ses_send ?sa = ses_receive ?sb" "ready (ses_send ?sa)"
    using linked_session_of [OF crypto_ok_plain] by (simp_all add: linked_def)
  have e: "crypto_ok (lb_crypto example_libs)" "ev_fails example_env (cn_id example_conn) = None"
    "cn_id example_conn = 4" "conn_address example_conn \<noteq> []" "\<not> client_is_blocked example_libs (ms_id ?A) ?B"
    "\<not> starts_with COVER_TRAFFIC_PREFIX (lit ''hi'')" "?me \<noteq> hex [9]"
    by (simp_all add: example_libs_def example_env_def example_conn_def crypto_ok_plain conn_address_def
        client_is_blocked_def client_init_def starts_with_def COVER_TRAFFIC_PREFIX_def lit_def split: option.split)
  have g: "private_display example_world ?B ?me (lit ''hi'') = format_message_display (lit ''12:00'') ?me (lit ''hi'') True False None
        (Some (lit ''my-python-client'')) (lit ''my-python-client'')"
    by (simp add: private_display_def example_world_def peer_name_def client_init_def)
  obtain raw m B' rest where "os = [Net (Write 4 (be_bytes 2 (length raw) @ raw))]"
    "notification_handler example_libs example_world 1 raw ?B =
      (Inr (), B', Shown m (private_display example_world ?B ?me (lit ''hi'')) # rest)"
    using daemon_message_shown_by_client [of example_libs ?A ?B ?sa ?sb "[1, 2, 3, 4, 5, 6, 7, 8]"
        "conn_address example_conn" example_conn example_env "lit ''hi''" "[]" None "lit ''m1''" A' os example_world 0] e l n send
    unfolding f by auto
  with send show ?thesis unfolding g by blast
qed

end
