(* ===== verification/Whisper.thy ===== *)
theory Whisper
  imports Interop Rendezvous
begin

text \<open>
  A private message from one terminal client to another: from the call that sends it, over the
  frames on the link, however many, to the line on the other screen.
\<close>

subsection \<open>Sending\<close>

lemma packet_toA_run:
  assumes "create_bitchat_packet_with_recipient (wd_ts w (cl_tick s)) (wd_rnd w (Suc (cl_tick s))) (cl_id s) (Some p) t payload sg = Inr raw"
  shows "packet_toA w p t payload sg s = (Inr raw, s\<lparr>cl_tick := Suc (Suc (cl_tick s))\<rparr>, [])"
  using assms by (simp add: packet_toA_def bindA_def ask_run getA_def liftA_def)

lemma client_encrypt_ready:
  assumes "dict_get (sv_sessions (cl_enc s)) p = Some ses" and "ready (ses_send ses)"
  shows "\<exists>enc. client_encrypt lb p d s = (Inr (seal (lb_crypto lb) (ses_send ses) d []), s\<lparr>cl_enc := enc\<rparr>, [])"
  using assms by (auto simp: client_encrypt_def getA_def encrypt_for_peer_def session_encrypt_ready seqA_modA liftA_def)

lemma show_own_run: "\<exists>own n. show_own w content pr ch r s = (Inr (), s\<lparr>cl_tick := n\<rparr>, [Own_shown own])"
  by (auto simp: show_own_def bindA_def ask_run getA_def outA_def)

text \<open>The run of \<open>send_private_message\<close> up to the packet that it hands to the link.\<close>

lemma client_private_run:
  assumes "reliable w" and "crypto_ok (lb_crypto lb)" and "full_id ia" and "full_id ib" and "cl_id s = hex ia"
    and "cl_client s" and "cl_characteristic s"
    and "dict_get (sv_sessions (cl_enc s)) (hex ib) = Some ses" and "ready (ses_send ses)"
    and "fits 255 (wd_uuid w (cl_tick s))" and "fits 255 (cl_nickname s)" and "fits 60000 content"
  obtains raw pk ipk inner s1 where "cl_client s1" and "cl_characteristic s1" and "cl_id s1 = hex ia" and "length raw < 65536"
    and "\<forall>s2 os. client_send_packet w raw s1 = (Inr (), s2, os) \<longrightarrow>
      (\<exists>s' own. client_send_private lb w content (hex ib) nick mid s = (Inr (), s', os @ [Own_shown own]))"
    and "parse_bitchat_packet (lb_lz4 lb) raw = Inr pk" and "pkt_type pk = NOISE_ENCRYPTED"
    and "pkt_sender_id_str pk = hex ia"
    and "pkt_payload pk = seal (lb_crypto lb) (ses_send ses) ([1, mt_value MESSAGE, 7] @ inner) []"
    and "parse_bitchat_packet (lb_lz4 lb) ([1, mt_value MESSAGE, 7] @ inner) = Inr ipk" and "pkt_type ipk = MESSAGE"
    and "parse_bitchat_message_payload (pkt_payload ipk) = Inr \<lparr>msg_id = wd_uuid w (cl_tick s), msg_content = content,
        msg_channel = None, msg_is_encrypted = False, msg_encrypted_content = None\<rparr>"
proof -
  let ?t = "cl_tick s" and ?u = "wd_uuid w (cl_tick s)"
  have w: "wd_ts w i < 2 ^ 64" "length (wd_rnd w i k) = k" for i k using assms(1) by (simp_all add: reliable_def)
  obtain payload where p: "create_bitchat_message_payload_full (wd_ts w (Suc ?t)) ?u (cl_nickname s) content None True
      (hex ia) False None = Inr (payload, ?u)" "length payload < 60700"
    using written_payload [OF w(1) assms(3,10-12)] by blast
  obtain inner where i: "create_bitchat_packet_with_recipient (wd_ts w (?t + 3)) (wd_rnd w (?t + 4)) (hex ia) (Some (hex ib)) MESSAGE payload None =
      Inr inner" "length (set_ttl inner 7) \<le> length payload + 285"
      "parse_bitchat_packet (lb_lz4 lb) (set_ttl inner 7) = Inr (letter ia ib MESSAGE payload 7)"
    using written_letter [OF w assms(3,4), of payload 7] p(2) by fastforce
  let ?d = "seal (lb_crypto lb) (ses_send ses) (set_ttl inner 7) []"
  have d: "length ?d < 65000" using i(2) p(2) by (simp add: length_seal [OF assms(2)])
  obtain raw where o: "create_bitchat_packet_with_recipient (wd_ts w (?t + 5)) (wd_rnd w (?t + 6)) (hex ia) (Some (hex ib)) NOISE_ENCRYPTED ?d None =
      Inr raw" "length (set_ttl raw 7) \<le> length ?d + 285"
      "parse_bitchat_packet (lb_lz4 lb) (set_ttl raw 7) = Inr (letter ia ib NOISE_ENCRYPTED ?d 7)"
    using written_letter [OF w assms(3,4) d, of 7] by fastforce
  obtain rest rest' where h: "inner = [1, mt_value MESSAGE, 7] @ rest" "raw = [1, mt_value NOISE_ENCRYPTED, 7] @ rest'"
    using created_head [OF i(1)] created_head [OF o(1)] by blast
  then have ttl: "set_ttl inner 7 = inner" "set_ttl raw 7 = raw" by (intro set_ttl_same; simp)+
  let ?s3 = "s\<lparr>cl_tracker := track_message (wd_now w (?t + 2)) ?u content True (cl_tracker s), cl_tick := ?t + 5\<rparr>"
  obtain enc where e: "client_encrypt lb (hex ib) (set_ttl inner 7) ?s3 = (Inr ?d, ?s3\<lparr>cl_enc := enc\<rparr>, [])"
    using client_encrypt_ready [of ?s3 "hex ib" ses lb "set_ttl inner 7"] assms(8,9) by auto
  let ?s1 = "s\<lparr>cl_tracker := track_message (wd_now w (?t + 2)) ?u content True (cl_tracker s), cl_enc := enc, cl_tick := ?t + 7\<rparr>"
  have est: "is_session_established (hex ib) (cl_enc s)"
    using assms(8) by (simp add: is_session_established_def has_key_def)
  have "\<exists>s' own. client_send_private lb w content (hex ib) nick mid s = (Inr (), s', os @ [Own_shown own])"
    if "client_send_packet w raw ?s1 = (Inr (), s2, os)" for s2 os
  proof -
    obtain own n where own: "show_own w content True None (Some nick) s2 = (Inr (), s2\<lparr>cl_tick := n\<rparr>, [Own_shown own])"
      using show_own_run by blast
    have t: "?t + 2 = Suc (Suc ?t)" "?t + 3 = Suc (Suc (Suc ?t))" "?t + 4 = Suc (Suc (Suc (Suc ?t)))"
      "?t + 5 = Suc (Suc (Suc (Suc (Suc ?t))))" "?t + 6 = Suc (Suc (Suc (Suc (Suc (Suc ?t)))))"
      "?t + 7 = Suc (Suc (Suc (Suc (Suc (Suc (Suc ?t))))))" by simp_all
    note [simp] = i(1) [unfolded t] o(1) [unfolded t] e [unfolded t] that [unfolded t] p(1) own
    show ?thesis
      by (simp add: client_send_private_def getA_def assms(5-7) est bindA_def ask_run liftA_def seqA_modA packet_toA_run
          tryA_def catchA_def)
  qed
  then have run: "\<forall>s2 os. client_send_packet w raw ?s1 = (Inr (), s2, os) \<longrightarrow>
      (\<exists>s' own. client_send_private lb w content (hex ib) nick mid s = (Inr (), s', os @ [Own_shown own]))" by blast
  have m: "parse_bitchat_message_payload payload = Inr \<lparr>msg_id = ?u, msg_content = content,
        msg_channel = None, msg_is_encrypted = False, msg_encrypted_content = None\<rparr>"
    using payload_read_back [OF p(1)] by auto
  have l: "length raw < 65536" using o(2) i(2) p(2) ttl by (simp add: length_seal [OF assms(2)])
  show thesis
    by (rule that [where ipk = "letter ia ib MESSAGE payload 7" and inner = rest, OF _ _ _ l run o(3) [unfolded ttl]])
      (use assms(5-7) i(3) m h(1) ttl(1) in \<open>simp_all add: letter_def\<close>)
qed

subsection \<open>Hearing\<close>

lemma client_trace_append:
  "client_trace lb w (es @ es') s = client_trace lb w es s @ client_trace lb w es' (fold (client_step lb w) es s)"
  by (induction es arbitrary: s) (simp_all del: client_act.simps)

lemma notified_fold: "fold (client_step lb w) (map (Notification d) fs) s = notified lb w d fs s"
  by (simp add: notified_def fold_map o_def)

lemma begins_trace:
  assumes "begins x (client_act lb w e) s"
  shows "\<exists>post. client_trace lb w [e] s = x # post"
  using assms by (auto simp: begins_def simp del: client_act.simps)

text \<open>
  A packet sent over a working link is heard by the client at the other end, whether it travels whole or
  in fragments: nothing is shown before the last frame, and what the packet's handler prints first is the
  first output for the last frame.
\<close>

lemma packet_heard:
  assumes "reliable w" and "reliable w'" and "cl_client A" and "cl_characteristic A" and "cl_id A = hex ia" and "full_id ia"
    and "length raw < 65536" and "parse_bitchat_packet (lb_lz4 lb) raw = Inr pk" and "pkt_sender_id_str pk = hex ia"
    and "cl_id B \<noteq> cl_id A"
    and "\<And>i. \<not> has_key (fc_fragments (cl_collector B)) (hex (wd_rnd w i 8))"
    and "\<And>i. \<not> has_key (fc_metadata (cl_collector B)) (hex (wd_rnd w i 8))"
    and "\<And>n e. begins (x n) (client_handle_packet lb w' (Suc e) pk raw) (B\<lparr>cl_tick := n\<rparr>)"
  shows "\<exists>A' fs f n post. client_send_packet w raw A = (Inr (), A', map (\<lambda>g. Wrote g False) (fs @ [f])) \<and>
    shown_ids (client_trace lb w' (map (Notification (Suc (Suc d))) fs) B) = [] \<and>
    client_trace lb w' [Notification (Suc (Suc d)) f] (notified lb w' (Suc (Suc d)) fs B) = x n # post"
proof (cases "length raw \<le> 500")
  case True
  have "pkt_sender_id_str pk \<noteq> cl_id B" using assms(5,9,10) by simp
  moreover have "begins (x (cl_tick B)) (client_handle_packet lb w' (Suc (Suc d)) pk raw) B"
    using assms(13) [of "cl_tick B" "Suc d"] by simp
  ultimately have "begins (x (cl_tick B)) (client_act lb w' (Notification (Suc (Suc d)) raw)) B"
    by (simp only: client_act.simps notification_handler_def) (intro begins_tryA, simp only: assms(8) bindA_liftA begins_getA if_False)
  from begins_trace [OF this] obtain post where "client_trace lb w' [Notification (Suc (Suc d)) raw] B = x (cl_tick B) # post"
    by blast
  with send_short [OF assms(1,3,4) True] show ?thesis
    by (intro exI [of _ "A\<lparr>cl_tick := Suc (Suc (cl_tick A))\<rparr>"] exI [of _ "[]"] exI [of _ raw] exI [of _ "cl_tick B"]
        exI [of _ post]) (simp add: notified_def del: client_trace.simps(2))
next
  case False
  obtain A' fs f B' fragment where snd: "client_send_packet w raw A = (Inr (), A', map (\<lambda>g. Wrote g False) (fs @ [f]))"
    and B': "notified lb w' (Suc (Suc d)) fs B = B'" "still w' B (B'\<lparr>cl_collector := cl_collector B\<rparr>)"
      "shown_ids (client_trace lb w' (map (Notification (Suc (Suc d))) fs) B) = []"
    and act: "client_act lb w' (Notification (Suc (Suc d)) f) B' =
      tryA (seqA (client_handle_packet lb w' (Suc d) pk raw) (client_relay w' fragment f)) any_error (ret ())
        (B'\<lparr>cl_collector := cl_collector B\<rparr>)"
    using long_packet_flow [OF assms(1,3-5) full_idD(1,2) [OF assms(6)] _ _ assms(8,10-12), of w' "Suc d"] False assms(7) by auto
  obtain k where k: "B'\<lparr>cl_collector := cl_collector B\<rparr> = B\<lparr>cl_tick := k\<rparr>" using B'(2) assms(2) by (auto simp: still_def)
  have "begins (x k) (tryA (seqA (client_handle_packet lb w' (Suc d) pk raw) (client_relay w' fragment f)) any_error (ret ()))
      (B\<lparr>cl_tick := k\<rparr>)"
    by (intro begins_tryA begins_seqA assms(13))
  then have "begins (x k) (client_act lb w' (Notification (Suc (Suc d)) f)) B'" by (simp only: begins_def act k)
  from begins_trace [OF this] obtain post where "client_trace lb w' [Notification (Suc (Suc d)) f] B' = x k # post" by blast
  with snd B'(1,3) show ?thesis by blast
qed

text \<open>
  C7: a private line is shown at the other end, however long it is. Two terminal clients A and B hold
  the two ends of a session and their links work. When A sends a text of up to 60000 bytes to B, the send
  returns, A writes one or more frames and then shows its own line; B, notified of exactly these frames
  in their order, shows no message while it handles the frames before the last, and the first output of its
  handling of the last frame is A's text, as a private line from the nickname it knows A by. The
  identifiers of A and B have eight bytes each, of which the last is not zero, and differ; B must not have
  blocked A; the fresh message identifier and A's nickname have at most 255 bytes; the message must be new
  to B, whose Bloom filter of 500 entries must have room; the text must not be marked as cover traffic;
  and the random fragment identifiers must not collide with fragments B is still collecting.
\<close>

theorem private_line_shown:
  assumes "crypto_ok (lb_crypto lb)" and "reliable w" and "reliable w'" and "cl_client A" and "cl_characteristic A"
    and "cl_id A = hex ia" and "full_id ia" and "cl_id B = hex ib" and "full_id ib" and "cl_id B \<noteq> cl_id A"
    and "dict_get (sv_sessions (cl_enc A)) (cl_id B) = Some sa" and "dict_get (sv_sessions (cl_enc B)) (cl_id A) = Some sb"
    and "ses_send sa = ses_receive sb" and "ready (ses_send sa)" and "\<not> client_is_blocked lb (cl_id A) B"
    and "fits 255 (wd_uuid w (cl_tick A))" and "fits 255 (cl_nickname A)" and "fits 60000 content"
    and "client_new_to lb (wd_uuid w (cl_tick A)) B" and "\<not> starts_with COVER_TRAFFIC_PREFIX content"
    and "\<forall>i. \<not> has_key (fc_fragments (cl_collector B)) (hex (wd_rnd w i 8))"
    and "\<forall>i. \<not> has_key (fc_metadata (cl_collector B)) (hex (wd_rnd w i 8))"
  shows "\<exists>A' frames final own n post.
    client_send_private lb w content (cl_id B) nick mid A =
      (Inr (), A', map (\<lambda>g. Wrote g False) (frames @ [final]) @ [Own_shown own]) \<and>
    shown_ids (client_trace lb w' (map (Notification (Suc (Suc d))) frames) B) = [] \<and>
    client_trace lb w' [Notification (Suc (Suc d)) final] (notified lb w' (Suc (Suc d)) frames B) =
      Shown \<lparr>msg_id = wd_uuid w (cl_tick A), msg_content = content, msg_channel = None, msg_is_encrypted = False,
          msg_encrypted_content = None\<rparr> (private_display w' (B\<lparr>cl_tick := n\<rparr>) (cl_id A) content) # post"
proof -
  let ?m = "\<lparr>msg_id = wd_uuid w (cl_tick A), msg_content = content, msg_channel = None, msg_is_encrypted = False,
    msg_encrypted_content = None\<rparr>"
  obtain raw pk ipk inner A1 where A1: "cl_client A1" "cl_characteristic A1" "cl_id A1 = hex ia" and len: "length raw < 65536"
    and run: "\<forall>s2 os. client_send_packet w raw A1 = (Inr (), s2, os) \<longrightarrow>
      (\<exists>s' own. client_send_private lb w content (hex ib) nick mid A = (Inr (), s', os @ [Own_shown own]))"
    and pk: "parse_bitchat_packet (lb_lz4 lb) raw = Inr pk" "pkt_type pk = NOISE_ENCRYPTED" "pkt_sender_id_str pk = hex ia"
    and pp: "pkt_payload pk = seal (lb_crypto lb) (ses_send sa) ([1, mt_value MESSAGE, 7] @ inner) []"
    and ip: "parse_bitchat_packet (lb_lz4 lb) ([1, mt_value MESSAGE, 7] @ inner) = Inr ipk" "pkt_type ipk = MESSAGE"
      "parse_bitchat_message_payload (pkt_payload ipk) = Inr ?m"
    by (rule client_private_run [where nick = nick and mid = mid, OF assms(2,1,7,9,6,4,5) assms(11) [unfolded assms(8)] assms(14,16-18)])
  have heard: "begins (Shown ?m (private_display w' (B\<lparr>cl_tick := n\<rparr>) (hex ia) content))
      (client_handle_packet lb w' (Suc e) pk raw) (B\<lparr>cl_tick := n\<rparr>)" for n e
  proof -
    have new: "client_new_to lb (msg_id ?m) (B\<lparr>cl_tick := n\<rparr>)" using assms(19) by (simp add: client_new_to_def)
    have "\<not> client_is_blocked lb (hex ia) (B\<lparr>cl_tick := n\<rparr>)" using assms(6,15) by (simp add: client_is_blocked_def split: option.splits)
    with encrypted_message_shown [OF assms(1), where s = "B\<lparr>cl_tick := n\<rparr>" and w = w' and ses = sb and pk = pk and
        handle = "client_handle_packet lb w' e", OF _ _ _ pp [unfolded assms(13)] _ ip] assms(6,12-14,20) new pk(2,3)
    show ?thesis by (auto simp: begins_def)
  qed
  have ne: "cl_id B \<noteq> cl_id A1" using A1(3) assms(6,10) by simp
  obtain A' fs f n post where "client_send_packet w raw A1 = (Inr (), A', map (\<lambda>g. Wrote g False) (fs @ [f]))"
    and tr: "shown_ids (client_trace lb w' (map (Notification (Suc (Suc d))) fs) B) = []"
      "client_trace lb w' [Notification (Suc (Suc d)) f] (notified lb w' (Suc (Suc d)) fs B) =
      Shown ?m (private_display w' (B\<lparr>cl_tick := n\<rparr>) (hex ia) content) # post"
    using packet_heard [OF assms(2,3) A1 assms(7) len pk(1,3) ne assms(21,22) [rule_format] heard, of d] by blast
  from run [rule_format, OF this(1)] tr show ?thesis unfolding assms(6,8) by blast
qed

definition example_whisperer :: "bytes \<Rightarrow> bytes \<Rightarrow> NoiseRole \<Rightarrow> client" where
  "example_whisperer me peer role =
     (client_init me [9] Absent)\<lparr>cl_client := True, cl_characteristic := True,
       cl_enc := (service_init [9])\<lparr>sv_sessions := [(hex peer, session_of plain_crypto 0 (hex peer) [9] role [])]\<rparr>\<rparr>"

theorem private_line_shown_witness:
  "\<exists>A' frames final own n post.
    client_send_private example_libs example_world (lit ''hi'') (hex [8, 7, 6, 5, 4, 3, 2, 1]) [] None
      (example_whisperer [1, 2, 3, 4, 5, 6, 7, 8] [8, 7, 6, 5, 4, 3, 2, 1] INITIATOR) =
      (Inr (), A', map (\<lambda>g. Wrote g False) (frames @ [final]) @ [Own_shown own]) \<and>
    client_trace example_libs example_world [Notification 2 final] (notified example_libs example_world 2 frames
      (example_whisperer [8, 7, 6, 5, 4, 3, 2, 1] [1, 2, 3, 4, 5, 6, 7, 8] RESPONDER)) =
      Shown \<lparr>msg_id = lit ''m0'', msg_content = lit ''hi'', msg_channel = None, msg_is_encrypted = False,
        msg_encrypted_content = None\<rparr> (private_display example_world
          (example_whisperer [8, 7, 6, 5, 4, 3, 2, 1] [1, 2, 3, 4, 5, 6, 7, 8] RESPONDER\<lparr>cl_tick := n\<rparr>)
          (hex [1, 2, 3, 4, 5, 6, 7, 8]) (lit ''hi'')) # post"
proof -
  let ?ia = "[1, 2, 3, 4, 5, 6, 7, 8] :: bytes" and ?ib = "[8, 7, 6, 5, 4, 3, 2, 1] :: bytes"
  let ?A = "example_whisperer ?ia ?ib INITIATOR" and ?B = "example_whisperer ?ib ?ia RESPONDER"
  let ?sa = "session_of plain_crypto 0 (hex ?ib) [9] INITIATOR []" and ?sb = "session_of plain_crypto 0 (hex ?ia) [9] RESPONDER []"
  have f: "cl_client ?A" "cl_characteristic ?A" "cl_id ?A = hex ?ia" "cl_id ?B = hex ?ib" "cl_tick ?A = 0"
    "dict_get (sv_sessions (cl_enc ?A)) (hex ?ib) = Some ?sa" "dict_get (sv_sessions (cl_enc ?B)) (hex ?ia) = Some ?sb"
    "client_new_to example_libs (lit ''m0'') ?B" "cl_nickname ?A = lit ''my-python-client''" "fc_fragments (cl_collector ?B) = []"
    "fc_metadata (cl_collector ?B) = []" "\<not> client_is_blocked example_libs (hex ?ia) ?B"
    by (simp_all add: example_whisperer_def client_init_def collector_init_def client_is_blocked_def
        client_new_to_empty split: option.split)
  have l: "ses_send ?sa = ses_receive ?sb" "ready (ses_send ?sa)"
    using linked_session_of [OF crypto_ok_plain] by (simp_all add: linked_def)
  have e: "crypto_ok (lb_crypto example_libs)" "reliable example_world" "full_id ?ia" "full_id ?ib"
    "fits 255 (lit ''m0'')" "fits 255 (lit ''my-python-client'')" "fits 60000 (lit ''hi'')"
    "wd_uuid example_world 0 = lit ''m0''" "\<not> starts_with COVER_TRAFFIC_PREFIX (lit ''hi'')"
    by (simp_all add: example_libs_def crypto_ok_plain reliable_def example_world_def full_id_def fits_def lit_def
        utf8_enc1_def starts_with_def COVER_TRAFFIC_PREFIX_def)
  have h: "hex ?ib \<noteq> hex ?ia" by code_simp
  obtain A' frames final own n post where
    "client_send_private example_libs example_world (lit ''hi'') (hex ?ib) [] None ?A =
      (Inr (), A', map (\<lambda>g. Wrote g False) (frames @ [final]) @ [Own_shown own])"
    "client_trace example_libs example_world [Notification (Suc (Suc 0)) final] (notified example_libs example_world (Suc (Suc 0)) frames ?B) =
      Shown \<lparr>msg_id = lit ''m0'', msg_content = lit ''hi'', msg_channel = None, msg_is_encrypted = False,
        msg_encrypted_content = None\<rparr> (private_display example_world (?B\<lparr>cl_tick := n\<rparr>) (hex ?ia) (lit ''hi'')) # post"
    using private_line_shown [of example_libs example_world example_world ?A ?ia ?B ?ib ?sa ?sb "lit ''hi''" "[]" None 0]
      e h l f(1,2,8,12) unfolding f(3-7,9-11) by (auto simp: has_key_def)
  then show ?thesis unfolding numeral_2_eq_2 by blast
qed

end
