(* ===== verification/Restart.thy ===== *)
theory Restart
  imports Channels
begin

text \<open>
  What a terminal client knows after it was closed and started again: the state file that one run
  leaves is the one the next run loads. The channel that was joined with a password is open again, with
  the same key; the channel that was left is forgotten.
\<close>

subsection \<open>Actions that leave the state file alone\<close>

text \<open>They change neither the file nor the state that the next save writes from.\<close>

definition disk_kept :: "client \<Rightarrow> client_output list \<Rightarrow> client \<Rightarrow> bool" where
  "disk_kept s os s' \<longleftrightarrow> cl_file s' = cl_file s \<and> cl_app s' = cl_app s"

interpretation disk: composing disk_kept
  by unfold_locales (auto simp: disk_kept_def)

named_theorems disk_intros \<open>actions that do not write the state file\<close>

lemmas disk_rules [disk_intros] =
  disk.obeys_ret disk.obeys_liftA disk.obeys_bindA disk.obeys_seqA disk.obeys_tryA disk.obeys_catchA disk.obeys_getA

lemma basic_disk [disk_intros]:
  "obeys disk_kept (noteA k args)" "obeys disk_kept client_disconnect" "obeys disk_kept (chatA g)"
  unfolding noteA_def client_disconnect_def chatA_def
  by (intro disk_intros disk.obeys_modA disk.obeys_outA; simp add: disk_kept_def Let_def)+

interpretation disk: sending disk_kept
  by unfold_locales (auto simp: basic_disk, auto simp: disk_kept_def)

lemmas sending_disk [disk_intros] =
  disk.sends_ask disk.sends_write disk.sends_create disk.sends_fragments disk.sends_packet

lemma announce_channel_disk [disk_intros]: "obeys disk_kept (client_send_channel_announce w c pr k)"
  unfolding client_send_channel_announce_def by (auto intro!: disk_intros)

subsection \<open>Keys from the saved passwords\<close>

lemma fold_restore:
  assumes "wf_dict ps"
  shows "dict_get (fold (\<lambda>(channel, ep) d. case f ep channel of Inr key \<Rightarrow> dict_set d channel key | Inl e \<Rightarrow> d) ps d) c =
    (case dict_get ps c of Some ep \<Rightarrow> (case f ep c of Inr key \<Rightarrow> Some key | Inl (e :: py_error) \<Rightarrow> dict_get d c) | None \<Rightarrow> dict_get d c)"
  using assms
proof (induction ps arbitrary: d)
  case (Cons p ps)
  obtain c' ep where p: "p = (c', ep)" by (cases p)
  have "wf_dict ps" "dict_get ps c' = None" using Cons.prems by (auto simp: p wf_dict_def map_of_eq_None_iff)
  with Cons.IH show ?case by (auto simp: p split: sum.split option.split)
qed simp

text \<open>The key that a saved password gives, if it can be decrypted.\<close>

definition saved_key :: "libs \<Rightarrow> app_state \<Rightarrow> pystr \<Rightarrow> bytes option" where
  "saved_key lb app c =
     (case st_identity_key app of
        Some (k # ks) \<Rightarrow>
          (case dict_get (st_encrypted_channel_passwords app) c of
             Some ep \<Rightarrow>
               (case bindE (decrypt_password (lb_crypto lb) (lb_gcm lb) ep (k # ks))
                       (\<lambda>password. derive_channel_key (lb_crypto lb) password c) of
                  Inr key \<Rightarrow> Some key | Inl e \<Rightarrow> None)
           | None \<Rightarrow> None)
      | _ \<Rightarrow> None)"

lemma restore_get:
  assumes "wf_dict (st_encrypted_channel_passwords app)"
  shows "dict_get (restore_channel_keys lb app) c = saved_key lb app c"
proof -
  have "dict_get (fold (\<lambda>(channel, ep) d.
      case bindE (decrypt_password (lb_crypto lb) (lb_gcm lb) ep (k # ks)) (\<lambda>password. derive_channel_key (lb_crypto lb) password channel) of
        Inr key \<Rightarrow> dict_set d channel key | Inl e \<Rightarrow> d) (st_encrypted_channel_passwords app) []) c =
    (case dict_get (st_encrypted_channel_passwords app) c of Some ep \<Rightarrow>
       (case bindE (decrypt_password (lb_crypto lb) (lb_gcm lb) ep (k # ks)) (\<lambda>password. derive_channel_key (lb_crypto lb) password c) of
          Inr key \<Rightarrow> Some key | Inl e \<Rightarrow> None) | None \<Rightarrow> None)" for k ks
    using fold_restore [OF assms, where d = "[]" and c = c and f = "\<lambda>ep channel.
      bindE (decrypt_password (lb_crypto lb) (lb_gcm lb) ep (k # ks)) (\<lambda>password. derive_channel_key (lb_crypto lb) password channel)"]
    by (simp split: option.split sum.split)
  then show ?thesis by (simp add: restore_channel_keys_def saved_key_def split: option.split list.split)
qed

lemma fold_set_get:
  assumes "wf_dict xs"
  shows "dict_get (fold (\<lambda>(c, k) d. dict_set d c k) xs d) c = (case dict_get xs c of Some v \<Rightarrow> Some v | None \<Rightarrow> dict_get d c)"
  using fold_restore [OF assms, where f = "\<lambda>v c. Inr v" and d = d and c = c] by (auto split: option.split)

text \<open>A new run on a state file that the last one saved, not yet connected.\<close>

lemma restart_run:
  assumes "wf_state app" and "st_identity_key app \<noteq> None"
  shows "\<exists>t os. client_handshake lb w (client_init rnd8 static (Members (state_members app))) = (Inr (), t, os) \<and>
    cl_app t = app \<and> cl_blocked t = st_blocked_peers app \<and> cl_creators t = st_channel_creators app \<and>
    cl_protected t = st_password_protected_channels app \<and> cl_commitments t = st_channel_key_commitments app \<and>
    (\<forall>c. dict_get (cl_channel_keys t) c = saved_key lb app c)"
proof -
  have "wf_dict (st_encrypted_channel_passwords app)" using assms(1) by (simp add: wf_state_def)
  from restore_get [OF this] have "dict_get (fold (\<lambda>(c, k) d. dict_set d c k) (restore_channel_keys lb app) []) c =
      saved_key lb app c" for c
    by (simp add: fold_set_get wf_dict_restore split: option.split)
  then show ?thesis
    by (simp add: client_handshake_def client_init_def ask_run bindA_def getA_def seqA_def modA_def liftA_def noteA_def
        outA_def load_saved [OF assms] Let_def)
qed

subsection \<open>Saving\<close>

text \<open>The disk accepts what is written, and random bytes come in the number asked for.\<close>

definition storing :: "world \<Rightarrow> bool" where
  "storing w \<longleftrightarrow> (\<forall>i. wd_save w i = None) \<and> (\<forall>i k. length (wd_rnd w i k) = k)"

text \<open>The state as \<open>save_app_state\<close> leaves it, in the client and in its file.\<close>

definition saved :: "client \<Rightarrow> client \<Rightarrow> bool" where
  "saved s t \<longleftrightarrow> cl_file t = Members (state_members (cl_app t)) \<and> wf_state (cl_app t) \<and>
     st_identity_key (cl_app t) = st_identity_key (cl_app s) \<and> st_blocked_peers (cl_app t) = cl_blocked s \<and>
     st_channel_creators (cl_app t) = cl_creators s \<and> st_password_protected_channels (cl_app t) = cl_protected s \<and>
     st_channel_key_commitments (cl_app t) = cl_commitments s"

lemma save_app_state_saves:
  assumes "storing w" and "wf_client s"
  shows "\<exists>t. save_app_state w s = (Inr (), t, []) \<and> saved s t \<and> cl_channel_keys t = cl_channel_keys s \<and>
    st_encrypted_channel_passwords (cl_app t) = st_encrypted_channel_passwords (cl_app s)"
  using assms
  by (simp add: save_app_state_def ask_run bindA_def modA_def storing_def save_state_def saved_def wf_client_def wf_app_def
      wf_state_def Let_def)

lemma save_password_saves:
  assumes "storing w" and "wf_client s" and "st_identity_key (cl_app s) = Some (k # ks)"
    and "encrypt_password (lb_crypto lb) (lb_gcm lb) (wd_rnd w (cl_tick s) 12) pw (k # ks) = Inr ep"
  shows "\<exists>t. save_password lb w c pw True s = (Inr (), t, []) \<and> saved s t \<and> cl_channel_keys t = cl_channel_keys s \<and>
    st_encrypted_channel_passwords (cl_app t) = dict_set (st_encrypted_channel_passwords (cl_app s)) c ep"
proof -
  let ?s = "s\<lparr>cl_tick := Suc (cl_tick s),
    cl_app := (cl_app s)\<lparr>st_encrypted_channel_passwords := dict_set (st_encrypted_channel_passwords (cl_app s)) c ep\<rparr>\<rparr>"
  have "wf_client ?s" using assms(2) by (simp add: wf_client_def wf_app_def wf_state_def)
  then obtain t where t: "save_app_state w ?s = (Inr (), t, [])" "saved ?s t" "cl_channel_keys t = cl_channel_keys ?s"
    "st_encrypted_channel_passwords (cl_app t) = st_encrypted_channel_passwords (cl_app ?s)"
    using save_app_state_saves [OF assms(1)] by blast
  have "saved s t" using t(2) by (simp add: saved_def)
  with t show ?thesis
    by (simp add: save_password_def getA_def assms(3,4) tryA_def bindA_def ask_run liftA_def seqA_modA)
qed

lemma saved_key_kept:
  assumes "st_identity_key app = Some (k # ks)" and "dict_get (st_encrypted_channel_passwords app) c = Some ep"
    and "decrypt_password (lb_crypto lb) (lb_gcm lb) ep (k # ks) = Inr pw" and "derive_channel_key (lb_crypto lb) pw c = Inr key"
  shows "saved_key lb app c = Some key"
  using assms by (simp add: saved_key_def)

text \<open>The join of a protected channel, up to the state file it leaves.\<close>

lemma join_protected_saves:
  assumes "\<forall>k n p. gcm_dec (lb_gcm lb) k n (gcm_enc (lb_gcm lb) k n p) = Some p" and "\<forall>x. length (sha256 (lb_crypto lb) x) = 32"
    and "storing w" and "wf_client s" and "st_identity_key (cl_app s) = Some (k # ks)" and "list_all (\<lambda>i. 0 \<le> i \<and> i < 256) (k # ks)"
    and "dict_get (cl_channel_keys s) c = None"
    and "join_protected lb w c (Some pw) s = (r, s', os)" and "dict_get (cl_channel_keys s') c = Some key"
  shows "\<exists>t. saved s t \<and> cl_file s' = cl_file t \<and> saved_key lb (cl_app t) c = Some key"
proof -
  have "4 \<le> length pw" using assms(7-9) by (auto simp: join_protected_def noteA_def outA_def split: if_splits)
  moreover obtain key' where key': "derive_channel_key (lb_crypto lb) pw c = Inr key'"
    using assms(7-9) calculation
    by (cases "derive_channel_key (lb_crypto lb) pw c") (auto simp: join_protected_def bindA_def liftA_def)
  moreover have "\<not> (case dict_get (cl_commitments s) c of Some h \<Rightarrow> sha256_hex lb key' \<noteq> h | None \<Rightarrow> False)"
    using assms(7-9) calculation by (auto simp: join_protected_def bindA_liftA getA_def noteA_def outA_def split: if_splits)
  ultimately have j: "join_protected lb w c (Some pw) s =
      seqA (save_password lb w c pw True)
        (seqA (chatA (switch_to_channel c)) (seqA (noteA ''joined password-protected channel'' [c])
          (getA (\<lambda>s. if has_key (cl_creators s) c then client_send_channel_announce w c True (Some (sha256_hex lb key')) else ret ()))))
        (s\<lparr>cl_channel_keys := dict_set (cl_channel_keys s) c key', cl_discovered := set_add c (cl_discovered s)\<rparr>)"
    (is "_ = seqA _ ?rest ?s")
    by (simp add: join_protected_def bindA_liftA getA_def [of _ s] seqA_modA)
  obtain ep where ep: "encrypt_password (lb_crypto lb) (lb_gcm lb) (wd_rnd w (cl_tick ?s) 12) pw (k # ks) = Inr ep"
    "decrypt_password (lb_crypto lb) (lb_gcm lb) ep (k # ks) = Inr pw"
    using password_recovered [OF assms(1,2) _ assms(6), of "wd_rnd w (cl_tick ?s) 12" pw] key' assms(3)
    by (auto simp: storing_def derive_channel_key_def bindE_eq_Inr)
  have "wf_client ?s" using assms(4) by (simp add: wf_client_def distinct_set_add)
  then obtain t where t: "save_password lb w c pw True ?s = (Inr (), t, [])" "saved ?s t" "cl_channel_keys t = cl_channel_keys ?s"
    "st_encrypted_channel_passwords (cl_app t) = dict_set (st_encrypted_channel_passwords (cl_app ?s)) c ep"
    using save_password_saves [OF assms(3), of ?s k ks lb pw ep c] assms(5) ep(1) by auto
  from assms(8) have run: "?rest t = (r, s', os)" by (simp only: j seqA_silent [of "save_password lb w c pw True", OF t(1)])
  have "obeys disk_kept ?rest" by (intro disk_intros if_obeys)
  from obeysD [OF this run] have f: "cl_file s' = cl_file t" by (simp add: disk_kept_def)
  have "obeys same_keys ?rest"
    by (intro keys_kept.obeys_seqA keys_kept.obeys_getA keys_kept.obeys_ret if_obeys chat_same_keys link_same_keys link_intros)
  from obeysD [OF this run] have "key' = key" using t(3) assms(9) by (simp add: same_keys_def)
  with t(2,4) ep(2) key' assms(5) have "saved_key lb (cl_app t) c = Some key"
    by (intro saved_key_kept [where ep = ep and pw = pw]) (simp_all add: saved_def)
  moreover have "saved s t" using t(2) by (simp add: saved_def)
  ultimately show ?thesis using f by blast
qed

subsection \<open>After a restart\<close>

lemma restart_saved:
  assumes "saved s t" and "st_identity_key (cl_app s) \<noteq> None"
  shows "\<exists>u os. client_handshake lb w (client_init rnd8 static (cl_file t)) = (Inr (), u, os) \<and>
    cl_blocked u = cl_blocked s \<and> cl_creators u = cl_creators s \<and> cl_protected u = cl_protected s \<and>
    cl_commitments u = cl_commitments s \<and> (\<forall>c. dict_get (cl_channel_keys u) c = saved_key lb (cl_app t) c)"
  using restart_run [of "cl_app t" lb w rnd8 static] assms by (auto simp: saved_def)

text \<open>
  C21: a channel joined with its password is open again after a restart. When a client in a well-formed
  state that has its identity key joins a protected channel with the typed password, and the password
  opens it, then a client that starts afresh on the state file it left has, without asking, the same key
  for the channel, and the same blocked peers, protected channels, owners and commitments. AES-GCM must
  invert itself and SHA-256 return 32 bytes; the disk must accept the file.
\<close>

theorem joined_channel_survives_restart:
  assumes "\<forall>k n p. gcm_dec (lb_gcm lb) k n (gcm_enc (lb_gcm lb) k n p) = Some p" and "\<forall>x. length (sha256 (lb_crypto lb) x) = 32"
    and "storing w" and "wf_client s" and "st_identity_key (cl_app s) = Some (k # ks)" and "list_all (\<lambda>i. 0 \<le> i \<and> i < 256) (k # ks)"
    and "words line = [cmd, channel, password]" and "channel \<in> set (cl_protected s)" and "\<not> has_key (cl_channel_keys s) channel"
    and "handle_join_channel lb w line s = (r, s', os)" and "dict_get (cl_channel_keys s') channel = Some key"
  shows "\<exists>u os'. client_handshake lb w' (client_init rnd8 static (cl_file s')) = (Inr (), u, os') \<and>
    dict_get (cl_channel_keys u) channel = Some key \<and> cl_blocked u = cl_blocked s \<and> cl_creators u = cl_creators s \<and>
    cl_protected u = cl_protected s \<and> cl_commitments u = cl_commitments s"
proof -
  have n: "dict_get (cl_channel_keys s) channel = None" using assms(9) by (simp add: has_key_def)
  then have "join_protected lb w channel (Some password) s = (r, s', os)"
    using assms(7-11)
    by (auto simp: handle_join_channel_def getA_def Let_def noteA_def outA_def split: if_splits)
  then obtain t where t: "saved s t" "cl_file s' = cl_file t" "saved_key lb (cl_app t) channel = Some key"
    using join_protected_saves [OF assms(1-6) n _ assms(11)] by blast
  from restart_saved [OF t(1), of lb w' rnd8 static] assms(5) t(2,3) show ?thesis by auto
qed

definition example_keeper :: client where
  "example_keeper = (client_init [1] [9] Absent)\<lparr>cl_app := default_state\<lparr>st_identity_key := Some [7]\<rparr>,
     cl_protected := [lit ''#a'']\<rparr>"

lemma example_keeper_facts:
  "wf_client example_keeper" "storing example_world" "st_identity_key (cl_app example_keeper) = Some [7]"
  "cl_protected example_keeper = [lit ''#a'']" "cl_channel_keys example_keeper = []"
  by (simp_all add: example_keeper_def wf_client_def client_init_def wf_app_def wf_state_def default_state_def wf_service_init
      storing_def example_world_def)

lemma example_join:
  "\<exists>s' os. handle_join_channel example_libs example_world (lit ''/j #a pass'') example_keeper = (Inr (), s', os) \<and>
    dict_get (cl_channel_keys s') (lit ''#a'') = Some (pbkdf2 plain_crypto [112, 97, 115, 115] [35, 97])"
proof -
  have w: "words (lit ''/j #a pass'') = [lit ''/j'', lit ''#a'', lit ''pass'']"
    by (simp add: words_def lit_def is_space_def)
  have n: "name_ok example_world (drop 1 (lit ''#a''))" "take 1 (lit ''#a'') = [35]" "length (lit ''#a'') \<le> 25"
    by (simp_all add: name_ok_def example_world_def lit_def)
  have d: "derive_channel_key (lb_crypto example_libs) (lit ''pass'') (lit ''#a'') =
      Inr (pbkdf2 plain_crypto [112, 97, 115, 115] [35, 97])"
    by (simp add: derive_channel_key_def example_libs_def lit_def utf8_enc1_def)
  have f: "cl_commitments example_keeper = []" "cl_creators example_keeper = []"
    by (simp_all add: example_keeper_def client_init_def)
  let ?s = "example_keeper\<lparr>cl_channel_keys := dict_set (cl_channel_keys example_keeper) (lit ''#a'')
      (pbkdf2 plain_crypto [112, 97, 115, 115] [35, 97]), cl_discovered := set_add (lit ''#a'') (cl_discovered example_keeper)\<rparr>"
  have "utf8_encode (lit ''pass'') = Inr [112, 97, 115, 115]" by (simp add: lit_def utf8_enc1_def)
  with password_recovered [of "lb_gcm example_libs" "lb_crypto example_libs" "wd_rnd example_world (cl_tick ?s) 12" "[7]" "lit ''pass''"]
  obtain ep where ep: "encrypt_password (lb_crypto example_libs) (lb_gcm example_libs) (wd_rnd example_world (cl_tick ?s) 12)
      (lit ''pass'') [7] = Inr ep"
    by (auto simp: example_libs_def plain_crypto_def example_world_def)
  have "wf_client ?s" using example_keeper_facts(1) by (simp add: wf_client_def distinct_set_add)
  then obtain t where t: "save_password example_libs example_world (lit ''#a'') (lit ''pass'') True ?s = (Inr (), t, [])"
    "cl_channel_keys t = cl_channel_keys ?s"
    using save_password_saves [OF example_keeper_facts(2), of ?s 7 "[]" example_libs "lit ''pass''" ep "lit ''#a''"]
      example_keeper_facts(3) ep by auto
  have l: "\<not> length (lit ''pass'') < 4" by (simp add: lit_def)
  have "cl_creators t = []" using obeysD [OF save_password_link t(1)] f(2) by (simp add: link_only_def)
  moreover have "join_protected example_libs example_world (lit ''#a'') (Some (lit ''pass'')) example_keeper =
      seqA (save_password example_libs example_world (lit ''#a'') (lit ''pass'') True)
        (seqA (chatA (switch_to_channel (lit ''#a''))) (seqA (noteA ''joined password-protected channel'' [lit ''#a''])
          (getA (\<lambda>s. if has_key (cl_creators s) (lit ''#a'') then client_send_channel_announce example_world (lit ''#a'') True
             (Some (sha256_hex example_libs (pbkdf2 plain_crypto [112, 97, 115, 115] [35, 97]))) else ret ())))) ?s"
    using l by (simp add: join_protected_def d bindA_liftA getA_def [of _ example_keeper] seqA_modA f(1))
  ultimately have "\<exists>s' os. join_protected example_libs example_world (lit ''#a'') (Some (lit ''pass'')) example_keeper = (Inr (), s', os) \<and>
      cl_channel_keys s' = cl_channel_keys t"
    by (simp add: t(1) chatA_def modA_def noteA_def seqA_def bindA_def outA_def getA_def has_key_def ret_def)
  then show ?thesis
    using w n t(2) example_keeper_facts(4,5)
    by (auto simp: handle_join_channel_def getA_def Let_def has_key_def)
qed

theorem joined_channel_survives_restart_witness:
  "\<exists>s' os key u os'. handle_join_channel example_libs example_world (lit ''/j #a pass'') example_keeper = (Inr (), s', os) \<and>
    dict_get (cl_channel_keys s') (lit ''#a'') = Some key \<and>
    client_handshake example_libs example_world (client_init [2] [9] (cl_file s')) = (Inr (), u, os') \<and>
    dict_get (cl_channel_keys u) (lit ''#a'') = Some key \<and> cl_protected u = [lit ''#a'']"
proof -
  obtain s' os where j: "handle_join_channel example_libs example_world (lit ''/j #a pass'') example_keeper = (Inr (), s', os)"
    "dict_get (cl_channel_keys s') (lit ''#a'') = Some (pbkdf2 plain_crypto [112, 97, 115, 115] [35, 97])"
    using example_join by blast
  have w: "words (lit ''/j #a pass'') = [lit ''/j'', lit ''#a'', lit ''pass'']"
    by (simp add: words_def lit_def is_space_def)
  have g: "\<forall>k n p. gcm_dec (lb_gcm example_libs) k n (gcm_enc (lb_gcm example_libs) k n p) = Some p"
    "\<forall>x. length (sha256 (lb_crypto example_libs) x) = 32"
    by (simp_all add: example_libs_def plain_crypto_def)
  show ?thesis
    using joined_channel_survives_restart [OF g example_keeper_facts(2,1,3) _ w _ _ j, of example_world "[2]" "[9]"] j
    by (auto simp: example_keeper_facts has_key_def)
qed

text \<open>
  C22: a channel that was left stays left, and only that one. When \<open>/leave\<close> succeeds in a channel, in a
  well-formed client with an identity key whose disk accepts the file, a client that starts afresh on the
  state file has no key for it, does not know it as protected and knows no owner and no commitment of it;
  the blocked peers, and of every other channel the saved key, the protection, the owner and the
  commitment, are as the client that left had them.
\<close>

theorem left_channel_forgotten:
  assumes "storing w" and "wf_client s" and "st_identity_key (cl_app s) = Some key" and "cc_mode (cl_chat s) = Channel c"
    and "handle_leave_command w s = (Inr (), s', os)"
  shows "\<exists>u os'. client_handshake lb w' (client_init rnd8 static (cl_file s')) = (Inr (), u, os') \<and>
    dict_get (cl_channel_keys u) c = None \<and> c \<notin> set (cl_protected u) \<and> dict_get (cl_creators u) c = None \<and>
    dict_get (cl_commitments u) c = None \<and> cl_blocked u = cl_blocked s \<and>
    (\<forall>c'. c' \<noteq> c \<longrightarrow> dict_get (cl_channel_keys u) c' = saved_key lb (cl_app s) c' \<and>
      (c' \<in> set (cl_protected u) \<longleftrightarrow> c' \<in> set (cl_protected s)) \<and>
      dict_get (cl_creators u) c' = dict_get (cl_creators s) c' \<and>
      dict_get (cl_commitments u) c' = dict_get (cl_commitments s) c')"
proof -
  let ?f = "\<lambda>s. s\<lparr>cl_channel_keys := dict_del (cl_channel_keys s) c, cl_protected := removeAll c (cl_protected s),
    cl_creators := dict_del (cl_creators s) c, cl_commitments := dict_del (cl_commitments s) c,
    cl_app := (cl_app s)\<lparr>st_encrypted_channel_passwords := dict_del (st_encrypted_channel_passwords (cl_app s)) c\<rparr>,
    cl_chat := switch_to_public (remove_channel c (cl_chat s))\<rparr>"
  obtain payload pkt s0 s1 s2 os1 os2 os3 where p: "packetA w LEAVE payload None s = (Inr pkt, s0, os1)"
    "send_with_ttl w 3 pkt s0 = (Inr (), s1, os2)" "save_app_state w (?f s1) = (Inr (), s2, os3)" "cl_file s' = cl_file s2"
    using assms(4,5) by (auto simp: handle_leave_command_def getA_def bindA_Inr seqA_Inr liftA_Inr modA_def noteA_def outA_def)
  have d: "cl_app s1 = cl_app s"
    using obeysD [OF disk.sends_create(1) p(1)] obeysD [OF disk.sends_packet(2) p(2)] by (simp add: disk_kept_def)
  have k: "cl_protected s1 = cl_protected s" "cl_creators s1 = cl_creators s" "cl_commitments s1 = cl_commitments s"
    "cl_blocked s1 = cl_blocked s"
    using obeysD [OF linking.sends_create(1) p(1)] obeysD [OF linking.sends_packet(2) p(2)] by (simp_all add: link_only_def)
  have "obeys conduct (send_with_ttl w 3 pkt)" unfolding send_with_ttl_def by (intro conduct_intros)
  from obeysD [OF client.sends_create(1) p(1)] obeysD [OF this p(2)] have "wf_client s1" using assms(2) by (simp add: conduct_def sane_def)
  then have "wf_client (?f s1)" by (simp add: wf_client_def wf_app_def wf_state_def distinct_removeAll)
  from save_app_state_saves [OF assms(1) this] p(3) have t: "saved (?f s1) s2"
    "st_encrypted_channel_passwords (cl_app s2) = dict_del (st_encrypted_channel_passwords (cl_app s)) c"
    using d by auto
  have id: "st_identity_key (cl_app s2) = st_identity_key (cl_app s)" using t(1) d by (simp add: saved_def)
  have keys: "saved_key lb (cl_app s2) c' = (if c' = c then None else saved_key lb (cl_app s) c')" for c'
    by (simp add: saved_key_def t(2) id split: option.split list.split)
  from restart_saved [OF t(1), of lb w' rnd8 static] keys assms(3) p(4) d k show ?thesis by auto
qed

theorem left_channel_forgotten_witness:
  "\<exists>s' os u os'. handle_leave_command example_world (example_keeper\<lparr>cl_chat := switch_to_channel (lit ''#a'') chat_init\<rparr>) =
      (Inr (), s', os) \<and>
    client_handshake example_libs example_world (client_init [2] [9] (cl_file s')) = (Inr (), u, os') \<and>
    dict_get (cl_channel_keys u) (lit ''#a'') = None \<and> lit ''#a'' \<notin> set (cl_protected u)"
proof -
  let ?s = "example_keeper\<lparr>cl_chat := switch_to_channel (lit ''#a'') chat_init\<rparr>"
  have s: "wf_client ?s" "st_identity_key (cl_app ?s) = Some [7]" "cc_mode (cl_chat ?s) = Channel (lit ''#a'')"
    using example_keeper_facts(1,3) by (simp_all add: wf_client_def) (simp add: switch_to_channel_def)
  have c: "cl_id ?s = hex [1]" "\<not> cl_client ?s" "cl_tick ?s = 0" by (simp_all add: example_keeper_def client_init_def)
  have u: "utf8_encode (lit ''#a'') = Inr [35, 97]" by (simp add: lit_def utf8_enc1_def)
  obtain pkt where k: "create_bitchat_packet_with_signature (wd_ts example_world 0) (wd_rnd example_world 1) (hex [1]) LEAVE [35, 97] None = Inr pkt"
    using create_succeeds [OF fromhex_hex [of "[1]"], of "wd_ts example_world 0" "[35, 97]" None BROADCAST_RECIPIENT "wd_rnd example_world 1" LEAVE]
    by (auto simp: create_bitchat_packet_with_signature_def recipient_field_def example_world_def)
  have m: "cc_mode (switch_to_channel (lit ''#a'') chat_init) = Channel (lit ''#a'')" by (simp add: switch_to_channel_def)
  have "\<exists>s' os. handle_leave_command example_world ?s = (Inr (), s', os)"
    using k c by (simp add: handle_leave_command_def getA_def m u bindA_liftA packetA_def ask_run bindA_def liftA_def
        send_with_ttl_def client_send_packet_def seqA_def ret_def modA_def save_app_state_def noteA_def outA_def)
  then obtain s' os where "handle_leave_command example_world ?s = (Inr (), s', os)" by blast
  with left_channel_forgotten [OF example_keeper_facts(2) s this, of example_libs example_world "[2]" "[9]"] show ?thesis
    by blast
qed

end
