(* ===== verification/Secrecy.thy ===== *)
theory Secrecy
  imports Delivery
begin

text \<open>
  Private texts leave a node only as plaintexts of its cipher. The statement is the one that the ideal
  world of a secrecy definition makes: let the cipher encrypt zeros instead of each plaintext, as many
  as it has bytes, and leave everything else as it is; then two runs of the node that differ only in the
  texts of their private messages, text by text of the same length, put the same bytes on the wire and
  make the same reports. The proof is an unwinding:
  two nodes look alike when they differ only in the texts they keep, and every action of the node takes
  nodes that look alike to nodes that look alike, with the same outputs.
\<close>

subsection \<open>Nodes that look alike\<close>

text \<open>What may be known of a text: the length of its encoding.\<close>

definition shape :: "pystr \<Rightarrow> nat option" where
  "shape t = (case utf8_encode t of Inr b \<Rightarrow> Some (length b) | Inl e \<Rightarrow> None)"

definition message_shape :: "pystr \<times> pystr \<times> pystr \<Rightarrow> nat option \<times> pystr \<times> pystr" where
  "message_shape m = (case m of (content, nickname, mid) \<Rightarrow> (shape content, nickname, mid))"

definition map_dict :: "('a \<Rightarrow> 'b) \<Rightarrow> ('k, 'a) dict \<Rightarrow> ('k, 'b) dict" where
  "map_dict f d = map (\<lambda>(k, v). (k, f v)) d"

lemma dict_get_map [simp]: "dict_get (map_dict f d) k = map_option f (dict_get d k)"
  by (induction d) (auto simp: map_dict_def)

lemma map_dict_set [simp]: "map_dict f (dict_set d k v) = dict_set (map_dict f d) k (f v)"
  by (induction d) (auto simp: map_dict_def)

lemma map_dict_del [simp]: "map_dict f (dict_del d k) = dict_del (map_dict f d) k"
  by (induction d) (auto simp: map_dict_def)

lemma has_key_map [simp]: "has_key (map_dict f d) k = has_key d k"
  by (simp add: has_key_def)

fun task_shape :: "task \<Rightarrow> task + pystr \<times> (nat option \<times> pystr \<times> pystr) list" where
  "task_shape (Send_pending pid ms) = Inr (pid, map message_shape ms)"
| "task_shape t = Inl t"

definition tracker_shape :: "delivery_tracker \<Rightarrow> (pystr, time \<times> bool) dict \<times> pystr set" where
  "tracker_shape t = (map_dict snd (pending_messages t), sent_acks t)"

definition looks_like :: "mesh \<Rightarrow> mesh \<Rightarrow> bool" where
  "looks_like s t \<longleftrightarrow>
     ms_id s = ms_id t \<and> ms_nickname s = ms_nickname t \<and> ms_app s = ms_app t \<and> ms_file s = ms_file t \<and>
     ms_enc s = ms_enc t \<and> ms_transport s = ms_transport t \<and> ms_peers s = ms_peers t \<and>
     ms_addresses s = ms_addresses t \<and> ms_bloom s = ms_bloom t \<and>
     ms_processed s = ms_processed t \<and> ms_collector s = ms_collector t \<and>
     ms_channel_keys s = ms_channel_keys t \<and> ms_channel_creators s = ms_channel_creators t \<and>
     ms_protected s = ms_protected t \<and> ms_commitments s = ms_commitments t \<and> ms_discovered s = ms_discovered t \<and>
     ms_blocked s = ms_blocked t \<and> ms_attempts s = ms_attempts t \<and>
     map_dict (map message_shape) (ms_pending s) = map_dict (map message_shape) (ms_pending t) \<and>
     tracker_shape (ms_tracker s) = tracker_shape (ms_tracker t) \<and>
     map task_shape (ms_tasks s) = map task_shape (ms_tasks t)"

text \<open>Two actions that take nodes that look alike to nodes that look alike, with the same result and outputs.\<close>

definition alike :: "'a act \<Rightarrow> 'a act \<Rightarrow> bool" where
  "alike m n \<longleftrightarrow> (\<forall>s t. looks_like s t \<longrightarrow>
     fst (m s) = fst (n t) \<and> snd (snd (m s)) = snd (snd (n t)) \<and> looks_like (fst (snd (m s))) (fst (snd (n t))))"

abbreviation hides :: "'a act \<Rightarrow> bool" where
  "hides m \<equiv> alike m m"

named_theorems alike_intros \<open>actions that keep nodes alike\<close>

lemma alikeD:
  assumes "alike m n" and "looks_like s t" and "m s = (r, s', os)"
  obtains t' where "n t = (r, t', os)" and "looks_like s' t'"
proof -
  obtain r' t' os' where n: "n t = (r', t', os')" by (rule prod_cases3)
  with assms that show thesis by (fastforce simp: alike_def)
qed

lemma alikeI:
  assumes "\<And>s t r s' os. looks_like s t \<Longrightarrow> m s = (r, s', os) \<Longrightarrow> \<exists>t'. n t = (r, t', os) \<and> looks_like s' t'"
  shows "alike m n"
  unfolding alike_def
proof (intro allI impI)
  fix s t assume l: "looks_like s t"
  obtain r s' os where m: "m s = (r, s', os)" by (rule prod_cases3)
  from assms [OF l this] m show "fst (m s) = fst (n t) \<and> snd (snd (m s)) = snd (snd (n t)) \<and>
      looks_like (fst (snd (m s))) (fst (snd (n t)))" by auto
qed

lemma alike_basic [alike_intros]: "hides (ret x)" "hides (liftA r)" "hides (outA e)"
  by (simp_all add: alike_def ret_def liftA_def outA_def)

lemma alike_bindA [alike_intros]:
  assumes "alike m n" and "\<And>x. alike (f x) (g x)"
  shows "alike (bindA m f) (bindA n g)"
proof (rule alikeI)
  fix s t r s' os
  assume l: "looks_like s t" and b: "bindA m f s = (r, s', os)"
  obtain r1 s1 os1 where m: "m s = (r1, s1, os1)" by (rule prod_cases3)
  then obtain t1 where n: "n t = (r1, t1, os1)" "looks_like s1 t1" using alikeD [OF assms(1) l] by blast
  show "\<exists>t'. bindA n g t = (r, t', os) \<and> looks_like s' t'"
  proof (cases r1)
    case (Inl e)
    with b m n show ?thesis by (auto simp: bindA_def)
  next
    case (Inr x)
    obtain r2 s2 os2 where f: "f x s1 = (r2, s2, os2)" by (rule prod_cases3)
    then obtain t2 where "g x t1 = (r2, t2, os2)" "looks_like s2 t2" using alikeD [OF assms(2) n(2)] by blast
    with b m n Inr f show ?thesis by (auto simp: bindA_def)
  qed
qed

lemma alike_seqA [alike_intros]: "alike m n \<Longrightarrow> alike m' n' \<Longrightarrow> alike (seqA m m') (seqA n n')"
  unfolding seqA_def by (intro alike_bindA)

lemma alike_tryA [alike_intros]:
  assumes "alike m n" and "alike h k"
  shows "alike (tryA m P h) (tryA n P k)"
proof (rule alikeI)
  fix s t r s' os
  assume l: "looks_like s t" and b: "tryA m P h s = (r, s', os)"
  obtain r1 s1 os1 where m: "m s = (r1, s1, os1)" by (rule prod_cases3)
  then obtain t1 where n: "n t = (r1, t1, os1)" "looks_like s1 t1" using alikeD [OF assms(1) l] by blast
  show "\<exists>t'. tryA n P k t = (r, t', os) \<and> looks_like s' t'"
  proof (cases r1)
    case (Inl e)
    obtain r2 s2 os2 where f: "h s1 = (r2, s2, os2)" by (rule prod_cases3)
    then obtain t2 where "k t1 = (r2, t2, os2)" "looks_like s2 t2" using alikeD [OF assms(2) n(2)] by blast
    with b m n Inl f show ?thesis by (auto simp: tryA_def split: if_splits)
  next
    case (Inr x)
    with b m n show ?thesis by (auto simp: tryA_def)
  qed
qed

lemma alike_if: "alike m n \<Longrightarrow> alike m' n' \<Longrightarrow> alike (if b then m else m') (if b then n else n')"
  by simp

lemma alike_modA: "(\<And>s t. looks_like s t \<Longrightarrow> looks_like (f s) (g t)) \<Longrightarrow> alike (modA f) (modA g)"
  by (simp add: alike_def modA_def)

lemma alike_getA: "(\<And>s t. looks_like s t \<Longrightarrow> alike (f s) (g t)) \<Longrightarrow> alike (getA f) (getA g)"
  by (simp add: alike_def getA_def)

text \<open>An action that reads only what nodes that look alike share.\<close>

lemma hides_getA: "(\<And>s t. looks_like s t \<Longrightarrow> f s = f t) \<Longrightarrow> (\<And>s. hides (f s)) \<Longrightarrow> hides (getA f)"
  by (intro alike_getA) metis

subsection \<open>The actions of a node keep nodes alike\<close>

lemma spawn_hides [alike_intros]: "hides (spawn t)"
  unfolding spawn_def by (intro alike_modA) (simp add: looks_like_def)

lemma spawn_pending_alike: "map message_shape ms = map message_shape ms' \<Longrightarrow> alike (spawn (Send_pending p ms)) (spawn (Send_pending p ms'))"
  unfolding spawn_def by (intro alike_modA) (simp add: looks_like_def)

lemma remove_peer_hides [alike_intros]: "hides (remove_peer p)"
  unfolding remove_peer_def Let_def
  by (intro hides_getA alike_seqA alike_modA) (auto simp: looks_like_def intro: alike_intros split: option.split list.split)

lemma on_peer_disconnected_hides [alike_intros]: "hides (on_peer_disconnected c)"
  unfolding on_peer_disconnected_def
  by (intro hides_getA) (auto simp: looks_like_def intro: alike_intros split: option.split list.split)

lemma perform_hides [alike_intros]: "hides (perform es)"
  by (induction es rule: perform.induct) (auto intro!: alike_intros)

lemma transportA_hides [alike_intros]: "hides (transportA f)"
  unfolding transportA_def
  by (intro hides_getA) (auto simp: looks_like_def intro!: alike_intros alike_modA split: prod.split)

lemma send_hides [alike_intros]: "hides (raw_send ev pkt)" "hides (send_to_peer ev p pkt)"
  unfolding raw_send_def send_to_peer_def
  by (intro hides_getA alike_intros; auto simp: looks_like_def intro: alike_intros split: option.split list.split)+

lemma save_hides [alike_intros]: "hides (mesh_save_state ev)"
  unfolding mesh_save_state_def Let_def by (intro alike_modA) (simp add: looks_like_def)

lemma on_authenticated_hides [alike_intros]: "hides (on_authenticated es)"
  by (induction es rule: on_authenticated.induct) (auto intro!: alike_intros)

lemma service_hides [alike_intros]: "hides (modA (\<lambda>s. s\<lparr>ms_enc := enc\<rparr>))"
  by (intro alike_modA) (simp add: looks_like_def)

lemma encryption_hides [alike_intros]:
  "hides (process_handshake lb ev p m)" "hides (decryptA lb p d)" "hides (encryptA lb p d)"
  unfolding process_handshake_def decryptA_def encryptA_def
  by (intro hides_getA; auto simp: looks_like_def intro!: alike_intros split: prod.split)+

lemma initiate_hides [alike_intros]: "hides (mesh_initiate_handshake lb ev p)"
  unfolding mesh_initiate_handshake_def
  by (intro alike_intros hides_getA; auto simp: looks_like_def intro!: alike_intros split: prod.split)+

lemma note_peer_hides [alike_intros]: "hides (note_peer p n)"
  unfolding note_peer_def Let_def
  by (intro hides_getA alike_seqA alike_modA) (auto simp: looks_like_def intro: alike_intros)

lemma announcements_hides [alike_intros]:
  "hides (send_identity_announce lb ev)" "hides (send_announce ev)" "hides (send_leave ev)"
  unfolding send_identity_announce_def send_announce_def send_leave_def Let_def
  by (intro hides_getA; auto simp: looks_like_def intro!: alike_intros)+

lemma relay_hides [alike_intros]: "hides (relay_if pk raw)"
  unfolding relay_if_def relay_def by (auto intro: alike_intros)

text \<open>The queue of a peer becomes a task.\<close>

lemma send_pending_hides [alike_intros]: "hides (send_pending_private_messages p)"
  unfolding send_pending_private_messages_def
proof (rule alike_getA)
  fix s t assume l: "looks_like s t"
  then have q: "map_option (map message_shape) (dict_get (ms_pending s) p) = map_option (map message_shape) (dict_get (ms_pending t) p)"
    unfolding looks_like_def by (metis dict_get_map)
  have d: "hides (modA (\<lambda>s. s\<lparr>ms_pending := dict_del (ms_pending s) p\<rparr>))"
    by (intro alike_modA) (simp add: looks_like_def)
  show "alike
     (case dict_get (ms_pending s) p of None \<Rightarrow> ret () | Some messages \<Rightarrow>
        seqA (modA (\<lambda>s. s\<lparr>ms_pending := dict_del (ms_pending s) p\<rparr>)) (spawn (Send_pending p messages)))
     (case dict_get (ms_pending t) p of None \<Rightarrow> ret () | Some messages \<Rightarrow>
        seqA (modA (\<lambda>s. s\<lparr>ms_pending := dict_del (ms_pending s) p\<rparr>)) (spawn (Send_pending p messages)))"
    using q by (auto intro!: alike_intros d spawn_pending_alike split: option.splits)
qed

lemma tracker_alike: "tracker_shape a = tracker_shape b \<Longrightarrow> alike (modA (\<lambda>s. s\<lparr>ms_tracker := a\<rparr>)) (modA (\<lambda>s. s\<lparr>ms_tracker := b\<rparr>))"
  by (intro alike_modA) (simp add: looks_like_def)

lemma looks_like_tracker: "looks_like s t \<Longrightarrow> tracker_shape (ms_tracker s) = tracker_shape (ms_tracker t)"
  by (simp add: looks_like_def)

lemma looks_like_public:
  assumes "looks_like s t"
  shows "ms_id s = ms_id t" "ms_nickname s = ms_nickname t" "ms_enc s = ms_enc t" "ms_peers s = ms_peers t"
    "ms_processed s = ms_processed t" "ms_attempts s = ms_attempts t" "ms_channel_keys s = ms_channel_keys t"
    "ms_channel_creators s = ms_channel_creators t" "is_blocked lb p s = is_blocked lb p t"
  using assms by (simp_all add: looks_like_def is_blocked_def split: option.split)

lemma should_send_ack_shape:
  assumes "tracker_shape a = tracker_shape b"
  shows "fst (tracker_should_send_ack k a) = fst (tracker_should_send_ack k b) \<and>
    tracker_shape (snd (tracker_should_send_ack k a)) = tracker_shape (snd (tracker_should_send_ack k b))"
  using assms by (simp add: tracker_should_send_ack_def tracker_shape_def)

lemma mark_delivered_shape:
  assumes "tracker_shape a = tracker_shape b"
  shows "fst (mark_delivered k a) = fst (mark_delivered k b) \<and>
    tracker_shape (snd (mark_delivered k a)) = tracker_shape (snd (mark_delivered k b))"
proof -
  have "has_key (pending_messages a) k = has_key (pending_messages b) k"
    using assms has_key_map [of snd "pending_messages a" k] has_key_map [of snd "pending_messages b" k]
    by (simp add: tracker_shape_def)
  with assms show ?thesis by (simp add: mark_delivered_def tracker_shape_def)
qed

lemma send_delivery_ack_hides [alike_intros]: "hides (send_delivery_ack lb ev i p pr)"
  unfolding send_delivery_ack_def
proof (rule alike_getA, goal_cases)
  case (1 s t)
  obtain ok a b where a: "tracker_should_send_ack (i @ 45 # ms_id t) (ms_tracker s) = (ok, a)"
    "tracker_should_send_ack (i @ 45 # ms_id t) (ms_tracker t) = (ok, b)" "tracker_shape a = tracker_shape b"
    using should_send_ack_shape [OF looks_like_tracker [OF 1], of "i @ 45 # ms_id t"]
    by (cases "tracker_should_send_ack (i @ 45 # ms_id t) (ms_tracker s)";
        cases "tracker_should_send_ack (i @ 45 # ms_id t) (ms_tracker t)") auto
  show ?case
    unfolding looks_like_public [OF 1] a(1,2) Let_def
    by (auto intro!: alike_intros tracker_alike a(3))
qed

lemma once_hides [alike_intros]: "hides k \<Longrightarrow> hides (once lb i k)"
  unfolding once_def
  by (intro hides_getA) (auto simp: looks_like_def intro!: alike_intros alike_modA split: option.split)

lemma deliver_message_hides [alike_intros]: "hides (deliver_message lb ev pk raw pr m)"
proof -
  have "hides (getA (\<lambda>s. seqA (if should_send_ack pr (msg_channel m) None (ms_nickname s) (length (ms_peers s))
      then send_delivery_ack lb ev (msg_id m) (pkt_sender_id_str pk) pr else ret ()) (relay_if pk raw)))"
  proof (rule hides_getA, goal_cases)
    case (1 s t)
    show ?case unfolding looks_like_public [OF 1] ..
  qed (auto intro!: alike_intros)
  then show ?thesis unfolding deliver_message_def by (intro alike_intros)
qed

lemma handle_message_hides [alike_intros]: "hides (handle_message lb ev pk raw)"
  unfolding handle_message_def
proof (rule hides_getA, goal_cases)
  case (1 s t)
  show ?case unfolding looks_like_public [OF 1] ..
qed (auto simp: Let_def intro!: alike_intros split: option.split)

lemma handle_noise_encrypted_hides [alike_intros]: "hides (handle_noise_encrypted lb ev pk)"
  unfolding handle_noise_encrypted_def
proof (rule hides_getA, goal_cases)
  case (1 s t)
  show ?case unfolding looks_like_public [OF 1] ..
qed (auto intro!: alike_intros split: list.split)

lemma attempts_hides [alike_intros]:
  "hides (modA (\<lambda>s. s\<lparr>ms_attempts := dict_del (ms_attempts s) p\<rparr>))"
  "hides (modA (\<lambda>s. s\<lparr>ms_attempts := dict_set (ms_attempts s) p now\<rparr>))"
  "hides (modA (\<lambda>s. s\<lparr>ms_enc := clear_handshake_state p (ms_enc s)\<rparr>))"
  by (intro alike_modA; simp add: looks_like_def)+

lemma after_session_hides [alike_intros]:
  "hides (getA (\<lambda>s. if is_session_established p (ms_enc s) then
     seqA (modA (\<lambda>s. s\<lparr>ms_attempts := dict_del (ms_attempts s) p\<rparr>)) (send_pending_private_messages p) else ret ()))"
proof (rule hides_getA, goal_cases)
  case (1 s t)
  show ?case unfolding looks_like_public [OF 1] ..
qed (auto intro!: alike_intros)

lemma handle_handshake_hides [alike_intros]: "hides (handle_handshake lb ev ty pk)"
  unfolding handle_handshake_def
proof (rule hides_getA, goal_cases)
  case (1 s t)
  show ?case unfolding looks_like_public [OF 1] ..
qed (auto simp: Let_def intro!: alike_intros split: option.split list.split)

lemma handle_key_exchange_hides [alike_intros]: "hides (handle_key_exchange lb ev pk)"
proof -
  have "hides (getA (\<lambda>s. bindA (liftA (create_bitchat_packet (ev_ts ev 0) (ev_rnd ev 0) (ms_id s) KEY_EXCHANGE m))
      (send_to_peer ev p)))" for m p
  proof (rule hides_getA, goal_cases)
    case (1 s t)
    show ?case unfolding looks_like_public [OF 1] ..
  qed (intro alike_intros)
  then show ?thesis
    unfolding handle_key_exchange_def by (auto intro!: alike_intros split: option.split list.split)
qed

lemma identity_announce_hides [alike_intros]: "hides (handle_noise_identity_announce lb ev pk)"
  unfolding handle_noise_identity_announce_def
proof (rule hides_getA, goal_cases)
  case (1 s t)
  show ?case unfolding looks_like_public [OF 1] ..
qed (auto simp: Let_def intro!: alike_intros split: option.split)

lemma note_channel_hides [alike_intros]: "hides (modA (note_channel c pr creator km))"
  by (intro alike_modA) (simp add: looks_like_def note_channel_def Let_def)

lemma handle_delivery_ack_hides [alike_intros]: "hides (handle_delivery_ack lb pk raw)"
proof -
  have "hides (getA (\<lambda>s. case mark_delivered (ack_original_message_id ack) (ms_tracker s) of (found, tracker) \<Rightarrow>
      seqA (modA (\<lambda>s. s\<lparr>ms_tracker := tracker\<rparr>)) (if found then outA (Ack_received ack) else ret ())))" for ack
  proof (rule alike_getA, goal_cases)
    case (1 s t)
    obtain found a b where a: "mark_delivered (ack_original_message_id ack) (ms_tracker s) = (found, a)"
      "mark_delivered (ack_original_message_id ack) (ms_tracker t) = (found, b)" "tracker_shape a = tracker_shape b"
      using mark_delivered_shape [OF looks_like_tracker [OF 1], of "ack_original_message_id ack"]
      by (cases "mark_delivered (ack_original_message_id ack) (ms_tracker s)";
          cases "mark_delivered (ack_original_message_id ack) (ms_tracker t)") auto
    show ?case unfolding a(1,2) by (auto intro!: alike_intros tracker_alike a(3))
  qed
  note [alike_intros] = this
  show ?thesis
    unfolding handle_delivery_ack_def
  proof (rule hides_getA, goal_cases)
    case (1 s t)
    show ?case unfolding looks_like_public [OF 1] ..
  qed (auto intro!: alike_intros)
qed

lemma handle_packet_hides [alike_intros]: "hides (handle_packet lb ev pk raw)"
proof -
  have "hides (handle_packet_internal lb ev ty pk raw)" for ty
    by (cases ty)
      (auto intro!: alike_intros simp: handle_announce_def handle_leave_def handle_channel_announce_def
        handle_noise_handshake_init_def handle_noise_handshake_resp_def Let_def)
  then show ?thesis
    unfolding handle_packet_def handle_fragment_def by (auto intro!: alike_intros)
qed

lemma track_hides [alike_intros]:
  "alike (modA (\<lambda>s. s\<lparr>ms_tracker := track_message now mid c pr (ms_tracker s)\<rparr>))
     (modA (\<lambda>s. s\<lparr>ms_tracker := track_message now mid c' pr (ms_tracker s)\<rparr>))"
  by (intro alike_modA) (simp add: looks_like_def tracker_shape_def track_message_def)

lemma send_public_message_hides [alike_intros]: "hides (send_public_message lb ev content channel)"
  unfolding send_public_message_def
proof (rule hides_getA, goal_cases)
  case (1 s t)
  show ?case unfolding looks_like_public [OF 1] ..
qed (auto intro!: alike_intros split: option.split)

lemma on_packet_received_hides [alike_intros]: "hides (on_packet_received lb c raw)"
proof -
  have a: "hides (modA (\<lambda>s. s\<lparr>ms_addresses := dict_set (ms_addresses s) p v\<rparr>))" for p v
    by (intro alike_modA) (simp add: looks_like_def)
  have g: "hides (getA (\<lambda>s. if pkt_sender_id_str pk = ms_id s then ret () else k))" if "hides k" for pk k
  proof (rule hides_getA, goal_cases)
    case (1 s t)
    show ?case unfolding looks_like_public [OF 1] ..
  qed (use that in \<open>auto intro!: alike_intros\<close>)
  show ?thesis
    unfolding on_packet_received_def
    by (cases "parse_bitchat_packet (lb_lz4 lb) raw") (simp_all only: sum.case, (intro alike_intros alike_if g a)+)
qed

subsection \<open>Private texts\<close>

text \<open>
  The ideal world: the same libraries, but for the plaintexts of the cipher. Nothing is assumed of the
  real cipher; that its ciphertexts cannot be told from those of the ideal world is its own business.
\<close>

definition blinded :: "libs \<Rightarrow> libs" where
  "blinded lb = lb\<lparr>lb_crypto := (lb_crypto lb)\<lparr>aead_enc :=
     \<lambda>key nonce plaintext ad. aead_enc (lb_crypto lb) key nonce (replicate (length plaintext) 0) ad\<rparr>\<rparr>"

text \<open>What the proof uses of it.\<close>

definition length_only :: "crypto \<Rightarrow> bool" where
  "length_only cr \<longleftrightarrow> (\<forall>key nonce p q ad. length p = length q \<longrightarrow> aead_enc cr key nonce p ad = aead_enc cr key nonce q ad)"

lemma length_only_blinded: "length_only (lb_crypto (blinded lb))"
  by (simp add: length_only_def blinded_def)

lemma encryptA_length:
  assumes "length_only (lb_crypto lb)" and "length p = length q"
  shows "encryptA lb target p = encryptA lb target q"
proof -
  have "aead_enc (lb_crypto lb) key nonce p ad = aead_enc (lb_crypto lb) key nonce q ad" for key nonce ad
    using assms unfolding length_only_def by blast
  then have "cipher_encrypt (lb_crypto lb) cs p [] = cipher_encrypt (lb_crypto lb) cs q []" for cs
    by (simp add: cipher_encrypt_def split: option.split sum.split)
  then have "encrypt_for_peer (lb_crypto lb) target p s = encrypt_for_peer (lb_crypto lb) target q s" for s
    by (simp add: encrypt_for_peer_def session_encrypt_def split: option.split)
  then show ?thesis by (simp add: encryptA_def)
qed

lemma utf8_encode_error: "utf8_encode t = Inl e \<Longrightarrow> e = UnicodeEncodeError"
  by (induction t) (auto simp: utf8_enc1_def bindE_def split: if_splits sum.splits)

lemma shape_cases:
  assumes "shape c = shape c'"
  obtains "utf8_encode c = Inl UnicodeEncodeError" and "utf8_encode c' = Inl UnicodeEncodeError"
  | b b' where "utf8_encode c = Inr b" and "utf8_encode c' = Inr b'" and "length b = length b'"
  using assms utf8_encode_error [of c] utf8_encode_error [of c'] by (auto simp: shape_def split: sum.splits)

lemma payload_shape:
  assumes "shape c = shape c'"
  shows "(\<exists>e. create_bitchat_message_payload_full ts u n c None True p False None = Inl e \<and>
      create_bitchat_message_payload_full ts u n c' None True p False None = Inl e) \<or>
    (\<exists>x y mid. create_bitchat_message_payload_full ts u n c None True p False None = Inr (x, mid) \<and>
      create_bitchat_message_payload_full ts u n c' None True p False None = Inr (y, mid) \<and> length x = length y)"
  using assms
  by (cases rule: shape_cases)
    (auto simp: create_bitchat_message_payload_full_def content_field_def bindE_def split: sum.split)

lemma packet_shape:
  assumes "length x = length y"
  shows "(\<exists>e. create_bitchat_packet_with_recipient ts rnd me to ty x None = Inl e \<and>
      create_bitchat_packet_with_recipient ts rnd me to ty y None = Inl e) \<or>
    (\<exists>a b. create_bitchat_packet_with_recipient ts rnd me to ty x None = Inr a \<and>
      create_bitchat_packet_with_recipient ts rnd me to ty y None = Inr b \<and> length a = length b)"
  using assms by (auto simp: create_bitchat_packet_with_recipient_def bindE_def Let_def split: sum.split)

lemma bindA_raise: "bindA (liftA (Inl e)) f = liftA (Inl e)"
  by (rule ext) (simp add: bindA_def liftA_def)

lemma queue_private_alike:
  assumes "shape c = shape c'"
  shows "alike (queue_private_message lb ev c target nick mid) (queue_private_message lb ev c' target nick mid)"
proof -
  have q: "alike (modA (\<lambda>s. s\<lparr>ms_pending := dict_set (ms_pending s) target
        ((case dict_get (ms_pending s) target of Some q \<Rightarrow> q | None \<Rightarrow> []) @ [(c, nick, i)])\<rparr>))
      (modA (\<lambda>s. s\<lparr>ms_pending := dict_set (ms_pending s) target
        ((case dict_get (ms_pending s) target of Some q \<Rightarrow> q | None \<Rightarrow> []) @ [(c', nick, i)])\<rparr>))" for i
  proof (rule alike_modA)
    fix s t :: mesh assume l: "looks_like s t"
    then have "map_option (map message_shape) (dict_get (ms_pending s) target) = map_option (map message_shape) (dict_get (ms_pending t) target)"
      unfolding looks_like_def by (metis dict_get_map)
    then have "map message_shape (case dict_get (ms_pending s) target of Some q \<Rightarrow> q | None \<Rightarrow> []) =
        map message_shape (case dict_get (ms_pending t) target of Some q \<Rightarrow> q | None \<Rightarrow> [])"
      by (auto split: option.splits)
    with l assms show "looks_like (s\<lparr>ms_pending := dict_set (ms_pending s) target
        ((case dict_get (ms_pending s) target of Some q \<Rightarrow> q | None \<Rightarrow> []) @ [(c, nick, i)])\<rparr>)
       (t\<lparr>ms_pending := dict_set (ms_pending t) target
        ((case dict_get (ms_pending t) target of Some q \<Rightarrow> q | None \<Rightarrow> []) @ [(c', nick, i)])\<rparr>)"
      by (simp add: looks_like_def message_shape_def)
  qed
  have "hides (getA (\<lambda>s. if (case dict_get (ms_attempts s) target of Some prev \<Rightarrow> ev_now ev - prev < handshake_timeout | None \<Rightarrow> False)
      then ret i else seqA (modA (\<lambda>s. s\<lparr>ms_attempts := dict_set (ms_attempts s) target (ev_now ev)\<rparr>))
        (seqA (mesh_initiate_handshake lb ev target) (ret i))))" for i :: pystr
  proof (rule hides_getA, goal_cases)
    case (1 s t)
    show ?case unfolding looks_like_public [OF 1] ..
  qed (intro alike_if alike_intros)
  with q show ?thesis unfolding queue_private_message_def Let_def by (intro alike_seqA)
qed

lemma send_private_alike:
  assumes "length_only (lb_crypto lb)" and "shape c = shape c'"
  shows "alike (send_private_message lb ev c target nick mid) (send_private_message lb ev c' target nick mid)"
  unfolding send_private_message_def
proof (rule alike_getA, goal_cases)
  case (1 s t)
  let ?rest = "\<lambda>(i :: pystr) inner. bindA (encryptA lb target (set_ttl inner 7)) (\<lambda>encrypted.
    bindA (liftA (create_bitchat_packet_with_recipient (ev_ts ev 2) (ev_rnd ev 1) (ms_id t) (Some target) NOISE_ENCRYPTED encrypted None))
      (\<lambda>outer. seqA (send_to_peer ev target outer) (ret i)))"
  have rest: "alike (?rest i a) (?rest i b)" if "length a = length b" for i a b
  proof -
    have "encryptA lb target (set_ttl a 7) = encryptA lb target (set_ttl b 7)"
      by (rule encryptA_length [OF assms(1)]) (simp add: set_ttl_def that)
    then show ?thesis by (simp only:) (intro alike_intros)
  qed
  have inner: "alike (bindA (liftA (create_bitchat_packet_with_recipient ts rnd me to MESSAGE x None)) (?rest i))
      (bindA (liftA (create_bitchat_packet_with_recipient ts rnd me to MESSAGE y None)) (?rest i))" if "length x = length y" for ts rnd me to x y i
    using packet_shape [OF that, of ts rnd me to MESSAGE] rest by (auto simp: bindA_raise bindA_liftA intro: alike_intros)
  note queue = queue_private_alike [OF assms(2), of lb ev target nick mid]
  from payload_shape [OF assms(2), of "ev_ts ev 0" "ev_uuid ev" "ms_nickname t" "ms_id t"] show ?case
  proof (elim disjE exE conjE, goal_cases)
    case (1 e)
    then show ?case
      unfolding looks_like_public [OF \<open>looks_like s t\<close>] by (simp only: bindA_raise) (intro alike_if alike_intros queue)
  next
    case (2 x y i)
    then show ?case
      unfolding looks_like_public [OF \<open>looks_like s t\<close>]
      by (simp only: bindA_liftA case_prod_conv) (intro alike_if alike_seqA track_hides queue inner)
  qed
qed

lemma run_task_alike:
  assumes "length_only (lb_crypto lb)"
  shows "task_shape a = task_shape b \<Longrightarrow> alike (run_task lb ev a) (run_task lb ev b)"
proof (induction a rule: task_shape.induct)
  case (1 pid ms)
  then obtain ns where b: "b = Send_pending pid ns" "map message_shape ms = map message_shape ns" by (cases b) auto
  show ?case
  proof (cases ms)
    case Nil
    with b show ?thesis by (auto intro: alike_intros)
  next
    case (Cons m ms')
    with b(2) obtain c c' n i ns' where m: "m = (c, n, i)" "ns = (c', n, i) # ns'" "shape c = shape c'"
      "map message_shape ms' = map message_shape ns'"
      by (cases m) (auto simp: message_shape_def Cons_eq_map_conv)
    then have "ms' = [] \<longleftrightarrow> ns' = []" by auto
    with m show ?thesis
      unfolding b(1) Cons
      by (auto intro!: alike_intros send_private_alike [OF assms] spawn_pending_alike)
  qed
qed (cases b; auto intro!: alike_intros)+

text \<open>What is known of an event: of a private message its recipient and the length of its text.\<close>

fun event_shape :: "node_event \<Rightarrow> node_event + env \<times> nat option \<times> pystr \<times> pystr" where
  "event_shape (Whisper ev content target nickname) = Inr (ev, shape content, target, nickname)"
| "event_shape e = Inl e"

lemma node_act_alike:
  assumes "length_only (lb_crypto lb)" and "event_shape e = event_shape e'"
  shows "alike (node_act lb e) (node_act lb e')"
proof (cases "\<exists>ev c target nick. e = Whisper ev c target nick")
  case True
  then obtain ev c c' target nick where "e = Whisper ev c target nick" "e' = Whisper ev c' target nick" "shape c = shape c'"
    using assms(2) by (cases e') auto
  then show ?thesis by (auto intro!: alike_intros send_private_alike [OF assms(1)])
next
  case False
  then have e: "e' = e" using assms(2) by (cases e; cases e') auto
  have run: "hides (node_act lb (Run ev i))" for ev i
    unfolding node_act.simps
  proof (rule alike_getA, goal_cases)
    case (1 s t)
    then have ts: "map task_shape (ms_tasks s) = map task_shape (ms_tasks t)" by (simp add: looks_like_def)
    then have l: "length (ms_tasks s) = length (ms_tasks t)" by (rule map_eq_imp_length_eq)
    have d: "hides (modA (\<lambda>s. s\<lparr>ms_tasks := take i (ms_tasks s) @ drop (Suc i) (ms_tasks s)\<rparr>))"
      by (intro alike_modA) (simp add: looks_like_def take_map [symmetric] drop_map [symmetric])
    have "task_shape (ms_tasks s ! i) = task_shape (ms_tasks t ! i)" if "i < length (ms_tasks t)"
      using that l ts by (metis nth_map)
    then show ?case using l d run_task_alike [OF assms(1)] by (auto intro!: alike_intros)
  qed
  have "hides on_connect_transport" unfolding on_connect_transport_def by (intro alike_intros)
  with False run show ?thesis unfolding e by (cases e) (auto intro!: alike_intros simp del: node_act.simps(2))
qed

lemma node_trace_alike:
  assumes "length_only (lb_crypto lb)"
  shows "map event_shape es = map event_shape es' \<Longrightarrow> looks_like s t \<Longrightarrow> node_trace lb es s = node_trace lb es' t"
proof (induction es arbitrary: es' s t)
  case (Cons e es)
  then obtain f fs where f: "es' = f # fs" "event_shape e = event_shape f" "map event_shape es = map event_shape fs"
    by (cases es') auto
  from node_act_alike [OF assms f(2)] Cons.prems(2) Cons.IH [OF f(3)] show ?case
    by (simp add: f(1) alike_def node_outputs_def node_step_def del: node_act.simps)
qed simp

text \<open>
  C3: private texts leave a node only as plaintexts of the cipher. Take any two histories of a node that
  differ only in the texts of the private messages it is asked to send, each text replaced by one
  whose encoding has the same length; packets, connections, handshakes, timers, queued messages and
  failures may come in any order. Whatever the libraries, in the ideal world in which the cipher
  encrypts zeros in place of every plaintext, both histories write exactly the same bytes to the same
  connections and make the same reports: the texts that wait for a session, are tracked for
  acknowledgment or sit in a scheduled task have no way out but through the plaintext of an
  encryption, and there only their lengths show.
\<close>

theorem private_texts_hidden:
  assumes "map event_shape es = map event_shape es'"
  shows "node_trace (blinded lb) es s = node_trace (blinded lb) es' s"
  by (rule node_trace_alike [OF length_only_blinded assms]) (simp add: looks_like_def)

theorem private_texts_hidden_witness:
  "node_trace (blinded example_libs)
     [Whisper example_env (lit ''yes'') (hex [9]) [], Run example_env 0, Whisper example_env (lit ''yes'') (hex [8]) []]
     (example_node [1, 2, 3, 4, 5, 6, 7, 8] [9] INITIATOR) =
   node_trace (blinded example_libs)
     [Whisper example_env (lit ''no!'') (hex [9]) [], Run example_env 0, Whisper example_env (lit ''no.'') (hex [8]) []]
     (example_node [1, 2, 3, 4, 5, 6, 7, 8] [9] INITIATOR)"
proof -
  have "shape (lit ''yes'') = Some 3" "shape (lit ''no!'') = Some 3" "shape (lit ''no.'') = Some 3"
    by (simp_all add: shape_def lit_def utf8_enc1_def)
  then show ?thesis by (intro private_texts_hidden) simp_all
qed

end
