(* ===== verification/Spec2Isabelle.thy ===== *)
theory Spec2Isabelle
  imports Lifecycle Flooding Reach Whisper Restart Secrecy
begin

text \<open>
  \<^bold>\<open>bitchat-node-daemon, verified.\<close>

  The repository has two programs for the bitchat mesh. The \<^emph>\<open>node daemon\<close> is headless: it keeps
  TCP connections to other nodes, exchanges packets over them, announces itself, establishes Noise
  sessions, delivers and relays messages, and offers a small HTTP interface. The \<^emph>\<open>terminal client\<close>
  speaks the same packets over one Bluetooth link and has a chat on the screen: public messages,
  channels with passwords, private messages, blocking. The packages are \<^verbatim>\<open>bitchat/\<close> (formats,
  cryptography, persistence, terminal), \<^verbatim>\<open>daemon/\<close> (transport, mesh, discovery, configuration,
  API), and the file \<^verbatim>\<open>bitchat.py\<close> (the client), all under \<^verbatim>\<open>src/\<close>.

  \<^bold>\<open>The theories, from the bottom up.\<close>

  \<^item> \<open>Prelude\<close>, \<open>Utf8\<close>, \<open>Decimal\<close>: what the code uses of Python: byte strings (lists
    of 8-bit words) and texts (lists of code points), exceptions as values \<open>Inl e\<close> of the type
    \<open>res\<close>, insertion-ordered dictionaries, slices, \<open>struct\<close> fields, UTF-8, decimal integers
    and \<open>host:port\<close> addresses.
  \<^item> \<open>Interfaces\<close>: the contracts that several components share, as locales: \<open>once_filter\<close>
    (grant each key once), \<open>removal\<close> (remove keys and touch nothing else), \<open>keeps\<close> (every
    operation keeps an invariant) and \<open>keyed\<close> (an operation for one key leaves the view of the
    others alone). The component theories interpret them on the model's own operations.
  \<^item> \<open>Compression\<close> (\<^verbatim>\<open>bitchat/compression.py\<close>), \<open>Packet\<close>, \<open>Message\<close>,
    \<open>Identity\<close> (\<^verbatim>\<open>bitchat/protocol.py\<close>) and \<open>Fragmentation\<close>
    (\<^verbatim>\<open>bitchat/fragmentation.py\<close> and \<open>FragmentCollector\<close>): the wire formats, one
    function per function of the code, with round trips, exact failure conditions, sizes on the wire
    and rejection of truncated input.
  \<^item> \<open>Noise\<close>, \<open>Encryption\<close>, \<open>Sessions\<close> (\<^verbatim>\<open>bitchat/encryption.py\<close>): the XX
    handshake token by token, cipher states with their 64-bit counters, sessions and
    \<open>EncryptionService\<close>. \<open>Encryption\<close> proves that a handshake gives both sides matching sessions
    and that what one side encrypts the other decrypts; \<open>Sessions\<close> treats sequences of operations:
    isolation of peers, the invariant of handshakes in progress, containment of failures.
  \<^item> \<open>Persistence\<close> (\<^verbatim>\<open>bitchat/persistence.py\<close>): saving and loading of the state and the
    encryption of channel passwords.
  \<^item> \<open>Transport\<close> (\<^verbatim>\<open>daemon/transport.py\<close>): the connection table, framing, broadcast, the
    read loop.
  \<^item> \<open>Node\<close> and \<open>Mesh\<close> (\<^verbatim>\<open>daemon/mesh.py\<close>): the record \<open>mesh\<close> has the fields of
    \<open>MeshNode\<close>; a handler is an action \<open>mesh \<Rightarrow> 'a res \<times> mesh \<times> node_output list\<close>, so
    that an exception keeps what was changed before it. Every handler and every public operation is a
    definition of the same name without the leading underscore.
  \<^item> \<open>Overlay\<close>: an abstract transition relation \<open>change\<close> on nodes, the refinement of every
    handler to it, and what follows for arbitrary runs: messages are delivered once, the node stays
    well formed, joins and leaves balance. \<open>Delivery\<close> follows one private message from one node's
    API to the other's; \<open>Handlers\<close> has the properties of single handlers.
    \<open>Contract\<close> states what a node promises to its application as a small chat service (a set of
    members and a set of identifiers already delivered) and shows that every run of a node is a run
    of that service. \<open>Flooding\<close> follows one packet from node to node: it is relayed only finitely
    often, because the time to live shrinks at each hop.
    \<open>Rendezvous\<close> lets two nodes that know nothing of each other work over one connection: an
    announcement of identity leads to a handshake and to sessions that match, and a private message
    for a peer without a session starts the handshake, waits for it and arrives. \<open>Reach\<close> lets a
    public message travel along a path of nodes: every node of the first seven hops reports it.
    \<open>Secrecy\<close> is a noninterference proof by unwinding, with the ideal cipher in place of the real one (it
    encrypts zeros of the same length): two histories of a node that differ only in private texts of the
    same lengths have the same outputs.
  \<^item> \<open>Discovery\<close> (\<^verbatim>\<open>daemon/discovery.py\<close>), \<open>Config\<close>
    (\<^verbatim>\<open>daemon/config.py\<close>), \<open>Api\<close> (\<^verbatim>\<open>daemon/api.py\<close>: routes, REST handlers,
    WebSocket clients) and \<open>Daemon\<close> (\<^verbatim>\<open>daemon/__main__.py\<close>: starting, stopping, the settings
    of the command line). \<open>Lifecycle\<close> puts them together: \<open>program_step\<close> is the daemon as a state
    machine, from \<open>run_forever\<close> to its return, in which packets, tasks, connections, REST requests,
    WebSocket clients, scheduled broadcasts, signals and the pieces of shutdowns interleave. Every step refines \<open>changes\<close>, so
    the whole daemon implements the service of \<open>Contract\<close>; its runs also show what WebSocket
    clients are sent, that the program returns only after an orderly shutdown, and what working mDNS
    keeps from starting.
  \<^item> \<open>Actions\<close>: the actions with state, exceptions and output that \<open>Node\<close> and \<open>Client\<close> share,
    and the locale \<open>composing\<close>: a relation on states and outputs that holds of basic actions holds
    of their compositions. Each use of it is an interpretation with a relation of its own. \<open>runs\<close>
    are the runs of a step relation; the locales \<open>monitored\<close> (a property of the outputs so far and
    the state), \<open>preserved\<close> (an invariant, a sublocale of it) and \<open>simulates\<close> (a refinement) carry
    what holds of a step over to runs.
  \<^item> \<open>Terminal\<close> (\<^verbatim>\<open>bitchat/terminal_ux.py\<close>): the chat context and its numbered list.
  \<^item> \<open>Client\<close>, \<open>Reception\<close>, \<open>Commands\<close>, \<open>Console\<close> (\<^verbatim>\<open>bitchat.py\<close>): the record
    \<open>client\<close> has the fields of \<open>BitchatClient\<close>. \<open>Client\<close> sends and fragments, \<open>Reception\<close> has
    the handler of each packet type, \<open>Commands\<close> the slash commands on channels and peers,
    \<open>Console\<close> the dispatch of a typed line, connecting, the handshake, scanning, start and end. What
    the client learns from outside (clock, random bytes, the Bluetooth library, the keyboard) is the
    record \<open>world\<close>; what it prints is a note with a key and the texts in it. The locale \<open>sending\<close>,
    an extension of \<open>composing\<close>, carries a relation through everything the client does to send a
    packet.
  \<^item> \<open>Conduct\<close>: the invariant of the client over arbitrary sequences of events, and that no message
    is shown twice. \<open>Radio\<close>: a packet that is too long for the link and is split by one client
    is reassembled and handled by the other exactly as if it had arrived whole. \<open>Channels\<close>: joining
    needs the password, only the owner manages a channel, a blocked peer is silent while its session
    lasts. \<open>Chat\<close>: a public
    or channel message typed at one client is shown by the other. \<open>Interop\<close>: a private message sent
    by the daemon is shown by the terminal client. \<open>Whisper\<close>: a private message between two terminal
    clients, of any length that the formats allow, over as many frames as it takes. \<open>Restart\<close>: what a client
    finds again after it was closed: the channels it joined with a password, and not those it left.

  \<^bold>\<open>Concurrency.\<close> The daemon runs on one asyncio loop. A coroutine that is scheduled or sleeps is
  a value in \<open>ms_tasks\<close>; the event \<open>Run ev i\<close> runs any of them next, so the properties of runs
  hold for every order. A send is atomic in the model. \<open>Daemon.start\<close> is one step up to the loop of mDNS, where
  it waits, and one step from there on. \<open>Daemon.stop\<close> is split at the places where it waits: the close of
  each WebSocket client, the cleanup of the HTTP server and \<open>wait_closed\<close>; any number of shutdowns may be
  under way, and a piece of one need never run. A handler of the client runs to its end before
  the next event; the events come in any order.

  \<^bold>\<open>Parameters.\<close> The cryptographic primitives (record \<open>crypto\<close>), LZ4, AES-GCM, the JSON of
  acknowledgments, random values, clock readings and failing writers are arguments. What is assumed of
  them is named: \<open>crypto_ok\<close> (decryption inverts encryption, Diffie-Hellman agrees, lengths),
  \<open>kdf_ok\<close>, \<open>bloom_ok\<close> (a Bloom filter with room for one more entry accepts it; what a full one does is
  open, and pybloom_live raises, so the properties that a message is reported or shown ask for room) and
  the like; each property that assumes such a law has a witness with a concrete
  function.

  \<^bold>\<open>Bounds.\<close> No fuel is used: every loop is a total function, the read loop and the merge of
  configurations by a measure. The one exception is \<open>client_handle_packet\<close>, which the client calls
  again for a packet that it reassembled or decrypted: its argument \<open>depth\<close> is the interpreter's
  recursion limit, and running out of it is Python's \<open>RecursionError\<close>; the properties hold for
  every depth, or name the small depth that they need. Lengths are limited where the code's fields limit them: 255 for one
  length byte, 65535 for two, \<open>2 ^ 64\<close> for nonces and time stamps, 5000 and 500 entries for the Bloom
  filters of a node and of a client. The time stamp of an identity announcement is read back as a double.

  \<^bold>\<open>Not modelled.\<close> aiohttp, zeroconf, bleak and sockets themselves; the registration of signals, the
  parsing of arguments by argparse and logging; timing beyond the order of tasks; the text of the help page and of the banner; characters outside
  ASCII in \<open>isdigit\<close> (\<open>isalnum\<close> is a parameter); floating-point numbers in JSON requests. The
  modules in the root directory are identical to those of \<^verbatim>\<open>bitchat/\<close>, and the codecs at the end of
  \<^verbatim>\<open>bitchat.py\<close> do what those of \<^verbatim>\<open>bitchat/protocol.py\<close> do, which are modelled once.
\<close>

end
